(* ===== verification/Prelude.thy ===== *)
theory Prelude
  imports Complex_Main "HOL-Library.AList" "HOL-Library.Char_ord"
begin

text \<open>
  Shared foundations of the development: Python strings and JSON values, the
  coroutine model of asyncio code, and the generic lemmas the components share.

  A coroutine is a function from a world to an outcome: either it is done (with a
  value or an exception, and the world it leaves), or it is suspended at an
  \<open>await\<close> with a continuation that is run later, on a world that other coroutines
  may have changed meanwhile. Code between two awaits is one atomic segment, as it
  is under asyncio's cooperative scheduling.
\<close>

section \<open>Theorem collections\<close>

named_theorems co_simps "symbolic execution of coroutines"
named_theorems frame_simps "world updates that leave a projection unchanged"

section \<open>Python strings\<close>

text \<open>
  A Python \<open>str\<close> is a list of code points, here limited to 0..255 (HOL's
  \<open>char\<close>); a Python \<open>bytes\<close> is a list of numbers below 256.
\<close>

type_synonym bytes = "nat list"

definition ord :: "char \<Rightarrow> nat" where
  "ord c = of_char c"

definition newline :: char where
  "newline = CHR 0x0A"

definition is_lower :: "char \<Rightarrow> bool" where
  "is_lower c \<longleftrightarrow> 97 \<le> ord c \<and> ord c \<le> 122"

definition is_upper :: "char \<Rightarrow> bool" where
  "is_upper c \<longleftrightarrow> 65 \<le> ord c \<and> ord c \<le> 90"

definition is_digit :: "char \<Rightarrow> bool" where
  "is_digit c \<longleftrightarrow> 48 \<le> ord c \<and> ord c \<le> 57"

text \<open>The character class \<open>[A-Za-z0-9_-]\<close> that the source's regular expressions share.\<close>

definition url_safe_char :: "char \<Rightarrow> bool" where
  "url_safe_char c \<longleftrightarrow> is_upper c \<or> is_lower c \<or> is_digit c \<or> c = CHR ''_'' \<or> c = CHR ''-''"

text \<open>The character class \<open>[a-f0-9]\<close>.\<close>

definition hex_char :: "char \<Rightarrow> bool" where
  "hex_char c \<longleftrightarrow> (97 \<le> ord c \<and> ord c \<le> 102) \<or> is_digit c"

text \<open>Control characters: \<open>ord(c) < 32 or ord(c) == 127\<close>.\<close>

definition control_char :: "char \<Rightarrow> bool" where
  "control_char c \<longleftrightarrow> ord c < 32 \<or> ord c = 127"

text \<open>\<open>str.isspace\<close> on one code point below 256.\<close>

definition is_space :: "char \<Rightarrow> bool" where
  "is_space c \<longleftrightarrow> (9 \<le> ord c \<and> ord c \<le> 13) \<or> (28 \<le> ord c \<and> ord c \<le> 32) \<or> ord c = 133 \<or> ord c = 160"

definition lstrip :: "(char \<Rightarrow> bool) \<Rightarrow> string \<Rightarrow> string" where
  "lstrip P s = dropWhile P s"

definition rstrip :: "(char \<Rightarrow> bool) \<Rightarrow> string \<Rightarrow> string" where
  "rstrip P s = rev (dropWhile P (rev s))"

definition strip :: "string \<Rightarrow> string" where
  "strip s = rstrip is_space (lstrip is_space s)"

text \<open>\<open>str.split(sep)\<close> for a one-character separator: never empty.\<close>

fun split_on :: "char \<Rightarrow> string \<Rightarrow> string list" where
  "split_on d [] = [[]]"
| "split_on d (c # cs) =
     (if c = d then [] # split_on d cs
      else (case split_on d cs of [] \<Rightarrow> [[c]] | w # ws \<Rightarrow> (c # w) # ws))"

text \<open>Size of the UTF-8 encoding: code points below 128 take one byte, below 2048 two.\<close>

definition utf8_size :: "string \<Rightarrow> nat" where
  "utf8_size s = sum_list (map (\<lambda>c. if ord c < 128 then 1 else 2) s)"

text \<open>\<open>str(n)\<close> of an integer.\<close>

definition digit_char :: "nat \<Rightarrow> char" where
  "digit_char d = char_of (48 + d)"

fun str_nat :: "nat \<Rightarrow> string" where
  "str_nat n = (if n < 10 then [digit_char n] else str_nat (n div 10) @ [digit_char (n mod 10)])"

declare str_nat.simps [simp del]

definition str_int :: "int \<Rightarrow> string" where
  "str_int i = (if i < 0 then CHR ''-'' # str_nat (nat (- i)) else str_nat (nat i))"

section \<open>JSON values\<close>

text \<open>
  What \<open>json.loads\<close> returns. A dict is the list of its items in insertion order.
  A float is its decimal reading (mantissa and exponent), or one of the non-finite
  literals Python's decoder accepts.
\<close>

datatype json =
    JNull
  | JBool bool
  | JInt int
  | JFloat int int
  | JNonFinite string
  | JStr string
  | JList "json list"
  | JObj "(string \<times> json) list"

text \<open>Python truthiness.\<close>

fun truthy :: "json \<Rightarrow> bool" where
  "truthy JNull = False"
| "truthy (JBool b) = b"
| "truthy (JInt i) = (i \<noteq> 0)"
| "truthy (JFloat m e) = (m \<noteq> 0)"
| "truthy (JNonFinite s) = True"
| "truthy (JStr s) = (s \<noteq> [])"
| "truthy (JList xs) = (xs \<noteq> [])"
| "truthy (JObj kvs) = (kvs \<noteq> [])"

fun is_str :: "json \<Rightarrow> bool" where
  "is_str (JStr s) = True"
| "is_str _ = False"

text \<open>The string of a value already known to be one.\<close>

fun as_str :: "json \<Rightarrow> string" where
  "as_str (JStr s) = s"
| "as_str _ = []"

text \<open>\<open>d.get(key, default)\<close>.\<close>

definition dict_get :: "(string \<times> 'v) list \<Rightarrow> string \<Rightarrow> 'v \<Rightarrow> 'v" where
  "dict_get d k v0 = (case map_of d k of Some v \<Rightarrow> v | None \<Rightarrow> v0)"

lemma is_str_iff: "is_str j \<longleftrightarrow> (\<exists>s. j = JStr s)"
  by (cases j) auto

section \<open>Coroutines\<close>

datatype ('e, 'w, 'a) outcome =
    Done "'e + 'a" 'w
  | Susp 'w "'w \<Rightarrow> ('e, 'w, 'a) outcome"

type_synonym ('e, 'w, 'a) co = "'w \<Rightarrow> ('e, 'w, 'a) outcome"

primrec cont :: "('e, 'w, 'a) outcome \<Rightarrow> ('a \<Rightarrow> ('e, 'w, 'b) co) \<Rightarrow> ('e, 'w, 'b) outcome" where
  "cont (Done r w) f = (case r of Inl e \<Rightarrow> Done (Inl e) w | Inr a \<Rightarrow> f a w)"
| "cont (Susp w k) f = Susp w (\<lambda>w'. cont (k w') f)"

text \<open>Sequencing: run \<open>m\<close>, hand its value to \<open>f\<close>; an exception skips \<open>f\<close>.\<close>

definition bnd :: "('e, 'w, 'a) co \<Rightarrow> ('a \<Rightarrow> ('e, 'w, 'b) co) \<Rightarrow> ('e, 'w, 'b) co" where
  "bnd m f = (\<lambda>w. cont (m w) f)"

definition ret :: "'a \<Rightarrow> ('e, 'w, 'a) co" where
  "ret a = (\<lambda>w. Done (Inr a) w)"

definition raise :: "'e \<Rightarrow> ('e, 'w, 'a) co" where
  "raise e = (\<lambda>w. Done (Inl e) w)"

definition gets :: "('w \<Rightarrow> 'a) \<Rightarrow> ('e, 'w, 'a) co" where
  "gets g = (\<lambda>w. Done (Inr (g w)) w)"

definition modify :: "('w \<Rightarrow> 'w) \<Rightarrow> ('e, 'w, unit) co" where
  "modify h = (\<lambda>w. Done (Inr ()) (h w))"

text \<open>A synchronous operation that may raise.\<close>

definition sync :: "('w \<Rightarrow> ('e + 'a) \<times> 'w) \<Rightarrow> ('e, 'w, 'a) co" where
  "sync f = (\<lambda>w. case f w of (r, w') \<Rightarrow> Done r w')"

text \<open>A suspension point: other coroutines may run before this one continues.\<close>

definition pause :: "('e, 'w, unit) co" where
  "pause = (\<lambda>w. Susp w (\<lambda>w'. Done (Inr ()) w'))"

definition skip :: "('e, 'w, unit) co" where
  "skip = ret ()"

text \<open>A block of statements, run one after another.\<close>

fun block :: "('e, 'w, unit) co list \<Rightarrow> ('e, 'w, unit) co" where
  "block [] = skip"
| "block [m] = m"
| "block (m # ms) = bnd m (\<lambda>_. block ms)"

text \<open>The body of a \<open>try\<close>: its exception becomes a value that the handlers inspect.\<close>

primrec attempt_out :: "('e, 'w, 'a) outcome \<Rightarrow> ('e, 'w, 'e + 'a) outcome" where
  "attempt_out (Done r w) = Done (Inr r) w"
| "attempt_out (Susp w k) = Susp w (\<lambda>w'. attempt_out (k w'))"

definition attempt :: "('e, 'w, 'a) co \<Rightarrow> ('e, 'w, 'e + 'a) co" where
  "attempt m = (\<lambda>w. attempt_out (m w))"

text \<open>Run a coroutine with nothing interleaved.\<close>

primrec finish :: "('e, 'w, 'a) outcome \<Rightarrow> ('e + 'a) \<times> 'w" where
  "finish (Done r w) = (r, w)"
| "finish (Susp w k) = finish (k w)"

definition run :: "('e, 'w, 'a) co \<Rightarrow> 'w \<Rightarrow> ('e + 'a) \<times> 'w" where
  "run m w = finish (m w)"

lemma bnd_apply [co_simps]: "bnd m f w = cont (m w) f"
  by (simp add: bnd_def)

lemma ret_apply [co_simps]: "ret a w = Done (Inr a) w"
  by (simp add: ret_def)

lemma raise_apply [co_simps]: "raise e w = Done (Inl e) w"
  by (simp add: raise_def)

lemma gets_apply [co_simps]: "gets g w = Done (Inr (g w)) w"
  by (simp add: gets_def)

lemma modify_apply [co_simps]: "modify h w = Done (Inr ()) (h w)"
  by (simp add: modify_def)

lemma sync_apply [co_simps]: "sync f w = (case f w of (r, w') \<Rightarrow> Done r w')"
  by (simp add: sync_def)

lemma pause_apply [co_simps]: "pause w = Susp w (\<lambda>w'. Done (Inr ()) w')"
  by (simp add: pause_def)

lemma skip_apply [co_simps]: "skip w = Done (Inr ()) w"
  by (simp add: skip_def ret_def)

lemma attempt_apply [co_simps]: "attempt m w = attempt_out (m w)"
  by (simp add: attempt_def)

lemma cont_cont: "cont (cont m f) g = cont m (\<lambda>a w. cont (f a w) g)"
proof (induction m)
  case (Done r w)
  show ?case by (cases r) simp_all
qed simp

text \<open>\<open>bnd\<close> satisfies the monad laws.\<close>

lemma bnd_ret_left [simp]: "bnd (ret a) f = f a"
  by (simp add: fun_eq_iff co_simps)

lemma cont_ret: "cont m ret = m"
proof (induction m)
  case (Done r w)
  show ?case by (cases r) (simp_all add: ret_def)
qed simp

lemma bnd_ret_right [simp]: "bnd m ret = m"
  by (simp add: fun_eq_iff co_simps cont_ret)

lemma bnd_assoc: "bnd (bnd m f) g = bnd m (\<lambda>a. bnd (f a) g)"
  by (simp add: fun_eq_iff bnd_def cont_cont)

lemma finish_cont:
  "finish (cont m f) = (case finish m of (Inl e, w) \<Rightarrow> (Inl e, w) | (Inr a, w) \<Rightarrow> finish (f a w))"
proof (induction m)
  case (Done r w)
  show ?case by (cases r) simp_all
qed simp

lemma finish_attempt_out: "finish (attempt_out m) = (case finish m of (r, w) \<Rightarrow> (Inr r, w))"
  by (induction m) simp_all

text \<open>Uninterrupted execution, operation by operation.\<close>

lemma run_bnd [simp]:
  "run (bnd m f) w = (case run m w of (Inl e, w') \<Rightarrow> (Inl e, w') | (Inr a, w') \<Rightarrow> run (f a) w')"
  by (simp add: run_def [abs_def] bnd_def finish_cont split: prod.splits sum.splits)

lemma run_attempt [simp]: "run (attempt m) w = (case run m w of (r, w') \<Rightarrow> (Inr r, w'))"
  by (simp add: run_def attempt_def finish_attempt_out)

lemma run_prims [simp]:
  "run (ret a) w = (Inr a, w)" "run (raise e) w = (Inl e, w)" "run (gets g) w = (Inr (g w), w)"
  "run (modify h) w = (Inr (), h w)" "run pause w = (Inr (), w)" "run skip w = (Inr (), w)"
  "run (sync f) w = f w"
  by (simp_all add: run_def co_simps split: prod.splits)

text \<open>Distributing execution over branches.\<close>

lemma run_if [simp]: "run (if b then m else n) w = (if b then run m w else run n w)"
  by simp

section \<open>Rely/guarantee reasoning over coroutines\<close>

text \<open>
  \<open>safe I R G Q m w\<close>: every segment of \<open>m\<close>, started in a world \<open>w\<close>, ends in a
  world that satisfies the invariant \<open>I\<close> and is related to the segment's start by
  the guarantee \<open>G\<close>; between segments the environment may do anything that keeps
  \<open>I\<close> and respects the rely \<open>R\<close>; the final result satisfies \<open>Q\<close>.
\<close>

primrec safe :: "('w \<Rightarrow> bool) \<Rightarrow> ('w \<Rightarrow> 'w \<Rightarrow> bool) \<Rightarrow> ('w \<Rightarrow> 'w \<Rightarrow> bool)
    \<Rightarrow> ('e + 'a \<Rightarrow> 'w \<Rightarrow> bool) \<Rightarrow> ('e, 'w, 'a) outcome \<Rightarrow> 'w \<Rightarrow> bool" where
  "safe I R G Q (Done r w) = (\<lambda>w0. I w \<and> G w0 w \<and> Q r w)"
| "safe I R G Q (Susp w k) =
     (\<lambda>w0. I w \<and> G w0 w \<and> (\<forall>w1. I w1 \<longrightarrow> R w w1 \<longrightarrow> safe I R G Q (k w1) w1))"

lemma safe_inv: "safe I R G Q m w0 \<Longrightarrow> case m of Done r w \<Rightarrow> I w | Susp w k \<Rightarrow> I w"
  by (cases m) simp_all

lemma safe_shift: "safe I R G Q m w1 \<Longrightarrow> G w0 w1 \<Longrightarrow> transp G \<Longrightarrow> safe I R G Q m w0"
  by (cases m) (auto dest: transpD)

lemma safe_weaken:
  "safe I R G Q m w0 \<Longrightarrow> (\<And>r w. I w \<Longrightarrow> Q r w \<Longrightarrow> Q' r w) \<Longrightarrow> safe I R G Q' m w0"
  by (induction m arbitrary: w0) auto

lemma safe_cont:
  assumes "safe I R G Q m w0" and "transp G"
    and "\<And>a w. I w \<Longrightarrow> Q (Inr a) w \<Longrightarrow> safe I R G Q' (f a w) w"
    and "\<And>e w. I w \<Longrightarrow> Q (Inl e) w \<Longrightarrow> Q' (Inl e) w"
  shows "safe I R G Q' (cont m f) w0"
  using assms(1)
proof (induction m arbitrary: w0)
  case (Done r w)
  show ?case
  proof (cases r)
    case (Inl e)
    with Done assms(4) show ?thesis by auto
  next
    case (Inr a)
    with Done have g: "G w0 w" and "safe I R G Q' (f a w) w"
      using assms(3) by auto
    then show ?thesis
      using Inr transpD [OF assms(2) g] by (cases "f a w") auto
  qed
next
  case (Susp w k)
  then show ?case by simp
qed

lemma safe_bnd:
  assumes "safe I R G Q (m w0) w0" and "transp G"
    and "\<And>a w. I w \<Longrightarrow> Q (Inr a) w \<Longrightarrow> safe I R G Q' (f a w) w"
    and "\<And>e w. I w \<Longrightarrow> Q (Inl e) w \<Longrightarrow> Q' (Inl e) w"
  shows "safe I R G Q' (bnd m f w0) w0"
  using assms by (simp add: bnd_def safe_cont)

lemma safe_attempt:
  "safe I R G (\<lambda>r. Q (Inr r)) m w0 \<Longrightarrow> safe I R G Q (attempt_out m) w0"
  by (induction m arbitrary: w0) auto

section \<open>Generic lemmas\<close>

lemma map_of_update [simp]: "map_of (AList.update k v al) = (map_of al)(k \<mapsto> v)"
  by (simp add: update_conv' fun_eq_iff)

lemma ord_char_of [simp]: "n < 256 \<Longrightarrow> ord (char_of n) = n"
  by (simp add: ord_def)

lemma char_eq_ord: "c = d \<longleftrightarrow> ord c = ord d"
  by (simp add: ord_def)

lemma split_on_nonempty [simp]: "split_on d s \<noteq> []"
  by (induction s) (auto split: list.splits)

lemma split_on_no_sep: "w \<in> set (split_on d s) \<Longrightarrow> d \<notin> set w"
  by (induction s arbitrary: w) (auto split: if_splits list.splits)

lemma set_lstrip: "set (lstrip P s) \<subseteq> set s"
  by (auto simp: lstrip_def dest: set_dropWhileD)

lemma set_rstrip: "set (rstrip P s) \<subseteq> set s"
  by (auto simp: rstrip_def dest: set_dropWhileD)

lemma set_strip: "set (strip s) \<subseteq> set s"
  using set_rstrip set_lstrip unfolding strip_def by blast

lemma length_strip: "length (strip s) \<le> length s"
  unfolding strip_def rstrip_def lstrip_def
  by (metis length_dropWhile_le length_rev order_trans)

end
