(* ===== verification/RelayErrors.thy ===== *)
theory RelayErrors
  imports Prelude
begin

text \<open>
  \<open>relay/errors.py\<close>: the relay's exception classes, with the built-in exceptions its
  handlers can also raise. The message of \<open>EnvelopeInvalid\<close> keeps the prefix the
  source writes; what the JSON decoder or the validator append is left out.
\<close>

datatype relay_exn =
    TokenExpired string
  | TokenAlreadyUsed string
  | TokenNotFound string
  | TokenInvalid string
  | RateLimited "int option"
  | SessionNotFound string
  | EnvelopeTooLarge string
  | EnvelopeInvalid string
  | ProtocolVersionMismatch int int
  | ValueError string
  | KeyError string
  | AttributeError string
  | RedisError
  | SendFailed

text \<open>The subclasses of \<open>RelayError\<close>.\<close>

fun is_relay_error :: "relay_exn \<Rightarrow> bool" where
  "is_relay_error (TokenExpired m) = True"
| "is_relay_error (TokenAlreadyUsed m) = True"
| "is_relay_error (TokenNotFound m) = True"
| "is_relay_error (TokenInvalid m) = True"
| "is_relay_error (RateLimited r) = True"
| "is_relay_error (SessionNotFound m) = True"
| "is_relay_error (EnvelopeTooLarge m) = True"
| "is_relay_error (EnvelopeInvalid m) = True"
| "is_relay_error (ProtocolVersionMismatch g e) = True"
| "is_relay_error _ = False"

text \<open>\<open>str(exc)\<close> of a relay error.\<close>

fun str_exc :: "relay_exn \<Rightarrow> string" where
  "str_exc (TokenExpired m) = m"
| "str_exc (TokenAlreadyUsed m) = m"
| "str_exc (TokenNotFound m) = m"
| "str_exc (TokenInvalid m) = m"
| "str_exc (RateLimited r) = ''rate limited''"
| "str_exc (SessionNotFound m) = m"
| "str_exc (EnvelopeTooLarge m) = m"
| "str_exc (EnvelopeInvalid m) = m"
| "str_exc (ProtocolVersionMismatch g e) =
     ''protocol version '' @ str_int g @ '' unsupported, expected '' @ str_int e"
| "str_exc (ValueError m) = m"
| "str_exc (KeyError m) = m"
| "str_exc (AttributeError m) = m"
| "str_exc RedisError = ''redis''"
| "str_exc SendFailed = ''disconnected''"

end
