(* ===== verification/Envelope.thy ===== *)
theory Envelope
  imports RelayErrors
begin

text \<open>
  The wire envelope: \<open>relay/envelope.py\<close> and its mirror
  \<open>agent/common/envelope.py\<close>. The \<open>Envelope\<close> class declares its fields, their
  bounds and pydantic's strict mode with extra fields forbidden; \<open>validate_envelope\<close>
  checks exactly these declarations on a decoded JSON value (in strict mode a bool
  or a float is not an int). The JSON decoder is a parameter \<open>loads\<close> of the
  parsers: \<open>None\<close> is \<open>JSONDecodeError\<close> or \<open>UnicodeDecodeError\<close>.
\<close>

section \<open>Message types\<close>

definition PAIRING_TYPES :: "string list" where
  "PAIRING_TYPES = [''pair_init'', ''pair_request'', ''pair_challenge'', ''pair_complete'',
     ''resume_init'', ''resume_request'', ''resume_challenge'', ''resume_proof'', ''resume_complete'']"

definition SESSION_CONTROL_TYPES :: "string list" where
  "SESSION_CONTROL_TYPES =
     [''session_list'', ''session_open'', ''session_resize'', ''session_close'', ''idle_alert'']"

definition TERMINAL_DATA_TYPES :: "string list" where
  "TERMINAL_DATA_TYPES = [''pty_data'', ''pty_input'', ''device_credential'']"

definition PORT_FORWARD_TYPES :: "string list" where
  "PORT_FORWARD_TYPES = [''port_forward_request'', ''port_forward_data'', ''port_forward_close'']"

definition ROUTABLE_TYPES :: "string list" where
  "ROUTABLE_TYPES = SESSION_CONTROL_TYPES @ TERMINAL_DATA_TYPES @ PORT_FORWARD_TYPES"

section \<open>The envelope\<close>

record envelope =
  e_v :: int
  e_type :: string
  e_session_id :: "string option"
  e_seq :: int
  e_ts :: int
  e_payload :: "(string \<times> json) list"

text \<open>The pattern \<open>^[a-z][a-z0-9_]*$\<close>.\<close>

fun type_pattern :: "string \<Rightarrow> bool" where
  "type_pattern [] = False"
| "type_pattern (c # cs) \<longleftrightarrow>
     is_lower c \<and> list_all (\<lambda>x. is_lower x \<or> is_digit x \<or> x = CHR ''_'') cs"

text \<open>The field constraints of the class.\<close>

definition envelope_ok :: "envelope \<Rightarrow> bool" where
  "envelope_ok e \<longleftrightarrow>
     1 \<le> e_v e \<and> e_v e \<le> 255 \<and>
     1 \<le> length (e_type e) \<and> length (e_type e) \<le> 64 \<and> type_pattern (e_type e) \<and>
     (case e_session_id e of None \<Rightarrow> True | Some s \<Rightarrow> length s \<le> 69) \<and>
     0 \<le> e_seq e \<and> e_seq e \<le> 2 ^ 53 - 1 \<and>
     0 \<le> e_ts e \<and> e_ts e \<le> 2 ^ 63 - 1"

definition envelope_fields :: "string list" where
  "envelope_fields = [''v'', ''type'', ''session_id'', ''seq'', ''ts'', ''payload'']"

fun get_int :: "json option \<Rightarrow> int option" where
  "get_int (Some (JInt i)) = Some i"
| "get_int _ = None"

fun get_string :: "json option \<Rightarrow> string option" where
  "get_string (Some (JStr s)) = Some s"
| "get_string _ = None"

text \<open>\<open>session_id\<close> is optional (default \<open>None\<close>) and may be null.\<close>

fun get_opt_string :: "json option \<Rightarrow> string option option" where
  "get_opt_string None = Some None"
| "get_opt_string (Some JNull) = Some None"
| "get_opt_string (Some (JStr s)) = Some (Some s)"
| "get_opt_string _ = None"

fun get_payload :: "json option \<Rightarrow> (string \<times> json) list option" where
  "get_payload None = Some []"
| "get_payload (Some (JObj kvs)) = Some kvs"
| "get_payload _ = None"

definition validate_fields :: "(string \<times> json) list \<Rightarrow> envelope option" where
  "validate_fields d =
     (case (get_int (map_of d ''v''), get_string (map_of d ''type''),
            get_opt_string (map_of d ''session_id''), get_int (map_of d ''seq''),
            get_int (map_of d ''ts''), get_payload (map_of d ''payload'')) of
        (Some v, Some ty, Some sid, Some sq, Some ts, Some pl) \<Rightarrow>
          (let e = \<lparr>e_v = v, e_type = ty, e_session_id = sid, e_seq = sq, e_ts = ts, e_payload = pl\<rparr>
           in if envelope_ok e then Some e else None)
      | _ \<Rightarrow> None)"

fun validate_envelope :: "json \<Rightarrow> envelope option" where
  "validate_envelope (JObj d) =
     (if list_all (\<lambda>(k, v). k \<in> set envelope_fields) d then validate_fields d else None)"
| "validate_envelope _ = None"

text \<open>\<open>model_dump\<close>: the envelope as a JSON value, fields in declaration order.\<close>

definition envelope_json :: "envelope \<Rightarrow> json" where
  "envelope_json e = JObj
     [(''v'', JInt (e_v e)), (''type'', JStr (e_type e)),
      (''session_id'', case e_session_id e of None \<Rightarrow> JNull | Some s \<Rightarrow> JStr s),
      (''seq'', JInt (e_seq e)), (''ts'', JInt (e_ts e)), (''payload'', JObj (e_payload e))]"

section \<open>Parsing\<close>

datatype wire = WBytes bytes | WText string

definition wire_size :: "wire \<Rightarrow> nat" where
  "wire_size raw = (case raw of WBytes b \<Rightarrow> length b | WText s \<Rightarrow> utf8_size s)"

definition parse_envelope ::
  "(wire \<Rightarrow> json option) \<Rightarrow> wire \<Rightarrow> int \<Rightarrow> int \<Rightarrow> relay_exn + envelope" where
  "parse_envelope loads raw max_bytes expected_version =
     (let size = wire_size raw in
      if int size > max_bytes then
        Inl (EnvelopeTooLarge (''envelope of '' @ str_nat size @ '' bytes exceeds cap of '' @ str_int max_bytes))
      else case loads raw of
        None \<Rightarrow> Inl (EnvelopeInvalid ''invalid JSON: '')
      | Some data \<Rightarrow>
          (case validate_envelope data of
             None \<Rightarrow> Inl (EnvelopeInvalid ''invalid envelope shape: '')
           | Some e \<Rightarrow>
               (if e_v e \<noteq> expected_version
                then Inl (ProtocolVersionMismatch (e_v e) expected_version)
                else Inr e)))"

text \<open>The agent's parser checks neither size nor version; its only error is \<open>EnvelopeError\<close>.\<close>

definition agent_parse_envelope :: "(wire \<Rightarrow> json option) \<Rightarrow> wire \<Rightarrow> string + envelope" where
  "agent_parse_envelope loads raw =
     (case loads raw of
        None \<Rightarrow> Inl ''invalid JSON: ''
      | Some data \<Rightarrow>
          (case validate_envelope data of
             None \<Rightarrow> Inl ''invalid envelope shape: ''
           | Some e \<Rightarrow> Inr e))"

section \<open>Lemmas\<close>

lemma validate_fields_ok: "validate_fields d = Some e \<Longrightarrow> envelope_ok e"
  by (auto simp: validate_fields_def Let_def split: option.splits if_splits)

lemma validate_envelope_ok: "validate_envelope j = Some e \<Longrightarrow> envelope_ok e"
  by (cases j) (auto split: if_splits dest: validate_fields_ok)

lemma validate_envelope_json:
  assumes "envelope_ok e"
  shows "validate_envelope (envelope_json e) = Some e"
proof (cases "e_session_id e")
  case None
  with assms show ?thesis
    by (cases e) (simp add: envelope_json_def validate_fields_def envelope_fields_def)
next
  case (Some s)
  with assms show ?thesis
    by (cases e) (simp add: envelope_json_def validate_fields_def envelope_fields_def)
qed

lemma parse_envelope_InrD:
  assumes "parse_envelope loads raw m v = Inr e"
  shows "envelope_ok e" "e_v e = v" "int (wire_size raw) \<le> m"
  using assms
  by (auto simp: parse_envelope_def Let_def split: if_splits option.splits dest: validate_envelope_ok)

lemma parse_envelope_errors:
  "parse_envelope loads raw m v = Inl x \<Longrightarrow>
     (\<exists>msg. x = EnvelopeTooLarge msg) \<or> (\<exists>msg. x = EnvelopeInvalid msg) \<or> (\<exists>g. x = ProtocolVersionMismatch g v)"
  by (auto simp: parse_envelope_def Let_def split: if_splits option.splits)

end
