(* ===== verification/Url.thy ===== *)
theory Url
  imports Prelude
begin

text \<open>
  The parts of \<open>urllib.parse\<close> the program calls: \<open>urlsplit\<close> (Python 3.11) with the
  \<open>hostname\<close>, \<open>username\<close> and \<open>password\<close> attributes of its result, and \<open>urlencode\<close>.
  Whether the text between brackets is an IP literal is a parameter \<open>ip_ok\<close>; the
  NFKC check of host names cannot fail below code point 256.
\<close>

section \<open>Splitting strings\<close>

definition partition_at :: "char \<Rightarrow> string \<Rightarrow> string \<times> bool \<times> string" where
  "partition_at c s =
     (if c \<in> set s then (takeWhile (\<lambda>x. x \<noteq> c) s, True, tl (dropWhile (\<lambda>x. x \<noteq> c) s))
      else (s, False, []))"

definition rpartition_at :: "char \<Rightarrow> string \<Rightarrow> string \<times> bool \<times> string" where
  "rpartition_at c s =
     (case partition_at c (rev s) of
        (after, True, before) \<Rightarrow> (rev before, True, rev after)
      | (after, False, before) \<Rightarrow> ([], False, s))"

text \<open>\<open>str.lower\<close> on code points below 256.\<close>

definition lower_char :: "char \<Rightarrow> char" where
  "lower_char c =
     (if is_upper c \<or> (192 \<le> ord c \<and> ord c \<le> 222 \<and> ord c \<noteq> 215)
      then char_of (ord c + 32) else c)"

definition is_ascii_alpha :: "char \<Rightarrow> bool" where
  "is_ascii_alpha c \<longleftrightarrow> is_upper c \<or> is_lower c"

definition scheme_char :: "char \<Rightarrow> bool" where
  "scheme_char c \<longleftrightarrow> is_ascii_alpha c \<or> is_digit c \<or> c = CHR ''+'' \<or> c = CHR ''-'' \<or> c = CHR ''.''"

section \<open>urlsplit\<close>

record split_url =
  u_scheme :: string
  u_netloc :: string
  u_path :: string
  u_query :: string
  u_fragment :: string

definition url_clean :: "string \<Rightarrow> string" where
  "url_clean url =
     filter (\<lambda>c. c \<notin> {CHR 0x09, CHR 0x0D, newline}) (lstrip (\<lambda>c. ord c \<le> 32) url)"

definition split_scheme :: "string \<Rightarrow> string \<times> string" where
  "split_scheme url =
     (case partition_at (CHR '':'') url of
        (pre, True, post) \<Rightarrow>
          (if pre \<noteq> [] \<and> is_ascii_alpha (hd pre) \<and> list_all scheme_char pre
           then (map lower_char pre, post) else ([], url))
      | _ \<Rightarrow> ([], url))"

definition netloc_end :: "char \<Rightarrow> bool" where
  "netloc_end c \<longleftrightarrow> c = CHR ''/'' \<or> c = CHR ''?'' \<or> c = CHR ''#''"

definition urlsplit :: "(string \<Rightarrow> bool) \<Rightarrow> string \<Rightarrow> split_url option" where
  "urlsplit ip_ok url0 =
     (let (scheme, url) = split_scheme (url_clean url0);
          (netloc, url1) =
            (if take 2 url = ''//''
             then (takeWhile (\<lambda>c. \<not> netloc_end c) (drop 2 url), dropWhile (\<lambda>c. \<not> netloc_end c) (drop 2 url))
             else ([], url));
          lb = CHR ''['' \<in> set netloc; rb = CHR '']'' \<in> set netloc
      in if lb \<noteq> rb then None
         else if lb \<and> \<not> ip_ok (fst (partition_at (CHR '']'') (snd (snd (partition_at (CHR ''['') netloc))))) then None
         else
           (let (url2, _, fragment) = partition_at (CHR ''#'') url1;
                (path, _, query) = partition_at (CHR ''?'') url2
            in Some \<lparr>u_scheme = scheme, u_netloc = netloc, u_path = path,
                     u_query = query, u_fragment = fragment\<rparr>))"

definition u_userinfo :: "split_url \<Rightarrow> string option \<times> string option" where
  "u_userinfo u =
     (case rpartition_at (CHR ''@'') (u_netloc u) of
        (userinfo, True, _) \<Rightarrow>
          (case partition_at (CHR '':'') userinfo of
             (name, have_password, pw) \<Rightarrow> (Some name, if have_password then Some pw else None))
      | _ \<Rightarrow> (None, None))"

definition u_hostname :: "split_url \<Rightarrow> string option" where
  "u_hostname u =
     (let (_, _, hostinfo) = rpartition_at (CHR ''@'') (u_netloc u);
          (_, have_open, bracketed) = partition_at (CHR ''['') hostinfo;
          name = (if have_open then fst (partition_at (CHR '']'') bracketed)
                  else fst (partition_at (CHR '':'') hostinfo));
          (host, percent, zone) = partition_at (CHR ''%'') name
      in if name = [] then None
         else Some (map lower_char host @ (if percent then CHR ''%'' # zone else [])))"

section \<open>urlencode\<close>

text \<open>\<open>quote_plus\<close>: unreserved characters stay, a space becomes \<open>+\<close>, every other
  UTF-8 byte becomes a percent escape with upper-case hex digits.\<close>

definition unreserved :: "char \<Rightarrow> bool" where
  "unreserved c \<longleftrightarrow> is_ascii_alpha c \<or> is_digit c \<or> c = CHR ''_'' \<or> c = CHR ''.'' \<or> c = CHR ''-'' \<or> c = CHR ''~''"

definition hex_digit :: "nat \<Rightarrow> char" where
  "hex_digit n = (if n < 10 then char_of (48 + n) else char_of (55 + n))"

definition percent_byte :: "nat \<Rightarrow> string" where
  "percent_byte b = [CHR ''%'', hex_digit (b div 16), hex_digit (b mod 16)]"

definition utf8_char :: "char \<Rightarrow> bytes" where
  "utf8_char c = (if ord c < 128 then [ord c] else [192 + ord c div 64, 128 + ord c mod 64])"

definition quote_char :: "char \<Rightarrow> string" where
  "quote_char c =
     (if unreserved c then [c] else if c = CHR '' '' then ''+''
      else concat (map percent_byte (utf8_char c)))"

definition quote_plus :: "string \<Rightarrow> string" where
  "quote_plus s = concat (map quote_char s)"

fun urlencode :: "(string \<times> string) list \<Rightarrow> string" where
  "urlencode [] = []"
| "urlencode [(k, v)] = quote_plus k @ ''='' @ quote_plus v"
| "urlencode ((k, v) # rest) = quote_plus k @ ''='' @ quote_plus v @ ''&'' @ urlencode rest"

section \<open>Lemmas\<close>

lemma partition_at_first: "c \<notin> set (fst (partition_at c s))"
  by (auto simp: partition_at_def dest: set_takeWhileD)

lemma partition_at_rebuild:
  "partition_at c s = (a, b, d) \<Longrightarrow> s = a @ (if b then c # d else [])"
proof (cases "c \<in> set s")
  case True
  assume p: "partition_at c s = (a, b, d)"
  have "dropWhile (\<lambda>x. x \<noteq> c) s \<noteq> []"
    using True by (simp add: dropWhile_eq_Nil_conv)
  moreover from this have "hd (dropWhile (\<lambda>x. x \<noteq> c) s) = c"
    using hd_dropWhile by blast
  ultimately have "dropWhile (\<lambda>x. x \<noteq> c) s = c # tl (dropWhile (\<lambda>x. x \<noteq> c) s)"
    by (metis list.collapse)
  with True p show ?thesis
    by (auto simp: partition_at_def) (metis takeWhile_dropWhile_id)
qed (auto simp: partition_at_def)

end
