(* ===== verification/RelayConfig.thy ===== *)
theory RelayConfig
  imports Url RelayErrors
begin

text \<open>
  \<open>relay/config.py\<close>: the configuration record and \<open>Config.from_env\<close>. The process
  environment is a map from names to strings; every invalid setting is a
  \<open>ValueError\<close>, that is, a refused start.
\<close>

type_synonym environ = "string \<Rightarrow> string option"

definition PROTOCOL_VERSION :: int where
  "PROTOCOL_VERSION = 2"

record config =
  cfg_domain :: string
  cfg_redis_url :: string
  pairing_token_ttl_s :: int
  session_pending_ttl_s :: int
  max_envelope_bytes :: int
  protocol_version :: int
  rate_limit_ip_max :: int
  rate_limit_ip_window_s :: int
  rate_limit_token_max :: int
  token_min_len :: int
  token_max_len :: int
  handshake_timeout_s :: int
  client_origins :: "string list"
  release :: string
  trusted_proxy_ips :: "string list"
  max_connections_per_ip :: int

text \<open>\<open>int(raw)\<close>: surrounding whitespace, a sign, digits with single underscores between them.\<close>

fun digits_value :: "nat \<Rightarrow> string \<Rightarrow> nat option" where
  "digits_value acc [] = Some acc"
| "digits_value acc [c] = (if is_digit c then Some (acc * 10 + (ord c - 48)) else None)"
| "digits_value acc (c # d # cs) =
     (if is_digit c then
        (if d = CHR ''_'' then (if cs = [] then None else digits_value (acc * 10 + (ord c - 48)) cs)
         else digits_value (acc * 10 + (ord c - 48)) (d # cs))
      else None)"

definition py_int :: "string \<Rightarrow> int option" where
  "py_int raw =
     (case strip raw of
        [] \<Rightarrow> None
      | c # cs \<Rightarrow>
          (if c = CHR ''-'' then (if cs = [] then None else map_option (\<lambda>n. - int n) (digits_value 0 cs))
           else if c = CHR ''+'' then (if cs = [] then None else map_option int (digits_value 0 cs))
           else map_option int (digits_value 0 (c # cs))))"

definition env_int :: "environ \<Rightarrow> string \<Rightarrow> int \<Rightarrow> relay_exn + int" where
  "env_int env name dflt =
     (case env name of
        None \<Rightarrow> Inr dflt
      | Some raw \<Rightarrow>
          (if raw = [] then Inr dflt
           else (case py_int raw of
               None \<Rightarrow> Inl (ValueError ''invalid literal for int()'')
             | Some i \<Rightarrow> Inr i)))"

definition bounded_int :: "environ \<Rightarrow> string \<Rightarrow> int \<Rightarrow> int \<Rightarrow> int \<Rightarrow> relay_exn + int" where
  "bounded_int env name dflt minimum maximum =
     (case env_int env name dflt of
        Inl e \<Rightarrow> Inl e
      | Inr value \<Rightarrow>
          (if minimum \<le> value \<and> value \<le> maximum then Inr value
           else Inl (ValueError (name @ '' must be between '' @ str_int minimum @ '' and '' @ str_int maximum))))"

text \<open>Sequencing of fallible steps.\<close>

definition and_then :: "'e + 'a \<Rightarrow> ('a \<Rightarrow> 'e + 'b) \<Rightarrow> 'e + 'b" where
  "and_then m f = (case m of Inl e \<Rightarrow> Inl e | Inr a \<Rightarrow> f a)"

definition env_get :: "environ \<Rightarrow> string \<Rightarrow> string \<Rightarrow> string" where
  "env_get env name dflt = (case env name of None \<Rightarrow> dflt | Some v \<Rightarrow> v)"

definition parse_origins :: "string \<Rightarrow> string list" where
  "parse_origins raw =
     map (\<lambda>o0. rstrip (\<lambda>c. c = CHR ''/'') (strip o0)) (filter (\<lambda>o0. strip o0 \<noteq> []) (split_on (CHR '','') raw))"

definition parse_proxies :: "string \<Rightarrow> string list" where
  "parse_proxies raw = map strip (filter (\<lambda>p. strip p \<noteq> []) (split_on (CHR '','') raw))"

definition scheme_of :: "(string \<Rightarrow> bool) \<Rightarrow> string \<Rightarrow> relay_exn + string" where
  "scheme_of ip_ok url =
     (case urlsplit ip_ok url of None \<Rightarrow> Inl (ValueError ''Invalid URL'') | Some u \<Rightarrow> Inr (u_scheme u))"

text \<open>\<open>not origins or any(urlsplit(origin).scheme != "https" ...)\<close>, evaluated left to right.\<close>

fun all_https :: "(string \<Rightarrow> bool) \<Rightarrow> string list \<Rightarrow> relay_exn + bool" where
  "all_https ip_ok [] = Inr True"
| "all_https ip_ok (x # xs) =
     and_then (scheme_of ip_ok x) (\<lambda>s. if s \<noteq> ''https'' then Inr False else all_https ip_ok xs)"

definition from_env :: "(string \<Rightarrow> bool) \<Rightarrow> environ \<Rightarrow> relay_exn + config" where
  "from_env ip_ok env =
     (let redis_url = env_get env ''REDIS_URL'' ''redis://localhost:6379/0'' in
      and_then (scheme_of ip_ok redis_url) (\<lambda>scheme.
      if scheme \<notin> {''redis'', ''rediss'', ''unix''}
      then Inl (ValueError ''REDIS_URL must use redis://, rediss://, or unix://'') else
      and_then (env_int env ''PROTOCOL_VERSION'' PROTOCOL_VERSION) (\<lambda>version.
      if version \<noteq> PROTOCOL_VERSION
      then Inl (ValueError (''only protocol version '' @ str_int PROTOCOL_VERSION @ '' is supported'')) else
      (let origins = parse_origins (env_get env ''CLIENT_ORIGINS'' []) in
      and_then (if origins = [] then Inr False else all_https ip_ok origins) (\<lambda>https.
      if \<not> https
      then Inl (ValueError ''CLIENT_ORIGINS must be set to one or more HTTPS origins (comma-separated)'') else
      (let proxies = parse_proxies (env_get env ''TRUSTED_PROXY_IPS'' []) in
      and_then (bounded_int env ''PAIRING_TOKEN_TTL'' 120 30 600) (\<lambda>token_ttl.
      and_then (bounded_int env ''SESSION_PENDING_TTL'' 60 15 600) (\<lambda>pending_ttl.
      and_then (bounded_int env ''MAX_ENVELOPE_BYTES'' 262144 4096 1048576) (\<lambda>max_bytes.
      and_then (bounded_int env ''RATE_LIMIT_IP_MAX'' 20 1 10000) (\<lambda>ip_max.
      and_then (bounded_int env ''RATE_LIMIT_IP_WINDOW_S'' 300 1 86400) (\<lambda>ip_window.
      and_then (bounded_int env ''RATE_LIMIT_TOKEN_MAX'' 5 1 100) (\<lambda>token_max.
      and_then (bounded_int env ''TOKEN_MIN_LEN'' 16 16 64) (\<lambda>min_len.
      and_then (bounded_int env ''TOKEN_MAX_LEN'' 128 32 256) (\<lambda>max_len.
      and_then (bounded_int env ''HANDSHAKE_TIMEOUT_S'' 20 5 120) (\<lambda>timeout.
      and_then (bounded_int env ''MAX_CONNECTIONS_PER_IP'' 40 1 10000) (\<lambda>conns.
      Inr \<lparr>cfg_domain = env_get env ''DOMAIN'' ''relay.example.com'',
           cfg_redis_url = redis_url,
           pairing_token_ttl_s = token_ttl,
           session_pending_ttl_s = pending_ttl,
           max_envelope_bytes = max_bytes,
           protocol_version = version,
           rate_limit_ip_max = ip_max,
           rate_limit_ip_window_s = ip_window,
           rate_limit_token_max = token_max,
           token_min_len = min_len,
           token_max_len = max_len,
           handshake_timeout_s = timeout,
           client_origins = origins,
           release = env_get env ''TERMHOP_RELEASE'' ''development'',
           trusted_proxy_ips = proxies,
           max_connections_per_ip = conns\<rparr>))))))))))))))))"

text \<open>What every accepted configuration satisfies.\<close>

definition config_ok :: "config \<Rightarrow> bool" where
  "config_ok c \<longleftrightarrow>
     30 \<le> pairing_token_ttl_s c \<and> pairing_token_ttl_s c \<le> 600 \<and>
     15 \<le> session_pending_ttl_s c \<and> session_pending_ttl_s c \<le> 600 \<and>
     4096 \<le> max_envelope_bytes c \<and> max_envelope_bytes c \<le> 1048576 \<and>
     protocol_version c = 2 \<and>
     1 \<le> rate_limit_ip_max c \<and> rate_limit_ip_max c \<le> 10000 \<and>
     1 \<le> rate_limit_ip_window_s c \<and> rate_limit_ip_window_s c \<le> 86400 \<and>
     1 \<le> rate_limit_token_max c \<and> rate_limit_token_max c \<le> 100 \<and>
     16 \<le> token_min_len c \<and> token_min_len c \<le> 64 \<and>
     32 \<le> token_max_len c \<and> token_max_len c \<le> 256 \<and>
     5 \<le> handshake_timeout_s c \<and> handshake_timeout_s c \<le> 120 \<and>
     1 \<le> max_connections_per_ip c \<and> max_connections_per_ip c \<le> 10000 \<and>
     client_origins c \<noteq> []"

definition https_origin :: "(string \<Rightarrow> bool) \<Rightarrow> string \<Rightarrow> bool" where
  "https_origin ip_ok x \<longleftrightarrow> scheme_of ip_ok x = Inr ''https''"

lemma and_then_InrD: "and_then m f = Inr b \<Longrightarrow> \<exists>a. m = Inr a \<and> f a = Inr b"
  by (cases m) (auto simp: and_then_def)

lemma bounded_int_InrD: "bounded_int env n d lo hi = Inr v \<Longrightarrow> lo \<le> v \<and> v \<le> hi"
  by (auto simp: bounded_int_def split: sum.splits if_splits)

lemma all_https_InrD: "all_https ip_ok xs = Inr True \<Longrightarrow> x \<in> set xs \<Longrightarrow> https_origin ip_ok x"
  by (induction xs) (auto simp: https_origin_def split: if_splits dest!: and_then_InrD)

end
