(* ===== verification/Registry.thy ===== *)
theory Registry
  imports RelayErrors
begin

text \<open>
  \<open>relay/session_registry.py\<close>: the in-process routing table. A WebSocket is known by
  its number. \<open>SessionSlot\<close> objects live in a heap, because handlers keep a reference
  to a slot across awaits while the table may already have dropped or replaced it:
  \<open>_sessions\<close> maps a session id to a reference, and a slot that left the table can
  still be reached by whoever holds its reference.
\<close>

section \<open>Data\<close>

datatype role = Agent | Client

datatype phase = Pairing | WaitingResume | Resuming | Established

type_synonym ws = nat
type_synonym slot_ref = nat

definition other_role :: "role \<Rightarrow> role" where
  "other_role r = (if r = Agent then Client else Agent)"

definition role_name :: "role \<Rightarrow> string" where
  "role_name r = (case r of Agent \<Rightarrow> ''agent'' | Client \<Rightarrow> ''client'')"

record slot =
  s_agent :: "ws option"
  s_client :: "ws option"
  s_phase :: phase

definition new_slot :: slot where
  "new_slot = \<lparr>s_agent = None, s_client = None, s_phase = Pairing\<rparr>"

definition slot_get :: "slot \<Rightarrow> role \<Rightarrow> ws option" where
  "slot_get s r = (if r = Agent then s_agent s else s_client s)"

definition slot_set :: "slot \<Rightarrow> role \<Rightarrow> ws option \<Rightarrow> slot" where
  "slot_set s r x = (if r = Agent then s\<lparr>s_agent := x\<rparr> else s\<lparr>s_client := x\<rparr>)"

definition slot_is_empty :: "slot \<Rightarrow> bool" where
  "slot_is_empty s \<longleftrightarrow> s_agent s = None \<and> s_client s = None"

record registry =
  r_sessions :: "string \<Rightarrow> slot_ref option"
  r_heap :: "slot_ref \<Rightarrow> slot"
  r_next :: slot_ref
  r_devices :: "string \<Rightarrow> string option"

definition empty_registry :: registry where
  "empty_registry = \<lparr>r_sessions = Map.empty, r_heap = (\<lambda>_. new_slot), r_next = 0, r_devices = Map.empty\<rparr>"

section \<open>Operations\<close>

definition heap_upd :: "slot_ref \<Rightarrow> (slot \<Rightarrow> slot) \<Rightarrow> registry \<Rightarrow> registry" where
  "heap_upd ref f rg = rg\<lparr>r_heap := (r_heap rg)(ref := f (r_heap rg ref))\<rparr>"

text \<open>\<open>setdefault(session_id, SessionSlot())\<close>, which is also \<open>create\<close>.\<close>

definition create :: "string \<Rightarrow> registry \<Rightarrow> slot_ref \<times> registry" where
  "create sid rg =
     (case r_sessions rg sid of
        Some ref \<Rightarrow> (ref, rg)
      | None \<Rightarrow>
          (r_next rg,
           rg\<lparr>r_sessions := (r_sessions rg)(sid \<mapsto> r_next rg),
              r_heap := (r_heap rg)(r_next rg := new_slot),
              r_next := Suc (r_next rg)\<rparr>))"

definition attach :: "string \<Rightarrow> role \<Rightarrow> ws \<Rightarrow> registry \<Rightarrow> (relay_exn + slot_ref) \<times> registry" where
  "attach sid r w rg =
     (let (ref, rg1) = create sid rg;
          existing = slot_get (r_heap rg1 ref) r
      in if existing \<noteq> None \<and> existing \<noteq> Some w
         then (Inl (ValueError (role_name r @ '' is already attached to session '' @ sid)), rg1)
         else (Inr ref, heap_upd ref (\<lambda>s. slot_set s r (Some w)) rg1))"

definition slot_ref_of :: "string \<Rightarrow> registry \<Rightarrow> slot_ref option" where
  "slot_ref_of sid rg = r_sessions rg sid"

definition get_slot :: "string \<Rightarrow> registry \<Rightarrow> slot option" where
  "get_slot sid rg = map_option (r_heap rg) (r_sessions rg sid)"

definition get_peer :: "string \<Rightarrow> role \<Rightarrow> registry \<Rightarrow> ws option" where
  "get_peer sid r rg =
     (case get_slot sid rg of None \<Rightarrow> None | Some s \<Rightarrow> slot_get s (other_role r))"

definition set_phase :: "slot_ref \<Rightarrow> phase \<Rightarrow> registry \<Rightarrow> registry" where
  "set_phase ref p = heap_upd ref (\<lambda>s. s\<lparr>s_phase := p\<rparr>)"

definition detach :: "string \<Rightarrow> role \<Rightarrow> registry \<Rightarrow> registry" where
  "detach sid r rg =
     (case r_sessions rg sid of
        None \<Rightarrow> rg
      | Some ref \<Rightarrow>
          (let rg1 = heap_upd ref (\<lambda>s. slot_set s r None) rg
           in if slot_is_empty (r_heap rg1 ref)
              then rg1\<lparr>r_sessions := (r_sessions rg1)(sid := None)\<rparr> else rg1))"

definition remove :: "string \<Rightarrow> registry \<Rightarrow> registry" where
  "remove sid rg =
     rg\<lparr>r_sessions := (r_sessions rg)(sid := None),
        r_devices := (\<lambda>d. if r_devices rg d = Some sid then None else r_devices rg d)\<rparr>"

definition register_device :: "string \<Rightarrow> string \<Rightarrow> registry \<Rightarrow> (relay_exn + unit) \<times> registry" where
  "register_device d sid rg =
     (case r_devices rg d of
        Some existing \<Rightarrow>
          (if existing \<noteq> sid then (Inl (ValueError (''device '' @ d @ '' is already connected'')), rg)
           else (Inr (), rg\<lparr>r_devices := (r_devices rg)(d \<mapsto> sid)\<rparr>))
      | None \<Rightarrow> (Inr (), rg\<lparr>r_devices := (r_devices rg)(d \<mapsto> sid)\<rparr>))"

definition session_for_device :: "string \<Rightarrow> registry \<Rightarrow> string option" where
  "session_for_device d rg = r_devices rg d"

definition registry_len :: "registry \<Rightarrow> nat" where
  "registry_len rg = card (dom (r_sessions rg))"

section \<open>Well-formedness\<close>

text \<open>
  References in the table are allocated, and two sessions never share a slot object.
\<close>

definition wf_registry :: "registry \<Rightarrow> bool" where
  "wf_registry rg \<longleftrightarrow>
     (\<forall>sid ref. r_sessions rg sid = Some ref \<longrightarrow> ref < r_next rg) \<and>
     (\<forall>s1 s2 ref. r_sessions rg s1 = Some ref \<longrightarrow> r_sessions rg s2 = Some ref \<longrightarrow> s1 = s2)"

lemma wf_empty [simp]: "wf_registry empty_registry"
  by (simp add: wf_registry_def empty_registry_def)

lemma wf_heap_upd [simp]: "wf_registry (heap_upd ref f rg) = wf_registry rg"
  by (simp add: wf_registry_def heap_upd_def)

lemma wf_set_phase [simp]: "wf_registry (set_phase ref p rg) = wf_registry rg"
  by (simp add: set_phase_def)

lemma map_heap_other [simp]: "m \<noteq> Some ref \<Longrightarrow> map_option (h(ref := s)) m = map_option h m"
  by (cases m) auto

lemma wf_ref_distinct:
  "wf_registry rg \<Longrightarrow> r_sessions rg sid = Some ref \<Longrightarrow> x \<noteq> sid \<Longrightarrow> r_sessions rg x \<noteq> Some ref"
  by (auto simp: wf_registry_def)

lemma wf_ref_fresh: "wf_registry rg \<Longrightarrow> r_sessions rg x \<noteq> Some (r_next rg)"
  by (auto simp: wf_registry_def)

lemma wf_create:
  assumes "wf_registry rg" "create sid rg = (ref, rg')"
  shows "wf_registry rg'" "r_sessions rg' sid = Some ref"
    and "r_sessions rg' = (r_sessions rg)(sid \<mapsto> ref)"
  using assms
  using wf_ref_fresh [OF assms(1)]
  by (auto simp: create_def wf_registry_def less_Suc_eq split: option.splits if_splits)

lemma wf_attach: "wf_registry rg \<Longrightarrow> attach sid r w rg = (res, rg') \<Longrightarrow> wf_registry rg'"
  by (auto simp: attach_def Let_def split: prod.splits if_splits dest: wf_create)

lemma wf_detach: "wf_registry rg \<Longrightarrow> wf_registry (detach sid r rg)"
  by (auto simp: detach_def wf_registry_def heap_upd_def Let_def split: option.splits)

lemma wf_remove: "wf_registry rg \<Longrightarrow> wf_registry (remove sid rg)"
  by (auto simp: remove_def wf_registry_def)

lemma wf_register_device: "wf_registry rg \<Longrightarrow> register_device d sid rg = (res, rg') \<Longrightarrow> wf_registry rg'"
  by (auto simp: register_device_def wf_registry_def split: option.splits if_splits)

section \<open>Lookup laws\<close>

text \<open>What \<open>get\<close> returns after each operation.\<close>

lemma slot_get_set:
  "slot_get (slot_set s r x) r' = (if r' = r then x else slot_get s r')"
  by (cases r; cases r') (auto simp: slot_get_def slot_set_def)

lemma slot_set_phase [simp]: "s_phase (slot_set s r x) = s_phase s"
  by (simp add: slot_set_def)

lemma slot_get_phase_upd [simp]: "slot_get (s\<lparr>s_phase := p\<rparr>) r = slot_get s r"
  by (simp add: slot_get_def)

lemma other_role_simps [simp]:
  "other_role Agent = Client" "other_role Client = Agent" "other_role (other_role r) = r"
  "other_role r \<noteq> r" "r \<noteq> other_role r"
  by (cases r; simp add: other_role_def)+

lemma slot_is_empty_iff: "slot_is_empty s \<longleftrightarrow> (\<forall>r. slot_get s r = None)"
  by (auto simp: slot_is_empty_def slot_get_def split: if_splits)

lemma get_slot_heap_upd:
  assumes "wf_registry rg" "r_sessions rg sid = Some ref"
  shows "get_slot x (heap_upd ref f rg) = (if x = sid then map_option f (get_slot sid rg) else get_slot x rg)"
  using assms wf_ref_distinct [OF assms, of x] by (auto simp: get_slot_def heap_upd_def)

lemma get_slot_create:
  assumes "wf_registry rg" "create sid rg = (ref, rg')"
  shows "get_slot x rg' = (if x = sid \<and> get_slot sid rg = None then Some new_slot else get_slot x rg)"
  using assms wf_ref_fresh [OF assms(1), of x]
  by (auto simp: create_def get_slot_def split: option.splits)

lemma attach_Inr:
  assumes wf: "wf_registry rg" and a: "attach sid r w rg = (Inr ref, rg')"
  shows "get_slot x rg' = (if x = sid
      then Some (slot_set (case get_slot sid rg of None \<Rightarrow> new_slot | Some s \<Rightarrow> s) r (Some w))
      else get_slot x rg)"
    and "r_sessions rg' sid = Some ref" and "r_devices rg' = r_devices rg"
proof -
  obtain ref0 rg1 where c: "create sid rg = (ref0, rg1)" by fastforce
  with a have ref: "ref0 = ref" and rg': "rg' = heap_upd ref (\<lambda>s. slot_set s r (Some w)) rg1"
    by (auto simp: attach_def Let_def split: if_splits)
  note wf1 = wf_create [OF wf c]
  show "get_slot x rg' = (if x = sid
      then Some (slot_set (case get_slot sid rg of None \<Rightarrow> new_slot | Some s \<Rightarrow> s) r (Some w))
      else get_slot x rg)"
    using get_slot_heap_upd [OF wf1(1,2)] ref
    by (auto simp: rg' get_slot_create [OF wf c] split: option.splits)
  show "r_sessions rg' sid = Some ref" and "r_devices rg' = r_devices rg"
    using wf1 ref c by (auto simp: rg' heap_upd_def create_def split: option.splits)
qed

lemma attach_Inl:
  assumes "attach sid r w rg = (Inl e, rg')"
  shows "rg' = rg" "\<exists>s w'. get_slot sid rg = Some s \<and> slot_get s r = Some w' \<and> w' \<noteq> w" "\<exists>m. e = ValueError m"
  using assms
  by (auto simp: attach_def Let_def create_def get_slot_def new_slot_def slot_get_def
      split: prod.splits if_splits option.splits)

lemma get_slot_set_phase:
  assumes "wf_registry rg" "r_sessions rg sid = Some ref"
  shows "get_slot x (set_phase ref p rg) =
     (if x = sid then map_option (\<lambda>s. s\<lparr>s_phase := p\<rparr>) (get_slot sid rg) else get_slot x rg)"
  using assms by (simp add: set_phase_def get_slot_heap_upd)

lemma get_slot_detach:
  assumes "wf_registry rg"
  shows "get_slot x (detach sid r rg) =
     (if x = sid then
        (case get_slot sid rg of None \<Rightarrow> None
         | Some s \<Rightarrow> (if slot_is_empty (slot_set s r None) then None else Some (slot_set s r None)))
      else get_slot x rg)"
proof (cases "r_sessions rg sid")
  case (Some ref)
  with assms wf_ref_distinct [OF assms Some, of x] show ?thesis
    by (auto simp: detach_def get_slot_def heap_upd_def Let_def)
qed (simp add: detach_def get_slot_def)

lemma get_slot_remove: "get_slot x (remove sid rg) = (if x = sid then None else get_slot x rg)"
  by (simp add: remove_def get_slot_def)

lemma get_slot_register_device:
  "register_device d sid rg = (res, rg') \<Longrightarrow> get_slot x rg' = get_slot x rg"
  by (auto simp: register_device_def get_slot_def split: option.splits if_splits)

lemma register_device_Inr:
  "register_device d sid rg = (Inr u, rg') \<Longrightarrow>
     r_devices rg' = (r_devices rg)(d \<mapsto> sid) \<and> r_sessions rg' = r_sessions rg \<and> r_heap rg' = r_heap rg"
  by (auto simp: register_device_def split: option.splits if_splits)

lemma register_device_Inl:
  "register_device d sid rg = (Inl e, rg') \<Longrightarrow>
     rg' = rg \<and> (\<exists>s'. r_devices rg d = Some s' \<and> s' \<noteq> sid) \<and> (\<exists>m. e = ValueError m)"
  by (auto simp: register_device_def split: option.splits if_splits)

lemma devices_frame [simp]:
  "r_devices (set_phase ref p rg) = r_devices rg"
  "r_devices (heap_upd ref f rg) = r_devices rg"
  "r_devices (detach sid r rg) = r_devices rg"
  by (auto simp: set_phase_def heap_upd_def detach_def Let_def split: option.splits)

lemma sessions_frame [simp]:
  "r_sessions (set_phase ref p rg) = r_sessions rg"
  "r_sessions (heap_upd ref f rg) = r_sessions rg"
  by (auto simp: set_phase_def heap_upd_def)

end
