(* ===== verification/RoutingTable.thy ===== *)
theory RoutingTable
  imports Registry
begin

text \<open>
  The contract of the routing table: what \<open>get\<close>/\<open>get_peer\<close> return after \<open>attach\<close>,
  \<open>detach\<close> and \<open>remove\<close>. The router relies on it; the lemmas about command
  sequences are proved once from the contract, and the model of
  \<open>SessionRegistry\<close> is shown to satisfy it.
\<close>

datatype route_cmd = RAttach string role ws | RDetach string role | RRemove string

locale routing_table =
  fixes endpoint :: "'t \<Rightarrow> string \<Rightarrow> role \<Rightarrow> ws option"
    and attach_op :: "string \<Rightarrow> role \<Rightarrow> ws \<Rightarrow> 't \<Rightarrow> 't"
    and detach_op :: "string \<Rightarrow> role \<Rightarrow> 't \<Rightarrow> 't"
    and remove_op :: "string \<Rightarrow> 't \<Rightarrow> 't"
    and inv :: "'t \<Rightarrow> bool"
  assumes inv_attach: "inv t \<Longrightarrow> inv (attach_op s r w t)"
    and inv_detach: "inv t \<Longrightarrow> inv (detach_op s r t)"
    and inv_remove: "inv t \<Longrightarrow> inv (remove_op s t)"
    and attach_free: "inv t \<Longrightarrow> endpoint t s r = None \<Longrightarrow>
          endpoint (attach_op s r w t) s' r' = (if s' = s \<and> r' = r then Some w else endpoint t s' r')"
    and attach_taken: "inv t \<Longrightarrow> endpoint t s r = Some v \<Longrightarrow>
          endpoint (attach_op s r w t) s' r' = endpoint t s' r'"
    and detach_law: "inv t \<Longrightarrow>
          endpoint (detach_op s r t) s' r' = (if s' = s \<and> r' = r then None else endpoint t s' r')"
    and remove_law: "inv t \<Longrightarrow>
          endpoint (remove_op s t) s' r' = (if s' = s then None else endpoint t s' r')"
begin

primrec exec :: "'t \<Rightarrow> route_cmd \<Rightarrow> 't" where
  "exec t (RAttach s r w) = attach_op s r w t"
| "exec t (RDetach s r) = detach_op s r t"
| "exec t (RRemove s) = remove_op s t"

lemma inv_exec: "inv t \<Longrightarrow> inv (exec t c)"
  by (cases c) (simp_all add: inv_attach inv_detach inv_remove)

lemma inv_run: "inv t \<Longrightarrow> inv (foldl exec t cs)"
  by (induction cs arbitrary: t) (simp_all add: inv_exec)

lemma endpoint_exec:
  assumes "inv t" "endpoint (exec t c) s r = Some w"
  shows "endpoint t s r = Some w \<or> c = RAttach s r w"
proof (cases c)
  case (RAttach s' r' w')
  with assms show ?thesis
    by (cases "endpoint t s' r'") (auto simp: attach_free attach_taken split: if_splits)
qed (use assms in \<open>auto simp: detach_law remove_law split: if_splits\<close>)

text \<open>An endpoint in the table was attached under exactly that session and role.\<close>

lemma provenance:
  assumes "inv t" "endpoint (foldl exec t cs) s r = Some w"
  shows "endpoint t s r = Some w \<or> RAttach s r w \<in> set cs"
  using assms
proof (induction cs rule: rev_induct)
  case (snoc c cs)
  from endpoint_exec [OF inv_run [OF snoc.prems(1)], of cs c s r w] snoc.prems(2)
  have "endpoint (foldl exec t cs) s r = Some w \<or> c = RAttach s r w" by simp
  with snoc show ?case by auto
qed simp

text \<open>Attaching never displaces: only a detach or a removal frees an endpoint.\<close>

lemma incumbent_stays:
  assumes "inv t" "endpoint t s r = Some w"
    and "RDetach s r \<notin> set cs" "RRemove s \<notin> set cs"
  shows "endpoint (foldl exec t cs) s r = Some w"
  using assms
proof (induction cs rule: rev_induct)
  case (snoc c cs)
  then have st: "endpoint (foldl exec t cs) s r = Some w" by simp
  have i: "inv (foldl exec t cs)" using snoc.prems(1) by (rule inv_run)
  show ?case
  proof (cases c)
    case (RAttach s' r' w')
    with st i show ?thesis
      by (cases "endpoint (foldl exec t cs) s' r'") (auto simp: attach_free attach_taken)
  qed (use snoc.prems st i in \<open>auto simp: detach_law remove_law\<close>)
qed simp

end

section \<open>The registry satisfies the contract\<close>

definition endpoint_of :: "registry \<Rightarrow> string \<Rightarrow> role \<Rightarrow> ws option" where
  "endpoint_of rg sid r = (case get_slot sid rg of None \<Rightarrow> None | Some s \<Rightarrow> slot_get s r)"

definition attach_reg :: "string \<Rightarrow> role \<Rightarrow> ws \<Rightarrow> registry \<Rightarrow> registry" where
  "attach_reg sid r w rg = snd (attach sid r w rg)"

lemma wf_attach_reg: "wf_registry rg \<Longrightarrow> wf_registry (attach_reg sid r w rg)"
  by (metis attach_reg_def prod.collapse wf_attach)

lemma endpoint_new [simp]: "slot_get new_slot r = None"
  by (simp add: slot_get_def new_slot_def)

lemma endpoint_attach:
  assumes wf: "wf_registry rg"
  shows "endpoint_of (attach_reg s r w rg) s' r' =
     (if endpoint_of rg s r = None \<and> s' = s \<and> r' = r then Some w else endpoint_of rg s' r')"
proof (cases "attach s r w rg")
  case (Pair res rg')
  show ?thesis
  proof (cases res)
    case (Inl e)
    with Pair have "attach s r w rg = (Inl e, rg')" by simp
    from attach_Inl [OF this] Pair show ?thesis
      by (auto simp: attach_reg_def endpoint_of_def)
  next
    case (Inr ref)
    with Pair have a: "attach s r w rg = (Inr ref, rg')" by simp
    then have "case get_slot s rg of None \<Rightarrow> True | Some sl \<Rightarrow> slot_get sl r \<in> {None, Some w}"
      by (auto simp: attach_def Let_def create_def get_slot_def split: prod.splits if_splits option.splits)
    with attach_Inr(1) [OF wf a] Pair show ?thesis
      by (auto simp: attach_reg_def endpoint_of_def slot_get_set split: option.splits)
  qed
qed

interpretation reg: routing_table endpoint_of attach_reg detach remove wf_registry
proof unfold_locales
  fix t :: registry and s s' :: string and r r' :: role
  assume wf: "wf_registry t"
  show "endpoint_of (detach s r t) s' r' = (if s' = s \<and> r' = r then None else endpoint_of t s' r')"
    using wf by (auto simp: endpoint_of_def get_slot_detach slot_get_set slot_is_empty_iff split: option.splits)
next
  fix t :: registry and s s' :: string and r r' :: role
  show "endpoint_of (remove s t) s' r' = (if s' = s then None else endpoint_of t s' r')"
    by (simp add: endpoint_of_def get_slot_remove)
qed (simp_all add: wf_attach_reg wf_detach wf_remove endpoint_attach)

lemma get_peer_endpoint: "get_peer sid r rg = endpoint_of rg sid (other_role r)"
  by (simp add: get_peer_def endpoint_of_def)

end
