(* ===== verification/Redis.thy ===== *)
theory Redis
  imports Prelude
begin

text \<open>
  The Redis server as the relay sees it. Redis is not part of the repository, so the
  commands the relay issues are fields of a record \<open>redis\<close> that every definition
  using Redis takes as an argument. Each command gets the server's clock reading (in
  milliseconds, frozen while a command or a Lua script runs) and the server's state.

  The locale \<open>redis_contract\<close> states what Redis documents about these commands,
  through a view of the server's state as a map from keys to values with deadlines.
  The properties of the in-process part of the relay need no such contract.
\<close>

record 'db redis =
  r_exists :: "int \<Rightarrow> string \<Rightarrow> 'db \<Rightarrow> bool"
  r_hget :: "int \<Rightarrow> string \<Rightarrow> string \<Rightarrow> 'db \<Rightarrow> string option"
  r_hset :: "int \<Rightarrow> string \<Rightarrow> (string \<times> string) list \<Rightarrow> 'db \<Rightarrow> 'db"
  r_hgetall :: "int \<Rightarrow> string \<Rightarrow> 'db \<Rightarrow> (string \<times> string) list"
  r_expire :: "int \<Rightarrow> string \<Rightarrow> int \<Rightarrow> 'db \<Rightarrow> 'db"
  r_persist :: "int \<Rightarrow> string \<Rightarrow> 'db \<Rightarrow> 'db"
  r_delete :: "int \<Rightarrow> string \<Rightarrow> 'db \<Rightarrow> 'db"
  r_incr :: "int \<Rightarrow> string \<Rightarrow> 'db \<Rightarrow> int \<times> 'db"
  r_set_ex :: "int \<Rightarrow> string \<Rightarrow> string \<Rightarrow> int \<Rightarrow> 'db \<Rightarrow> 'db"
  r_zremrangebyscore :: "int \<Rightarrow> string \<Rightarrow> int \<Rightarrow> 'db \<Rightarrow> 'db"
  r_zadd :: "int \<Rightarrow> string \<Rightarrow> int \<Rightarrow> string \<Rightarrow> 'db \<Rightarrow> 'db"
  r_zcard :: "int \<Rightarrow> string \<Rightarrow> 'db \<Rightarrow> nat"
  r_down :: "int \<Rightarrow> 'db \<Rightarrow> bool"

section \<open>The documented behaviour\<close>

datatype rvalue =
    RString string
  | RCounter int
  | RHash "(string \<times> string) list"
  | RZset "(string \<times> int) list"

text \<open>A key holds a value and, after \<open>EXPIRE\<close>, the last millisecond at which it is alive.\<close>

type_synonym rstore = "string \<Rightarrow> (rvalue \<times> int option) option"

definition alive :: "int \<Rightarrow> (rvalue \<times> int option) option \<Rightarrow> (rvalue \<times> int option) option" where
  "alive t e = (case e of
       Some (v, Some d) \<Rightarrow> (if t \<le> d then e else None)
     | _ \<Rightarrow> e)"

definition hash_at :: "int \<Rightarrow> string \<Rightarrow> rstore \<Rightarrow> (string \<times> string) list" where
  "hash_at t k m = (case alive t (m k) of Some (RHash h, _) \<Rightarrow> h | _ \<Rightarrow> [])"

definition zset_at :: "int \<Rightarrow> string \<Rightarrow> rstore \<Rightarrow> (string \<times> int) list" where
  "zset_at t k m = (case alive t (m k) of Some (RZset z, _) \<Rightarrow> z | _ \<Rightarrow> [])"

definition counter_at :: "int \<Rightarrow> string \<Rightarrow> rstore \<Rightarrow> int" where
  "counter_at t k m = (case alive t (m k) of Some (RCounter n, _) \<Rightarrow> n | _ \<Rightarrow> 0)"

definition ttl_at :: "int \<Rightarrow> string \<Rightarrow> rstore \<Rightarrow> int option" where
  "ttl_at t k m = (case alive t (m k) of Some (_, d) \<Rightarrow> d | _ \<Rightarrow> None)"

definition k_exists :: "int \<Rightarrow> string \<Rightarrow> rstore \<Rightarrow> bool" where
  "k_exists t k m \<longleftrightarrow> alive t (m k) \<noteq> None"

definition k_hset :: "int \<Rightarrow> string \<Rightarrow> (string \<times> string) list \<Rightarrow> rstore \<Rightarrow> rstore" where
  "k_hset t k fs m =
     m(k \<mapsto> (RHash (fold (\<lambda>(f, v). AList.update f v) fs (hash_at t k m)), ttl_at t k m))"

definition k_expire :: "int \<Rightarrow> string \<Rightarrow> int \<Rightarrow> rstore \<Rightarrow> rstore" where
  "k_expire t k s m =
     (case alive t (m k) of None \<Rightarrow> m | Some (v, _) \<Rightarrow> m(k \<mapsto> (v, Some (t + s * 1000))))"

definition k_persist :: "int \<Rightarrow> string \<Rightarrow> rstore \<Rightarrow> rstore" where
  "k_persist t k m = (case alive t (m k) of None \<Rightarrow> m | Some (v, _) \<Rightarrow> m(k \<mapsto> (v, None)))"

definition k_incr :: "int \<Rightarrow> string \<Rightarrow> rstore \<Rightarrow> rstore" where
  "k_incr t k m = m(k \<mapsto> (RCounter (counter_at t k m + 1), ttl_at t k m))"

definition k_zremrangebyscore :: "int \<Rightarrow> string \<Rightarrow> int \<Rightarrow> rstore \<Rightarrow> rstore" where
  "k_zremrangebyscore t k hi m =
     (case filter (\<lambda>(_, s). s > hi) (zset_at t k m) of
        [] \<Rightarrow> m(k := None)
      | z \<Rightarrow> m(k \<mapsto> (RZset z, ttl_at t k m)))"

definition k_zadd :: "int \<Rightarrow> string \<Rightarrow> int \<Rightarrow> string \<Rightarrow> rstore \<Rightarrow> rstore" where
  "k_zadd t k s x m = m(k \<mapsto> (RZset (AList.update x s (zset_at t k m)), ttl_at t k m))"

text \<open>
  A command on a key of another type is refused by Redis with \<open>WRONGTYPE\<close>: the laws
  of the typed commands assume that the key is absent or holds their type.
\<close>

definition is_hash :: "int \<Rightarrow> string \<Rightarrow> rstore \<Rightarrow> bool" where
  "is_hash t k m \<longleftrightarrow>
     (case alive t (m k) of None \<Rightarrow> True | Some (RHash h, _) \<Rightarrow> True | _ \<Rightarrow> False)"

definition is_zset :: "int \<Rightarrow> string \<Rightarrow> rstore \<Rightarrow> bool" where
  "is_zset t k m \<longleftrightarrow>
     (case alive t (m k) of None \<Rightarrow> True | Some (RZset z, _) \<Rightarrow> True | _ \<Rightarrow> False)"

definition is_counter :: "int \<Rightarrow> string \<Rightarrow> rstore \<Rightarrow> bool" where
  "is_counter t k m \<longleftrightarrow>
     (case alive t (m k) of None \<Rightarrow> True | Some (RCounter n, _) \<Rightarrow> True | _ \<Rightarrow> False)"

locale redis_contract =
  fixes R :: "'db redis" and view :: "'db \<Rightarrow> rstore"
  assumes exists_law: "r_exists R t k db \<longleftrightarrow> k_exists t k (view db)"
    and hget_law: "is_hash t k (view db) \<Longrightarrow> r_hget R t k f db = map_of (hash_at t k (view db)) f"
    and hset_law: "is_hash t k (view db) \<Longrightarrow> view (r_hset R t k fs db) = k_hset t k fs (view db)"
    and hgetall_law: "is_hash t k (view db) \<Longrightarrow> map_of (r_hgetall R t k db) = map_of (hash_at t k (view db))"
    and expire_law: "view (r_expire R t k s db) = k_expire t k s (view db)"
    and persist_law: "view (r_persist R t k db) = k_persist t k (view db)"
    and delete_law: "view (r_delete R t k db) = (view db)(k := None)"
    and incr_count: "is_counter t k (view db) \<Longrightarrow> fst (r_incr R t k db) = counter_at t k (view db) + 1"
    and incr_law: "is_counter t k (view db) \<Longrightarrow> view (snd (r_incr R t k db)) = k_incr t k (view db)"
    and set_ex_law: "view (r_set_ex R t k v s db) = (view db)(k \<mapsto> (RString v, Some (t + s * 1000)))"
    and zremrange_law: "is_zset t k (view db) \<Longrightarrow> view (r_zremrangebyscore R t k hi db) = k_zremrangebyscore t k hi (view db)"
    and zadd_law: "is_zset t k (view db) \<Longrightarrow> view (r_zadd R t k s x db) = k_zadd t k s x (view db)"
    and zcard_law: "is_zset t k (view db) \<Longrightarrow> r_zcard R t k db = length (zset_at t k (view db))"
begin

lemmas redis_laws = exists_law hget_law hset_law hgetall_law expire_law persist_law delete_law
  incr_count incr_law set_ex_law zremrange_law zadd_law zcard_law

end

section \<open>A store that satisfies the contract\<close>

text \<open>
  The map of keys to values is itself such a server: the witnesses of the properties
  that assume the contract run on it.
\<close>

definition map_redis :: "rstore redis" where
  "map_redis = \<lparr>
     r_exists = k_exists,
     r_hget = (\<lambda>t k f m. map_of (hash_at t k m) f),
     r_hset = k_hset,
     r_hgetall = hash_at,
     r_expire = k_expire,
     r_persist = k_persist,
     r_delete = (\<lambda>t k m. m(k := None)),
     r_incr = (\<lambda>t k m. (counter_at t k m + 1, k_incr t k m)),
     r_set_ex = (\<lambda>t k v s m. m(k \<mapsto> (RString v, Some (t + s * 1000)))),
     r_zremrangebyscore = k_zremrangebyscore,
     r_zadd = k_zadd,
     r_zcard = (\<lambda>t k m. length (zset_at t k m)),
     r_down = (\<lambda>t m. False)\<rparr>"

interpretation map_store: redis_contract map_redis "\<lambda>m. m"
  by unfold_locales (simp_all add: map_redis_def)

section \<open>Facts about the view\<close>

lemma alive_None [simp]: "alive t None = None"
  by (simp add: alive_def)

lemma alive_persistent [simp]: "alive t (Some (v, None)) = Some (v, None)"
  by (simp add: alive_def)

lemma alive_deadline [simp]: "alive t (Some (v, Some d)) = (if t \<le> d then Some (v, Some d) else None)"
  by (simp add: alive_def)

lemma alive_SomeD: "alive t e = Some x \<Longrightarrow> e = Some x"
  by (auto simp: alive_def split: option.splits prod.splits if_splits)

lemma alive_mono: "alive t e = Some x \<Longrightarrow> t' \<le> t \<Longrightarrow> alive t' e = Some x"
  by (auto simp: alive_def split: option.splits prod.splits if_splits)

text \<open>A rewritten key keeps a deadline that has not passed.\<close>

lemma alive_ttl_at [simp]: "alive t (Some (v, ttl_at t k m)) = Some (v, ttl_at t k m)"
  by (cases "m k") (auto simp: ttl_at_def alive_def split: option.splits prod.splits if_splits)

lemmas view_defs = k_exists_def k_hset_def k_expire_def k_persist_def k_incr_def
  k_zremrangebyscore_def k_zadd_def hash_at_def zset_at_def counter_at_def ttl_at_def

lemma view_frame [simp]:
  "k' \<noteq> k \<Longrightarrow> k_hset t k fs m k' = m k'"
  "k' \<noteq> k \<Longrightarrow> k_expire t k s m k' = m k'"
  "k' \<noteq> k \<Longrightarrow> k_persist t k m k' = m k'"
  "k' \<noteq> k \<Longrightarrow> k_incr t k m k' = m k'"
  "k' \<noteq> k \<Longrightarrow> k_zremrangebyscore t k hi m k' = m k'"
  "k' \<noteq> k \<Longrightarrow> k_zadd t k x y m k' = m k'"
  by (auto simp: view_defs split: option.splits list.splits)

end
