(* ===== verification/RelayWorld.thy ===== *)
theory RelayWorld
  imports Envelope RelayConfig RoutingTable Redis
begin

text \<open>
  The state the relay's coroutines share, and the primitives they are made of:
  sending on a WebSocket, calling Redis, reading clocks, logging.

  Every connection is known by the number of its WebSocket, which also indexes its
  \<open>ConnectionContext\<close>. Times are in milliseconds. \<open>w_out\<close> is the sequence of
  envelopes handed to WebSockets, \<open>w_closed\<close> the sequence of close frames,
  \<open>w_logs\<close> the log lines. \<open>w_sendable\<close> says whether a send on a WebSocket would
  succeed, \<open>w_connected\<close> is starlette's \<open>client_state\<close>; the environment changes both.
\<close>

record log_line =
  l_event :: string
  l_session_id :: "string option"
  l_msg_type :: "string option"
  l_byte_count :: "nat option"
  l_peer_ip :: "string option"
  l_error :: "string option"

record ctx =
  c_role :: role
  c_peer_ip :: string
  c_session_id :: "string option"
  c_last_seq :: int
  c_deadline :: "int option"

definition new_ctx :: "role \<Rightarrow> string \<Rightarrow> ctx" where
  "new_ctx r ip = \<lparr>c_role = r, c_peer_ip = ip, c_session_id = None, c_last_seq = 0, c_deadline = None\<rparr>"

record 'db world =
  w_reg :: registry
  w_db :: 'db
  w_ctx :: "ws \<Rightarrow> ctx"
  w_out :: "(ws \<times> envelope) list"
  w_closed :: "(ws \<times> string) list"
  w_logs :: "log_line list"
  w_limiter :: "string \<Rightarrow> int option"
  w_mono :: int
  w_wall :: int
  w_rtime :: int
  w_sendable :: "ws \<Rightarrow> bool"
  w_connected :: "ws \<Rightarrow> bool"

text \<open>What the relay uses of code outside the repository: Redis, SHA-256 (hex digest of
  an ASCII string), the JSON decoder and pydantic's JSON printer.\<close>

record 'db deps =
  d_redis :: "'db redis"
  d_sha256 :: "string \<Rightarrow> string"
  d_loads :: "wire \<Rightarrow> json option"
  d_dump :: "envelope \<Rightarrow> string"

type_synonym ('db, 'a) relay_co = "(relay_exn, 'db world, 'a) co"

section \<open>Primitives\<close>

definition upd_ctx :: "ws \<Rightarrow> (ctx \<Rightarrow> ctx) \<Rightarrow> ('db, unit) relay_co" where
  "upd_ctx c f = modify (\<lambda>w. w\<lparr>w_ctx := (w_ctx w)(c := f (w_ctx w c))\<rparr>)"

definition reg_op :: "(registry \<Rightarrow> (relay_exn + 'a) \<times> registry) \<Rightarrow> ('db, 'a) relay_co" where
  "reg_op f = sync (\<lambda>w. case f (w_reg w) of (r, rg) \<Rightarrow> (r, w\<lparr>w_reg := rg\<rparr>))"

definition reg_upd :: "(registry \<Rightarrow> registry) \<Rightarrow> ('db, unit) relay_co" where
  "reg_upd f = modify (\<lambda>w. w\<lparr>w_reg := f (w_reg w)\<rparr>)"

definition log_event ::
  "string \<Rightarrow> string option \<Rightarrow> string option \<Rightarrow> nat option \<Rightarrow> string option \<Rightarrow> string option
    \<Rightarrow> ('db, unit) relay_co" where
  "log_event event session_id msg_type byte_count peer_ip error =
     modify (\<lambda>w. w\<lparr>w_logs := w_logs w @
       [\<lparr>l_event = event, l_session_id = session_id, l_msg_type = msg_type,
         l_byte_count = byte_count, l_peer_ip = peer_ip, l_error = error\<rparr>]\<rparr>)"

text \<open>\<open>await ws.send_text(envelope.model_dump_json())\<close>: the frame is handed over, then
  the coroutine may be suspended; on a closed WebSocket it raises.\<close>

definition send_envelope :: "ws \<Rightarrow> envelope \<Rightarrow> ('db, unit) relay_co" where
  "send_envelope x e =
     bnd (gets (\<lambda>w. w_sendable w x)) (\<lambda>ok.
       if ok then bnd (modify (\<lambda>w. w\<lparr>w_out := w_out w @ [(x, e)]\<rparr>)) (\<lambda>_. pause)
       else raise SendFailed)"

text \<open>\<open>await ws.close(code=1008, reason=...)\<close>; starlette refuses any later send.\<close>

definition close_frame :: "ws \<Rightarrow> string \<Rightarrow> 'db world \<Rightarrow> 'db world" where
  "close_frame x reason w =
     w\<lparr>w_closed := w_closed w @ [(x, reason)], w_sendable := (w_sendable w)(x := False)\<rparr>"

definition close_ws :: "ws \<Rightarrow> string \<Rightarrow> ('db, unit) relay_co" where
  "close_ws x reason = bnd (modify (close_frame x reason)) (\<lambda>_. pause)"

text \<open>A Redis command or script: others may run before it takes effect and between
  its effect and the return to the caller; a lost connection raises.\<close>

definition redis_call :: "'db deps \<Rightarrow> (int \<Rightarrow> 'db \<Rightarrow> 'a \<times> 'db) \<Rightarrow> ('db, 'a) relay_co" where
  "redis_call D f =
     bnd pause (\<lambda>_.
     bnd (sync (\<lambda>w. if r_down (d_redis D) (w_rtime w) (w_db w) then (Inl RedisError, w)
                    else (case f (w_rtime w) (w_db w) of (a, db) \<Rightarrow> (Inr a, w\<lparr>w_db := db\<rparr>)))) (\<lambda>a.
     bnd pause (\<lambda>_. ret a)))"

definition redis_do :: "'db deps \<Rightarrow> (int \<Rightarrow> 'db \<Rightarrow> 'db) \<Rightarrow> ('db, unit) relay_co" where
  "redis_do D f = redis_call D (\<lambda>t db. ((), f t db))"

definition make_envelope :: "string \<Rightarrow> string option \<Rightarrow> int \<Rightarrow> int \<Rightarrow> (string \<times> json) list \<Rightarrow> envelope" where
  "make_envelope ty sid sq ts pl =
     \<lparr>e_v = 2, e_type = ty, e_session_id = sid, e_seq = sq, e_ts = ts, e_payload = pl\<rparr>"

definition error_envelope :: "string option \<Rightarrow> string \<Rightarrow> string \<Rightarrow> envelope" where
  "error_envelope sid code msg =
     make_envelope ''error'' sid 0 0 [(''code'', JStr code), (''message'', JStr msg)]"

definition send_error :: "ws \<Rightarrow> string \<Rightarrow> string \<Rightarrow> ('db, unit) relay_co" where
  "send_error c code msg =
     bnd (gets (\<lambda>w. c_session_id (w_ctx w c))) (\<lambda>sid. send_envelope c (error_envelope sid code msg))"

lemmas prim_defs = upd_ctx_def reg_op_def reg_upd_def log_event_def send_envelope_def close_ws_def
  redis_do_def redis_call_def send_error_def

lemma upd_ctx_apply [co_simps]:
  "upd_ctx c f w = Done (Inr ()) (w\<lparr>w_ctx := (w_ctx w)(c := f (w_ctx w c))\<rparr>)"
  by (simp add: upd_ctx_def co_simps)

lemma reg_op_apply [co_simps]:
  "reg_op f w = (case f (w_reg w) of (r, rg) \<Rightarrow> Done r (w\<lparr>w_reg := rg\<rparr>))"
  by (simp add: reg_op_def co_simps split: prod.splits)

lemma reg_upd_apply [co_simps]: "reg_upd f w = Done (Inr ()) (w\<lparr>w_reg := f (w_reg w)\<rparr>)"
  by (simp add: reg_upd_def co_simps)

lemma log_event_apply [co_simps]:
  "log_event e s m b p x w = Done (Inr ()) (w\<lparr>w_logs := w_logs w @
       [\<lparr>l_event = e, l_session_id = s, l_msg_type = m, l_byte_count = b, l_peer_ip = p, l_error = x\<rparr>]\<rparr>)"
  by (simp add: log_event_def co_simps)

lemma send_envelope_apply [co_simps]:
  "send_envelope x e w =
     (if w_sendable w x
      then Susp (w\<lparr>w_out := w_out w @ [(x, e)]\<rparr>) (\<lambda>w'. Done (Inr ()) w')
      else Done (Inl SendFailed) w)"
  by (simp add: send_envelope_def co_simps)

lemma close_ws_apply [co_simps]:
  "close_ws x r w = Susp (close_frame x r w) (\<lambda>w'. Done (Inr ()) w')"
  by (simp add: close_ws_def co_simps)

lemma send_error_apply [co_simps]:
  "send_error c code msg w = send_envelope c (error_envelope (c_session_id (w_ctx w c)) code msg) w"
  by (simp add: send_error_def bnd_apply gets_apply)

lemma run_prim [simp]:
  "run (upd_ctx c f) w = (Inr (), w\<lparr>w_ctx := (w_ctx w)(c := f (w_ctx w c))\<rparr>)"
  "run (reg_upd g) w = (Inr (), w\<lparr>w_reg := g (w_reg w)\<rparr>)"
  "run (send_envelope x e) w =
     (if w_sendable w x then (Inr (), w\<lparr>w_out := w_out w @ [(x, e)]\<rparr>) else (Inl SendFailed, w))"
  "run (send_error c code msg) w = run (send_envelope c (error_envelope (c_session_id (w_ctx w c)) code msg)) w"
  "run (close_ws x r) w = (Inr (), close_frame x r w)"
  by (simp_all add: run_def co_simps)

lemma run_reg_op [simp]:
  "run (reg_op f) w = (case f (w_reg w) of (r, rg) \<Rightarrow> (r, w\<lparr>w_reg := rg\<rparr>))"
  by (simp add: run_def co_simps split: prod.splits)

lemma run_log_event [simp]:
  "run (log_event e s m b p x) w = (Inr (), w\<lparr>w_logs := w_logs w @
       [\<lparr>l_event = e, l_session_id = s, l_msg_type = m, l_byte_count = b, l_peer_ip = p, l_error = x\<rparr>]\<rparr>)"
  by (simp add: run_def co_simps)

lemma run_redis_call [simp]:
  "run (redis_call D f) w =
     (if r_down (d_redis D) (w_rtime w) (w_db w) then (Inl RedisError, w)
      else (case f (w_rtime w) (w_db w) of (a, db) \<Rightarrow> (Inr a, w\<lparr>w_db := db\<rparr>)))"
  by (simp add: redis_call_def split: prod.splits)

lemma run_redis_do [simp]:
  "run (redis_do D f) w =
     (if r_down (d_redis D) (w_rtime w) (w_db w) then (Inl RedisError, w)
      else (Inr (), w\<lparr>w_db := f (w_rtime w) (w_db w)\<rparr>))"
  by (simp add: redis_do_def)

end
