(* ===== verification/Pairing.thy ===== *)
theory Pairing
  imports RelayWorld
begin

text \<open>
  \<open>relay/pairing.py\<close>: token format, the two Lua scripts that issue and consume a
  token, and the session record in Redis. The scripts are functions of the server
  state built from the commands they call; the coroutines run them as one atomic
  Redis call.
\<close>

section \<open>Token format and keys\<close>

text \<open>
  \<open>re.compile(r"^[A-Za-z0-9_-]+$").match(token)\<close>: \<open>$\<close> also matches just before a
  newline that ends the string.
\<close>

definition token_re_match :: "string \<Rightarrow> bool" where
  "token_re_match s =
     (let body = (if s \<noteq> [] \<and> last s = newline then butlast s else s)
      in body \<noteq> [] \<and> list_all url_safe_char body)"

definition validate_token_format :: "json \<Rightarrow> config \<Rightarrow> relay_exn + unit" where
  "validate_token_format token cfg =
     (if (is_str token \<and> token_min_len cfg \<le> int (length (as_str token))
            \<and> int (length (as_str token)) \<le> token_max_len cfg)
         \<and> token_re_match (as_str token)
      then Inr ()
      else Inl (TokenInvalid (''token must be '' @ str_int (token_min_len cfg) @ ''-''
                 @ str_int (token_max_len cfg) @ '' url-safe chars'')))"

definition token_key :: "'db deps \<Rightarrow> string \<Rightarrow> string" where
  "token_key D token = ''relay:token:'' @ d_sha256 D token"

definition session_key :: "string \<Rightarrow> string" where
  "session_key sid = ''relay:session:'' @ sid"

section \<open>The scripts\<close>

definition issue_script ::
  "'db redis \<Rightarrow> string \<Rightarrow> string \<Rightarrow> string \<Rightarrow> string \<Rightarrow> string \<Rightarrow> int \<Rightarrow> int \<Rightarrow> 'db \<Rightarrow> bool \<times> 'db" where
  "issue_script R key agent_pubkey session_id agent_hostname created_at ttl t db =
     (if r_exists R t key db then (False, db)
      else (True, r_expire R t key ttl
             (r_hset R t key [(''agent_pubkey'', agent_pubkey), (''session_id'', session_id),
                (''agent_hostname'', agent_hostname), (''state'', ''pending''), (''created_at'', created_at)] db)))"

datatype consume_status = NotFound | AlreadyUsed | Consumed "(string \<times> string) list"

definition consume_script :: "'db redis \<Rightarrow> string \<Rightarrow> int \<Rightarrow> 'db \<Rightarrow> consume_status \<times> 'db" where
  "consume_script R key t db =
     (if \<not> r_exists R t key db then (NotFound, db)
      else if r_hget R t key ''state'' db = Some ''consumed'' then (AlreadyUsed, db)
      else (let db1 = r_hset R t key [(''state'', ''consumed'')] db
            in (Consumed (r_hgetall R t key db1), db1)))"

section \<open>The coroutines\<close>

definition issue_token ::
  "'db deps \<Rightarrow> config \<Rightarrow> json \<Rightarrow> string \<Rightarrow> string \<Rightarrow> string \<Rightarrow> ('db, unit) relay_co" where
  "issue_token D cfg token agent_pubkey session_id agent_hostname =
     bnd (sync (\<lambda>w. (validate_token_format token cfg, w))) (\<lambda>_.
     bnd (gets w_wall) (\<lambda>now.
     bnd (redis_call D (issue_script (d_redis D) (token_key D (as_str token)) agent_pubkey session_id
            agent_hostname (str_int now) (pairing_token_ttl_s cfg))) (\<lambda>issued.
     if \<not> issued then raise (TokenInvalid ''token already in use'') else skip)))"

definition consume_token :: "'db deps \<Rightarrow> string \<Rightarrow> ('db, (string \<times> string) list) relay_co" where
  "consume_token D token =
     bnd (redis_call D (consume_script (d_redis D) (token_key D token))) (\<lambda>status.
     (case status of
        NotFound \<Rightarrow> raise (TokenNotFound token)
      | AlreadyUsed \<Rightarrow> raise (TokenAlreadyUsed token)
      | Consumed fs \<Rightarrow> ret fs))"

definition delete_token :: "'db deps \<Rightarrow> string \<Rightarrow> ('db, unit) relay_co" where
  "delete_token D token = redis_do D (\<lambda>t. r_delete (d_redis D) t (token_key D token))"

definition create_session_record :: "'db deps \<Rightarrow> config \<Rightarrow> string \<Rightarrow> ('db, unit) relay_co" where
  "create_session_record D cfg sid =
     bnd (gets w_wall) (\<lambda>now.
     block [
       redis_do D (\<lambda>t. r_hset (d_redis D) t (session_key sid)
         [(''state'', ''awaiting_client''), (''created_at'', str_int now)]),
       redis_do D (\<lambda>t. r_expire (d_redis D) t (session_key sid) (session_pending_ttl_s cfg))])"

definition set_session_state :: "'db deps \<Rightarrow> string \<Rightarrow> string \<Rightarrow> ('db, unit) relay_co" where
  "set_session_state D sid state =
     redis_do D (\<lambda>t. r_hset (d_redis D) t (session_key sid) [(''state'', state)])"

definition mark_session_established :: "'db deps \<Rightarrow> string \<Rightarrow> ('db, unit) relay_co" where
  "mark_session_established D sid = block [
     redis_do D (\<lambda>t. r_hset (d_redis D) t (session_key sid) [(''state'', ''established'')]),
     redis_do D (\<lambda>t. r_persist (d_redis D) t (session_key sid))]"

definition get_session_state :: "'db deps \<Rightarrow> string \<Rightarrow> ('db, string option) relay_co" where
  "get_session_state D sid =
     redis_call D (\<lambda>t db. (r_hget (d_redis D) t (session_key sid) ''state'' db, db))"

definition delete_session_record :: "'db deps \<Rightarrow> string \<Rightarrow> ('db, unit) relay_co" where
  "delete_session_record D sid = redis_do D (\<lambda>t. r_delete (d_redis D) t (session_key sid))"

section \<open>Token format lemmas\<close>

lemma token_re_match_iff:
  "token_re_match s \<longleftrightarrow>
     (\<exists>body. body \<noteq> [] \<and> list_all url_safe_char body \<and> (s = body \<or> s = body @ [newline]))"
proof -
  have nl: "\<not> url_safe_char newline"
    by (simp add: url_safe_char_def newline_def is_upper_def is_lower_def is_digit_def ord_def)
  show ?thesis
  proof (cases "s \<noteq> [] \<and> last s = newline")
    case True
    then have s: "s = butlast s @ [newline]" by (metis append_butlast_last_id)
    have "\<not> list_all url_safe_char s"
      using True nl by (metis last_in_set list_all_iff)
    with True s show ?thesis
      by (auto simp: token_re_match_def) (metis butlast_snoc)
  next
    case False
    then show ?thesis by (auto simp: token_re_match_def)
  qed
qed

lemma validate_token_InrD:
  assumes "validate_token_format j cfg = Inr u"
  shows "\<exists>s. j = JStr s \<and> token_min_len cfg \<le> int (length s) \<and> int (length s) \<le> token_max_len cfg
           \<and> token_re_match s"
  using assms by (cases j) (auto simp: validate_token_format_def split: if_splits)

section \<open>The scripts under the Redis contract\<close>

text \<open>A token's key, as the relay uses it: absent, pending or consumed, until a deadline.\<close>

definition token_fields :: "string \<Rightarrow> string \<Rightarrow> string \<Rightarrow> string \<Rightarrow> string \<Rightarrow> (string \<times> string) list" where
  "token_fields state agent_pubkey session_id agent_hostname created_at =
     [(''agent_pubkey'', agent_pubkey), (''session_id'', session_id), (''agent_hostname'', agent_hostname),
      (''state'', state), (''created_at'', created_at)]"

text \<open>The state field of the live hash at a key, if there is one.\<close>

definition token_state :: "int \<Rightarrow> string \<Rightarrow> rstore \<Rightarrow> string option" where
  "token_state t key m = map_of (hash_at t key m) ''state''"

lemma is_hash_absent [simp]: "alive t (m k) = None \<Longrightarrow> is_hash t k m"
  by (simp add: is_hash_def)

lemma fold_update_token_fields:
  "fold (\<lambda>(f, v). AList.update f v) (token_fields st a s h c) [] = token_fields st a s h c"
  by (simp add: token_fields_def)

context redis_contract
begin

lemma issue_script_view:
  assumes "issue_script R key a s h c ttl t db = (ok, db')"
  shows "ok \<longleftrightarrow> alive t (view db key) = None"
    and "view db' = (if ok then (view db)(key \<mapsto> (RHash (token_fields ''pending'' a s h c), Some (t + ttl * 1000)))
                     else view db)"
proof -
  have ex: "r_exists R t key db \<longleftrightarrow> alive t (view db key) \<noteq> None"
    by (simp add: exists_law k_exists_def)
  with assms show ok: "ok \<longleftrightarrow> alive t (view db key) = None"
    by (auto simp: issue_script_def simp del: not_None_eq split: if_splits)
  show "view db' = (if ok then (view db)(key \<mapsto> (RHash (token_fields ''pending'' a s h c), Some (t + ttl * 1000)))
                     else view db)"
  proof (cases ok)
    case True
    with ok have a: "alive t (view db key) = None" by simp
    then have h: "is_hash t key (view db)" by simp
    have "view (r_hset R t key (token_fields ''pending'' a s h c) db) =
        (view db)(key \<mapsto> (RHash (token_fields ''pending'' a s h c), None))"
      using a fold_update_token_fields [of "''pending''" a s h c]
      by (simp add: hset_law [OF h] k_hset_def hash_at_def ttl_at_def)
    with True assms ex a show ?thesis
      by (auto simp: issue_script_def expire_law k_expire_def token_fields_def)
  next
    case False
    with assms show ?thesis by (auto simp: issue_script_def split: if_splits)
  qed
qed

lemma consume_script_view:
  assumes "consume_script R key t db = (res, db')" and h: "is_hash t key (view db)"
  shows "res = NotFound \<longleftrightarrow> alive t (view db key) = None"
    and "res = AlreadyUsed \<longleftrightarrow> token_state t key (view db) = Some ''consumed''"
    and "view db' = (case res of
        Consumed fs \<Rightarrow> (view db)(key \<mapsto> (RHash (AList.update ''state'' ''consumed'' (hash_at t key (view db))),
                                       ttl_at t key (view db)))
      | _ \<Rightarrow> view db)"
    and "res = Consumed fs \<Longrightarrow> map_of fs = (map_of (hash_at t key (view db)))(''state'' \<mapsto> ''consumed'')"
proof -
  have ex: "r_exists R t key db \<longleftrightarrow> alive t (view db key) \<noteq> None"
    by (simp add: exists_law k_exists_def)
  have hg: "r_hget R t key ''state'' db = token_state t key (view db)"
    by (simp add: hget_law [OF h] token_state_def)
  have hs: "view (r_hset R t key [(''state'', ''consumed'')] db) =
      (view db)(key \<mapsto> (RHash (AList.update ''state'' ''consumed'' (hash_at t key (view db))), ttl_at t key (view db)))"
    by (simp add: hset_law [OF h] k_hset_def)
  have live: "alive t (view db key) \<noteq> None \<Longrightarrow>
      alive t (Some (RHash x, ttl_at t key (view db))) = Some (RHash x, ttl_at t key (view db))" for x
    by (cases "view db key") (auto simp: ttl_at_def alive_def split: option.splits prod.splits if_splits)
  have none: "alive t (view db key) = None \<Longrightarrow> token_state t key (view db) = None"
    by (simp add: token_state_def hash_at_def)
  show "res = NotFound \<longleftrightarrow> alive t (view db key) = None"
    and "res = AlreadyUsed \<longleftrightarrow> token_state t key (view db) = Some ''consumed''"
    using assms(1) none by (auto simp: consume_script_def ex hg Let_def simp del: not_None_eq split: if_splits)
  show "view db' = (case res of
        Consumed fs \<Rightarrow> (view db)(key \<mapsto> (RHash (AList.update ''state'' ''consumed'' (hash_at t key (view db))),
                                       ttl_at t key (view db)))
      | _ \<Rightarrow> view db)"
    using assms(1) by (auto simp: consume_script_def Let_def hs split: if_splits)
  assume r: "res = Consumed fs"
  with assms(1) have c: "alive t (view db key) \<noteq> None"
    and fs: "fs = r_hgetall R t key (r_hset R t key [(''state'', ''consumed'')] db)"
    by (auto simp: consume_script_def Let_def ex split: if_splits)
  have "is_hash t key (view (r_hset R t key [(''state'', ''consumed'')] db))"
    unfolding hs is_hash_def using live [OF c] by simp
  then show "map_of fs = (map_of (hash_at t key (view db)))(''state'' \<mapsto> ''consumed'')"
    unfolding fs using live [OF c] by (simp add: hgetall_law hs hash_at_def)
qed

end

end
