(* ===== verification/RateLimit.thy ===== *)
theory RateLimit
  imports Pairing
begin

text \<open>
  \<open>relay/ratelimit.py\<close>: the two Lua limiters (sliding window per address, capped
  attempts per token), their coroutines, and the in-process connection limiter.
\<close>

section \<open>The scripts\<close>

text \<open>\<open>math.ceil(window_ms / 1000) + 1\<close>, in seconds.\<close>

definition window_expiry_s :: "int \<Rightarrow> int" where
  "window_expiry_s window_ms = - ((- window_ms) div 1000) + 1"

definition ip_window_script ::
  "'db redis \<Rightarrow> string \<Rightarrow> int \<Rightarrow> int \<Rightarrow> int \<Rightarrow> string \<Rightarrow> int \<Rightarrow> 'db \<Rightarrow> bool \<times> 'db" where
  "ip_window_script R key now window_ms max_n member t db =
     (let db1 = r_zremrangebyscore R t key (now - window_ms) db;
          db2 = r_zadd R t key now member db1;
          db3 = r_expire R t key (window_expiry_s window_ms) db2;
          n = r_zcard R t key db3
      in (if int n > max_n then (False, db3) else (True, db3)))"

definition token_attempt_script ::
  "'db redis \<Rightarrow> string \<Rightarrow> string \<Rightarrow> int \<Rightarrow> int \<Rightarrow> int \<Rightarrow> 'db \<Rightarrow> bool \<times> 'db" where
  "token_attempt_script R count_key block_key max_n ttl t db =
     (if r_exists R t block_key db then (False, db)
      else (case r_incr R t count_key db of (n, db1) \<Rightarrow>
        (let db2 = (if n = 1 then r_expire R t count_key ttl db1 else db1)
         in if n > max_n then (False, r_set_ex R t block_key ''1'' ttl db2) else (True, db2))))"

section \<open>The coroutines\<close>

definition ip_key :: "string \<Rightarrow> string" where
  "ip_key ip = ''relay:rl:ip:'' @ ip"

definition count_key :: "'db deps \<Rightarrow> string \<Rightarrow> string" where
  "count_key D token = ''relay:rl:token:'' @ d_sha256 D token"

definition block_key :: "'db deps \<Rightarrow> string \<Rightarrow> string" where
  "block_key D token = ''relay:rl:token_blocked:'' @ d_sha256 D token"

text \<open>\<open>uid\<close> is the hex string of the \<open>uuid4\<close> drawn for this attempt.\<close>

definition check_ip_rate_limit :: "'db deps \<Rightarrow> config \<Rightarrow> string \<Rightarrow> string \<Rightarrow> ('db, unit) relay_co" where
  "check_ip_rate_limit D cfg uid ip =
     bnd (gets w_wall) (\<lambda>now.
     bnd (redis_call D (ip_window_script (d_redis D) (ip_key ip) now (rate_limit_ip_window_s cfg * 1000)
            (rate_limit_ip_max cfg) (str_int now @ '':'' @ uid))) (\<lambda>ok.
     if \<not> ok then raise (RateLimited (Some (rate_limit_ip_window_s cfg))) else skip))"

definition check_token_rate_limit :: "'db deps \<Rightarrow> config \<Rightarrow> string \<Rightarrow> ('db, unit) relay_co" where
  "check_token_rate_limit D cfg token =
     bnd (redis_call D (token_attempt_script (d_redis D) (count_key D token) (block_key D token)
            (rate_limit_token_max cfg) (pairing_token_ttl_s cfg))) (\<lambda>ok.
     if \<not> ok then raise (RateLimited None) else skip)"

section \<open>ConnectionLimiter\<close>

type_synonym limiter = "string \<Rightarrow> int option"

definition limiter_count :: "string \<Rightarrow> limiter \<Rightarrow> int" where
  "limiter_count ip l = (case l ip of None \<Rightarrow> 0 | Some n \<Rightarrow> n)"

definition try_acquire :: "string \<Rightarrow> int \<Rightarrow> limiter \<Rightarrow> bool \<times> limiter" where
  "try_acquire ip max_per_ip l =
     (let count = limiter_count ip l
      in if count \<ge> max_per_ip then (False, l) else (True, l(ip \<mapsto> count + 1)))"

definition release_conn :: "string \<Rightarrow> limiter \<Rightarrow> limiter" where
  "release_conn ip l =
     (let count = limiter_count ip l
      in if count \<le> 1 then l(ip := None) else l(ip \<mapsto> count - 1))"

text \<open>
  Abstraction: the limiter counts the connections held per address. Zero counts are
  not stored, so a released address leaves no entry behind.
\<close>

definition limiter_entry :: "nat \<Rightarrow> int option" where
  "limiter_entry n = (if n = 0 then None else Some (int n))"

definition limiter_rep :: "(string \<Rightarrow> nat) \<Rightarrow> limiter \<Rightarrow> bool" where
  "limiter_rep held l \<longleftrightarrow> l = (\<lambda>ip. limiter_entry (held ip))"

lemma limiter_rep_count: "limiter_rep held l \<Longrightarrow> limiter_count ip l = int (held ip)"
  by (simp add: limiter_rep_def limiter_count_def limiter_entry_def)

lemma limiter_entry_simps [simp]:
  "limiter_entry 0 = None" "0 < n \<Longrightarrow> limiter_entry n = Some (int n)"
  by (simp_all add: limiter_entry_def)

lemma limiter_rep_acquire:
  assumes "limiter_rep held l" "try_acquire ip m l = (ok, l')"
  shows "ok \<longleftrightarrow> int (held ip) < m"
    and "limiter_rep (if ok then held(ip := Suc (held ip)) else held) l'"
proof -
  note count = limiter_rep_count [OF assms(1), of ip]
  show ok: "ok \<longleftrightarrow> int (held ip) < m"
    using assms(2) count by (auto simp: try_acquire_def Let_def split: if_splits)
  show "limiter_rep (if ok then held(ip := Suc (held ip)) else held) l'"
  proof (cases ok)
    case True
    then have "l' = l(ip := limiter_entry (Suc (held ip)))"
      using assms(2) count by (auto simp: try_acquire_def Let_def add.commute split: if_splits)
    with assms(1) True show ?thesis by (auto simp: limiter_rep_def intro!: ext)
  next
    case False
    with assms show ?thesis by (auto simp: try_acquire_def Let_def split: if_splits)
  qed
qed

lemma limiter_rep_release:
  assumes "limiter_rep held l" "0 < held ip"
  shows "limiter_rep (held(ip := held ip - 1)) (release_conn ip l)"
proof -
  have "release_conn ip l = l(ip := limiter_entry (held ip - 1))"
    using limiter_rep_count [OF assms(1), of ip] assms(2)
    by (auto simp: release_conn_def Let_def limiter_entry_def of_nat_diff)
  with assms(1) show ?thesis by (auto simp: limiter_rep_def intro!: ext)
qed

section \<open>The sliding window under the Redis contract\<close>

text \<open>
  Reference: the attempts of one address, as (time, member) pairs in order; an
  attempt at \<open>now\<close> passes when at most \<open>max_n\<close> attempts, itself included, are
  younger than the window.
\<close>

definition recent :: "int \<Rightarrow> int \<Rightarrow> (int \<times> string) list \<Rightarrow> (int \<times> string) list" where
  "recent now window_ms hist = filter (\<lambda>(s, _). now - window_ms < s) hist"

definition window_allows :: "int \<Rightarrow> int \<Rightarrow> int \<Rightarrow> (int \<times> string) list \<Rightarrow> bool" where
  "window_allows now window_ms max_n hist \<longleftrightarrow> int (length (recent now window_ms hist)) + 1 \<le> max_n"

fun run_window ::
  "'db redis \<Rightarrow> string \<Rightarrow> int \<Rightarrow> int \<Rightarrow> (int \<times> int \<times> string) list \<Rightarrow> 'db \<Rightarrow> bool list \<times> 'db" where
  "run_window R key window_ms max_n [] db = ([], db)"
| "run_window R key window_ms max_n ((t, now, m) # as) db =
     (case ip_window_script R key now window_ms max_n m t db of (ok, db1) \<Rightarrow>
        (case run_window R key window_ms max_n as db1 of (oks, db2) \<Rightarrow> (ok # oks, db2)))"

fun spec_window :: "int \<Rightarrow> int \<Rightarrow> (int \<times> string) list \<Rightarrow> (int \<times> int \<times> string) list \<Rightarrow> bool list" where
  "spec_window window_ms max_n hist [] = []"
| "spec_window window_ms max_n hist ((t, now, m) # as) =
     window_allows now window_ms max_n hist # spec_window window_ms max_n (hist @ [(now, m)]) as"

text \<open>
  Server time and relay time are different clocks. Both may not run backwards, and
  from one attempt to the next the server's may gain at most the second that the
  script adds to the key's lifetime.
\<close>

definition clocks_step :: "int \<Rightarrow> int \<Rightarrow> int \<Rightarrow> int \<Rightarrow> bool" where
  "clocks_step t now t' now' \<longleftrightarrow> t \<le> t' \<and> now \<le> now' \<and> t' - t \<le> now' - now + 1000"

fun clocks_ok :: "(int \<times> int \<times> string) list \<Rightarrow> bool" where
  "clocks_ok [] = True"
| "clocks_ok [x] = True"
| "clocks_ok ((t, now, m) # (t', now', m') # as) \<longleftrightarrow>
     clocks_step t now t' now' \<and> clocks_ok ((t', now', m') # as)"

text \<open>
  The stored set represents the history: whenever the next attempt comes, what is
  alive in the set and younger than the window is the recent history.
\<close>

definition zrecent :: "int \<Rightarrow> int \<Rightarrow> (string \<times> int) list \<Rightarrow> (string \<times> int) list" where
  "zrecent now window_ms z = filter (\<lambda>(_, s). now - window_ms < s) z"

definition swap_pairs :: "(string \<times> int) list \<Rightarrow> (int \<times> string) list" where
  "swap_pairs z = map (\<lambda>(m, s). (s, m)) z"

definition window_rep :: "int \<Rightarrow> int \<Rightarrow> int \<Rightarrow> (int \<times> string) list \<Rightarrow> string \<Rightarrow> rstore \<Rightarrow> bool" where
  "window_rep w t now hist key m \<longleftrightarrow>
     (\<forall>t' now'. clocks_step t now t' now' \<longrightarrow>
        is_zset t' key m \<and> swap_pairs (zrecent now' w (zset_at t' key m)) = recent now' w hist
        \<and> fst ` set (zset_at t' key m) \<subseteq> snd ` set hist)"

lemma swap_zrecent: "swap_pairs (zrecent now w z) = recent now w (swap_pairs z)"
  by (induction z) (auto simp: swap_pairs_def zrecent_def recent_def)

lemma recent_recent: "now \<le> now' \<Longrightarrow> recent now' w (recent now w h) = recent now' w h"
  by (auto simp: recent_def intro!: filter_cong)

lemma recent_append: "recent now w (h @ h') = recent now w h @ recent now w h'"
  by (simp add: recent_def)

lemma swap_pairs_append: "swap_pairs (a @ b) = swap_pairs a @ swap_pairs b"
  by (simp add: swap_pairs_def)

lemma length_swap [simp]: "length (swap_pairs z) = length z"
  by (simp add: swap_pairs_def)

lemma set_swap_members: "snd ` set (swap_pairs z) = fst ` set z"
  by (force simp: swap_pairs_def)

lemma set_recent: "set (recent now w h) \<subseteq> set h"
  by (auto simp: recent_def)

lemma recent_empty: "\<forall>(s, m) \<in> set h. s \<le> now \<Longrightarrow> now \<le> now' - w \<Longrightarrow> recent now' w h = []"
  by (fastforce simp: recent_def filter_empty_conv)

lemma zset_fresh_add:
  "x \<notin> fst ` set z \<Longrightarrow> AList.update x s z = z @ [(x, s)]"
  by (induction z) auto

lemma window_expiry_bound: "window_ms \<le> window_expiry_s window_ms * 1000 - 1000"
proof -
  have "- ((- window_ms) div 1000) * 1000 \<ge> window_ms"
    using div_mult_mod_eq [of "- window_ms" 1000] pos_mod_sign [of 1000 "- window_ms"] by linarith
  then show ?thesis by (simp add: window_expiry_s_def algebra_simps)
qed

context redis_contract
begin

lemma ip_window_view:
  assumes "ip_window_script R key now window_ms max_n m t db = (ok, db')"
    and rep: "is_zset t key (view db)"
    and fresh: "m \<notin> fst ` set (zset_at t key (view db))"
    and pos: "0 < window_ms"
  defines "z \<equiv> zrecent now window_ms (zset_at t key (view db)) @ [(m, now)]"
  shows "view db' key = Some (RZset z, Some (t + window_expiry_s window_ms * 1000))"
    and "ok \<longleftrightarrow> int (length z) \<le> max_n"
proof -
  let ?v = "view db" and ?zr = "zrecent now window_ms (zset_at t key (view db))"
  let ?db1 = "r_zremrangebyscore R t key (now - window_ms) db"
  let ?db2 = "r_zadd R t key now m ?db1"
  let ?db3 = "r_expire R t key (window_expiry_s window_ms) ?db2"
  have v1: "view ?db1 = k_zremrangebyscore t key (now - window_ms) ?v"
    by (rule zremrange_law [OF rep])
  have cond: "filter (\<lambda>(_, s). s > now - window_ms) (zset_at t key ?v) = ?zr"
    by (simp add: zrecent_def)
  have z1: "zset_at t key (view ?db1) = ?zr" and ty1: "is_zset t key (view ?db1)"
    unfolding v1 k_zremrangebyscore_def cond
    by (cases ?zr; simp add: zset_at_def is_zset_def)+
  have v2: "view ?db2 = (view ?db1)(key \<mapsto> (RZset (AList.update m now ?zr), ttl_at t key (view ?db1)))"
    by (simp add: zadd_law [OF ty1] k_zadd_def z1)
  have "m \<notin> fst ` set ?zr" using fresh by (auto simp: zrecent_def)
  then have upd: "AList.update m now ?zr = z" by (simp add: zset_fresh_add z_def)
  have v3: "view ?db3 key = Some (RZset z, Some (t + window_expiry_s window_ms * 1000))"
    by (simp add: expire_law k_expire_def v2 upd)
  have exp: "t \<le> t + window_expiry_s window_ms * 1000"
    using window_expiry_bound [of window_ms] pos by linarith
  have "zset_at t key (view ?db3) = z" "is_zset t key (view ?db3)"
    using v3 exp by (simp_all add: zset_at_def is_zset_def)
  then have card: "r_zcard R t key ?db3 = length z" by (simp add: zcard_law)
  show "view db' key = Some (RZset z, Some (t + window_expiry_s window_ms * 1000))"
    and "ok \<longleftrightarrow> int (length z) \<le> max_n"
    using assms(1) v3 card by (auto simp: ip_window_script_def Let_def split: if_splits)
qed

lemma ip_window_step:
  assumes run: "ip_window_script R key now' w max_n m t' db = (ok, db')"
    and rep: "window_rep w t now hist key (view db)"
    and clk: "clocks_step t now t' now'" and pos: "0 < w"
    and old: "\<forall>(s, x) \<in> set hist. s \<le> now" and fresh: "m \<notin> snd ` set hist"
  shows "ok \<longleftrightarrow> window_allows now' w max_n hist"
    and "window_rep w t' now' (hist @ [(now', m)]) key (view db')"
proof -
  let ?prev = "zset_at t' key (view db)"
  let ?z = "zrecent now' w ?prev @ [(m, now')]"
  have z: "is_zset t' key (view db)" "swap_pairs (zrecent now' w ?prev) = recent now' w hist"
    "fst ` set ?prev \<subseteq> snd ` set hist"
    using rep clk by (auto simp: window_rep_def)
  have "m \<notin> fst ` set ?prev" using z(3) fresh by blast
  note v = ip_window_view [OF run z(1) this pos]
  have "length (zrecent now' w ?prev) = length (recent now' w hist)"
    by (metis length_swap z(2))
  with v(2) show "ok \<longleftrightarrow> window_allows now' w max_n hist"
    by (simp add: window_allows_def add.commute)
  have sw: "swap_pairs ?z = recent now' w (hist @ [(now', m)])"
    using pos by (simp add: swap_pairs_append z(2) recent_append) (simp add: swap_pairs_def recent_def)
  have old': "\<forall>(s, x) \<in> set (hist @ [(now', m)]). s \<le> now'"
    using old clk by (auto simp: clocks_step_def)
  have exp: "w + 1000 \<le> window_expiry_s w * 1000"
    using window_expiry_bound [of w] by linarith
  show "window_rep w t' now' (hist @ [(now', m)]) key (view db')"
    unfolding window_rep_def
  proof (intro allI impI)
    fix t2 now2 assume c2: "clocks_step t' now' t2 now2"
    show "is_zset t2 key (view db')
        \<and> swap_pairs (zrecent now2 w (zset_at t2 key (view db'))) = recent now2 w (hist @ [(now', m)])
        \<and> fst ` set (zset_at t2 key (view db')) \<subseteq> snd ` set (hist @ [(now', m)])"
    proof (cases "t2 \<le> t' + window_expiry_s w * 1000")
      case True
      then have zt: "zset_at t2 key (view db') = ?z" and "is_zset t2 key (view db')"
        using v(1) by (simp_all add: zset_at_def is_zset_def)
      moreover have "swap_pairs (zrecent now2 w ?z) = recent now2 w (hist @ [(now', m)])"
        unfolding swap_zrecent sw using c2 by (intro recent_recent) (simp add: clocks_step_def)
      moreover have "fst ` set ?z \<subseteq> snd ` set (hist @ [(now', m)])"
        unfolding set_swap_members [symmetric] sw by (intro image_mono set_recent)
      ultimately show ?thesis by simp
    next
      case False
      then have "zset_at t2 key (view db') = []" "is_zset t2 key (view db')"
        using v(1) by (simp_all add: zset_at_def is_zset_def)
      moreover have "recent now2 w (hist @ [(now', m)]) = []"
        using False c2 exp by (intro recent_empty [OF old']) (simp add: clocks_step_def)
      ultimately show ?thesis by (simp add: zrecent_def swap_pairs_def)
    qed
  qed
qed

lemma run_window_spec:
  assumes "window_rep w t now hist key (view db)" "0 < w"
    and "clocks_ok ((t, now, x) # as)" "\<forall>(s, y) \<in> set hist. s \<le> now"
    and "distinct (map snd hist @ map (snd \<circ> snd) as)"
  shows "fst (run_window R key w max_n as db) = spec_window w max_n hist as"
  using assms
proof (induction as arbitrary: db t now hist x)
  case (Cons a as)
  obtain t' now' m where a: "a = (t', now', m)" by (cases a) auto
  from Cons.prems(3) have clk: "clocks_step t now t' now'" and clks: "clocks_ok ((t', now', m) # as)"
    by (simp_all add: a)
  obtain ok db1 where st: "ip_window_script R key now' w max_n m t' db = (ok, db1)" by fastforce
  have fresh: "m \<notin> snd ` set hist" using Cons.prems(5) by (auto simp: a)
  note step = ip_window_step [OF st Cons.prems(1) clk Cons.prems(2,4) fresh]
  have "fst (run_window R key w max_n as db1) = spec_window w max_n (hist @ [(now', m)]) as"
    using Cons.prems(2,4,5) clk clks step(2)
    by (intro Cons.IH [where t = t' and now = now' and x = m]) (auto simp: a clocks_step_def)
  with step(1) st show ?case by (auto simp: a split: prod.splits)
qed simp

text \<open>From a key that does not exist, the script decides as the reference does.\<close>

lemma run_window_fresh:
  assumes "view db key = None" "0 < w" "clocks_ok as" "distinct (map (snd \<circ> snd) as)"
  shows "fst (run_window R key w max_n as db) = spec_window w max_n [] as"
proof (cases as)
  case (Cons a as')
  obtain t now m where a: "a = (t, now, m)" by (cases a) auto
  have "window_rep w t now [] key (view db)"
    using assms(1) by (simp add: window_rep_def is_zset_def zset_at_def zrecent_def swap_pairs_def recent_def)
  moreover have "clocks_ok ((t, now, m) # as)"
    using assms(3) by (simp add: Cons a clocks_step_def)
  ultimately show ?thesis
    using assms by (intro run_window_spec [where t = t and now = now and x = m]) auto
qed simp

end

section \<open>The attempt counter under the Redis contract\<close>

fun run_attempts ::
  "'db redis \<Rightarrow> string \<Rightarrow> string \<Rightarrow> int \<Rightarrow> int \<Rightarrow> int list \<Rightarrow> 'db \<Rightarrow> bool list \<times> 'db" where
  "run_attempts R ck bk max_n ttl [] db = ([], db)"
| "run_attempts R ck bk max_n ttl (t # ts) db =
     (case token_attempt_script R ck bk max_n ttl t db of (ok, db1) \<Rightarrow>
        (case run_attempts R ck bk max_n ttl ts db1 of (oks, db2) \<Rightarrow> (ok # oks, db2)))"

text \<open>The two keys after \<open>k\<close> attempts, the first of them at \<open>t0\<close>.\<close>

definition attempt_rep :: "string \<Rightarrow> string \<Rightarrow> nat \<Rightarrow> int \<Rightarrow> nat \<Rightarrow> int \<Rightarrow> rstore \<Rightarrow> bool" where
  "attempt_rep ck bk max_n ttl k t0 m \<longleftrightarrow>
     (if k = 0 then m ck = None \<and> m bk = None
      else if k \<le> max_n then m ck = Some (RCounter (int k), Some (t0 + ttl * 1000)) \<and> m bk = None
      else (\<exists>v d. m bk = Some (v, Some d) \<and> t0 + ttl * 1000 \<le> d))"

context redis_contract
begin

lemma attempt_step:
  assumes run: "token_attempt_script R ck bk (int max_n) ttl t db = (ok, db')"
    and rep: "attempt_rep ck bk max_n ttl k t0 (view db)" and ne: "ck \<noteq> bk"
    and t: "k = 0 \<Longrightarrow> t0 = t" "t0 \<le> t" "t \<le> t0 + ttl * 1000" "0 \<le> ttl"
  shows "ok \<longleftrightarrow> k < max_n" and "attempt_rep ck bk max_n ttl (Suc k) t0 (view db')"
proof -
  have "(ok \<longleftrightarrow> k < max_n) \<and> attempt_rep ck bk max_n ttl (Suc k) t0 (view db')"
  proof (cases "k \<le> max_n")
    case True
    obtain n db1 where i: "r_incr R t ck db = (n, db1)" by fastforce
    let ?db2 = "if n = 1 then r_expire R t ck ttl db1 else db1"
    have blk: "\<not> r_exists R t bk db" and cnt: "counter_at t ck (view db) = int k"
      and ty: "is_counter t ck (view db)"
      using rep True t by (auto simp: attempt_rep_def exists_law k_exists_def counter_at_def is_counter_def
          split: if_splits)
    have n: "n = int k + 1" using incr_count [OF ty] i cnt by simp
    have v1: "view db1 = k_incr t ck (view db)" using incr_law [OF ty] i by simp
    have v2: "view ?db2 ck = Some (RCounter (int k + 1), Some (t0 + ttl * 1000))" "view ?db2 bk = view db bk"
      using rep True t ne
      by (auto simp: n v1 expire_law k_incr_def k_expire_def cnt attempt_rep_def ttl_at_def split: if_splits)
    have bkN: "view db bk = None" using rep True by (auto simp: attempt_rep_def split: if_splits)
    have "(ok, db') = (if n > int max_n then (False, r_set_ex R t bk ''1'' ttl ?db2) else (True, ?db2))"
      using run blk i by (simp add: token_attempt_script_def Let_def)
    with True n v2 bkN ne t show ?thesis
      by (cases "k < max_n") (auto simp: attempt_rep_def set_ex_law)
  next
    case False
    then obtain v d where b: "view db bk = Some (v, Some d)" "t0 + ttl * 1000 \<le> d"
      using rep by (auto simp: attempt_rep_def split: if_splits)
    then have "r_exists R t bk db" using t by (simp add: exists_law k_exists_def)
    with run have "ok = False" "db' = db" by (auto simp: token_attempt_script_def)
    with False b rep show ?thesis by (auto simp: attempt_rep_def)
  qed
  then show "ok \<longleftrightarrow> k < max_n" and "attempt_rep ck bk max_n ttl (Suc k) t0 (view db')"
    by simp_all
qed

lemma run_attempts_spec:
  assumes "attempt_rep ck bk max_n ttl k t0 (view db)" "ck \<noteq> bk" "0 \<le> ttl"
    and "\<forall>t \<in> set ts. t0 \<le> t \<and> t \<le> t0 + ttl * 1000" "k = 0 \<Longrightarrow> ts \<noteq> [] \<Longrightarrow> hd ts = t0"
  shows "fst (run_attempts R ck bk (int max_n) ttl ts db) = map (\<lambda>i. i < max_n) [k..<k + length ts]"
  using assms
proof (induction ts arbitrary: db k)
  case (Cons t ts)
  obtain ok db1 where st: "token_attempt_script R ck bk (int max_n) ttl t db = (ok, db1)" by fastforce
  have step: "ok \<longleftrightarrow> k < max_n" "attempt_rep ck bk max_n ttl (Suc k) t0 (view db1)"
    using attempt_step [OF st Cons.prems(1,2)] Cons.prems(3-5) by simp_all
  have "fst (run_attempts R ck bk (int max_n) ttl ts db1) = map (\<lambda>i. i < max_n) [Suc k..<Suc k + length ts]"
    using Cons.prems by (intro Cons.IH step(2)) auto
  moreover have "[k..<k + length (t # ts)] = k # [Suc k..<Suc k + length ts]"
    by (simp add: upt_rec)
  ultimately show ?case using st step(1) by (auto split: prod.splits simp del: upt_Suc)
qed simp

lemma run_attempts_fresh:
  assumes "view db ck = None" "view db bk = None" "ck \<noteq> bk" "0 \<le> ttl" "sorted ts"
    and "\<forall>t \<in> set ts. ti \<le> t \<and> t \<le> ti + ttl * 1000"
  shows "fst (run_attempts R ck bk (int max_n) ttl ts db) = map (\<lambda>i. i < max_n) [0..<length ts]"
proof (cases ts)
  case (Cons t0 ts')
  have "\<forall>t \<in> set ts. t0 \<le> t" using assms(5) by (auto simp: Cons)
  moreover have "ti \<le> t0" using assms(6) by (simp add: Cons)
  ultimately have "\<forall>t \<in> set ts. t0 \<le> t \<and> t \<le> t0 + ttl * 1000"
    using assms(6) by force
  with run_attempts_spec [of ck bk max_n ttl 0 t0 db ts] assms show ?thesis
    by (simp add: attempt_rep_def Cons)
qed simp

end

end
