(* ===== verification/Base64.thy ===== *)
theory Base64
  imports Prelude
begin

text \<open>
  The standard library's base64 codec as the source uses it: \<open>b64encode\<close>,
  \<open>b64decode(..., validate=True)\<close> (Python 3.11, \<open>binascii.a2b_base64\<close> in strict
  mode), the URL-safe alphabet of \<open>secrets.token_urlsafe\<close>, and the round trips.
  Strict mode refuses characters outside the alphabet, data after padding and
  incomplete groups; it ignores non-zero trailing bits, and it accepts surplus
  padding after a complete last group (\<open>AAAA=\<close>).
\<close>

definition b64_pad :: char where
  "b64_pad = CHR ''=''"

definition b64_char :: "nat \<Rightarrow> char" where
  "b64_char n =
     (if n < 26 then char_of (65 + n)
      else if n < 52 then char_of (97 + (n - 26))
      else if n < 62 then char_of (48 + (n - 52))
      else if n = 62 then CHR ''+'' else CHR ''/'')"

definition b64_val :: "char \<Rightarrow> nat option" where
  "b64_val c =
     (if is_upper c then Some (ord c - 65)
      else if is_lower c then Some (ord c - 97 + 26)
      else if is_digit c then Some (ord c - 48 + 52)
      else if c = CHR ''+'' then Some 62
      else if c = CHR ''/'' then Some 63 else None)"

fun b64encode :: "bytes \<Rightarrow> string" where
  "b64encode [] = []"
| "b64encode [x] = [b64_char (x div 4), b64_char (x mod 4 * 16), b64_pad, b64_pad]"
| "b64encode [x, y] =
     [b64_char (x div 4), b64_char (x mod 4 * 16 + y div 16), b64_char (y mod 16 * 4), b64_pad]"
| "b64encode (x # y # z # rest) =
     b64_char (x div 4) # b64_char (x mod 4 * 16 + y div 16) #
     b64_char (y mod 16 * 4 + z div 64) # b64_char (z mod 64) # b64encode rest"

text \<open>One group of four characters: the bytes it holds, and whether padding ended it.\<close>

definition b64_group :: "char \<Rightarrow> char \<Rightarrow> char \<Rightarrow> char \<Rightarrow> (bytes \<times> bool) option" where
  "b64_group a b c d =
     (case (b64_val a, b64_val b) of
        (Some p, Some q) \<Rightarrow>
          (if c = b64_pad then
             (if d = b64_pad then Some ([p * 4 + q div 16], True) else None)
           else (case b64_val c of
               None \<Rightarrow> None
             | Some r \<Rightarrow>
                 (if d = b64_pad then Some ([p * 4 + q div 16, q mod 16 * 16 + r div 4], True)
                  else (case b64_val d of
                      None \<Rightarrow> None
                    | Some s \<Rightarrow>
                        Some ([p * 4 + q div 16, q mod 16 * 16 + r div 4, r mod 4 * 64 + s], False)))))
      | _ \<Rightarrow> None)"

fun b64decode :: "string \<Rightarrow> bytes option" where
  "b64decode [] = Some []"
| "b64decode (a # b # c # d # rest) =
     (case b64_group a b c d of
        None \<Rightarrow> None
      | Some (bs, True) \<Rightarrow> (if rest = [] then Some bs else None)
      | Some (bs, False) \<Rightarrow>
          (if rest \<noteq> [] \<and> list_all (\<lambda>x. x = b64_pad) rest then Some bs
           else map_option (\<lambda>more. bs @ more) (b64decode rest)))"
| "b64decode _ = None"

text \<open>\<open>altchars=b"-_"\<close>: the two URL-safe characters are translated, then decoded.\<close>

definition from_urlsafe :: "char \<Rightarrow> char" where
  "from_urlsafe c = (if c = CHR ''-'' then CHR ''+'' else if c = CHR ''_'' then CHR ''/'' else c)"

definition to_urlsafe :: "char \<Rightarrow> char" where
  "to_urlsafe c = (if c = CHR ''+'' then CHR ''-'' else if c = CHR ''/'' then CHR ''_'' else c)"

definition urlsafe_b64decode :: "string \<Rightarrow> bytes option" where
  "urlsafe_b64decode s = b64decode (map from_urlsafe s)"

text \<open>\<open>secrets.token_urlsafe\<close> of given random bytes: URL-safe base64 without padding.\<close>

definition token_urlsafe :: "bytes \<Rightarrow> string" where
  "token_urlsafe bs = rstrip (\<lambda>c. c = b64_pad) (map to_urlsafe (b64encode bs))"

section \<open>The alphabet\<close>

lemma ord_b64_char:
  "n < 64 \<Longrightarrow> ord (b64_char n) =
     (if n < 26 then 65 + n else if n < 52 then 71 + n else if n < 62 then n - 4
      else if n = 62 then 43 else 47)"
  by (simp add: b64_char_def ord_char_of) (simp add: ord_def)

lemma b64_val_char: "n < 64 \<Longrightarrow> b64_val (b64_char n) = Some n"
  by (simp add: b64_val_def is_upper_def is_lower_def is_digit_def ord_b64_char char_eq_ord)
    (simp add: ord_def, arith)

lemma b64_char_not_pad: "n < 64 \<Longrightarrow> b64_char n \<noteq> b64_pad"
  by (simp add: char_eq_ord ord_b64_char b64_pad_def) (simp add: ord_def, arith)

lemma b64_val_bound: "b64_val c = Some n \<Longrightarrow> n < 64"
  by (auto simp: b64_val_def is_upper_def is_lower_def is_digit_def split: if_splits)

definition is_byte :: "nat \<Rightarrow> bool" where
  "is_byte b \<longleftrightarrow> b < 256"

section \<open>Round trips\<close>

text \<open>Packing \<open>b\<close> below \<open>m\<close> under \<open>a\<close>, and unpacking.\<close>

lemma unpack:
  fixes a b m :: nat
  assumes "b < m"
  shows "(a * m + b) div m = a" "(a * m + b) mod m = b"
  using assms by simp_all

lemma div_byte:
  fixes x :: nat
  assumes "x < 256"
  shows "x div 4 < 64" "x div 16 < 16" "x div 64 < 4"
  using assms by simp_all

lemma pack_bounds:
  fixes x y z :: nat
  shows "y < 16 \<Longrightarrow> x mod 4 * 16 + y < 64" "z < 4 \<Longrightarrow> x mod 16 * 4 + z < 64"
    "x mod 4 * 16 < 64" "x mod 16 * 4 < 64" "x mod 64 < 64"
  using mod_less_divisor [of 4 x] mod_less_divisor [of 16 x] mod_less_divisor [of 64 x] by linarith+

lemma unpack_shift:
  fixes x :: nat
  shows "x mod 4 * 16 div 16 = x mod 4" "x mod 16 * 4 div 4 = x mod 16"
    "x mod 16 * 4 mod 4 = 0"
  by simp_all

lemma unpack_sum:
  fixes x y :: nat
  shows "y < 16 \<Longrightarrow> (x mod 4 * 16 + y) div 16 = x mod 4" "y < 16 \<Longrightarrow> (x mod 4 * 16 + y) mod 16 = y"
    "y < 4 \<Longrightarrow> (x mod 16 * 4 + y) div 4 = x mod 16" "y < 4 \<Longrightarrow> (x mod 16 * 4 + y) mod 4 = y"
  by (rule unpack, assumption)+

lemmas b64_arith = div_byte pack_bounds unpack_shift unpack_sum

lemma b64_group_encode:
  assumes "x < 256" "y < 256" "z < 256"
  shows "b64_group (b64_char (x div 4)) (b64_char (x mod 4 * 16 + y div 16))
           (b64_char (y mod 16 * 4 + z div 64)) (b64_char (z mod 64)) = Some ([x, y, z], False)"
  using assms
  by (simp add: b64_group_def b64_val_char b64_char_not_pad b64_arith del: mod_mult_self1 mod_mult_self2
        div_mult_self3 div_mult_self4)

lemma b64_group_encode2:
  assumes "x < 256" "y < 256"
  shows "b64_group (b64_char (x div 4)) (b64_char (x mod 4 * 16 + y div 16))
           (b64_char (y mod 16 * 4)) b64_pad = Some ([x, y], True)"
  using assms by (simp add: b64_group_def b64_val_char b64_char_not_pad b64_arith)

lemma b64_group_encode1:
  assumes "x < 256"
  shows "b64_group (b64_char (x div 4)) (b64_char (x mod 4 * 16)) b64_pad b64_pad = Some ([x], True)"
  using assms by (simp add: b64_group_def b64_val_char b64_char_not_pad b64_arith)

lemma hd_b64encode: "list_all is_byte bs \<Longrightarrow> bs \<noteq> [] \<Longrightarrow> hd (b64encode bs) \<noteq> b64_pad"
  by (induction bs rule: b64encode.induct) (simp_all add: is_byte_def b64_char_not_pad b64_arith)

lemma b64encode_Nil_iff [simp]: "b64encode bs = [] \<longleftrightarrow> bs = []"
  by (induction bs rule: b64encode.induct) simp_all

lemma b64encode_not_all_pad:
  assumes "list_all is_byte bs" "bs \<noteq> []"
  shows "\<not> list_all (\<lambda>x. x = b64_pad) (b64encode bs)"
proof (cases "b64encode bs")
  case Nil
  with assms show ?thesis by simp
next
  case (Cons c cs)
  with hd_b64encode [OF assms] show ?thesis by simp
qed

lemma b64decode_b64encode:
  "list_all is_byte bs \<Longrightarrow> b64decode (b64encode bs) = Some bs"
proof (induction bs rule: b64encode.induct)
  case (4 x y z rest)
  have "\<not> (rest \<noteq> [] \<and> list_all (\<lambda>x. x = b64_pad) (b64encode rest))"
    using b64encode_not_all_pad [of rest] "4.prems" by auto
  with 4 show ?case
    by (auto simp add: is_byte_def b64_group_encode)
qed (simp_all add: is_byte_def b64_group_encode1 b64_group_encode2)

lemma div3_step: "(n + 5) div 3 = Suc ((n + 2) div (3::nat))"
  by simp

lemma length_b64encode: "length (b64encode bs) = 4 * ((length bs + 2) div 3)"
proof (induction bs rule: b64encode.induct)
  case (4 x y z rest)
  have "length (x # y # z # rest) + 2 = length rest + 5" by simp
  with 4 show ?case by (simp only: div3_step) simp
qed simp_all

text \<open>A group's bytes are below 256.\<close>

lemma b64_byte_bounds:
  fixes p q r s :: nat
  assumes "p < 64" "q < 64" "r < 64" "s < 64"
  shows "p * 4 + q div 16 < 256" "q mod 16 * 16 + r div 4 < 256" "r mod 4 * 64 + s < 256"
  using assms mod_less_divisor [of 16 q] mod_less_divisor [of 4 r] by linarith+

lemma b64_group_bytes:
  assumes "b64_group a b c d = Some (bs, p)"
  shows "list_all is_byte bs" "p \<Longrightarrow> length bs < 3" "\<not> p \<Longrightarrow> length bs = 3"
  using assms b64_byte_bounds [of _ _ 0 0] b64_byte_bounds [of _ _ _ 0] b64_byte_bounds
  by (auto simp: b64_group_def is_byte_def split: option.splits if_splits dest!: b64_val_bound)

lemma b64decode_bytes: "b64decode s = Some bs \<Longrightarrow> list_all is_byte bs"
proof (induction s arbitrary: bs rule: b64decode.induct)
  case (2 a b c d rest)
  then obtain g p where "b64_group a b c d = Some (g, p)"
    by (cases "b64_group a b c d") auto
  with 2 b64_group_bytes(1) [OF this] show ?case
    by (auto split: bool.splits if_splits)
qed simp_all

text \<open>Every character of accepted base64 is in the alphabet or is padding, hence ASCII.\<close>

lemma b64_val_ascii: "b64_val c = Some n \<Longrightarrow> ord c < 128"
  by (auto simp: b64_val_def is_upper_def is_lower_def is_digit_def ord_def split: if_splits)

lemma b64_pad_ascii: "ord b64_pad < 128"
  by (simp add: b64_pad_def ord_def)

lemma b64_group_ascii:
  "b64_group a b c d = Some r \<Longrightarrow> ord a < 128 \<and> ord b < 128 \<and> ord c < 128 \<and> ord d < 128"
  by (auto simp: b64_group_def b64_pad_ascii split: option.splits if_splits dest: b64_val_ascii)

lemma b64decode_ascii: "b64decode s = Some bs \<Longrightarrow> x \<in> set s \<Longrightarrow> ord x < 128"
proof (induction s arbitrary: bs rule: b64decode.induct)
  case (2 a b c d rest)
  then obtain g p where g: "b64_group a b c d = Some (g, p)"
    by (cases "b64_group a b c d") auto
  show ?case
  proof (cases "x \<in> {a, b, c, d}")
    case True
    with b64_group_ascii [OF g] show ?thesis by blast
  next
    case False
    then have x: "x \<in> set rest" using 2 by auto
    show ?thesis
    proof (cases "rest \<noteq> [] \<and> list_all (\<lambda>x. x = b64_pad) rest")
      case True
      with x b64_pad_ascii show ?thesis by (auto simp: list_all_iff)
    next
      case False
      with 2 g x show ?thesis by (auto split: bool.splits if_splits)
    qed
  qed
qed simp_all

end
