(* ===== verification/Router.thy ===== *)
theory Router
  imports RateLimit Base64
begin

text \<open>
  \<open>relay/router.py\<close>: the message handlers of the relay and \<open>dispatch\<close>. Every handler
  is a coroutine over the relay's world, with the checks, early returns, awaits and
  state changes of the source in their order. \<open>c\<close> is the connection's WebSocket
  (and index of its context), \<open>uid\<close> the uuid drawn should the handler reach a rate
  limiter.
\<close>

section \<open>Validators\<close>

definition session_id_re :: "string \<Rightarrow> bool" where
  "session_id_re s \<longleftrightarrow>
     take 5 s = ''sess-'' \<and> 1 \<le> length (drop 5 s) \<and> length (drop 5 s) \<le> 64 \<and> list_all url_safe_char (drop 5 s)"

definition device_id_re :: "string \<Rightarrow> bool" where
  "device_id_re s \<longleftrightarrow> take 4 s = ''dev-'' \<and> length (drop 4 s) = 32 \<and> list_all hex_char (drop 4 s)"

definition max_hostname_chars :: nat where
  "max_hostname_chars = 255"

fun role_types :: "role \<Rightarrow> string list" where
  "role_types Agent =
     [''pair_init'', ''pair_complete'', ''resume_init'', ''resume_challenge'', ''resume_complete'',
      ''device_credential'', ''pty_data'', ''session_list'', ''session_close'', ''idle_alert'',
      ''port_forward_data'', ''port_forward_close'']"
| "role_types Client =
     [''pair_request'', ''resume_request'', ''resume_proof'', ''pty_input'', ''session_open'',
      ''session_resize'', ''session_close'', ''port_forward_request'', ''port_forward_data'',
      ''port_forward_close'']"

definition valid_base64_size :: "json \<Rightarrow> nat \<Rightarrow> bool" where
  "valid_base64_size value n \<longleftrightarrow>
     is_str value \<and> (case b64decode (as_str value) of None \<Rightarrow> False | Some bs \<Rightarrow> length bs = n)"

definition valid_session_id :: "json \<Rightarrow> bool" where
  "valid_session_id value \<longleftrightarrow> is_str value \<and> session_id_re (as_str value)"

definition valid_hostname :: "json \<Rightarrow> bool" where
  "valid_hostname value \<longleftrightarrow>
     is_str value \<and> length (as_str value) \<le> max_hostname_chars \<and> \<not> list_ex control_char (as_str value)"

section \<open>Helpers\<close>

definition payload_get :: "envelope \<Rightarrow> string \<Rightarrow> json" where
  "payload_get e k = dict_get (e_payload e) k (JStr [])"

text \<open>\<open>payload.get(k)\<close> with its default \<open>None\<close>.\<close>

definition payload_get_none :: "envelope \<Rightarrow> string \<Rightarrow> json" where
  "payload_get_none e k = dict_get (e_payload e) k JNull"

definition my_ctx :: "ws \<Rightarrow> ('db, ctx) relay_co" where
  "my_ctx c = gets (\<lambda>w. w_ctx w c)"

definition set_deadline :: "ws \<Rightarrow> int \<Rightarrow> ('db, unit) relay_co" where
  "set_deadline c seconds =
     bnd (gets w_mono) (\<lambda>now. upd_ctx c (\<lambda>x. x\<lparr>c_deadline := Some (now + seconds * 1000)\<rparr>))"

definition bind_session :: "ws \<Rightarrow> string option \<Rightarrow> ('db, unit) relay_co" where
  "bind_session c sid = upd_ctx c (\<lambda>x. x\<lparr>c_session_id := sid\<rparr>)"

definition log_msg :: "string \<Rightarrow> string \<Rightarrow> string \<Rightarrow> nat option \<Rightarrow> string \<Rightarrow> ('db, unit) relay_co" where
  "log_msg event sid ty n ip = log_event event (Some sid) (Some ty) n (Some ip) None"

text \<open>A field of a slot object, read at the time of the call; sending to \<open>None\<close> raises.\<close>

definition send_to_slot_agent :: "slot_ref \<Rightarrow> envelope \<Rightarrow> ('db, unit) relay_co" where
  "send_to_slot_agent ref e =
     bnd (gets (\<lambda>w. s_agent (r_heap (w_reg w) ref))) (\<lambda>a.
     (case a of
        None \<Rightarrow> raise (AttributeError ''NoneType object has no attribute send_text'')
      | Some x \<Rightarrow> send_envelope x e))"

definition field_or_key_error :: "(string \<times> string) list \<Rightarrow> string \<Rightarrow> ('db, string) relay_co" where
  "field_or_key_error fs k = (case map_of fs k of None \<Rightarrow> raise (KeyError k) | Some v \<Rightarrow> ret v)"

section \<open>Pairing\<close>

text \<open>The body of the \<open>try\<close> in \<open>handle_pair_init\<close>: limiter, token, session record.\<close>

definition pair_init_register ::
  "'db deps \<Rightarrow> config \<Rightarrow> string \<Rightarrow> ws \<Rightarrow> json \<Rightarrow> string \<Rightarrow> string \<Rightarrow> string \<Rightarrow> ('db, unit) relay_co" where
  "pair_init_register D cfg uid c token agent_pubkey sid agent_hostname =
     bnd (my_ctx c) (\<lambda>x.
     block [
       check_ip_rate_limit D cfg uid (c_peer_ip x),
       sync (\<lambda>w. (validate_token_format token cfg, w)),
       issue_token D cfg token agent_pubkey sid agent_hostname,
       bnd (attempt (create_session_record D cfg sid)) (\<lambda>r.
         (case r of
            Inr _ \<Rightarrow> skip
          | Inl e \<Rightarrow> bnd (delete_token D (as_str token)) (\<lambda>_. raise e)))])"

definition handle_pair_init ::
  "'db deps \<Rightarrow> config \<Rightarrow> string \<Rightarrow> ws \<Rightarrow> envelope \<Rightarrow> ('db, unit) relay_co" where
  "handle_pair_init D cfg uid c e =
     bnd (my_ctx c) (\<lambda>x.
     if c_role x \<noteq> Agent then
       send_error c ''protocol_error'' ''pair_init only valid on the agent connection''
     else if c_session_id x \<noteq> None then
       send_error c ''protocol_error'' ''connection is already bound to a session''
     else
     (let token = payload_get e ''token''; agent_pubkey = payload_get e ''agent_pubkey'';
          session_id = payload_get e ''session_id''; agent_hostname = payload_get e ''agent_hostname''
      in
     if \<not> truthy session_id then
       send_error c ''protocol_error'' ''pair_init.payload.session_id is required''
     else if \<not> valid_session_id session_id then
       send_error c ''protocol_error'' ''session_id must be sess- followed by 1-64 url-safe characters''
     else if \<not> valid_base64_size agent_pubkey 32 then
       send_error c ''protocol_error'' ''agent_pubkey must be standard base64 encoding of 32 bytes''
     else if \<not> valid_hostname agent_hostname then
       send_error c ''protocol_error'' ''agent_hostname is invalid''
     else
     (let sid = as_str session_id in
     bnd (attempt (bnd (reg_op (attach sid Agent c)) (\<lambda>ref. reg_upd (set_phase ref Pairing)))) (\<lambda>r.
     (case r of
        Inl _ \<Rightarrow> send_error c ''session_conflict'' ''session_id is already connected''
      | Inr _ \<Rightarrow>
          bnd (bind_session c (Some sid)) (\<lambda>_.
          bnd (attempt (pair_init_register D cfg uid c token (as_str agent_pubkey) sid (as_str agent_hostname))) (\<lambda>r2.
          (case r2 of
             Inl err \<Rightarrow> block [reg_upd (detach sid Agent), bind_session c None, raise err]
           | Inr _ \<Rightarrow>
               block [
                 set_deadline c (pairing_token_ttl_s cfg),
                 log_msg ''pair_init'' sid ''pair_init'' None (c_peer_ip x),
                 send_envelope c (make_envelope ''pair_init_ack'' (Some sid) 0 (e_ts e) [])]))))))))"

definition handle_pair_request ::
  "'db deps \<Rightarrow> config \<Rightarrow> string \<Rightarrow> ws \<Rightarrow> envelope \<Rightarrow> ('db, unit) relay_co" where
  "handle_pair_request D cfg uid c e =
     bnd (my_ctx c) (\<lambda>x.
     if c_role x \<noteq> Client then
       send_error c ''protocol_error'' ''pair_request only valid on the client connection''
     else if c_session_id x \<noteq> None then
       send_error c ''protocol_error'' ''connection is already bound to a session''
     else
     (let token = payload_get e ''token''; client_pubkey = payload_get e ''client_pubkey'';
          client_proof = payload_get e ''client_proof''
      in
     if \<not> truthy client_pubkey \<or> \<not> truthy client_proof then
       send_error c ''protocol_error'' ''pair_request requires client_pubkey and client_proof''
     else if \<not> valid_base64_size client_pubkey 32 \<or> \<not> valid_base64_size client_proof 32 then
       send_error c ''protocol_error'' ''client_pubkey and client_proof must each encode exactly 32 bytes''
     else
       bnd (sync (\<lambda>w. (validate_token_format token cfg, w))) (\<lambda>_.
       bnd (check_ip_rate_limit D cfg uid (c_peer_ip x)) (\<lambda>_.
       bnd (check_token_rate_limit D cfg (as_str token)) (\<lambda>_.
       bnd (consume_token D (as_str token)) (\<lambda>fs.
       bnd (field_or_key_error fs ''session_id'') (\<lambda>sid.
       bnd (field_or_key_error fs ''agent_pubkey'') (\<lambda>agent_pubkey.
       (let agent_hostname = dict_get fs ''agent_hostname'' [] in
       bnd (gets (\<lambda>w. (slot_ref_of sid (w_reg w), get_slot sid (w_reg w)))) (\<lambda>(ref, slot).
       (case (ref, slot) of
          (Some ref, Some s) \<Rightarrow>
            (if s_agent s = None then
               send_error c ''session_not_found'' ''agent for this session is no longer connected''
             else
             bnd (attempt (reg_op (attach sid Client c))) (\<lambda>r.
             (case r of
                Inl _ \<Rightarrow> send_error c ''session_conflict'' ''client is already connected for this session''
              | Inr _ \<Rightarrow>
                  block [
                    bind_session c (Some sid),
                    set_deadline c (handshake_timeout_s cfg),
                    set_session_state D sid ''handshaking'',
                    send_envelope c (make_envelope ''pair_challenge'' (Some sid) 0 (e_ts e)
                      [(''peer_pubkey'', JStr agent_pubkey), (''agent_hostname'', JStr agent_hostname)]),
                    send_to_slot_agent ref (make_envelope ''pair_challenge'' (Some sid) 0 (e_ts e)
                      [(''peer_pubkey'', client_pubkey), (''client_proof'', client_proof)]),
                    log_msg ''pair_challenge_sent'' sid ''pair_challenge'' None (c_peer_ip x)])))
        | _ \<Rightarrow> send_error c ''session_not_found'' ''agent for this session is no longer connected'')))))))))))"

definition handle_pair_complete ::
  "'db deps \<Rightarrow> config \<Rightarrow> string \<Rightarrow> ws \<Rightarrow> envelope \<Rightarrow> ('db, unit) relay_co" where
  "handle_pair_complete D cfg uid c e =
     bnd (my_ctx c) (\<lambda>x.
     (case c_session_id x of
        None \<Rightarrow> send_error c ''protocol_error'' ''pair_complete requires an established session_id''
      | Some sid \<Rightarrow>
     if c_role x \<noteq> Agent then
       send_error c ''protocol_error'' ''pair_complete is only valid from the agent''
     else if e_session_id e \<noteq> Some sid then
       send_error c ''session_mismatch'' ''envelope session_id does not match this connection''
     else if \<not> truthy (payload_get_none e ''agent_proof'') then
       send_error c ''protocol_error'' ''pair_complete requires agent_proof''
     else if \<not> valid_base64_size (payload_get_none e ''agent_proof'') 32 then
       send_error c ''protocol_error'' ''agent_proof must encode exactly 32 bytes''
     else
     bnd (gets (\<lambda>w. (get_peer sid (c_role x) (w_reg w), slot_ref_of sid (w_reg w)))) (\<lambda>(peer_ws, ref).
     (case peer_ws of
        None \<Rightarrow> send_error c ''session_not_found'' ''peer is not connected''
      | Some peer \<Rightarrow>
          block [
            (case ref of None \<Rightarrow> skip | Some ref \<Rightarrow> reg_upd (set_phase ref Established)),
            send_envelope peer e,
            mark_session_established D sid,
            log_msg ''pair_complete'' sid ''pair_complete'' None (c_peer_ip x)]))))"

section \<open>Resuming\<close>

definition handle_resume_init ::
  "'db deps \<Rightarrow> config \<Rightarrow> string \<Rightarrow> ws \<Rightarrow> envelope \<Rightarrow> ('db, unit) relay_co" where
  "handle_resume_init D cfg uid c e =
     bnd (my_ctx c) (\<lambda>x.
     if c_role x \<noteq> Agent \<or> c_session_id x \<noteq> None then
       send_error c ''protocol_error'' ''resume_init requires an unbound agent connection''
     else
     (let session_id = payload_get e ''session_id''; device_id = payload_get e ''device_id'';
          agent_pubkey = payload_get e ''agent_pubkey''; agent_hostname = payload_get e ''agent_hostname''
      in
     if \<not> valid_session_id session_id \<or> \<not> is_str device_id \<or> \<not> device_id_re (as_str device_id) then
       send_error c ''protocol_error'' ''invalid resume session_id or device_id''
     else if \<not> valid_base64_size agent_pubkey 32 then
       send_error c ''protocol_error'' ''agent_pubkey must encode exactly 32 bytes''
     else if \<not> valid_hostname agent_hostname then
       send_error c ''protocol_error'' ''agent_hostname is invalid''
     else
     (let sid = as_str session_id in
     bnd (attempt (bnd (reg_op (attach sid Agent c)) (\<lambda>ref.
                   bnd (reg_upd (set_phase ref WaitingResume)) (\<lambda>_.
                   reg_op (register_device (as_str device_id) sid))))) (\<lambda>r.
     (case r of
        Inl _ \<Rightarrow>
          block [
            reg_upd (detach sid Agent),
            send_error c ''session_conflict'' ''device or session is already connected'']
      | Inr _ \<Rightarrow>
          block [
            bind_session c (Some sid),
            send_envelope c (make_envelope ''resume_init_ack'' (Some sid) 0 (e_ts e) [])])))))"

definition handle_resume_request ::
  "'db deps \<Rightarrow> config \<Rightarrow> string \<Rightarrow> ws \<Rightarrow> envelope \<Rightarrow> ('db, unit) relay_co" where
  "handle_resume_request D cfg uid c e =
     bnd (my_ctx c) (\<lambda>x.
     if c_role x \<noteq> Client \<or> c_session_id x \<noteq> None then
       send_error c ''protocol_error'' ''resume_request requires an unbound client connection''
     else
     (let device_id = payload_get e ''device_id'' in
     if \<not> is_str device_id \<or> \<not> device_id_re (as_str device_id) then
       send_error c ''protocol_error'' ''invalid device_id''
     else
       bnd (check_ip_rate_limit D cfg uid (c_peer_ip x)) (\<lambda>_.
       bnd (check_token_rate_limit D cfg (''resume-'' @ as_str device_id)) (\<lambda>_.
       bnd (gets (\<lambda>w. case session_for_device (as_str device_id) (w_reg w) of
                 None \<Rightarrow> (None, None)
               | Some sid \<Rightarrow> (Some sid, if sid = [] then None else get_slot sid (w_reg w)))) (\<lambda>(sid_opt, slot).
       (case (sid_opt, slot) of
          (Some sid, Some s) \<Rightarrow>
            (if s_agent s = None then
               send_error c ''device_offline'' ''saved device is not currently connected''
             else
             bnd (attempt (reg_op (attach sid Client c))) (\<lambda>r.
             (case r of
                Inl _ \<Rightarrow> send_error c ''session_conflict'' ''device already has a connected client''
              | Inr ref \<Rightarrow>
                  block [
                    bind_session c (Some sid),
                    set_deadline c (handshake_timeout_s cfg),
                    reg_upd (set_phase ref Resuming),
                    send_to_slot_agent ref (make_envelope ''resume_request'' (Some sid) 0 (e_ts e) [])])))
        | _ \<Rightarrow> send_error c ''device_offline'' ''saved device is not currently connected''))))))"

definition handle_resume_proof ::
  "'db deps \<Rightarrow> config \<Rightarrow> string \<Rightarrow> ws \<Rightarrow> envelope \<Rightarrow> ('db, unit) relay_co" where
  "handle_resume_proof D cfg uid c e =
     bnd (my_ctx c) (\<lambda>x.
     (case c_session_id x of
        None \<Rightarrow> send_error c ''protocol_error'' ''resume_proof requires the bound client session''
      | Some sid \<Rightarrow>
     if c_role x \<noteq> Client \<or> e_session_id e \<noteq> Some sid then
       send_error c ''protocol_error'' ''resume_proof requires the bound client session''
     else if \<not> valid_base64_size (payload_get_none e ''client_pubkey'') 32
           \<or> \<not> valid_base64_size (payload_get_none e ''client_proof'') 32 then
       send_error c ''protocol_error'' ''resume key and proof must each encode 32 bytes''
     else
     bnd (gets (\<lambda>w. get_peer sid Client (w_reg w))) (\<lambda>peer.
     (case peer of
        None \<Rightarrow> send_error c ''device_offline'' ''saved device disconnected''
      | Some p \<Rightarrow> send_envelope p e))))"

definition handle_resume_challenge ::
  "'db deps \<Rightarrow> config \<Rightarrow> string \<Rightarrow> ws \<Rightarrow> envelope \<Rightarrow> ('db, unit) relay_co" where
  "handle_resume_challenge D cfg uid c e =
     bnd (my_ctx c) (\<lambda>x.
     (case c_session_id x of
        None \<Rightarrow> send_error c ''protocol_error'' ''resume_challenge requires the bound agent session''
      | Some sid \<Rightarrow>
     if c_role x \<noteq> Agent \<or> e_session_id e \<noteq> Some sid then
       send_error c ''protocol_error'' ''resume_challenge requires the bound agent session''
     else if \<not> valid_base64_size (payload_get_none e ''agent_pubkey'') 32 then
       send_error c ''protocol_error'' ''agent_pubkey must encode 32 bytes''
     else
     bnd (gets (\<lambda>w. get_peer sid Agent (w_reg w))) (\<lambda>peer.
     (case peer of
        None \<Rightarrow> send_error c ''session_not_found'' ''client disconnected''
      | Some p \<Rightarrow> block [set_deadline c (handshake_timeout_s cfg), send_envelope p e]))))"

definition handle_resume_complete ::
  "'db deps \<Rightarrow> config \<Rightarrow> string \<Rightarrow> ws \<Rightarrow> envelope \<Rightarrow> ('db, unit) relay_co" where
  "handle_resume_complete D cfg uid c e =
     bnd (my_ctx c) (\<lambda>x.
     (case c_session_id x of
        None \<Rightarrow> send_error c ''protocol_error'' ''resume_complete requires the bound agent session''
      | Some sid \<Rightarrow>
     if c_role x \<noteq> Agent \<or> e_session_id e \<noteq> Some sid then
       send_error c ''protocol_error'' ''resume_complete requires the bound agent session''
     else if \<not> valid_base64_size (payload_get_none e ''agent_proof'') 32 then
       send_error c ''protocol_error'' ''agent_proof must encode 32 bytes''
     else
     bnd (gets (\<lambda>w. (get_peer sid Agent (w_reg w), slot_ref_of sid (w_reg w)))) (\<lambda>(peer, ref).
     (case peer of
        None \<Rightarrow> send_error c ''session_not_found'' ''client disconnected''
      | Some p \<Rightarrow>
          block [
            (case ref of None \<Rightarrow> skip | Some ref \<Rightarrow> reg_upd (set_phase ref Established)),
            send_envelope p e]))))"

section \<open>Routing and teardown\<close>

definition teardown_session :: "'db deps \<Rightarrow> ws \<Rightarrow> string \<Rightarrow> ('db, unit) relay_co" where
  "teardown_session D c sid =
     bnd (my_ctx c) (\<lambda>x. block [
       reg_upd (remove sid),
       delete_session_record D sid,
       log_msg ''session_closed'' sid ''session_close'' None (c_peer_ip x)])"

definition handle_routable :: "'db deps \<Rightarrow> ws \<Rightarrow> envelope \<Rightarrow> ('db, unit) relay_co" where
  "handle_routable D c e =
     bnd (my_ctx c) (\<lambda>x.
     (case c_session_id x of
        None \<Rightarrow> send_error c ''protocol_error'' (e_type e @ '' requires session_id'')
      | Some sid \<Rightarrow>
     if e_session_id e \<noteq> Some sid then
       send_error c ''session_mismatch'' ''envelope session_id does not match this connection''
     else
     bnd (gets (\<lambda>w. (get_slot sid (w_reg w), get_peer sid (c_role x) (w_reg w)))) (\<lambda>(slot, peer).
     if (case slot of None \<Rightarrow> True | Some s \<Rightarrow> s_phase s \<noteq> Established) then
       send_error c ''handshake_incomplete'' ''session traffic requires authentication''
     else
     (case peer of
        None \<Rightarrow> send_error c ''session_not_found'' ''peer is not connected''
      | Some p \<Rightarrow>
          block [
            send_envelope p e,
            log_msg ''routed'' sid (e_type e) (Some (length (d_dump D e))) (c_peer_ip x),
            (if e_type e = ''session_close'' then teardown_session D c sid else skip)]))))"

section \<open>Dispatch\<close>

definition handler_for ::
  "'db deps \<Rightarrow> config \<Rightarrow> string \<Rightarrow> ws \<Rightarrow> envelope \<Rightarrow> ('db, unit) relay_co option" where
  "handler_for D cfg uid c e = map_of
     [(''pair_init'', handle_pair_init D cfg uid c e),
      (''pair_request'', handle_pair_request D cfg uid c e),
      (''pair_complete'', handle_pair_complete D cfg uid c e),
      (''resume_init'', handle_resume_init D cfg uid c e),
      (''resume_request'', handle_resume_request D cfg uid c e),
      (''resume_challenge'', handle_resume_challenge D cfg uid c e),
      (''resume_proof'', handle_resume_proof D cfg uid c e),
      (''resume_complete'', handle_resume_complete D cfg uid c e)] (e_type e)"

text \<open>The exception handlers around a handler call; other exceptions propagate.\<close>

definition on_handler_error :: "ws \<Rightarrow> relay_exn \<Rightarrow> ('db, unit) relay_co" where
  "on_handler_error c exc =
     (case exc of
        TokenNotFound m \<Rightarrow> send_error c ''token_invalid'' (str_exc exc)
      | TokenAlreadyUsed m \<Rightarrow> send_error c ''token_invalid'' (str_exc exc)
      | TokenInvalid m \<Rightarrow> send_error c ''token_invalid'' (str_exc exc)
      | _ \<Rightarrow> if is_relay_error exc then send_error c ''rate_limited'' (str_exc exc) else raise exc)"

definition dispatch ::
  "'db deps \<Rightarrow> config \<Rightarrow> string \<Rightarrow> ws \<Rightarrow> envelope \<Rightarrow> ('db, unit) relay_co" where
  "dispatch D cfg uid c e =
     bnd (my_ctx c) (\<lambda>x.
     if e_type e \<notin> set (role_types (c_role x)) then
       send_error c ''protocol_error''
         (e_type e @ '' is not valid from the '' @ role_name (c_role x) @ '' role'')
     else
     (case handler_for D cfg uid c e of
        Some h \<Rightarrow>
          bnd (attempt h) (\<lambda>r. (case r of Inr _ \<Rightarrow> skip | Inl exc \<Rightarrow> on_handler_error c exc))
      | None \<Rightarrow>
          if e_type e \<in> set ROUTABLE_TYPES then handle_routable D c e
          else send_error c ''unknown_type'' (''unrecognized message type: '' @ e_type e)))"

end
