(* ===== verification/Scheduler.thy ===== *)
theory Scheduler
  imports Prelude
begin

text \<open>
  Tasks under cooperative scheduling. A task is absent, ready (waiting for its next
  input, with a value that describes the wait), busy (suspended at an await, with the
  continuation to run when it is resumed) or gone. Starting or resuming a task runs
  one segment, up to the next await.

  The locale \<open>rely_guarantee\<close> proves once that tasks whose coroutines are \<open>safe\<close>
  keep the invariant together, however their segments interleave.
\<close>

datatype ('e, 'w, 'a) task =
    Absent
  | Ready 'a
  | Busy "'w \<Rightarrow> ('e, 'w, 'a option) outcome"
  | Gone

text \<open>
  The task after a segment: a coroutine that returns \<open>Some a\<close> waits for its next
  input, one that returns \<open>None\<close> or raises has ended.
\<close>

fun settle :: "('e, 'w, 'a option) outcome \<Rightarrow> 'w \<times> ('e, 'w, 'a) task" where
  "settle (Done (Inr (Some a)) w) = (w, Ready a)"
| "settle (Done (Inr None) w) = (w, Gone)"
| "settle (Done (Inl e) w) = (w, Gone)"
| "settle (Susp w k) = (w, Busy k)"

locale rely_guarantee =
  fixes I :: "'w \<Rightarrow> bool"
    and G :: "'c \<Rightarrow> 'w \<Rightarrow> 'w \<Rightarrow> bool"
    and R :: "'c \<Rightarrow> 'w \<Rightarrow> 'w \<Rightarrow> bool"
    and E :: "'w \<Rightarrow> 'w \<Rightarrow> bool"
    and A :: "'c \<Rightarrow> 'w \<Rightarrow> bool"
    and Q :: "'c \<Rightarrow> 'e + 'a option \<Rightarrow> 'w \<Rightarrow> bool"
  assumes rely_trans: "R c w1 w2 \<Longrightarrow> R c w2 w3 \<Longrightarrow> R c w1 w3"
    and rely_refl: "R c w w"
    and guarantee_rely: "I w \<Longrightarrow> G c w w' \<Longrightarrow> c' \<noteq> c \<Longrightarrow> R c' w w'"
    and env_rely: "E w w' \<Longrightarrow> R c w w'"
    and env_inv: "I w \<Longrightarrow> E w w' \<Longrightarrow> I w'"
    and absent_stable: "A c w \<Longrightarrow> R c w w' \<Longrightarrow> A c w'"
begin

text \<open>What is known about each task in the current world.\<close>

primrec task_ok :: "'c \<Rightarrow> 'w \<Rightarrow> ('e, 'w, 'a) task \<Rightarrow> bool" where
  "task_ok c w Absent = A c w"
| "task_ok c w (Ready a) = (\<exists>w0. R c w0 w \<and> Q c (Inr (Some a)) w0)"
| "task_ok c w (Busy k) =
     (\<exists>w0. R c w0 w \<and> (\<forall>w1. I w1 \<longrightarrow> R c w0 w1 \<longrightarrow> safe I (R c) (G c) (Q c) (k w1) w1))"
| "task_ok c w Gone = (\<exists>w0 r. R c w0 w \<and> (\<forall>a. r \<noteq> Inr (Some a)) \<and> Q c r w0)"

definition all_ok :: "'w \<Rightarrow> ('c \<Rightarrow> ('e, 'w, 'a) task) \<Rightarrow> bool" where
  "all_ok w ts \<longleftrightarrow> I w \<and> (\<forall>c. task_ok c w (ts c))"

lemma task_ok_rely: "task_ok c w t \<Longrightarrow> R c w w' \<Longrightarrow> task_ok c w' t"
  by (cases t) (auto intro: rely_trans absent_stable)

lemma settle_ok:
  assumes "safe I (R c) (G c) (Q c) out w0" "settle out = (w, t)"
  shows "I w" "G c w0 w" "task_ok c w t"
  using assms rely_refl [of c w] by (induction out rule: settle.induct) (auto 0 4)

text \<open>A segment of one task keeps everything that is known about all tasks.\<close>

lemma segment_ok:
  assumes ok: "all_ok w ts" and s: "safe I (R c) (G c) (Q c) out w" and st: "settle out = (w', t)"
  shows "all_ok w' (ts(c := t))" and "G c w w'"
proof -
  note so = settle_ok [OF s st]
  have "task_ok c' w' (ts c')" if "c' \<noteq> c" for c'
    using ok guarantee_rely [OF _ so(2) that] by (auto simp: all_ok_def intro: task_ok_rely)
  then show "all_ok w' (ts(c := t))" and "G c w w'"
    using so by (auto simp: all_ok_def)
qed

lemma resume_ok:
  assumes ok: "all_ok w ts" and b: "ts c = Busy k" and st: "settle (k w) = (w', t)"
  shows "all_ok w' (ts(c := t))" and "G c w w'"
proof -
  have "task_ok c w (Busy k)" and "I w" using ok b by (auto simp: all_ok_def dest: spec [of _ c])
  then have s: "safe I (R c) (G c) (Q c) (k w) w" by auto
  show "all_ok w' (ts(c := t))" and "G c w w'"
    by (rule segment_ok [OF ok s st])+
qed

lemma environment_ok: "all_ok w ts \<Longrightarrow> E w w' \<Longrightarrow> all_ok w' ts"
  by (auto simp: all_ok_def intro: env_inv task_ok_rely env_rely)

end

end
