(* ===== verification/WsHandlers.thy ===== *)
theory WsHandlers
  imports Router Scheduler
begin

text \<open>
  \<open>relay/ws_handlers.py\<close>: the life of a WebSocket connection. The loop of \<open>_ws_loop\<close>
  is cut at its only blocking read: \<open>ws_open\<close> runs from the upgrade request to the
  first read, \<open>ws_frame\<close>, \<open>ws_timeout\<close> and \<open>ws_receive_error\<close> from a read's
  outcome to the next read. Each returns \<open>Some timeout\<close> (the argument of the next
  \<open>wait_for\<close>, itself optional) or \<open>None\<close> when the function returns.
\<close>

section \<open>The upgrade request\<close>

record upgrade =
  q_role :: role
  q_host :: "string option"
  q_origin :: "string option"
  q_forwarded :: "string option"

definition client_ip :: "string option \<Rightarrow> string option \<Rightarrow> string list \<Rightarrow> string" where
  "client_ip host forwarded trusted =
     (let peer = (case host of Some h \<Rightarrow> h | None \<Rightarrow> ''unknown'') in
      if peer \<in> set trusted then
        (case forwarded of
           None \<Rightarrow> peer
         | Some f \<Rightarrow>
             (if f = [] then peer
              else (let candidate = strip (last (split_on (CHR '','') f))
                    in if candidate \<noteq> [] then candidate else peer)))
      else peer)"

definition origin_refused :: "config \<Rightarrow> upgrade \<Rightarrow> bool" where
  "origin_refused cfg q \<longleftrightarrow>
     q_role q = Client \<and>
     (case q_origin q of
        None \<Rightarrow> False
      | Some origin \<Rightarrow> rstrip (\<lambda>ch. ch = CHR ''/'') origin \<notin> set (client_origins cfg))"

section \<open>Disconnecting\<close>

definition disconnect_notice :: "string \<Rightarrow> envelope" where
  "disconnect_notice sid =
     make_envelope ''session_close'' (Some sid) 0 0 [(''reason'', JStr ''peer_disconnected'')]"

definition handle_disconnect :: "'db deps \<Rightarrow> ws \<Rightarrow> ('db, unit) relay_co" where
  "handle_disconnect D c =
     bnd (my_ctx c) (\<lambda>x.
     (case c_session_id x of
        None \<Rightarrow> skip
      | Some sid \<Rightarrow>
          bnd (gets (\<lambda>w. get_peer sid (c_role x) (w_reg w))) (\<lambda>peer_ws.
          bnd (reg_upd (detach sid (c_role x))) (\<lambda>_.
          bnd (gets (\<lambda>w. case peer_ws of None \<Rightarrow> None | Some p \<Rightarrow> if w_connected w p then Some p else None)) (\<lambda>open_peer.
          bnd (case open_peer of
                 None \<Rightarrow> skip
               | Some p \<Rightarrow> bnd (attempt (send_envelope p (disconnect_notice sid))) (\<lambda>_. skip)) (\<lambda>_.
          teardown_session D c sid))))))"

definition ws_finally :: "'db deps \<Rightarrow> ws \<Rightarrow> ('db, unit) relay_co" where
  "ws_finally D c =
     bnd (my_ctx c) (\<lambda>x.
     bnd (modify (\<lambda>w. w\<lparr>w_limiter := release_conn (c_peer_ip x) (w_limiter w)\<rparr>)) (\<lambda>_.
     handle_disconnect D c))"

text \<open>The \<open>try ... except WebSocketDisconnect: pass ... finally\<close> around the loop.\<close>

definition ws_guard :: "'db deps \<Rightarrow> ws \<Rightarrow> ('db, int option option) relay_co \<Rightarrow> ('db, int option option) relay_co" where
  "ws_guard D c m =
     bnd (attempt m) (\<lambda>r.
     (case r of
        Inr (Some timeout) \<Rightarrow> ret (Some timeout)
      | Inr None \<Rightarrow> bnd (ws_finally D c) (\<lambda>_. ret None)
      | Inl exc \<Rightarrow>
          bnd (ws_finally D c) (\<lambda>_. if exc = SendFailed then ret None else raise exc)))"

section \<open>The loop\<close>

text \<open>The top of the loop: the timeout of the next read, \<open>None\<close> in the exempt phases.\<close>

definition exempt_phase :: "registry \<Rightarrow> string option \<Rightarrow> bool" where
  "exempt_phase rg sid_opt =
     (case sid_opt of
        None \<Rightarrow> False
      | Some sid \<Rightarrow>
          (case get_slot sid rg of
             None \<Rightarrow> False
           | Some s \<Rightarrow> s_phase s = Established \<or> s_phase s = WaitingResume))"

definition ws_arm :: "config \<Rightarrow> ws \<Rightarrow> ('db, int option option) relay_co" where
  "ws_arm cfg c =
     bnd (my_ctx c) (\<lambda>x.
     bnd (case c_deadline x of None \<Rightarrow> set_deadline c (handshake_timeout_s cfg) | Some _ \<Rightarrow> skip) (\<lambda>_.
     gets (\<lambda>w.
       (let timeout = (case c_deadline (w_ctx w c) of None \<Rightarrow> 0 | Some d \<Rightarrow> max (d - w_mono w) 0)
        in Some (if exempt_phase (w_reg w) (c_session_id (w_ctx w c)) then None else Some timeout)))))"

text \<open>\<open>websocket.accept()\<close>; a client that is already gone makes it raise.\<close>

definition accept_ws :: "ws \<Rightarrow> ('db, unit) relay_co" where
  "accept_ws c =
     bnd pause (\<lambda>_.
     bnd (gets (\<lambda>w. w_sendable w c)) (\<lambda>ok.
     if ok then modify (\<lambda>w. w\<lparr>w_connected := (w_connected w)(c := True)\<rparr>) else raise SendFailed))"

definition ws_open :: "'db deps \<Rightarrow> config \<Rightarrow> ws \<Rightarrow> upgrade \<Rightarrow> ('db, int option option) relay_co" where
  "ws_open D cfg c q =
     (if origin_refused cfg q then bnd (close_ws c ''origin not allowed'') (\<lambda>_. ret None)
      else
     (let peer_ip = client_ip (q_host q) (q_forwarded q) (trusted_proxy_ips cfg) in
      bnd (sync (\<lambda>w. case try_acquire peer_ip (max_connections_per_ip cfg) (w_limiter w) of
                      (ok, l) \<Rightarrow> (Inr ok, w\<lparr>w_limiter := l\<rparr>))) (\<lambda>ok.
      if \<not> ok then bnd (close_ws c ''too many connections from this address'') (\<lambda>_. ret None)
      else
        bnd (upd_ctx c (\<lambda>_. new_ctx (q_role q) peer_ip)) (\<lambda>_.
        ws_guard D c (bnd (accept_ws c) (\<lambda>_. ws_arm cfg c))))))"

text \<open>One received text frame.\<close>

definition ws_frame ::
  "'db deps \<Rightarrow> config \<Rightarrow> string \<Rightarrow> ws \<Rightarrow> string \<Rightarrow> ('db, int option option) relay_co" where
  "ws_frame D cfg uid c raw =
     ws_guard D c (bnd (my_ctx c) (\<lambda>x.
     (case parse_envelope (d_loads D) (WText raw) (max_envelope_bytes cfg) (protocol_version cfg) of
        Inl exc \<Rightarrow>
          bnd (log_event ''envelope_rejected'' (c_session_id x) None None (Some (c_peer_ip x)) (Some (str_exc exc))) (\<lambda>_.
          bnd (close_ws c (take 120 (str_exc exc))) (\<lambda>_. ret None))
      | Inr e \<Rightarrow>
          (if e_seq e \<le> c_last_seq x then
             bnd (log_event ''sequence_rejected'' (c_session_id x) None None (Some (c_peer_ip x))
                    (Some (''non-monotonic seq '' @ str_int (e_seq e)))) (\<lambda>_.
             bnd (close_ws c ''sequence numbers must increase'') (\<lambda>_. ret None))
           else
             bnd (upd_ctx c (\<lambda>y. y\<lparr>c_last_seq := e_seq e\<rparr>)) (\<lambda>_.
             bnd (dispatch D cfg uid c e) (\<lambda>_. ws_arm cfg c))))))"

text \<open>The read timed out.\<close>

definition ws_timeout :: "'db deps \<Rightarrow> ws \<Rightarrow> ('db, int option option) relay_co" where
  "ws_timeout D c = ws_guard D c (bnd (close_ws c ''handshake timed out'') (\<lambda>_. ret None))"

text \<open>The read raised: the client disconnected, or sent a binary frame.\<close>

definition ws_receive_error :: "'db deps \<Rightarrow> ws \<Rightarrow> relay_exn \<Rightarrow> ('db, int option option) relay_co" where
  "ws_receive_error D c exc = ws_guard D c (raise exc)"

section \<open>The running relay\<close>

text \<open>
  All connections together, one task each. A waiting task holds the time at which its
  read times out. Events are executable: \<open>None\<close> when the event cannot happen.
\<close>

type_synonym 'db relay_task = "(relay_exn, 'db world, int option) task"

record 'db sys =
  sy_world :: "'db world"
  sy_task :: "ws \<Rightarrow> 'db relay_task"

datatype event =
    Connect ws upgrade
  | Frame ws string string
  | Timeout ws
  | ReceiveError ws relay_exn
  | Resume ws
  | Tick int int int
  | LinkLost ws
  | ClientState ws bool

definition segment :: "ws \<Rightarrow> (relay_exn, 'db world, int option option) outcome \<Rightarrow> 'db sys \<Rightarrow> 'db sys" where
  "segment c out s =
     (case settle out of (w, t) \<Rightarrow> \<lparr>sy_world = w, sy_task = (sy_task s)(c := t)\<rparr>)"

fun timer_due :: "int option \<Rightarrow> int \<Rightarrow> bool" where
  "timer_due None now = False"
| "timer_due (Some t) now = (t \<le> now)"

text \<open>\<open>wait_for\<close> counts from the moment of the call.\<close>

definition arm_timer :: "('db, int option option) relay_co \<Rightarrow> ('db, int option option) relay_co" where
  "arm_timer m = bnd m (\<lambda>r. bnd (gets w_mono) (\<lambda>now. ret (map_option (map_option (\<lambda>t. now + t)) r)))"

fun exec_event :: "'db deps \<Rightarrow> config \<Rightarrow> event \<Rightarrow> 'db sys \<Rightarrow> 'db sys option" where
  "exec_event D cfg (Connect c q) s =
     (case sy_task s c of
        Absent \<Rightarrow> Some (segment c (arm_timer (ws_open D cfg c q) (sy_world s)) s)
      | _ \<Rightarrow> None)"
| "exec_event D cfg (Frame c uid raw) s =
     (case sy_task s c of
        Ready t \<Rightarrow> Some (segment c (arm_timer (ws_frame D cfg uid c raw) (sy_world s)) s)
      | _ \<Rightarrow> None)"
| "exec_event D cfg (Timeout c) s =
     (case sy_task s c of
        Ready t \<Rightarrow>
          (if timer_due t (w_mono (sy_world s))
           then Some (segment c (arm_timer (ws_timeout D c) (sy_world s)) s) else None)
      | _ \<Rightarrow> None)"
| "exec_event D cfg (ReceiveError c exc) s =
     (case sy_task s c of
        Ready t \<Rightarrow> Some (segment c (arm_timer (ws_receive_error D c exc) (sy_world s)) s)
      | _ \<Rightarrow> None)"
| "exec_event D cfg (Resume c) s =
     (case sy_task s c of
        Busy k \<Rightarrow> Some (segment c (k (sy_world s)) s)
      | _ \<Rightarrow> None)"
| "exec_event D cfg (Tick dt wall redis) s =
     (if 0 \<le> dt then
        Some (s\<lparr>sy_world := (sy_world s)\<lparr>w_mono := w_mono (sy_world s) + dt, w_wall := wall, w_rtime := redis\<rparr>\<rparr>)
      else None)"
| "exec_event D cfg (LinkLost x) s =
     Some (s\<lparr>sy_world := (sy_world s)\<lparr>w_sendable := (w_sendable (sy_world s))(x := False)\<rparr>\<rparr>)"
| "exec_event D cfg (ClientState x b) s =
     Some (s\<lparr>sy_world := (sy_world s)\<lparr>w_connected := (w_connected (sy_world s))(x := b)\<rparr>\<rparr>)"

definition init_world :: "'db \<Rightarrow> 'db world" where
  "init_world db = \<lparr>w_reg = empty_registry, w_db = db, w_ctx = (\<lambda>_. new_ctx Client []), w_out = [],
     w_closed = [], w_logs = [], w_limiter = Map.empty, w_mono = 0, w_wall = 0, w_rtime = 0,
     w_sendable = (\<lambda>_. True), w_connected = (\<lambda>_. False)\<rparr>"

definition init_sys :: "'db \<Rightarrow> 'db sys" where
  "init_sys db = \<lparr>sy_world = init_world db, sy_task = (\<lambda>_. Absent)\<rparr>"

inductive reachable :: "'db deps \<Rightarrow> config \<Rightarrow> 'db sys \<Rightarrow> bool" for D cfg where
  start: "reachable D cfg (init_sys db)"
| step: "reachable D cfg s \<Longrightarrow> exec_event D cfg ev s = Some s' \<Longrightarrow> reachable D cfg s'"

text \<open>A run of events, for concrete scenarios.\<close>

fun exec_events :: "'db deps \<Rightarrow> config \<Rightarrow> event list \<Rightarrow> 'db sys \<Rightarrow> 'db sys option" where
  "exec_events D cfg [] s = Some s"
| "exec_events D cfg (ev # evs) s =
     (case exec_event D cfg ev s of None \<Rightarrow> None | Some s' \<Rightarrow> exec_events D cfg evs s')"

lemma exec_events_reachable:
  "exec_events D cfg evs s = Some s' \<Longrightarrow> reachable D cfg s \<Longrightarrow> reachable D cfg s'"
  by (induction evs arbitrary: s) (auto intro: step split: option.splits)

end
