(* ===== verification/RelaySpec.thy ===== *)
theory RelaySpec
  imports WsHandlers
begin

text \<open>
  The abstract relay: what one connection may do to the shared state, one small
  action at a time, with no control flow. \<open>delivery\<close> is the delivery policy (who may
  be sent what), \<open>act\<close> the actions, \<open>relay_inv\<close> the invariant every action keeps.
  RelayRefinement shows that every segment of every handler is a chain of actions.
\<close>

section \<open>Delivery policy\<close>

definition reply_types :: "string list" where
  "reply_types = [''error'', ''pair_init_ack'', ''resume_init_ack'', ''pair_challenge'']"

definition slot_holds :: "registry \<Rightarrow> ws \<Rightarrow> role \<Rightarrow> bool" where
  "slot_holds rg x r \<longleftrightarrow> (\<exists>ref. slot_get (r_heap rg ref) r = Some x)"

inductive delivery :: "ws \<Rightarrow> 'db world \<Rightarrow> ws \<Rightarrow> envelope \<Rightarrow> bool" for c w where
  reply: "e_type e \<in> set reply_types \<Longrightarrow> e_session_id e = c_session_id (w_ctx w c) \<Longrightarrow> delivery c w c e"
| notify: "c_role (w_ctx w c) = Client \<Longrightarrow> c_session_id (w_ctx w c) = Some sid \<Longrightarrow> slot_holds (w_reg w) x Agent \<Longrightarrow>
    e_session_id e = Some sid \<Longrightarrow> e_type e \<in> {''pair_challenge'', ''resume_request''} \<Longrightarrow> delivery c w x e"
| forward: "c_session_id (w_ctx w c) = Some sid \<Longrightarrow> get_peer sid (c_role (w_ctx w c)) (w_reg w) = Some x \<Longrightarrow>
    e_session_id e = Some sid \<Longrightarrow> e_seq e = c_last_seq (w_ctx w c) \<Longrightarrow> envelope_ok e \<Longrightarrow>
    e_type e \<in> set (role_types (c_role (w_ctx w c))) \<Longrightarrow>
    (e_type e \<in> set ROUTABLE_TYPES \<Longrightarrow> \<exists>s. get_slot sid (w_reg w) = Some s \<and> s_phase s = Established) \<Longrightarrow>
    delivery c w x e"
| notice: "c_session_id (w_ctx w c) = Some sid \<Longrightarrow> get_peer sid (c_role (w_ctx w c)) (w_reg w) = Some x \<Longrightarrow>
    e = disconnect_notice sid \<Longrightarrow> delivery c w x e"

section \<open>Actions\<close>

definition deadline_bound :: "config \<Rightarrow> int" where
  "deadline_bound cfg = 1000 * max (handshake_timeout_s cfg) (pairing_token_ttl_s cfg)"

text \<open>A WebSocket that no task has touched yet.\<close>

definition idle_ctx :: ctx where
  "idle_ctx = new_ctx Client []"

definition fresh_ws :: "ws \<Rightarrow> 'db world \<Rightarrow> bool" where
  "fresh_ws c w \<longleftrightarrow> w_ctx w c = idle_ctx \<and> (\<forall>r. \<not> slot_holds (w_reg w) c r)"

text \<open>What \<open>attach\<close> is followed by in the same segment, before the session is bound.\<close>

inductive claim :: "role \<Rightarrow> string \<Rightarrow> slot_ref \<Rightarrow> registry \<Rightarrow> registry \<Rightarrow> bool" for r sid ref rg where
  pair_agent: "r = Agent \<Longrightarrow> claim r sid ref rg (set_phase ref Pairing rg)"
| resume_agent: "r = Agent \<Longrightarrow> register_device d sid (set_phase ref WaitingResume rg) = (Inr (), rg') \<Longrightarrow>
    claim r sid ref rg rg'"
| client: "r = Client \<Longrightarrow> claim r sid ref rg rg"

inductive act :: "config \<Rightarrow> ws \<Rightarrow> 'db world \<Rightarrow> 'db world \<Rightarrow> bool" for cfg c w where
  store: "act cfg c w (w\<lparr>w_db := db\<rparr>)"
| log: "act cfg c w (w\<lparr>w_logs := w_logs w @ [l]\<rparr>)"
| acquire: "try_acquire ip (max_connections_per_ip cfg) (w_limiter w) = (ok, l) \<Longrightarrow> act cfg c w (w\<lparr>w_limiter := l\<rparr>)"
| free: "act cfg c w (w\<lparr>w_limiter := release_conn (c_peer_ip (w_ctx w c)) (w_limiter w)\<rparr>)"
| opened: "fresh_ws c w \<Longrightarrow>
    act cfg c w (w\<lparr>w_ctx := (w_ctx w)(c := new_ctx r0 ip)\<rparr>)"
| accepted: "act cfg c w (w\<lparr>w_connected := (w_connected w)(c := True)\<rparr>)"
| deadline: "s * 1000 \<le> deadline_bound cfg \<Longrightarrow>
    act cfg c w (w\<lparr>w_ctx := (w_ctx w)(c := (w_ctx w c)\<lparr>c_deadline := Some (w_mono w + s * 1000)\<rparr>)\<rparr>)"
| sequence: "c_last_seq (w_ctx w c) < n \<Longrightarrow>
    act cfg c w (w\<lparr>w_ctx := (w_ctx w)(c := (w_ctx w c)\<lparr>c_last_seq := n\<rparr>)\<rparr>)"
| claimed: "c_session_id (w_ctx w c) = None \<Longrightarrow> attach sid (c_role (w_ctx w c)) c (w_reg w) = (Inr ref, rg1) \<Longrightarrow>
    claim (c_role (w_ctx w c)) sid ref rg1 rg2 \<Longrightarrow>
    (c_role (w_ctx w c) = Client \<Longrightarrow> endpoint_of (w_reg w) sid Agent \<noteq> None) \<Longrightarrow>
    act cfg c w (w\<lparr>w_reg := rg2, w_ctx := (w_ctx w)(c := (w_ctx w c)\<lparr>c_session_id := Some sid\<rparr>)\<rparr>)"
| unclaimed: "c_role (w_ctx w c) = Agent \<Longrightarrow> c_session_id (w_ctx w c) = Some sid \<Longrightarrow>
    act cfg c w (w\<lparr>w_reg := detach sid Agent (w_reg w),
                 w_ctx := (w_ctx w)(c := (w_ctx w c)\<lparr>c_session_id := None\<rparr>)\<rparr>)"
| refused: "c_role (w_ctx w c) = Agent \<Longrightarrow> c_session_id (w_ctx w c) = None \<Longrightarrow>
    rg1 = w_reg w \<or>
      (\<exists>ref rg0. attach sid Agent c (w_reg w) = (Inr ref, rg0) \<and> rg1 = set_phase ref WaitingResume rg0) \<Longrightarrow>
    act cfg c w (w\<lparr>w_reg := detach sid Agent rg1\<rparr>)"
| establish: "c_role (w_ctx w c) = Agent \<Longrightarrow> c_session_id (w_ctx w c) = Some sid \<Longrightarrow>
    get_peer sid Agent (w_reg w) \<noteq> None \<Longrightarrow> slot_ref_of sid (w_reg w) = Some ref \<Longrightarrow>
    act cfg c w (w\<lparr>w_reg := set_phase ref Established (w_reg w)\<rparr>)"
| resuming: "c_role (w_ctx w c) = Client \<Longrightarrow> c_session_id (w_ctx w c) = Some sid \<Longrightarrow>
    slot_ref_of sid (w_reg w) = Some ref \<Longrightarrow> act cfg c w (w\<lparr>w_reg := set_phase ref Resuming (w_reg w)\<rparr>)"
| left: "c_session_id (w_ctx w c) = Some sid \<Longrightarrow>
    act cfg c w (w\<lparr>w_reg := detach sid (c_role (w_ctx w c)) (w_reg w)\<rparr>)"
| removed: "c_session_id (w_ctx w c) = Some sid \<Longrightarrow> act cfg c w (w\<lparr>w_reg := remove sid (w_reg w)\<rparr>)"
| send: "delivery c w x e \<Longrightarrow> w_sendable w x \<Longrightarrow> act cfg c w (w\<lparr>w_out := w_out w @ [(x, e)]\<rparr>)"
| closed: "act cfg c w (close_frame c reason w)"

text \<open>What the other connections and the environment may do, seen from connection \<open>c\<close>.\<close>

definition others :: "ws \<Rightarrow> 'db world \<Rightarrow> 'db world \<Rightarrow> bool" where
  "others c w w' \<longleftrightarrow>
     w_ctx w' c = w_ctx w c \<and> w_mono w \<le> w_mono w' \<and>
     (\<forall>r. slot_holds (w_reg w') c r \<longrightarrow> slot_holds (w_reg w) c r) \<and>
     (\<forall>sid r. endpoint_of (w_reg w') sid r = Some c \<longrightarrow> endpoint_of (w_reg w) sid r = Some c)"

inductive env_step :: "'db world \<Rightarrow> 'db world \<Rightarrow> bool" for w where
  tick: "0 \<le> dt \<Longrightarrow> env_step w (w\<lparr>w_mono := w_mono w + dt, w_wall := wall, w_rtime := rt\<rparr>)"
| link_lost: "env_step w (w\<lparr>w_sendable := (w_sendable w)(x := False)\<rparr>)"
| client_state: "env_step w (w\<lparr>w_connected := (w_connected w)(x := b)\<rparr>)"

section \<open>The invariant\<close>

definition bound_ok :: "'db world \<Rightarrow> bool" where
  "bound_ok w \<longleftrightarrow> (\<forall>sid r x. endpoint_of (w_reg w) sid r = Some x \<longrightarrow> c_session_id (w_ctx w x) = Some sid)"

definition roles_ok :: "'db world \<Rightarrow> bool" where
  "roles_ok w \<longleftrightarrow> (\<forall>x r. slot_holds (w_reg w) x r \<longrightarrow> c_role (w_ctx w x) = r)"

definition limits_ok :: "config \<Rightarrow> 'db world \<Rightarrow> bool" where
  "limits_ok cfg w \<longleftrightarrow>
     (\<forall>ip n. w_limiter w ip = Some n \<longrightarrow> 1 \<le> n \<and> n \<le> max_connections_per_ip cfg)"

definition deadlines_ok :: "config \<Rightarrow> 'db world \<Rightarrow> bool" where
  "deadlines_ok cfg w \<longleftrightarrow> (\<forall>x d. c_deadline (w_ctx w x) = Some d \<longrightarrow> d \<le> w_mono w + deadline_bound cfg)"

definition relay_inv :: "config \<Rightarrow> 'db world \<Rightarrow> bool" where
  "relay_inv cfg w \<longleftrightarrow>
     wf_registry (w_reg w) \<and> bound_ok w \<and> roles_ok w \<and> limits_ok cfg w \<and> deadlines_ok cfg w"

section \<open>Registry operations and who they leave in the slots\<close>

lemma holds_endpoint: "endpoint_of rg sid r = Some x \<Longrightarrow> slot_holds rg x r"
  by (auto simp: endpoint_of_def slot_holds_def get_slot_def split: option.splits)

lemma holds_heap_upd:
  assumes "slot_holds (heap_upd ref f rg) x r" "\<And>s. slot_get (f s) r = Some x \<Longrightarrow> slot_get s r = Some x"
  shows "slot_holds rg x r"
  using assms by (auto simp: slot_holds_def heap_upd_def split: if_splits)

lemma holds_set_phase [simp]: "slot_holds (set_phase ref p rg) x r = slot_holds rg x r"
  by (auto simp: slot_holds_def set_phase_def heap_upd_def)

lemma holds_detach: "slot_holds (detach sid r0 rg) x r \<Longrightarrow> slot_holds rg x r"
  by (auto simp: slot_holds_def detach_def heap_upd_def Let_def slot_get_set split: option.splits if_splits)

lemma holds_remove [simp]: "slot_holds (remove sid rg) x r = slot_holds rg x r"
  by (simp add: slot_holds_def remove_def)

lemma holds_register: "register_device d sid rg = (res, rg') \<Longrightarrow> slot_holds rg' x r = slot_holds rg x r"
  by (auto simp: slot_holds_def register_device_def split: option.splits if_splits)

lemma holds_create: "create sid rg = (ref, rg') \<Longrightarrow> slot_holds rg' x r \<Longrightarrow> slot_holds rg x r"
  by (auto simp: create_def slot_holds_def split: option.splits if_splits)

lemma holds_heap_set:
  "slot_holds (heap_upd ref (\<lambda>s. slot_set s r0 (Some c)) rg) x r \<Longrightarrow> slot_holds rg x r \<or> x = c \<and> r = r0"
  by (auto simp: slot_holds_def heap_upd_def slot_get_set split: if_splits)

lemma holds_attach:
  "attach sid r0 c rg = (Inr ref, rg') \<Longrightarrow> slot_holds rg' x r \<Longrightarrow> slot_holds rg x r \<or> x = c \<and> r = r0"
  by (auto simp: attach_def Let_def split: prod.splits if_splits dest!: holds_heap_set intro: holds_create)

lemma endpoint_set_phase [simp]:
  "endpoint_of (set_phase ref p rg) sid r = endpoint_of rg sid r"
  by (auto simp: endpoint_of_def get_slot_def set_phase_def heap_upd_def split: option.splits)

lemma endpoint_register:
  "register_device d sid rg = (res, rg') \<Longrightarrow> endpoint_of rg' s r = endpoint_of rg s r"
  by (simp add: endpoint_of_def get_slot_register_device)

lemma endpoint_attach_Inr:
  assumes "wf_registry rg" "attach sid r c rg = (Inr ref, rg')"
  shows "endpoint_of rg' s r' = (if s = sid \<and> r' = r then Some c else endpoint_of rg s r')"
proof -
  have "endpoint_of rg sid r = None \<or> endpoint_of rg sid r = Some c"
    using assms(2)
    by (auto simp: attach_def Let_def create_def endpoint_of_def get_slot_def
        split: prod.splits if_splits option.splits)
  with assms endpoint_attach [OF assms(1), of sid r c s r'] show ?thesis
    by (auto simp: attach_reg_def)
qed

lemma register_wf: "register_device d sid rg = (res, rg') \<Longrightarrow> wf_registry rg' = wf_registry rg"
  by (auto simp: register_device_def wf_registry_def split: option.splits if_splits)

lemma register_sessions: "register_device d sid rg = (res, rg') \<Longrightarrow> r_sessions rg' = r_sessions rg"
  by (auto simp: register_device_def split: option.splits if_splits)

lemma claim_facts:
  assumes "claim r sid ref rg rg'"
  shows "wf_registry rg' = wf_registry rg" "slot_holds rg' = slot_holds rg" "endpoint_of rg' = endpoint_of rg"
    and "r_sessions rg' = r_sessions rg"
  using assms
  by (induction rule: claim.induct)
     (auto simp: fun_eq_iff holds_register endpoint_register register_wf register_sessions)

lemmas detach_endpoint = reg.detach_law

lemma remove_endpoint: "endpoint_of (remove s t) s' r' = (if s' = s then None else endpoint_of t s' r')"
  by (simp add: endpoint_of_def get_slot_remove)

section \<open>Actions keep the invariant\<close>

lemma act_wf: "act cfg c w w' \<Longrightarrow> wf_registry (w_reg w) \<Longrightarrow> wf_registry (w_reg w')"
  by (induction rule: act.induct)
     (auto simp: claim_facts close_frame_def dest: wf_attach intro!: wf_detach wf_remove)

lemma act_roles:
  assumes "act cfg c w w'" "roles_ok w"
  shows "roles_ok w'"
  using assms
proof (induction rule: act.induct)
  case (claimed sid ref rg1 rg2)
  from claimed(3) have "slot_holds rg2 = slot_holds rg1" by (rule claim_facts)
  with claimed show ?case
    by (auto simp: roles_ok_def dest!: holds_attach [OF claimed(2)])
next
  case (refused rg1 sid)
  then have "slot_holds rg1 x r \<Longrightarrow> slot_holds (w_reg w) x r \<or> x = c \<and> r = Agent" for x r
    by (auto dest: holds_attach)
  with refused show ?case
    by (auto simp: roles_ok_def dest!: holds_detach)
qed (auto simp: roles_ok_def close_frame_def fresh_ws_def dest!: holds_detach)

lemma act_bound:
  assumes "act cfg c w w'" "bound_ok w" "wf_registry (w_reg w)" "roles_ok w"
  shows "bound_ok w'"
  using assms
proof (induction rule: act.induct)
  case (claimed sid ref rg1 rg2)
  from claimed(3) have "endpoint_of rg2 = endpoint_of rg1" by (rule claim_facts)
  with claimed show ?case
    by (auto simp: bound_ok_def endpoint_attach_Inr [OF claimed(6) claimed(2)])
next
  case (unclaimed sid)
  have "c_role (w_ctx w c) = r" if "endpoint_of (w_reg w) s r = Some c" for s r
    using that unclaimed.prems by (auto simp: roles_ok_def dest: holds_endpoint)
  with unclaimed show ?case
    by (fastforce simp: bound_ok_def detach_endpoint split: if_splits)
next
  case (refused rg1 sid)
  have wf1: "wf_registry rg1" using refused by (auto dest: wf_attach)
  have "endpoint_of rg1 s r = Some x \<Longrightarrow> endpoint_of (w_reg w) s r = Some x \<or> s = sid \<and> r = Agent" for s r x
    using refused by (auto simp: endpoint_attach_Inr split: if_splits)
  with refused.prems wf1 show ?case
    by (fastforce simp: bound_ok_def detach_endpoint split: if_splits)
next
  case (opened r ip)
  then show ?case by (auto simp: bound_ok_def fresh_ws_def dest: holds_endpoint)
qed (auto simp: bound_ok_def close_frame_def detach_endpoint remove_endpoint split: if_splits)

lemma try_acquire_limits:
  "try_acquire ip m l = (ok, l') \<Longrightarrow> l' a = Some n \<Longrightarrow> l a = Some n \<or> n = limiter_count ip l + 1 \<and> n \<le> m"
  by (auto simp: try_acquire_def Let_def split: if_splits)

lemma act_limits:
  assumes "act cfg c w w'" "limits_ok cfg w"
  shows "limits_ok cfg w'"
  using assms
proof (induction rule: act.induct)
  case (acquire ip ok l)
  have "0 \<le> limiter_count ip (w_limiter w)"
    using acquire.prems by (force simp: limiter_count_def limits_ok_def split: option.splits)
  with acquire show ?case by (fastforce simp: limits_ok_def dest: try_acquire_limits)
next
  case free
  then show ?case
    by (auto simp: limits_ok_def release_conn_def Let_def limiter_count_def split: if_splits option.splits)
       fastforce
qed (auto simp: limits_ok_def close_frame_def)

lemma act_deadlines: "act cfg c w w' \<Longrightarrow> deadlines_ok cfg w \<Longrightarrow> deadlines_ok cfg w'"
  by (induction rule: act.induct) (auto simp: deadlines_ok_def close_frame_def new_ctx_def)

lemma act_inv: "act cfg c w w' \<Longrightarrow> relay_inv cfg w \<Longrightarrow> relay_inv cfg w'"
  by (simp add: relay_inv_def act_wf act_bound act_roles act_limits act_deadlines)

lemma act_others:
  assumes "act cfg c w w'" "wf_registry (w_reg w)" "c' \<noteq> c"
  shows "others c' w w'"
  using assms
proof (induction rule: act.induct)
  case (claimed sid ref rg1 rg2)
  have "endpoint_of rg2 = endpoint_of rg1" "slot_holds rg2 = slot_holds rg1"
    using claimed(3) by (rule claim_facts)+
  with claimed show ?case
    by (auto simp: others_def endpoint_attach_Inr [OF claimed(5) claimed(2)]
        dest: holds_attach [OF claimed(2)] split: if_splits)
next
  case (refused rg1 sid)
  have wf1: "wf_registry rg1" using refused by (auto dest: wf_attach)
  have "endpoint_of rg1 s r = Some c' \<Longrightarrow> endpoint_of (w_reg w) s r = Some c'" for s r
    using refused by (auto simp: endpoint_attach_Inr split: if_splits)
  moreover have "slot_holds rg1 c' r \<Longrightarrow> slot_holds (w_reg w) c' r" for r
    using refused by (auto dest: holds_attach)
  ultimately show ?case
    using wf1 by (auto simp: others_def detach_endpoint dest: holds_detach split: if_splits)
qed (auto simp: others_def close_frame_def detach_endpoint remove_endpoint dest: holds_detach split: if_splits)

text \<open>Chains of actions.\<close>

abbreviation acts :: "config \<Rightarrow> ws \<Rightarrow> 'db world \<Rightarrow> 'db world \<Rightarrow> bool" where
  "acts cfg c \<equiv> (act cfg c)\<^sup>*\<^sup>*"

lemma acts_inv: "acts cfg c w w' \<Longrightarrow> relay_inv cfg w \<Longrightarrow> relay_inv cfg w'"
  by (induction rule: rtranclp_induct) (auto intro: act_inv)

lemma others_refl [simp]: "others c w w"
  by (simp add: others_def)

lemma others_trans: "others c w1 w2 \<Longrightarrow> others c w2 w3 \<Longrightarrow> others c w1 w3"
  by (auto simp: others_def)

lemma acts_others:
  "acts cfg c w w' \<Longrightarrow> wf_registry (w_reg w) \<Longrightarrow> c' \<noteq> c \<Longrightarrow> others c' w w' \<and> wf_registry (w_reg w')"
  by (induction rule: rtranclp_induct) (auto intro: act_others others_trans act_wf)

lemma env_others: "env_step w w' \<Longrightarrow> others c w w'"
  by (induction rule: env_step.induct) (auto simp: others_def)

lemma env_deadlines: "env_step w w' \<Longrightarrow> deadlines_ok cfg w \<Longrightarrow> deadlines_ok cfg w'"
proof (induction rule: env_step.induct)
  case (tick dt wall rt)
  have "d \<le> w_mono w + dt + deadline_bound cfg" if "c_deadline (w_ctx w x) = Some d" for x d
  proof -
    from that tick.prems have "d \<le> w_mono w + deadline_bound cfg" by (simp add: deadlines_ok_def)
    with tick(1) show ?thesis by simp
  qed
  then show ?case by (simp add: deadlines_ok_def)
qed (simp_all add: deadlines_ok_def)

lemma env_inv:
  assumes "env_step w w'" "relay_inv cfg w"
  shows "relay_inv cfg w'"
proof -
  have "deadlines_ok cfg w'" using assms by (auto simp: relay_inv_def intro: env_deadlines)
  with assms show ?thesis
    by (cases rule: env_step.cases) (simp_all add: relay_inv_def bound_ok_def roles_ok_def limits_ok_def)
qed

end
