(* ===== verification/RelayRefinement.thy ===== *)
theory RelayRefinement
  imports RelaySpec
begin

text \<open>
  The handlers of the relay refine the abstract actions of RelaySpec: every segment
  of every coroutine is a chain of actions of its own connection, whatever other
  connections do at its awaits.
\<close>

section \<open>Proof rules\<close>

text \<open>
  \<open>vc cfg c Q m w\<close>: from the current point \<open>w\<close> of a segment, \<open>m\<close> keeps to the
  actions of \<open>c\<close> and ends with \<open>Q\<close>.
\<close>

type_synonym ('db, 'a) post = "relay_exn + 'a \<Rightarrow> 'db world \<Rightarrow> bool"

definition vc :: "config \<Rightarrow> ws \<Rightarrow> ('db, 'a) post \<Rightarrow> ('db, 'a) relay_co \<Rightarrow> 'db world \<Rightarrow> bool" where
  "vc cfg c Q m w \<longleftrightarrow>
     (relay_inv cfg w \<longrightarrow> safe (relay_inv cfg) (others c) (acts cfg c) Q (m w) w)"

abbreviation anything :: "('db, 'a) post" where
  "anything \<equiv> \<lambda>_ _. True"

lemma transp_acts [simp]: "transp (acts cfg c)"
  by (simp add: transp_rtranclp)

lemma vc_inv: "(relay_inv cfg w \<Longrightarrow> vc cfg c Q m w) \<Longrightarrow> vc cfg c Q m w"
  by (auto simp: vc_def)

lemma vc_weaken: "vc cfg c Q' m w \<Longrightarrow> (\<And>r w. relay_inv cfg w \<Longrightarrow> Q' r w \<Longrightarrow> Q r w) \<Longrightarrow> vc cfg c Q m w"
  unfolding vc_def by (blast intro: safe_weaken)

lemma vc_bnd:
  assumes "vc cfg c Q' m w"
    and "\<And>a w. relay_inv cfg w \<Longrightarrow> Q' (Inr a) w \<Longrightarrow> vc cfg c Q (f a) w"
    and "\<And>e w. relay_inv cfg w \<Longrightarrow> Q' (Inl e) w \<Longrightarrow> Q (Inl e) w"
  shows "vc cfg c Q (bnd m f) w"
  using assms unfolding vc_def
  by (auto intro!: safe_bnd [where Q = Q'])

lemma vc_attempt:
  assumes "vc cfg c Q' m w"
    and "\<And>r w. relay_inv cfg w \<Longrightarrow> Q' r w \<Longrightarrow> vc cfg c Q (f r) w"
  shows "vc cfg c Q (bnd (attempt m) f) w"
proof (rule vc_bnd [where Q' = "\<lambda>r w. case r of Inl _ \<Rightarrow> False | Inr r \<Rightarrow> Q' r w"])
  show "vc cfg c (\<lambda>r w. case r of Inl _ \<Rightarrow> False | Inr r \<Rightarrow> Q' r w) (attempt m) w"
    using assms(1) unfolding vc_def attempt_def by (auto intro: safe_attempt)
qed (use assms(2) in auto)

lemma vc_step:
  assumes "m w = Done (Inr a) w'" "acts cfg c w w'" "vc cfg c Q (f a) w'"
  shows "vc cfg c Q (bnd m f) w"
  using assms
  by (auto simp: vc_def bnd_apply intro: safe_shift acts_inv)

lemma vc_gets [simp]: "vc cfg c Q (bnd (gets g) f) w = vc cfg c Q (f (g w)) w"
  by (simp add: vc_def bnd_apply gets_apply)

lemma vc_my_ctx [simp]: "vc cfg c Q (bnd (my_ctx x) f) w = vc cfg c Q (f (w_ctx w x)) w"
  by (simp add: my_ctx_def)

lemma vc_ret [simp]: "vc cfg c Q (ret a) w \<longleftrightarrow> (relay_inv cfg w \<longrightarrow> Q (Inr a) w)"
  by (auto simp: vc_def ret_apply)

lemma vc_skip [simp]: "vc cfg c Q skip w \<longleftrightarrow> (relay_inv cfg w \<longrightarrow> Q (Inr ()) w)"
  by (simp add: skip_def)

lemma bnd_skip [simp]: "bnd skip f = f ()"
  by (simp add: skip_def)

lemma vc_raise [simp]: "vc cfg c Q (raise e) w \<longleftrightarrow> (relay_inv cfg w \<longrightarrow> Q (Inl e) w)"
  by (auto simp: vc_def raise_apply)

lemma vc_raise_bnd [simp]: "bnd (raise e) f = raise e"
  by (simp add: fun_eq_iff bnd_apply raise_apply)

lemma vc_sync:
  assumes "\<And>a. h w = (Inr a, w) \<Longrightarrow> vc cfg c Q (f a) w" "\<And>e. h w = (Inl e, w) \<Longrightarrow> Q (Inl e) w" "snd (h w) = w"
  shows "vc cfg c Q (bnd (sync h) f) w"
  using assms by (cases "h w"; cases "fst (h w)") (auto simp: vc_def bnd_apply sync_apply)

text \<open>Suspension: what holds afterwards is what the others cannot change.\<close>

lemma vc_susp:
  assumes "m w = Susp w' k" "acts cfg c w w'"
    and "\<And>w1. relay_inv cfg w1 \<Longrightarrow> others c w' w1 \<Longrightarrow> vc cfg c Q (\<lambda>w. cont (k w) f) w1"
  shows "vc cfg c Q (bnd m f) w"
  using assms by (auto simp: vc_def bnd_apply intro: acts_inv)

lemma others_frame [simp]:
  "others c (w\<lparr>w_out := x\<rparr>) w1 = others c w w1" "others c (close_frame d r w) w1 = others c w w1"
  "others c (w\<lparr>w_db := db\<rparr>) w1 = others c w w1"
  by (simp_all add: others_def close_frame_def)

lemma act_acts: "act cfg c w w' \<Longrightarrow> acts cfg c w w'"
  by (rule r_into_rtranclp)

lemma vc_send:
  assumes "delivery c w x e"
    and "\<And>w1. relay_inv cfg w1 \<Longrightarrow> others c w w1 \<Longrightarrow> vc cfg c Q (f ()) w1"
    and "relay_inv cfg w \<Longrightarrow> Q (Inl SendFailed) w"
  shows "vc cfg c Q (bnd (send_envelope x e) f) w"
proof (cases "w_sendable w x")
  case True
  with assms(1) have "act cfg c w (w\<lparr>w_out := w_out w @ [(x, e)]\<rparr>)" by (rule act.send)
  with True assms(2) show ?thesis
    by (auto simp: send_envelope_apply intro!: vc_susp act_acts)
next
  case False
  with assms(3) show ?thesis by (auto simp: vc_def bnd_apply send_envelope_apply)
qed

lemma vc_send_last:
  assumes "delivery c w x e" "\<And>w1. relay_inv cfg w1 \<Longrightarrow> others c w w1 \<Longrightarrow> Q (Inr ()) w1"
    "relay_inv cfg w \<Longrightarrow> Q (Inl SendFailed) w"
  shows "vc cfg c Q (send_envelope x e) w"
  using vc_send [of c w x e cfg Q ret] assms by simp

lemma vc_send_error [simp]: "vc cfg c anything (send_error c code msg) w"
  by (auto simp: send_error_def error_envelope_def make_envelope_def reply_types_def
      intro!: vc_send_last delivery.reply)

lemma vc_close:
  assumes "\<And>w1. relay_inv cfg w1 \<Longrightarrow> others c w w1 \<Longrightarrow> vc cfg c Q (f ()) w1"
  shows "vc cfg c Q (bnd (close_ws c r) f) w"
  using assms by (auto simp: close_ws_apply intro!: vc_susp act_acts act.closed)

lemma vc_log:
  assumes "\<And>l. vc cfg c Q (f ()) (w\<lparr>w_logs := w_logs w @ [l]\<rparr>)"
  shows "vc cfg c Q (bnd (log_event e s m b p x) f) w"
  using assms by (auto simp: log_event_apply intro!: vc_step act_acts act.log)

lemma vc_log_last [simp]: "vc cfg c anything (log_event e s m b p x) w"
  using vc_log [of cfg c anything ret] by simp

lemma vc_deadline:
  assumes "s = handshake_timeout_s cfg \<or> s = pairing_token_ttl_s cfg"
    and "vc cfg c Q (f ()) (w\<lparr>w_ctx := (w_ctx w)(c := (w_ctx w c)\<lparr>c_deadline := Some (w_mono w + s * 1000)\<rparr>)\<rparr>)"
  shows "vc cfg c Q (bnd (set_deadline c s) f) w"
proof -
  have "act cfg c w (w\<lparr>w_ctx := (w_ctx w)(c := (w_ctx w c)\<lparr>c_deadline := Some (w_mono w + s * 1000)\<rparr>)\<rparr>)"
    using assms(1) by (intro act.deadline) (auto simp: deadline_bound_def)
  with assms(2) show ?thesis
    by (auto simp: set_deadline_def bnd_apply gets_apply upd_ctx_apply intro!: vc_step act_acts)
qed

lemma vc_reg:
  assumes "act cfg c w (w\<lparr>w_reg := g (w_reg w)\<rparr>)" "vc cfg c Q (f ()) (w\<lparr>w_reg := g (w_reg w)\<rparr>)"
  shows "vc cfg c Q (bnd (reg_upd g) f) w"
  using assms by (auto simp: reg_upd_apply intro!: vc_step act_acts)

lemma vc_reg_last:
  "act cfg c w (w\<lparr>w_reg := g (w_reg w)\<rparr>) \<Longrightarrow> vc cfg c anything (reg_upd g) w"
  using vc_reg [of cfg c w g anything ret] by simp

section \<open>Coroutines that only talk to Redis\<close>

definition same_but_db :: "'db world \<Rightarrow> 'db world \<Rightarrow> bool" where
  "same_but_db w w' \<longleftrightarrow> (\<exists>db. w' = w\<lparr>w_db := db\<rparr>)"

definition db_only :: "('db, 'a) relay_co \<Rightarrow> bool" where
  "db_only m \<longleftrightarrow> (\<forall>w. safe (\<lambda>_. True) (\<lambda>_ _. True) same_but_db (\<lambda>_ _. True) (m w) w)"

lemma same_but_db_refl [simp]: "same_but_db w w"
  by (auto simp: same_but_db_def intro: exI [of _ "w_db w"])

lemma same_but_db_upd [simp]: "same_but_db w (w\<lparr>w_db := db\<rparr>)"
  by (auto simp: same_but_db_def)

lemma transp_same_but_db [simp]: "transp same_but_db"
  by (auto simp: transp_def same_but_db_def)

lemma db_only_bnd: "db_only m \<Longrightarrow> (\<And>a. db_only (f a)) \<Longrightarrow> db_only (bnd m f)"
  by (auto simp: db_only_def intro!: safe_bnd [where Q = "\<lambda>_ _. True"])

lemma db_only_prims [simp]:
  "db_only (ret a)" "db_only (raise e)" "db_only (gets g)" "db_only pause" "db_only skip"
  by (simp_all add: db_only_def co_simps)

lemma db_only_sync: "(\<And>w. snd (h w) = w) \<Longrightarrow> db_only (sync h)"
  by (auto simp: db_only_def sync_apply split: prod.split) (metis same_but_db_refl snd_conv)

lemma db_only_redis [simp]: "db_only (redis_call D f)"
proof -
  have "db_only (sync (\<lambda>w. if r_down (d_redis D) (w_rtime w) (w_db w) then (Inl RedisError, w)
                 else (case f (w_rtime w) (w_db w) of (a, db) \<Rightarrow> (Inr a, w\<lparr>w_db := db\<rparr>))))"
    by (auto simp: db_only_def sync_apply split: prod.splits)
  then show ?thesis
    unfolding redis_call_def by (intro db_only_bnd db_only_prims)
qed

lemma db_only_redis_do [simp]: "db_only (redis_do D f)"
  by (simp add: redis_do_def)

lemma db_only_scripts [simp]:
  "db_only (issue_token D cfg token k sid h)" "db_only (consume_token D t)" "db_only (delete_token D t)"
  "db_only (create_session_record D cfg sid)" "db_only (set_session_state D sid st)"
  "db_only (mark_session_established D sid)" "db_only (delete_session_record D sid)"
  "db_only (check_ip_rate_limit D cfg uid ip)" "db_only (check_token_rate_limit D cfg t)"
  by (auto simp: issue_token_def consume_token_def delete_token_def create_session_record_def
      set_session_state_def mark_session_established_def delete_session_record_def
      check_ip_rate_limit_def check_token_rate_limit_def
      intro!: db_only_bnd db_only_sync split: consume_status.splits)

text \<open>Such a coroutine is a chain of \<open>store\<close> actions.\<close>

lemma safe_db:
  assumes "safe (\<lambda>_. True) (\<lambda>_ _. True) same_but_db (\<lambda>_ _. True) out w0" "relay_inv cfg w0" "others c w w0"
  shows "safe (relay_inv cfg) (others c) (acts cfg c) (\<lambda>_ w'. others c w w') out w0"
  using assms
proof (induction out arbitrary: w0)
  case (Done r w1)
  then obtain db where w1: "w1 = w0\<lparr>w_db := db\<rparr>" by (auto simp: same_but_db_def)
  then have "acts cfg c w0 w1" by (auto intro: act_acts act.store)
  moreover have "others c w0 w1" by (simp add: w1 others_def)
  ultimately show ?case using Done by (auto intro: acts_inv others_trans)
next
  case (Susp w1 k)
  then obtain db where w1: "w1 = w0\<lparr>w_db := db\<rparr>" by (auto simp: same_but_db_def)
  then have "acts cfg c w0 w1" by (auto intro: act_acts act.store)
  moreover have "others c w w1" using Susp.prems(3) by (simp add: w1 others_def)
  ultimately show ?case using Susp by (auto intro: acts_inv others_trans)
qed

lemma vc_db:
  assumes "db_only m"
    and "\<And>a w'. relay_inv cfg w' \<Longrightarrow> others c w w' \<Longrightarrow> vc cfg c Q (f a) w'"
    and "\<And>e w'. relay_inv cfg w' \<Longrightarrow> others c w w' \<Longrightarrow> Q (Inl e) w'"
  shows "vc cfg c Q (bnd m f) w"
proof (rule vc_bnd)
  show "vc cfg c (\<lambda>_ w'. others c w w') m w"
    using assms(1) by (auto simp: vc_def db_only_def intro!: safe_db)
qed (use assms(2,3) in auto)

lemma vc_db_last: "db_only m \<Longrightarrow> vc cfg c anything m w"
  using vc_db [of m cfg c w anything ret] by simp

lemmas vc_redis = db_only_scripts [THEN vc_db]

section \<open>The handlers\<close>

text \<open>What the loop has checked of a frame when it calls \<open>dispatch\<close>.\<close>

definition frame_ok :: "ws \<Rightarrow> envelope \<Rightarrow> 'db world \<Rightarrow> bool" where
  "frame_ok c e w \<longleftrightarrow>
     envelope_ok e \<and> e_seq e = c_last_seq (w_ctx w c) \<and> e_type e \<in> set (role_types (c_role (w_ctx w c)))"

lemma vc_forward:
  assumes "frame_ok c e w" "c_session_id (w_ctx w c) = Some sid" "e_session_id e = Some sid"
    and "get_peer sid (c_role (w_ctx w c)) (w_reg w) = Some x"
    and "e_type e \<in> set ROUTABLE_TYPES \<Longrightarrow> \<exists>s. get_slot sid (w_reg w) = Some s \<and> s_phase s = Established"
  shows "delivery c w x e"
  using assms by (intro delivery.forward) (auto simp: frame_ok_def)

lemma vc_teardown:
  assumes "c_session_id (w_ctx w c) = Some sid"
  shows "vc cfg c anything (teardown_session D c sid) w"
  using assms
  by (auto simp: teardown_session_def log_msg_def intro!: vc_reg act.removed vc_redis)

lemma vc_handle_routable:
  assumes "frame_ok c e w"
  shows "vc cfg c anything (handle_routable D c e) w"
  using assms
  by (auto simp: handle_routable_def log_msg_def others_def split: option.splits
      intro!: vc_send vc_log vc_forward vc_teardown)

lemma vc_handle_resume_proof:
  assumes "frame_ok c e w" "e_type e \<notin> set ROUTABLE_TYPES"
  shows "vc cfg c anything (handle_resume_proof D cfg uid c e) w"
  using assms
  by (auto simp: handle_resume_proof_def split: option.splits intro!: vc_send_last vc_forward)

lemma vc_handle_resume_challenge:
  assumes "frame_ok c e w" "e_type e \<notin> set ROUTABLE_TYPES"
  shows "vc cfg c anything (handle_resume_challenge D cfg uid c e) w"
  using assms
  by (auto simp: handle_resume_challenge_def split: option.splits
      intro!: vc_deadline vc_send_last vc_forward) (auto simp: frame_ok_def)

lemma establish_delivery:
  assumes "frame_ok c e w" "e_type e \<notin> set ROUTABLE_TYPES" "c_session_id (w_ctx w c) = Some sid"
    "e_session_id e = Some sid" "get_peer sid (c_role (w_ctx w c)) (w_reg w) = Some x"
  shows "delivery c (w\<lparr>w_reg := set_phase ref Established (w_reg w)\<rparr>) x e"
  using assms by (intro vc_forward) (auto simp: frame_ok_def get_peer_endpoint)

lemma get_peer_ref: "get_peer sid r rg = Some x \<Longrightarrow> slot_ref_of sid rg \<noteq> None"
  by (auto simp: get_peer_def get_slot_def slot_ref_of_def split: option.splits)

lemma vc_handle_pair_complete:
  assumes "frame_ok c e w" "e_type e \<notin> set ROUTABLE_TYPES"
  shows "vc cfg c anything (handle_pair_complete D cfg uid c e) w"
  using assms
  by (auto simp: handle_pair_complete_def log_msg_def split: option.splits dest: get_peer_ref
      intro!: vc_reg act.establish vc_send vc_redis establish_delivery)

lemma vc_handle_resume_complete:
  assumes "frame_ok c e w" "e_type e \<notin> set ROUTABLE_TYPES"
  shows "vc cfg c anything (handle_resume_complete D cfg uid c e) w"
  using assms
  by (auto simp: handle_resume_complete_def split: option.splits dest: get_peer_ref
      intro!: vc_reg act.establish vc_send_last establish_delivery)

text \<open>The reservation of a session by \<open>attach\<close> up to the point where the context is bound.\<close>

lemma vc_attempt_done:
  assumes "m w = Done r w'"
  shows "vc cfg c Q (bnd (attempt m) f) w = (relay_inv cfg w \<longrightarrow>
     safe (relay_inv cfg) (others c) (acts cfg c) Q (f r w') w)"
  by (simp add: vc_def bnd_apply attempt_apply assms)

lemma vc_claim:
  assumes "m w = Done (Inr a) (w\<lparr>w_reg := rg2\<rparr>)"
    and "attach sid (c_role (w_ctx w c)) c (w_reg w) = (Inr ref, rg1)"
    and "claim (c_role (w_ctx w c)) sid ref rg1 rg2"
    and "c_session_id (w_ctx w c) = None"
    and "c_role (w_ctx w c) = Client \<Longrightarrow> endpoint_of (w_reg w) sid Agent \<noteq> None"
    and "f (Inr a) = bnd (bind_session c (Some sid)) g"
    and "\<And>w1. c_session_id (w_ctx w1 c) = Some sid \<Longrightarrow> c_role (w_ctx w1 c) = c_role (w_ctx w c) \<Longrightarrow>
           w_reg w1 = rg2 \<Longrightarrow> relay_inv cfg w1 \<Longrightarrow> vc cfg c Q (g ()) w1"
  shows "vc cfg c Q (bnd (attempt m) f) w"
proof -
  define w1 where "w1 = w\<lparr>w_reg := rg2, w_ctx := (w_ctx w)(c := (w_ctx w c)\<lparr>c_session_id := Some sid\<rparr>)\<rparr>"
  have a: "act cfg c w w1"
    unfolding w1_def using assms(4,2,3,5) by (rule act.claimed)
  have "f (Inr a) (w\<lparr>w_reg := rg2\<rparr>) = g () w1"
    by (simp add: assms(6) bind_session_def bnd_apply upd_ctx_apply w1_def)
  moreover have "vc cfg c Q (g ()) w1" if "relay_inv cfg w"
    using that act_inv [OF a] by (intro assms(7)) (auto simp: w1_def)
  ultimately have "safe (relay_inv cfg) (others c) (acts cfg c) Q (f (Inr a) (w\<lparr>w_reg := rg2\<rparr>)) w"
    if "relay_inv cfg w"
    using that act_inv [OF a] safe_shift [OF _ act_acts [OF a] transp_acts] by (auto simp: vc_def)
  then show ?thesis
    by (simp add: vc_attempt_done [where m = m and w = w, OF assms(1)])
qed

lemma vc_attempt_fail:
  assumes "m w = Done (Inl e) w" "vc cfg c Q (f (Inl e)) w"
  shows "vc cfg c Q (bnd (attempt m) f) w"
  using assms by (simp add: vc_def bnd_apply attempt_apply)

lemma attach_cases:
  obtains (free) ref rg1 where "attach sid r c rg = (Inr ref, rg1)"
  | (taken) m where "attach sid r c rg = (Inl (ValueError m), rg)"
proof (cases "attach sid r c rg")
  case (Pair res rg1)
  then show ?thesis
  proof (cases res)
    case (Inl e)
    with Pair have a: "attach sid r c rg = (Inl e, rg1)" by simp
    with attach_Inl [OF a] show ?thesis by (auto intro: taken)
  qed (auto intro: free)
qed

text \<open>A client takes its place in a session that has an agent.\<close>

lemma vc_client_claim:
  assumes "c_role (w_ctx w c) = Client" "c_session_id (w_ctx w c) = None"
    and "endpoint_of (w_reg w) sid Agent \<noteq> None"
    and "\<And>m. vc cfg c Q (f (Inl (ValueError m))) w"
    and "\<And>ref. f (Inr ref) = bnd (bind_session c (Some sid)) (g ref)"
    and "\<And>ref w1. c_session_id (w_ctx w1 c) = Some sid \<Longrightarrow> c_role (w_ctx w1 c) = Client \<Longrightarrow>
           slot_ref_of sid (w_reg w1) = Some ref \<Longrightarrow> relay_inv cfg w1 \<Longrightarrow> vc cfg c Q (g ref ()) w1"
  shows "vc cfg c Q (bnd (attempt (reg_op (attach sid Client c))) f) w"
proof (rule vc_inv)
  assume inv: "relay_inv cfg w"
  show ?thesis
  proof (cases sid Client c "w_reg w" rule: attach_cases)
    case (free ref rg1)
    have ref: "slot_ref_of sid rg1 = Some ref"
      using inv attach_Inr(2) [OF _ free] by (simp add: relay_inv_def slot_ref_of_def)
    show ?thesis
      by (rule vc_claim [where sid = sid and ref = ref and g = "g ref"])
         (use assms free ref in \<open>auto simp: reg_op_apply intro: claim.client\<close>)
  next
    case (taken m)
    then show ?thesis
      using assms(4) by (auto simp: reg_op_apply intro!: vc_attempt_fail [where e = "ValueError m"])
  qed
qed

lemma vc_send_to_agent:
  assumes "c_role (w_ctx w c) = Client" "c_session_id (w_ctx w c) = Some sid" "e_session_id e = Some sid"
    and "e_type e \<in> {''pair_challenge'', ''resume_request''}"
    and "\<And>w1. relay_inv cfg w1 \<Longrightarrow> others c w w1 \<Longrightarrow> vc cfg c anything (f ()) w1"
  shows "vc cfg c anything (bnd (send_to_slot_agent ref e) f) w"
proof (cases "s_agent (r_heap (w_reg w) ref)")
  case None
  then show ?thesis by (simp add: send_to_slot_agent_def bnd_assoc)
next
  case (Some x)
  then have "slot_holds (w_reg w) x Agent" by (auto simp: slot_holds_def slot_get_def)
  with Some assms show ?thesis
    by (auto simp: send_to_slot_agent_def bnd_assoc intro!: vc_send delivery.notify)
qed

lemma others_ctx: "others c w w' \<Longrightarrow> w_ctx w' c = w_ctx w c"
  by (simp add: others_def)

lemma vc_resuming:
  assumes "c_role (w_ctx w c) = Client" "c_session_id (w_ctx w c) = Some sid" "slot_ref_of sid (w_reg w) = Some ref"
    and "vc cfg c Q (f ()) (w\<lparr>w_reg := set_phase ref Resuming (w_reg w)\<rparr>)"
  shows "vc cfg c Q (bnd (reg_upd (set_phase ref Resuming)) f) w"
  using assms by (auto intro!: vc_reg act.resuming)

lemma vc_send_to_agent_last:
  assumes "c_role (w_ctx w c) = Client" "c_session_id (w_ctx w c) = Some sid" "e_session_id e = Some sid"
    and "e_type e \<in> {''pair_challenge'', ''resume_request''}"
  shows "vc cfg c anything (send_to_slot_agent ref e) w"
  using vc_send_to_agent [of w c sid e cfg ret] assms by simp

lemma vc_handle_resume_request:
  "vc cfg c anything (handle_resume_request D cfg uid c e) w"
  by (auto simp: handle_resume_request_def others_ctx Let_def make_envelope_def endpoint_of_def slot_get_def split: option.splits prod.splits
   intro!: vc_redis vc_client_claim vc_deadline vc_resuming vc_send_to_agent_last refl)

lemma vc_handle_pair_request:
  "vc cfg c anything (handle_pair_request D cfg uid c e) w"
  by (auto simp: handle_pair_request_def others_ctx Let_def make_envelope_def field_or_key_error_def log_msg_def reply_types_def endpoint_of_def slot_get_def  split: option.splits prod.splits
   intro!: vc_redis vc_client_claim vc_deadline vc_send_to_agent vc_sync vc_send delivery.reply refl)

lemma db_only_attempt: "db_only m \<Longrightarrow> db_only (attempt m)"
  unfolding db_only_def attempt_def by (auto intro: safe_attempt)

lemma db_only_pair_init_register: "db_only (pair_init_register D cfg uid c token k sid h)"
  by (auto simp: pair_init_register_def my_ctx_def intro!: db_only_bnd db_only_sync db_only_attempt split: sum.splits)

lemma vc_attempt_db:
  assumes "db_only m" "\<And>r w'. relay_inv cfg w' \<Longrightarrow> others c w w' \<Longrightarrow> vc cfg c Q (f r) w'"
  shows "vc cfg c Q (bnd (attempt m) f) w"
proof (rule vc_attempt)
  show "vc cfg c (\<lambda>_ w'. others c w w') m w"
    using assms(1) by (auto simp: vc_def db_only_def intro!: safe_db)
qed (use assms(2) in auto)

lemmas vc_pair_init_register = vc_attempt_db [OF db_only_pair_init_register]

lemma vc_unclaim:
  assumes "c_role (w_ctx w c) = Agent" "c_session_id (w_ctx w c) = Some sid"
  shows "vc cfg c anything (bnd (reg_upd (detach sid Agent)) (\<lambda>_. bnd (bind_session c None) (\<lambda>_. raise err))) w"
  using act_inv [OF act.unclaimed [OF assms, of cfg]] act_acts [OF act.unclaimed [OF assms, of cfg]]
  by (simp add: vc_def bnd_apply reg_upd_apply bind_session_def upd_ctx_apply raise_apply)

lemma vc_agent_claim:
  assumes "c_role (w_ctx w c) = Agent" "c_session_id (w_ctx w c) = None"
    and "\<And>m. vc cfg c Q (f (Inl (ValueError m))) w"
    and "f (Inr ()) = bnd (bind_session c (Some sid)) g"
    and "\<And>w1. c_session_id (w_ctx w1 c) = Some sid \<Longrightarrow> c_role (w_ctx w1 c) = Agent \<Longrightarrow>
           relay_inv cfg w1 \<Longrightarrow> vc cfg c Q (g ()) w1"
  shows "vc cfg c Q (bnd (attempt (bnd (reg_op (attach sid Agent c)) (\<lambda>ref. reg_upd (set_phase ref Pairing)))) f) w"
proof (cases sid Agent c "w_reg w" rule: attach_cases)
  case (free ref rg1)
  then show ?thesis
    using assms
    by (intro vc_claim [where ?rg2.0 = "set_phase ref Pairing rg1" and g = g])
       (auto simp: bnd_apply reg_op_apply reg_upd_apply intro: claim.pair_agent)
next
  case (taken m)
  then show ?thesis
    using assms(3) by (auto simp: bnd_apply reg_op_apply intro!: vc_attempt_fail [where e = "ValueError m"])
qed

lemma vc_handle_pair_init:
  "vc cfg c anything (handle_pair_init D cfg uid c e) w"
  by (auto simp: handle_pair_init_def others_ctx Let_def make_envelope_def reply_types_def log_msg_def 
      split: sum.splits intro!: vc_agent_claim vc_pair_init_register refl vc_unclaim vc_deadline vc_log vc_send_last delivery.reply)

lemma vc_resume_claim:
  assumes "c_role (w_ctx w c) = Agent" "c_session_id (w_ctx w c) = None"
    and "\<And>e. f (Inl e) = bnd (reg_upd (detach sid Agent)) (\<lambda>_. send_error c code msg)"
    and "f (Inr ()) = bnd (bind_session c (Some sid)) g"
    and "\<And>w1. c_session_id (w_ctx w1 c) = Some sid \<Longrightarrow> vc cfg c anything (g ()) w1"
  shows "vc cfg c anything (bnd (attempt (bnd (reg_op (attach sid Agent c)) (\<lambda>ref.
           bnd (reg_upd (set_phase ref WaitingResume)) (\<lambda>_. reg_op (register_device d sid))))) f) w"
    (is "vc cfg c anything (bnd (attempt ?m) f) w")
proof (cases sid Agent c "w_reg w" rule: attach_cases)
  case (taken m)
  have "act cfg c w (w\<lparr>w_reg := detach sid Agent (w_reg w)\<rparr>)"
    using assms by (intro act.refused) auto
  then have "vc cfg c anything (f (Inl (ValueError m))) w"
    unfolding assms(3) by (rule vc_reg) simp
  with taken show ?thesis
    by (auto simp: bnd_apply reg_op_apply intro!: vc_attempt_fail [where e = "ValueError m"])
next
  case (free ref rg1)
  show ?thesis
  proof (cases "register_device d sid (set_phase ref WaitingResume rg1)")
    case (Pair res rg2)
    show ?thesis
    proof (cases res)
      case (Inr u)
      with Pair free assms show ?thesis
        by (intro vc_claim [where ?rg2.0 = rg2 and g = g])
           (auto simp: bnd_apply reg_op_apply reg_upd_apply intro: claim.resume_agent)
    next
      case (Inl e)
      with Pair have rg2: "rg2 = set_phase ref WaitingResume rg1" by (auto dest: register_device_Inl)
      let ?w1 = "w\<lparr>w_reg := detach sid Agent rg2\<rparr>"
      have a: "act cfg c w ?w1"
        using assms(1,2) free by (intro act.refused) (auto simp: rg2)
      have m: "?m w = Done (Inl e) (w\<lparr>w_reg := rg2\<rparr>)"
        using free Pair Inl by (simp add: bnd_apply reg_op_apply reg_upd_apply)
      have "f (Inl e) (w\<lparr>w_reg := rg2\<rparr>) = send_error c code msg ?w1"
        by (simp add: assms(3) bnd_apply reg_upd_apply)
      then have "relay_inv cfg w \<longrightarrow>
          safe (relay_inv cfg) (others c) (acts cfg c) anything (f (Inl e) (w\<lparr>w_reg := rg2\<rparr>)) w"
        using act_inv [OF a] vc_send_error [of cfg c code msg ?w1]
        by (auto simp: vc_def intro: safe_shift [OF _ act_acts [OF a] transp_acts])
      then show ?thesis
        by (simp only: vc_attempt_done [where m = ?m and w = w, OF m])
    qed
  qed
qed

lemma vc_handle_resume_init:
  "vc cfg c anything (handle_resume_init D cfg uid c e) w"
  by (auto simp: handle_resume_init_def Let_def make_envelope_def reply_types_def
      intro!: vc_resume_claim refl vc_send_last delivery.reply)

lemma handler_for_not_routable: "handler_for D cfg uid c e = Some h \<Longrightarrow> e_type e \<notin> set ROUTABLE_TYPES"
  by (auto simp: handler_for_def ROUTABLE_TYPES_def SESSION_CONTROL_TYPES_def TERMINAL_DATA_TYPES_def
      PORT_FORWARD_TYPES_def split: if_splits)

lemma vc_handler:
  assumes "handler_for D cfg uid c e = Some h" "frame_ok c e w"
  shows "vc cfg c anything h w"
proof -
  note handlers = vc_handle_pair_init vc_handle_pair_request vc_handle_resume_init vc_handle_resume_request
    vc_handle_pair_complete [OF assms(2)] vc_handle_resume_challenge [OF assms(2)]
    vc_handle_resume_proof [OF assms(2)] vc_handle_resume_complete [OF assms(2)]
  show ?thesis
    using assms(1) handler_for_not_routable [OF assms(1)]
    by (auto simp: handler_for_def handlers split: if_splits)
qed

lemma vc_on_handler_error: "vc cfg c anything (on_handler_error c exc) w"
  by (auto simp: on_handler_error_def split: relay_exn.splits)

lemma vc_dispatch:
  assumes "envelope_ok e" "e_seq e = c_last_seq (w_ctx w c)"
  shows "vc cfg c anything (dispatch D cfg uid c e) w"
proof (cases "e_type e \<in> set (role_types (c_role (w_ctx w c)))")
  case True
  with assms have ok: "frame_ok c e w" by (simp add: frame_ok_def)
  show ?thesis
  proof (cases "handler_for D cfg uid c e")
    case (Some h)
    then show ?thesis
      by (auto simp: dispatch_def intro!: vc_attempt [OF vc_handler [OF Some ok]] vc_on_handler_error split: sum.splits)
  next
    case None
    then show ?thesis by (simp add: dispatch_def vc_handle_routable [OF ok])
  qed
qed (simp add: dispatch_def)


section \<open>The connection loop\<close>

text \<open>
  What holds when a connection starts to wait (a read without a timer only while
  bound to a session, a timer within the deadline bound), and when it has ended (no
  slot of the table holds its WebSocket).
\<close>

definition unlinked :: "ws \<Rightarrow> 'db world \<Rightarrow> bool" where
  "unlinked c w \<longleftrightarrow> (\<forall>sid r. endpoint_of (w_reg w) sid r \<noteq> Some c)"

definition wait_ok :: "config \<Rightarrow> ws \<Rightarrow> int \<Rightarrow> ('db, int option option) post" where
  "wait_ok cfg c base r w \<longleftrightarrow>
     (case r of
        Inr (Some None) \<Rightarrow> c_session_id (w_ctx w c) \<noteq> None
      | Inr (Some (Some t)) \<Rightarrow> t \<le> base + max 0 (deadline_bound cfg)
      | _ \<Rightarrow> unlinked c w)"

lemma unlinked_others: "unlinked c w \<Longrightarrow> others c w w' \<Longrightarrow> unlinked c w'"
  by (auto simp: unlinked_def others_def)

lemma unlinked_frame [simp]:
  "unlinked c (w\<lparr>w_logs := l\<rparr>) = unlinked c w" "unlinked c (w\<lparr>w_limiter := m\<rparr>) = unlinked c w"
  by (simp_all add: unlinked_def)

lemma unlinked_unbound: "relay_inv cfg w \<Longrightarrow> c_session_id (w_ctx w c) = None \<Longrightarrow> unlinked c w"
  by (auto simp: relay_inv_def bound_ok_def unlinked_def)

lemma unlinked_detach:
  assumes "relay_inv cfg w" "c_session_id (w_ctx w c) = Some sid"
  shows "unlinked c (w\<lparr>w_reg := detach sid (c_role (w_ctx w c)) (w_reg w)\<rparr>)"
proof -
  have "s = sid \<and> r = c_role (w_ctx w c)" if "endpoint_of (w_reg w) s r = Some c" for s r
    using that assms holds_endpoint [OF that] by (auto simp: relay_inv_def bound_ok_def roles_ok_def)
  then show ?thesis
    using assms(1) by (fastforce simp: unlinked_def relay_inv_def detach_endpoint split: if_splits)
qed

lemma unlinked_remove: "unlinked c w \<Longrightarrow> unlinked c (w\<lparr>w_reg := remove sid (w_reg w)\<rparr>)"
  by (simp add: unlinked_def remove_endpoint)

text \<open>Once unlinked, the rest of the disconnect keeps it so.\<close>

lemma vc_teardown_unlinked:
  assumes "unlinked c w" "c_session_id (w_ctx w c) = Some sid"
  shows "vc cfg c (\<lambda>_. unlinked c) (teardown_session D c sid) w"
proof -
  have log: "vc cfg c (\<lambda>_. unlinked c) (log_event e s m b p x) w1" if "unlinked c w1" for e s m b p x w1
    using that vc_log [of cfg c "\<lambda>_. unlinked c" ret w1] by simp
  show ?thesis
    using assms
    by (auto simp: teardown_session_def log_msg_def
        intro!: vc_reg act.removed vc_redis log intro: unlinked_others [OF unlinked_remove])
qed

lemma vc_handle_disconnect: "vc cfg c (\<lambda>_. unlinked c) (handle_disconnect D c) w"
proof (rule vc_inv)
  assume inv: "relay_inv cfg w"
  show ?thesis
  proof (cases "c_session_id (w_ctx w c)")
    case None
    with inv show ?thesis by (simp add: handle_disconnect_def unlinked_unbound)
  next
    case (Some sid)
    let ?r = "c_role (w_ctx w c)"
    let ?w1 = "w\<lparr>w_reg := detach sid ?r (w_reg w)\<rparr>"
    have u: "unlinked c ?w1" using inv Some by (rule unlinked_detach)
    have tear: "vc cfg c (\<lambda>_. unlinked c) (teardown_session D c sid) w2" if "others c ?w1 w2" for w2
      using that Some by (intro vc_teardown_unlinked unlinked_others [OF u that]) (simp add: others_ctx)
    have peer: "delivery c ?w1 p (disconnect_notice sid)" if "get_peer sid ?r (w_reg w) = Some p" for p
      using that Some inv
      by (intro delivery.notice) (auto simp: get_peer_endpoint detach_endpoint relay_inv_def)
    have att: "vc cfg c (\<lambda>_. unlinked c)
          (bnd (attempt (send_envelope p (disconnect_notice sid))) (\<lambda>_. teardown_session D c sid)) ?w1"
      if "get_peer sid ?r (w_reg w) = Some p" for p
      by (rule vc_attempt [where Q' = "\<lambda>_. others c ?w1"])
         (auto intro!: vc_send_last peer [OF that] tear)
    have "vc cfg c (\<lambda>_. unlinked c) (bnd (reg_upd (detach sid ?r)) (\<lambda>_.
          bnd (gets (\<lambda>w. case get_peer sid ?r (w_reg w0) of None \<Rightarrow> None | Some p \<Rightarrow> if w_connected w p then Some p else None)) (\<lambda>open_peer.
          bnd (case open_peer of
                 None \<Rightarrow> skip
               | Some p \<Rightarrow> bnd (attempt (send_envelope p (disconnect_notice sid))) (\<lambda>_. skip)) (\<lambda>_.
          teardown_session D c sid)))) w" if "w0 = w" for w0
      using Some that
      by (auto intro!: vc_reg act.left att tear simp: bnd_assoc split: option.splits)
    then show ?thesis
      using Some by (simp add: handle_disconnect_def)
  qed
qed

end
