(* ===== verification/RelaySafety.thy ===== *)
theory RelaySafety
  imports RelayRefinement
begin

text \<open>
  The connection loop refines the abstract actions too, and the running relay is
  safe: the interpretation of \<open>rely_guarantee\<close> on the model turns the per-coroutine
  facts into facts about every reachable state and every step.
\<close>

section \<open>The loop\<close>


definition wait_some :: "config \<Rightarrow> ws \<Rightarrow> ('db, int option option) post" where
  "wait_some cfg c r w \<longleftrightarrow> (case r of Inr (Some t) \<Rightarrow> wait_ok cfg c 0 r w | _ \<Rightarrow> True)"

lemma wait_some_simps [simp]:
  "wait_some cfg c (Inl e) w" "wait_some cfg c (Inr None) w"
  "wait_some cfg c (Inr (Some t)) w = wait_ok cfg c 0 (Inr (Some t)) w"
  by (simp_all add: wait_some_def)

lemma vc_ws_finally: "vc cfg c (\<lambda>_. unlinked c) (ws_finally D c) w"
  by (auto simp: ws_finally_def intro!: vc_step [OF modify_apply] act_acts act.free vc_handle_disconnect)

lemma vc_ws_guard:
  assumes "vc cfg c (wait_some cfg c) m w"
  shows "vc cfg c (wait_ok cfg c 0) (ws_guard D c m) w"
  unfolding ws_guard_def
proof (rule vc_attempt [OF assms])
  fix r :: "relay_exn + int option option" and w1 :: "'a world"
  assume "wait_some cfg c r w1"
  then show "vc cfg c (wait_ok cfg c 0) (case r of
        Inr (Some timeout) \<Rightarrow> ret (Some timeout)
      | Inr None \<Rightarrow> bnd (ws_finally D c) (\<lambda>_. ret None)
      | Inl exc \<Rightarrow> bnd (ws_finally D c) (\<lambda>_. if exc = SendFailed then ret None else raise exc)) w1"
    by (auto split: sum.split option.split intro!: vc_bnd [OF vc_ws_finally] simp: wait_ok_def)
qed

lemma wait_ok_exempt: "exempt_phase rg (c_session_id (w_ctx w c)) \<Longrightarrow> wait_ok cfg c 0 (Inr (Some None)) w"
  by (auto simp: wait_ok_def exempt_phase_def split: option.splits)

lemma wait_ok_timer:
  assumes "relay_inv cfg w"
  shows "wait_ok cfg c 0 (Inr (Some (Some (case c_deadline (w_ctx w c) of None \<Rightarrow> 0 | Some d \<Rightarrow> max (d - w_mono w) 0)))) w"
proof (cases "c_deadline (w_ctx w c)")
  case (Some d)
  with assms have "d \<le> w_mono w + deadline_bound cfg" by (simp add: relay_inv_def deadlines_ok_def)
  with Some show ?thesis by (simp add: wait_ok_def max_def)
qed (simp add: wait_ok_def)

lemma vc_gets_last: "(relay_inv cfg w \<Longrightarrow> Q (Inr (g w)) w) \<Longrightarrow> vc cfg c Q (gets g) w"
  by (auto simp: vc_def gets_apply)

lemma vc_arm_gets:
  "vc cfg c (wait_some cfg c) (gets (\<lambda>w.
       Some (if exempt_phase (w_reg w) (c_session_id (w_ctx w c)) then None
         else Some (case c_deadline (w_ctx w c) of None \<Rightarrow> 0 | Some d \<Rightarrow> max (d - w_mono w) 0)))) w"
  by (rule vc_gets_last) (simp add: wait_ok_exempt wait_ok_timer)

lemma vc_ws_arm: "vc cfg c (wait_some cfg c) (ws_arm cfg c) w"
  unfolding ws_arm_def vc_my_ctx
  by (cases "c_deadline (w_ctx w c)") (auto intro!: vc_deadline vc_arm_gets)

lemma vc_ws_frame: "vc cfg c (wait_ok cfg c 0) (ws_frame D cfg uid c raw) w"
  unfolding ws_frame_def
proof (rule vc_ws_guard)
  have seq: "act cfg c w (w\<lparr>w_ctx := (w_ctx w)(c := (w_ctx w c)\<lparr>c_last_seq := n\<rparr>)\<rparr>)"
    if "c_last_seq (w_ctx w c) < n" for n
    using that by (rule act.sequence)
  show "vc cfg c (wait_some cfg c) (bnd (my_ctx c) (\<lambda>x.
     (case parse_envelope (d_loads D) (WText raw) (max_envelope_bytes cfg) (protocol_version cfg) of
        Inl exc \<Rightarrow>
          bnd (log_event ''envelope_rejected'' (c_session_id x) None None (Some (c_peer_ip x)) (Some (str_exc exc))) (\<lambda>_.
          bnd (close_ws c (take 120 (str_exc exc))) (\<lambda>_. ret None))
      | Inr e \<Rightarrow>
          (if e_seq e \<le> c_last_seq x then
             bnd (log_event ''sequence_rejected'' (c_session_id x) None None (Some (c_peer_ip x))
                    (Some (''non-monotonic seq '' @ str_int (e_seq e)))) (\<lambda>_.
             bnd (close_ws c ''sequence numbers must increase'') (\<lambda>_. ret None))
           else
             bnd (upd_ctx c (\<lambda>y. y\<lparr>c_last_seq := e_seq e\<rparr>)) (\<lambda>_.
             bnd (dispatch D cfg uid c e) (\<lambda>_. ws_arm cfg c)))))) w"
    by (auto split: sum.split dest: parse_envelope_InrD
        intro!: vc_log vc_close vc_step [OF upd_ctx_apply] act_acts seq vc_bnd [OF vc_dispatch] vc_ws_arm)
qed

lemma vc_ws_timeout: "vc cfg c (wait_ok cfg c 0) (ws_timeout D c) w"
  unfolding ws_timeout_def by (auto intro!: vc_ws_guard vc_close)

lemma vc_ws_receive_error: "vc cfg c (wait_ok cfg c 0) (ws_receive_error D c exc) w"
  unfolding ws_receive_error_def by (auto intro!: vc_ws_guard)

lemma vc_accept:
  assumes "\<And>w1. vc cfg c Q (f ()) w1" "\<And>w1. Q (Inl SendFailed) w1"
  shows "vc cfg c Q (bnd (accept_ws c) f) w"
proof -
  have "vc cfg c Q (bnd (bnd (gets (\<lambda>w. w_sendable w c)) (\<lambda>ok.
     if ok then modify (\<lambda>w. w\<lparr>w_connected := (w_connected w)(c := True)\<rparr>) else raise SendFailed)) f) w1" for w1
    using assms by (auto simp: bnd_assoc intro!: vc_step [OF modify_apply] act_acts act.accepted)
  then show ?thesis
    unfolding accept_ws_def bnd_assoc by (auto simp: pause_apply ret_apply intro!: vc_susp)
qed

lemma fresh_unlinked: "fresh_ws c w \<Longrightarrow> unlinked c w"
  by (auto simp: fresh_ws_def unlinked_def dest: holds_endpoint)

lemma vc_ws_open:
  assumes "fresh_ws c w"
  shows "vc cfg c (wait_ok cfg c 0) (ws_open D cfg c q) w"
proof -
  have refuse: "vc cfg c (wait_ok cfg c 0) (bnd (close_ws c reason) (\<lambda>_. ret None)) w1" if "fresh_ws c w1" for reason w1
    using unlinked_others [OF fresh_unlinked [OF that]] by (auto simp: wait_ok_def intro!: vc_close)
  define ip where "ip = client_ip (q_host q) (q_forwarded q) (trusted_proxy_ips cfg)"
  obtain ok l where acq: "try_acquire ip (max_connections_per_ip cfg) (w_limiter w) = (ok, l)" by fastforce
  have run: "vc cfg c (wait_ok cfg c 0) (bnd (upd_ctx c (\<lambda>_. new_ctx (q_role q) ip)) (\<lambda>_.
        ws_guard D c (bnd (accept_ws c) (\<lambda>_. ws_arm cfg c)))) (w\<lparr>w_limiter := l\<rparr>)"
    using assms
    by (auto simp: fresh_ws_def intro!: vc_step [OF upd_ctx_apply] act_acts act.opened vc_ws_guard vc_accept vc_ws_arm)
  have "vc cfg c (wait_ok cfg c 0) (bnd (sync (\<lambda>w. case try_acquire ip (max_connections_per_ip cfg) (w_limiter w) of
                      (ok, l) \<Rightarrow> (Inr ok, w\<lparr>w_limiter := l\<rparr>))) (\<lambda>ok.
      if \<not> ok then bnd (close_ws c ''too many connections from this address'') (\<lambda>_. ret None)
      else
        bnd (upd_ctx c (\<lambda>_. new_ctx (q_role q) ip)) (\<lambda>_.
        ws_guard D c (bnd (accept_ws c) (\<lambda>_. ws_arm cfg c))))) w"
    by (rule vc_step [where a = ok and w' = "w\<lparr>w_limiter := l\<rparr>"])
       (use assms in \<open>auto simp: sync_apply acq run fresh_ws_def intro!: act_acts act.acquire [OF acq] refuse\<close>)
  then show ?thesis
    unfolding ws_open_def Let_def ip_def [symmetric] by (simp add: refuse [OF assms])
qed

lemma vc_arm_timer:
  assumes "vc cfg c (wait_ok cfg c 0) m w"
  shows "vc cfg c (\<lambda>r w. wait_ok cfg c (w_mono w) r w) (arm_timer m) w"
  unfolding arm_timer_def
  by (rule vc_bnd [OF assms]) (auto simp: wait_ok_def split: option.splits)

section \<open>The running relay\<close>

interpretation rg: rely_guarantee "relay_inv cfg" "acts cfg" others env_step fresh_ws
  "\<lambda>c r w. wait_ok cfg c (w_mono w) r w" for cfg
proof unfold_locales
  fix c c' :: ws and w w' :: "'a world"
  show "relay_inv cfg w \<Longrightarrow> acts cfg c w w' \<Longrightarrow> c' \<noteq> c \<Longrightarrow> others c' w w'"
    by (simp add: acts_others relay_inv_def)
  show "fresh_ws c w \<Longrightarrow> others c w w' \<Longrightarrow> fresh_ws c w'"
    by (auto simp: fresh_ws_def others_def)
qed (auto intro: others_trans env_others env_inv)

lemma empty_no_slot: "get_slot sid empty_registry = None"
  by (simp add: get_slot_def empty_registry_def)

lemma slot_holds_empty: "\<not> slot_holds empty_registry x r"
  by (simp add: slot_holds_def empty_registry_def)

lemma relay_inv_init: "relay_inv cfg (init_world db)"
  by (auto simp: relay_inv_def init_world_def bound_ok_def roles_ok_def limits_ok_def deadlines_ok_def
      endpoint_of_def empty_no_slot slot_holds_empty new_ctx_def)

lemma fresh_init: "fresh_ws c (init_world db)"
  by (simp add: fresh_ws_def init_world_def idle_ctx_def slot_holds_def empty_registry_def)

lemma segment_split:
  "segment c out s = s' \<longleftrightarrow> (\<exists>w t. settle out = (w, t) \<and> s' = \<lparr>sy_world = w, sy_task = (sy_task s)(c := t)\<rparr>)"
  by (auto simp: segment_def split: prod.splits)

lemma segment_keeps:
  assumes "rg.all_ok cfg (sy_world s) (sy_task s)" "vc cfg c (wait_ok cfg c 0) m (sy_world s)"
  shows "rg.all_ok cfg (sy_world (segment c (arm_timer m (sy_world s)) s)) (sy_task (segment c (arm_timer m (sy_world s)) s))"
    and "acts cfg c (sy_world s) (sy_world (segment c (arm_timer m (sy_world s)) s))"
proof -
  have "safe (relay_inv cfg) (others c) (acts cfg c) (\<lambda>r w. wait_ok cfg c (w_mono w) r w) (arm_timer m (sy_world s)) (sy_world s)"
    using vc_arm_timer [OF assms(2)] assms(1) by (simp add: vc_def rg.all_ok_def)
  from rg.segment_ok [OF assms(1) this]
  show "rg.all_ok cfg (sy_world (segment c (arm_timer m (sy_world s)) s)) (sy_task (segment c (arm_timer m (sy_world s)) s))"
    and "acts cfg c (sy_world s) (sy_world (segment c (arm_timer m (sy_world s)) s))"
    by (auto simp: segment_def split: prod.split)
qed

lemma absent_fresh:
  "rg.all_ok cfg (sy_world s) (sy_task s) \<Longrightarrow> sy_task s c = Absent \<Longrightarrow> fresh_ws c (sy_world s)"
  by (auto simp: rg.all_ok_def dest!: spec [of _ c])

lemma event_keeps:
  assumes ok: "rg.all_ok cfg (sy_world s) (sy_task s)" and ev: "exec_event D cfg ev s = Some s'"
  shows "rg.all_ok cfg (sy_world s') (sy_task s') \<and>
     ((\<exists>c. acts cfg c (sy_world s) (sy_world s')) \<or> env_step (sy_world s) (sy_world s'))"
proof (cases ev)
  case (Connect c q)
  with ev have a: "sy_task s c = Absent" and s': "s' = segment c (arm_timer (ws_open D cfg c q) (sy_world s)) s"
    by (auto split: task.splits)
  show ?thesis
    unfolding s' using segment_keeps [OF ok vc_ws_open [OF absent_fresh [OF ok a]]] by blast
next
  case (Frame c uid raw)
  with ev have s': "s' = segment c (arm_timer (ws_frame D cfg uid c raw) (sy_world s)) s"
    by (auto split: task.splits)
  show ?thesis unfolding s' using segment_keeps [OF ok vc_ws_frame] by blast
next
  case (Timeout c)
  with ev have s': "s' = segment c (arm_timer (ws_timeout D c) (sy_world s)) s"
    by (auto split: task.splits if_splits)
  show ?thesis unfolding s' using segment_keeps [OF ok vc_ws_timeout] by blast
next
  case (ReceiveError c exc)
  with ev have s': "s' = segment c (arm_timer (ws_receive_error D c exc) (sy_world s)) s"
    by (auto split: task.splits)
  show ?thesis unfolding s' using segment_keeps [OF ok vc_ws_receive_error] by blast
next
  case (Resume c)
  with ev obtain k where k: "sy_task s c = Busy k" and s': "s' = segment c (k (sy_world s)) s"
    by (auto split: task.splits)
  from rg.resume_ok [OF ok k] show ?thesis
    unfolding s' by (auto simp: segment_def split: prod.split)
next
  case (Tick dt wall rt)
  with ev have dt: "0 \<le> dt" and s': "s' = s\<lparr>sy_world := (sy_world s)\<lparr>w_mono := w_mono (sy_world s) + dt, w_wall := wall, w_rtime := rt\<rparr>\<rparr>"
    by (auto split: if_splits)
  have "env_step (sy_world s) (sy_world s')" unfolding s' using env_step.tick [OF dt] by simp
  with rg.environment_ok [OF ok] show ?thesis by (simp add: s')
next
  case (LinkLost x)
  with ev have s': "s' = s\<lparr>sy_world := (sy_world s)\<lparr>w_sendable := (w_sendable (sy_world s))(x := False)\<rparr>\<rparr>" by simp
  have "env_step (sy_world s) (sy_world s')" unfolding s' using env_step.link_lost by simp
  with rg.environment_ok [OF ok] show ?thesis by (simp add: s')
next
  case (ClientState x b)
  with ev have s': "s' = s\<lparr>sy_world := (sy_world s)\<lparr>w_connected := (w_connected (sy_world s))(x := b)\<rparr>\<rparr>" by simp
  have "env_step (sy_world s) (sy_world s')" unfolding s' using env_step.client_state by simp
  with rg.environment_ok [OF ok] show ?thesis by (simp add: s')
qed

lemma reachable_ok: "reachable D cfg s \<Longrightarrow> rg.all_ok cfg (sy_world s) (sy_task s)"
proof (induction rule: reachable.induct)
  case (start db)
  show ?case by (simp add: rg.all_ok_def init_sys_def relay_inv_init fresh_init)
next
  case (step s ev s')
  with event_keeps show ?case by blast
qed

lemma reachable_inv: "reachable D cfg s \<Longrightarrow> relay_inv cfg (sy_world s)"
  using reachable_ok [of D cfg s] by (simp add: rg.all_ok_def)

lemma reachable_task: "reachable D cfg s \<Longrightarrow> rg.task_ok cfg c (sy_world s) (sy_task s c)"
  using reachable_ok [of D cfg s] by (simp add: rg.all_ok_def)

lemma step_acts:
  assumes "reachable D cfg s" "exec_event D cfg ev s = Some s'"
  obtains (acted) c where "acts cfg c (sy_world s) (sy_world s')"
  | (environment) "env_step (sy_world s) (sy_world s')"
  using event_keeps [OF reachable_ok [OF assms(1)] assms(2)] by blast

section \<open>What a chain of actions can send and change\<close>

lemma acts_out:
  "acts cfg c w w' \<Longrightarrow> \<exists>new. w_out w' = w_out w @ new"
proof (induction rule: rtranclp_induct)
  case (step w1 w2)
  from step(2) have "\<exists>l. w_out w2 = w_out w1 @ l"
    by (cases rule: act.cases) (auto simp: close_frame_def)
  with step(3) show ?case by auto
qed simp

text \<open>Every envelope sent in a segment was sent under the delivery policy.\<close>

lemma acts_delivery:
  assumes "acts cfg c w w'" "w_out w' = w_out w @ new" "(x, e) \<in> set new"
  shows "\<exists>w1. acts cfg c w w1 \<and> delivery c w1 x e \<and> act cfg c w1 (w1\<lparr>w_out := w_out w1 @ [(x, e)]\<rparr>)
     \<and> acts cfg c (w1\<lparr>w_out := w_out w1 @ [(x, e)]\<rparr>) w'"
  using assms
proof (induction arbitrary: new rule: rtranclp_induct)
  case (step w1 w2)
  obtain old where old: "w_out w1 = w_out w @ old" using acts_out [OF step(1)] by blast
  show ?case
  proof (cases "(x, e) \<in> set old")
    case True
    from step.IH [OF old True] step(2) show ?thesis by (meson rtranclp.rtrancl_into_rtrancl)
  next
    case False
    from step(2) show ?thesis
    proof (cases rule: act.cases)
      case (send y e')
      with False old step.prems have "y = x \<and> e' = e" by auto
      with send step(1,2) show ?thesis by auto
    qed (use False old step.prems in \<open>auto simp: close_frame_def\<close>)
  qed
qed simp

lemma act_seq: "act cfg c w w' \<Longrightarrow> c_last_seq (w_ctx w c') \<le> c_last_seq (w_ctx w' c')"
  by (induction rule: act.induct) (auto simp: close_frame_def fresh_ws_def idle_ctx_def new_ctx_def)

lemma acts_seq: "acts cfg c w w' \<Longrightarrow> c_last_seq (w_ctx w c') \<le> c_last_seq (w_ctx w' c')"
  by (induction rule: rtranclp_induct) (auto intro: order_trans act_seq)

lemma acts_other_ctx: "acts cfg c w w' \<Longrightarrow> relay_inv cfg w \<Longrightarrow> x \<noteq> c \<Longrightarrow> w_ctx w' x = w_ctx w x"
  using acts_others [of cfg c w w' x] by (simp add: relay_inv_def others_def)

text \<open>A slot's phase becomes \<open>Established\<close> only by the action \<open>establish\<close>.\<close>

lemma phase_keeps [simp]:
  "s_phase (r_heap (detach sid r rg) ref) = s_phase (r_heap rg ref)"
  "r_heap (remove sid rg) = r_heap rg"
  by (auto simp: detach_def Let_def heap_upd_def remove_def split: option.splits)

lemma attach_phase:
  "attach sid r c rg = (res, rg') \<Longrightarrow> s_phase (r_heap rg' ref) = Established \<Longrightarrow> s_phase (r_heap rg ref) = Established"
  by (auto simp: attach_def Let_def create_def heap_upd_def new_slot_def split: prod.splits option.splits if_splits)

lemma set_phase_phase:
  "s_phase (r_heap (set_phase ref p rg) ref') = (if ref' = ref then p else s_phase (r_heap rg ref'))"
  by (simp add: set_phase_def heap_upd_def)

lemma claim_phase:
  "claim r sid ref rg rg' \<Longrightarrow> s_phase (r_heap rg' ref') = Established \<Longrightarrow> s_phase (r_heap rg ref') = Established"
  by (induction rule: claim.induct) (auto simp: set_phase_phase dest!: register_device_Inr split: if_splits)

lemma act_phase:
  assumes "act cfg c w w'" "s_phase (r_heap (w_reg w') ref) = Established" "s_phase (r_heap (w_reg w) ref) \<noteq> Established"
  shows "\<exists>sid. c_role (w_ctx w c) = Agent \<and> c_session_id (w_ctx w c) = Some sid \<and>
     get_peer sid Agent (w_reg w) \<noteq> None \<and> slot_ref_of sid (w_reg w) = Some ref"
  using assms
proof (cases rule: act.cases)
  case (refused rg1 sid)
  with assms(2,3) show ?thesis
    by (auto simp: set_phase_phase dest: attach_phase split: if_splits)
qed (auto simp: close_frame_def set_phase_phase dest: attach_phase claim_phase split: if_splits)

lemma acts_phase:
  assumes "acts cfg c w w'" "s_phase (r_heap (w_reg w') ref) = Established" "s_phase (r_heap (w_reg w) ref) \<noteq> Established"
  shows "\<exists>w1 sid. acts cfg c w w1 \<and> c_role (w_ctx w1 c) = Agent \<and> c_session_id (w_ctx w1 c) = Some sid \<and>
     get_peer sid Agent (w_reg w1) \<noteq> None \<and> slot_ref_of sid (w_reg w1) = Some ref"
  using assms
proof (induction rule: rtranclp_induct)
  case (step w1 w2)
  show ?case
  proof (cases "s_phase (r_heap (w_reg w1) ref) = Established")
    case True
    with step show ?thesis by blast
  next
    case False
    with act_phase [OF step(2)] step show ?thesis by blast
  qed
qed simp

end
