(* ===== verification/Scenario.thy ===== *)
theory Scenario
  imports RelaySafety
begin

text \<open>
  A concrete relay for the witnesses: Redis is the map that satisfies its contract,
  the digest is the identity, and the JSON decoder knows the handful of frames that
  the scenarios send.
\<close>

definition demo_cfg :: config where
  "demo_cfg = \<lparr>cfg_domain = ''relay.example.com'', cfg_redis_url = ''redis://localhost:6379/0'',
     pairing_token_ttl_s = 120, session_pending_ttl_s = 60, max_envelope_bytes = 262144,
     protocol_version = 2, rate_limit_ip_max = 20, rate_limit_ip_window_s = 300,
     rate_limit_token_max = 5, token_min_len = 16, token_max_len = 128, handshake_timeout_s = 20,
     client_origins = [''https://app.example.com''], release = ''development'',
     trusted_proxy_ips = [], max_connections_per_ip = 40\<rparr>"

definition demo_key :: string where
  "demo_key = replicate 43 (CHR ''A'') @ ''=''"

definition demo_device :: string where
  "demo_device = ''dev-'' @ replicate 32 (CHR ''0'')"

definition demo_token :: string where
  "demo_token = replicate 16 (CHR ''t'')"

definition pair_init_frame :: envelope where
  "pair_init_frame = make_envelope ''pair_init'' None 1 0
     [(''session_id'', JStr ''sess-1''), (''token'', JStr demo_token),
      (''agent_pubkey'', JStr demo_key), (''agent_hostname'', JStr ''host'')]"

definition pair_request_frame :: envelope where
  "pair_request_frame = make_envelope ''pair_request'' None 1 0
     [(''token'', JStr demo_token), (''client_pubkey'', JStr demo_key), (''client_proof'', JStr demo_key)]"

definition pair_complete_frame :: envelope where
  "pair_complete_frame = make_envelope ''pair_complete'' (Some ''sess-1'') 2 0 [(''agent_proof'', JStr demo_key)]"

definition pty_data_frame :: envelope where
  "pty_data_frame = make_envelope ''pty_data'' (Some ''sess-1'') 3 0 [(''ciphertext'', JStr ''x'')]"

definition session_close_frame :: envelope where
  "session_close_frame = make_envelope ''session_close'' (Some ''sess-1'') 2 0 []"

definition resume_init_frame :: envelope where
  "resume_init_frame = make_envelope ''resume_init'' None 1 0
     [(''session_id'', JStr ''sess-1''), (''device_id'', JStr demo_device),
      (''agent_pubkey'', JStr demo_key), (''agent_hostname'', JStr ''host'')]"

definition resume_request_frame :: envelope where
  "resume_request_frame = make_envelope ''resume_request'' None 1 0 [(''device_id'', JStr demo_device)]"

definition late_complete_frame :: envelope where
  "late_complete_frame = make_envelope ''pair_complete'' (Some ''sess-1'') 3 0 [(''agent_proof'', JStr demo_key)]"

definition demo_loads :: "wire \<Rightarrow> json option" where
  "demo_loads raw = (case raw of WBytes b \<Rightarrow> None | WText s \<Rightarrow> map_of
     [(''pair_init'', envelope_json pair_init_frame), (''pair_request'', envelope_json pair_request_frame),
      (''pair_complete'', envelope_json pair_complete_frame), (''pty_data'', envelope_json pty_data_frame),
      (''session_close'', envelope_json session_close_frame), (''resume_init'', envelope_json resume_init_frame),
      (''resume_request'', envelope_json resume_request_frame), (''late_complete'', envelope_json late_complete_frame)] s)"

definition demo_deps :: "rstore deps" where
  "demo_deps = \<lparr>d_redis = map_redis, d_sha256 = (\<lambda>s. s), d_loads = demo_loads, d_dump = (\<lambda>e. [])\<rparr>"

definition demo_upgrade :: "role \<Rightarrow> upgrade" where
  "demo_upgrade r = \<lparr>q_role = r, q_host = Some ''192.0.2.1'', q_origin = None, q_forwarded = None\<rparr>"

text \<open>Connect, and let the accept complete.\<close>

definition join :: "ws \<Rightarrow> role \<Rightarrow> event list" where
  "join c r = [Connect c (demo_upgrade r), Resume c]"

text \<open>A frame, with the number of awaits its handling takes.\<close>

primrec awaits :: "ws \<Rightarrow> nat \<Rightarrow> event list" where
  "awaits c 0 = []"
| "awaits c (Suc n) = Resume c # awaits c n"

lemma awaits_numeral [simp]: "awaits c (numeral k) = Resume c # awaits c (pred_numeral k)"
  by (simp add: numeral_eq_Suc)

definition say :: "ws \<Rightarrow> string \<Rightarrow> nat \<Rightarrow> event list" where
  "say c raw n = Frame c ''00'' raw # awaits c n"

section \<open>Evaluating runs\<close>

text \<open>
  The simplifier runs a coroutine when it is told to leave alone what is not reached
  yet: continuations, and the bodies of binds.
\<close>

lemma susp_cong: "w = w' \<Longrightarrow> Susp w k = Susp w' k" by simp
lemma busy_cong: "Busy k = Busy k" by simp
lemma bnd_cong: "m = m' \<Longrightarrow> bnd m f = bnd m' f" by simp
lemma cont_cong: "m = m' \<Longrightarrow> cont m f = cont m' f" by simp
lemma block_cong: "block ms = block ms" by simp

lemmas eval_congs = susp_cong busy_cong bnd_cong cont_cong block_cong

lemma demo_cfg_sel [simp]:
  "pairing_token_ttl_s demo_cfg = 120" "session_pending_ttl_s demo_cfg = 60"
  "max_envelope_bytes demo_cfg = 262144" "protocol_version demo_cfg = 2"
  "rate_limit_ip_max demo_cfg = 20" "rate_limit_ip_window_s demo_cfg = 300"
  "rate_limit_token_max demo_cfg = 5" "handshake_timeout_s demo_cfg = 20"
  "client_origins demo_cfg = [''https://app.example.com'']"
  "trusted_proxy_ips demo_cfg = []" "max_connections_per_ip demo_cfg = 40"
  by (simp_all add: demo_cfg_def)

lemma demo_deps_sel [simp]:
  "d_redis demo_deps = map_redis" "d_sha256 demo_deps = (\<lambda>s. s)" "d_dump demo_deps = (\<lambda>e. [])"
  by (simp_all add: demo_deps_def)

lemma demo_key_ok: "valid_base64_size (JStr demo_key) 32" "demo_key \<noteq> []"
  by code_simp+

lemma demo_device_ok: "device_id_re demo_device"
  by code_simp

lemma demo_sid_ok: "valid_session_id (JStr ''sess-1'')" "valid_hostname (JStr ''host'')"
  by code_simp+

lemma demo_token_ok: "validate_token_format (JStr demo_token) demo_cfg = Inr ()"
  by code_simp

lemma demo_parse:
  "parse_envelope (d_loads demo_deps) (WText ''pair_init'') 262144 2 = Inr pair_init_frame"
  "parse_envelope (d_loads demo_deps) (WText ''pair_request'') 262144 2 = Inr pair_request_frame"
  "parse_envelope (d_loads demo_deps) (WText ''pair_complete'') 262144 2 = Inr pair_complete_frame"
  "parse_envelope (d_loads demo_deps) (WText ''pty_data'') 262144 2 = Inr pty_data_frame"
  "parse_envelope (d_loads demo_deps) (WText ''session_close'') 262144 2 = Inr session_close_frame"
  "parse_envelope (d_loads demo_deps) (WText ''resume_init'') 262144 2 = Inr resume_init_frame"
  "parse_envelope (d_loads demo_deps) (WText ''resume_request'') 262144 2 = Inr resume_request_frame"
  "parse_envelope (d_loads demo_deps) (WText ''late_complete'') 262144 2 = Inr late_complete_frame"
  by code_simp+

lemma demo_routable: "''pty_data'' \<in> set ROUTABLE_TYPES" "''session_close'' \<in> set ROUTABLE_TYPES"
  by code_simp+

lemmas demo_facts = demo_key_ok demo_device_ok demo_sid_ok demo_token_ok demo_parse demo_routable

lemmas frame_defs = pair_init_frame_def pair_request_frame_def pair_complete_frame_def pty_data_frame_def
  session_close_frame_def resume_init_frame_def resume_request_frame_def late_complete_frame_def make_envelope_def

lemmas loop_defs = co_simps Let_def segment_def arm_timer_def init_sys_def init_world_def ws_open_def origin_refused_def
  client_ip_def try_acquire_def limiter_count_def ws_guard_def accept_ws_def ws_arm_def my_ctx_def new_ctx_def
  set_deadline_def exempt_phase_def ws_frame_def demo_upgrade_def join_def say_def

lemmas reg_defs = attach_def create_def get_slot_def slot_ref_of_def get_peer_def slot_get_def slot_set_def
  new_slot_def empty_registry_def heap_upd_def set_phase_def register_device_def session_for_device_def
  role_name_def remove_def detach_def slot_is_empty_def

lemmas handler_defs = dispatch_def handler_for_def handle_pair_init_def handle_pair_request_def
  handle_pair_complete_def handle_resume_init_def handle_resume_request_def handle_routable_def teardown_session_def payload_get_def
  payload_get_none_def dict_get_def pair_init_register_def bind_session_def log_msg_def field_or_key_error_def
  send_to_slot_agent_def error_envelope_def

lemmas store_defs = check_ip_rate_limit_def check_token_rate_limit_def issue_token_def create_session_record_def
  consume_token_def set_session_state_def mark_session_established_def delete_session_record_def redis_call_def
  redis_do_def map_redis_def issue_script_def consume_script_def ip_window_script_def token_attempt_script_def
  k_exists_def k_hset_def hash_at_def ttl_at_def k_expire_def k_persist_def k_incr_def counter_at_def
  k_zremrangebyscore_def zset_at_def k_zadd_def window_expiry_s_def ip_key_def count_key_def block_key_def
  token_key_def session_key_def

text \<open>An agent and a client pair, and the agent is about to send terminal output.\<close>

definition pairing_events :: "event list" where
  "pairing_events = join 1 Agent @ say 1 ''pair_init'' 9 @ join 2 Client @ say 2 ''pair_request'' 10
     @ say 1 ''pair_complete'' 5"

definition holds_after :: "event list \<Rightarrow> (rstore sys \<Rightarrow> bool) \<Rightarrow> bool" where
  "holds_after evs P = (case exec_events demo_deps demo_cfg evs (init_sys Map.empty) of None \<Rightarrow> False | Some s \<Rightarrow> P s)"

definition sends :: "event \<Rightarrow> (ws \<times> envelope) list \<Rightarrow> rstore sys \<Rightarrow> bool" where
  "sends ev new s = (case exec_event demo_deps demo_cfg ev s of None \<Rightarrow> False
     | Some s' \<Rightarrow> w_out (sy_world s') = w_out (sy_world s) @ new)"

lemma holds_afterD: "holds_after evs P \<Longrightarrow> \<exists>s. reachable demo_deps demo_cfg s \<and> P s"
  by (auto simp: holds_after_def split: option.splits intro: exec_events_reachable reachable.start)

lemma sendsD: "sends ev new s \<Longrightarrow>
    \<exists>s'. exec_event demo_deps demo_cfg ev s = Some s' \<and> w_out (sy_world s') = w_out (sy_world s) @ new"
  by (auto simp: sends_def split: option.splits)

lemma demo_terminal_output:
  "holds_after pairing_events (sends (Frame 1 ''00'' ''pty_data'') [(2, pty_data_frame)])"
  by (simp add: holds_after_def sends_def pairing_events_def loop_defs reg_defs handler_defs store_defs
      demo_facts frame_defs cong: eval_congs)

text \<open>
  The client ends the session; the agent's connection stays open. Another agent takes
  the session id over, and a client resumes with it.
\<close>

definition takeover_events :: "event list" where
  "takeover_events = pairing_events @ say 2 ''session_close'' 3 @ join 3 Agent @ say 3 ''resume_init'' 1
     @ join 4 Client @ say 4 ''resume_request'' 5"

text \<open>Twenty seconds after the pairing of \<open>pairing_events\<close>.\<close>

definition idle_events :: "event list" where
  "idle_events = pairing_events @ [Tick 20000 20000 20000]"

end
