(* ===== verification/RelayTheorems.thy ===== *)
theory RelayTheorems
  imports Scenario
begin

text \<open>
  The properties of the running relay: what holds in every reachable state and of
  every step, over all interleavings of the connections' coroutines, with witnesses
  on the concrete runs of Scenario.
\<close>

lemma demo_reachable: "reachable demo_deps demo_cfg (init_sys Map.empty)"
  by (rule reachable.start)

lemma demo_connect: "\<exists>s'. exec_event demo_deps demo_cfg (Connect 1 (demo_upgrade Agent)) (init_sys Map.empty) = Some s'"
  by (simp add: init_sys_def)

text \<open>
  C1. Every step of the running relay keeps the invariant (well-formed table, every
  attached WebSocket bound to that session and role, limiter counts within the cap,
  deadlines within bounds), and is a chain of the abstract actions of one connection
  or a step of the environment.
\<close>

theorem relay_refines_actions:
  assumes "reachable D cfg s" "exec_event D cfg ev s = Some s'"
  shows "relay_inv cfg (sy_world s') \<and>
    ((\<exists>c. (act cfg c)\<^sup>*\<^sup>* (sy_world s) (sy_world s')) \<or> env_step (sy_world s) (sy_world s'))"
proof -
  have "reachable D cfg s'" using assms by (rule reachable.step)
  then show ?thesis
    using reachable_inv step_acts [OF assms] by metis
qed

theorem relay_refines_actions_witness:
  "\<exists>s'. exec_event demo_deps demo_cfg (Connect 1 (demo_upgrade Agent)) (init_sys Map.empty) = Some s' \<and>
     relay_inv demo_cfg (sy_world s')"
  using relay_refines_actions [OF demo_reachable] demo_connect by blast

section \<open>Routing\<close>













section \<open>Connections\<close>

text \<open>
  C26. No dead routes. Once a connection has ended, for whatever reason (disconnect,
  protocol violation, timeout, an exception of a handler or of Redis), no slot of the
  routing table holds its WebSocket, however the teardown of other connections
  interleaves.
\<close>

theorem ended_connection_not_routed:
  assumes "reachable D cfg s" "sy_task s c = Gone"
  shows "endpoint_of (w_reg (sy_world s)) sid r \<noteq> Some c"
proof -
  from reachable_task [OF assms(1), of c] assms(2)
  obtain w0 r0 where "others c w0 (sy_world s)" "\<forall>a. r0 \<noteq> Inr (Some a)" "wait_ok cfg c (w_mono w0) r0 w0" by auto
  then have "unlinked c (sy_world s)"
    by (auto simp: wait_ok_def split: sum.splits option.splits intro: unlinked_others)
  then show ?thesis by (simp add: unlinked_def)
qed

lemma demo_gone:
  "holds_after (join 1 Agent @ [ReceiveError 1 SendFailed]) (\<lambda>s. sy_task s 1 = Gone)"
  by (simp add: holds_after_def loop_defs ws_receive_error_def ws_finally_def handle_disconnect_def
      release_conn_def cong: eval_congs)

theorem ended_connection_not_routed_witness:
  "\<exists>s. reachable demo_deps demo_cfg s \<and> endpoint_of (w_reg (sy_world s)) ''sess-1'' Agent \<noteq> Some 1"
  using holds_afterD [OF demo_gone] ended_connection_not_routed by blast

text \<open>
  C27. No connection can be held open for free: one that waits for input without a
  timer is bound to a session, and every timer lies at most the larger of the
  handshake timeout and the token lifetime ahead.
\<close>

theorem waits_are_bounded:
  assumes "reachable D cfg s" "sy_task s c = Ready timer"
  shows "case timer of
      None \<Rightarrow> c_session_id (w_ctx (sy_world s) c) \<noteq> None
    | Some t \<Rightarrow> t \<le> w_mono (sy_world s) + 1000 * max 0 (max (handshake_timeout_s cfg) (pairing_token_ttl_s cfg))"
proof -
  from reachable_task [OF assms(1), of c] assms(2)
  obtain w0 where w0: "others c w0 (sy_world s)" "wait_ok cfg c (w_mono w0) (Inr (Some timer)) w0" by auto
  have b: "max 0 (deadline_bound cfg) = 1000 * max 0 (max (handshake_timeout_s cfg) (pairing_token_ttl_s cfg))"
    by (auto simp: deadline_bound_def max_def)
  from w0 have "w_mono w0 \<le> w_mono (sy_world s)" "w_ctx (sy_world s) c = w_ctx w0 c"
    by (auto simp: others_def)
  with w0(2) show ?thesis
    unfolding b [symmetric] by (auto simp: wait_ok_def split: option.splits)
qed

lemma demo_ready: "holds_after (join 1 Agent) (\<lambda>s. sy_task s 1 = Ready (Some 20000))"
  by (simp add: holds_after_def loop_defs cong: eval_congs)

theorem waits_are_bounded_witness:
  "\<exists>s. reachable demo_deps demo_cfg s \<and> (20000 :: int) \<le> w_mono (sy_world s) + 120000"
  using holds_afterD [OF demo_ready] waits_are_bounded by fastforce

text \<open>
  C32. The per-address connection limiter never counts more than the configured
  maximum, and stores no entry for an address without connections.
\<close>

theorem connections_capped:
  assumes "reachable D cfg s" "w_limiter (sy_world s) ip = Some n"
  shows "1 \<le> n \<and> n \<le> max_connections_per_ip cfg"
  using reachable_inv [OF assms(1)] assms(2) by (simp add: relay_inv_def limits_ok_def)

lemma demo_counted: "holds_after (join 1 Agent) (\<lambda>s. w_limiter (sy_world s) ''192.0.2.1'' = Some 1)"
  by (simp add: holds_after_def loop_defs cong: eval_congs)

theorem connections_capped_witness:
  "\<exists>s. reachable demo_deps demo_cfg s \<and> (1 :: int) \<le> max_connections_per_ip demo_cfg"
  using holds_afterD [OF demo_counted] connections_capped by blast

text \<open>
  Sequence numbers never go back: over any step of the relay, the last accepted
  sequence number of every connection stays or grows.
\<close>

theorem sequence_never_decreases:
  assumes "reachable D cfg s" "exec_event D cfg ev s = Some s'"
  shows "c_last_seq (w_ctx (sy_world s) c) \<le> c_last_seq (w_ctx (sy_world s') c)"
proof (cases rule: step_acts [OF assms])
  case (1 c)
  then show ?thesis by (rule acts_seq)
next
  case 2
  then show ?thesis by (cases rule: env_step.cases) auto
qed

theorem sequence_never_decreases_witness:
  "\<exists>s'. exec_event demo_deps demo_cfg (Connect 1 (demo_upgrade Agent)) (init_sys Map.empty) = Some s' \<and>
     0 \<le> c_last_seq (w_ctx (sy_world s') 1)"
  using sequence_never_decreases [OF demo_reachable, of _ _ 1] demo_connect
  by (fastforce simp: init_sys_def init_world_def new_ctx_def)

end
