(* ===== verification/TokenLifecycle.thy ===== *)
theory TokenLifecycle
  imports Pairing
begin

text \<open>
  Life of one pairing token on the Redis server: any sequence of the operations
  \<open>issue_token\<close>, \<open>consume_token\<close> and \<open>delete_token\<close> issue for its key, in the order
  the server executes them, at non-decreasing server times. The operations are the
  scripts of the theory Pairing over any server that satisfies the contract.
\<close>

datatype token_cmd =
    TIssue string string string string int
  | TConsume
  | TDelete

datatype token_result = Issued bool | Tried consume_status | Deleted

fun exec_token :: "'db redis \<Rightarrow> string \<Rightarrow> int \<Rightarrow> token_cmd \<Rightarrow> 'db \<Rightarrow> token_result \<times> 'db" where
  "exec_token R key t (TIssue a s h c ttl) db =
     (case issue_script R key a s h c ttl t db of (ok, db') \<Rightarrow> (Issued ok, db'))"
| "exec_token R key t TConsume db =
     (case consume_script R key t db of (res, db') \<Rightarrow> (Tried res, db'))"
| "exec_token R key t TDelete db = (Deleted, r_delete R t key db)"

fun run_token :: "'db redis \<Rightarrow> string \<Rightarrow> (int \<times> token_cmd) list \<Rightarrow> 'db \<Rightarrow> token_result list \<times> 'db" where
  "run_token R key [] db = ([], db)"
| "run_token R key ((t, c) # cs) db =
     (case exec_token R key t c db of (r, db1) \<Rightarrow>
        (case run_token R key cs db1 of (rs, db2) \<Rightarrow> (r # rs, db2)))"

fun is_success :: "token_result \<Rightarrow> bool" where
  "is_success (Tried (Consumed fs)) = True"
| "is_success _ = False"

definition successes :: "token_result list \<Rightarrow> nat" where
  "successes rs = length (filter is_success rs)"

definition issues :: "token_result list \<Rightarrow> nat" where
  "issues rs = length (filter (\<lambda>r. r = Issued True) rs)"

text \<open>A token key holds a hash, if anything; a consumable one is alive and not consumed.\<close>

definition token_typed :: "string \<Rightarrow> rstore \<Rightarrow> bool" where
  "token_typed key m \<longleftrightarrow> (case m key of None \<Rightarrow> True | Some (RHash h, _) \<Rightarrow> True | _ \<Rightarrow> False)"

definition consumable :: "int \<Rightarrow> string \<Rightarrow> rstore \<Rightarrow> bool" where
  "consumable t key m \<longleftrightarrow> alive t (m key) \<noteq> None \<and> token_state t key m \<noteq> Some ''consumed''"

definition credit :: "int \<Rightarrow> string \<Rightarrow> rstore \<Rightarrow> nat" where
  "credit t key m = (if consumable t key m then 1 else 0)"

lemma token_typed_hash: "token_typed key m \<Longrightarrow> is_hash t key m"
  by (auto simp: token_typed_def is_hash_def alive_def split: option.splits prod.splits rvalue.splits)

lemma credit_mono: "t \<le> t' \<Longrightarrow> credit t' key m \<le> credit t key m"
  by (auto simp: credit_def consumable_def token_state_def hash_at_def alive_def
      split: option.splits prod.splits if_splits)

context redis_contract
begin

lemma exec_token_typed:
  assumes "exec_token R key t c db = (r, db')" "token_typed key (view db)"
  shows "token_typed key (view db')"
proof (cases c)
  case (TIssue a s h cr ttl)
  with assms obtain ok where i: "issue_script R key a s h cr ttl t db = (ok, db')"
    by (auto split: prod.splits)
  show ?thesis using issue_script_view(2) [OF i] assms(2) by (auto simp: token_typed_def)
next
  case TConsume
  with assms obtain st where i: "consume_script R key t db = (st, db')"
    by (auto split: prod.splits)
  show ?thesis
    using consume_script_view(3) [OF i token_typed_hash [OF assms(2)]] assms(2)
    by (auto simp: token_typed_def split: consume_status.splits)
next
  case TDelete
  with assms show ?thesis by (auto simp: token_typed_def delete_law)
qed

text \<open>Every step: successes are paid for by issues or by the credit of the token.\<close>

lemma exec_token_credit:
  assumes "exec_token R key t c db = (r, db')" "token_typed key (view db)"
  shows "successes [r] + credit t key (view db') \<le> issues [r] + credit t key (view db)"
proof (cases c)
  case (TIssue a s h cr ttl)
  with assms obtain ok where i: "issue_script R key a s h cr ttl t db = (ok, db')" and r: "r = Issued ok"
    by (auto split: prod.splits)
  show ?thesis using issue_script_view(2) [OF i] r
    by (cases ok) (auto simp: successes_def issues_def credit_def)
next
  case TConsume
  with assms obtain st where i: "consume_script R key t db = (st, db')" and r: "r = Tried st"
    by (auto split: prod.splits)
  note cv = consume_script_view [OF i token_typed_hash [OF assms(2)]]
  show ?thesis
  proof (cases st)
    case (Consumed fs)
    then have "alive t (view db key) \<noteq> None" "token_state t key (view db) \<noteq> Some ''consumed''"
      using cv(1,2) by auto
    then have "consumable t key (view db)" by (simp add: consumable_def)
    moreover have "\<not> consumable t key (view db')"
      using cv(3) Consumed
      by (cases "ttl_at t key (view db)") (auto simp: consumable_def token_state_def hash_at_def)
    ultimately show ?thesis using r Consumed by (simp add: successes_def issues_def credit_def)
  qed (use cv(3) r in \<open>simp_all add: successes_def issues_def\<close>)
next
  case TDelete
  with assms show ?thesis
    by (auto simp: delete_law successes_def issues_def credit_def consumable_def)
qed

lemma run_token_credit:
  assumes "run_token R key cs db = (rs, db')" "token_typed key (view db)"
    and "sorted (map fst cs)" "\<forall>t \<in> set (map fst cs). t0 \<le> t"
  shows "successes rs \<le> issues rs + credit t0 key (view db)"
  using assms
proof (induction cs arbitrary: db rs t0)
  case Nil
  then show ?case by (simp add: successes_def issues_def)
next
  case (Cons tc cs)
  obtain t c where tc: "tc = (t, c)" by fastforce
  from Cons.prems(1) obtain r db1 rs1 where
    x: "exec_token R key t c db = (r, db1)" and y: "run_token R key cs db1 = (rs1, db')" and rs: "rs = r # rs1"
    by (auto simp: tc split: prod.splits)
  have "successes rs1 \<le> issues rs1 + credit t key (view db1)"
    using Cons.IH [OF y exec_token_typed [OF x Cons.prems(2)], of t] Cons.prems(3) by (simp add: tc)
  moreover have "successes [r] + credit t key (view db1) \<le> issues [r] + credit t key (view db)"
    by (rule exec_token_credit [OF x Cons.prems(2)])
  moreover have "credit t key (view db) \<le> credit t0 key (view db)"
    using Cons.prems(4) by (simp add: tc credit_mono)
  moreover have "successes rs = successes [r] + successes rs1" "issues rs = issues [r] + issues rs1"
    by (simp_all add: rs successes_def issues_def)
  ultimately show ?case by linarith
qed

text \<open>The three answers a token gives over its life.\<close>

lemma issued_then_consumed:
  assumes i: "issue_script R key a s h c ttl t0 db = (True, db1)"
    and "t0 \<le> t1" "t1 \<le> t0 + ttl * 1000"
    and "consume_script R key t1 db1 = (res, db2)"
  shows "\<exists>fs. res = Consumed fs \<and> map_of fs ''session_id'' = Some s \<and> map_of fs ''agent_pubkey'' = Some a
            \<and> map_of fs ''agent_hostname'' = Some h"
    and "view db2 key = Some (RHash (token_fields ''consumed'' a s h c), Some (t0 + ttl * 1000))"
proof -
  have v1: "view db1 key = Some (RHash (token_fields ''pending'' a s h c), Some (t0 + ttl * 1000))"
    using issue_script_view(2) [OF i] by simp
  with assms have ty: "is_hash t1 key (view db1)" by (simp add: is_hash_def)
  note cv = consume_script_view [OF assms(4) ty]
  have "res \<noteq> NotFound" "res \<noteq> AlreadyUsed"
    using cv(1,2) v1 assms by (simp_all add: token_state_def hash_at_def token_fields_def)
  then obtain fs where r: "res = Consumed fs" by (cases res) auto
  from cv(4) [OF r] v1 assms r
  show "\<exists>fs. res = Consumed fs \<and> map_of fs ''session_id'' = Some s \<and> map_of fs ''agent_pubkey'' = Some a
            \<and> map_of fs ''agent_hostname'' = Some h"
    by (simp add: hash_at_def token_fields_def)
  show "view db2 key = Some (RHash (token_fields ''consumed'' a s h c), Some (t0 + ttl * 1000))"
    using cv(3) r v1 assms by (simp add: hash_at_def ttl_at_def token_fields_def)
qed

lemma consumed_is_refused:
  assumes "view db key = Some (RHash (token_fields ''consumed'' a s h c), Some d)" "t \<le> d"
    and "consume_script R key t db = (res, db')"
  shows "res = AlreadyUsed"
proof -
  have "is_hash t key (view db)" using assms by (simp add: is_hash_def)
  from consume_script_view(2) [OF assms(3) this] assms show ?thesis
    by (simp add: token_state_def hash_at_def token_fields_def)
qed

lemma expired_is_not_found:
  assumes "view db key = Some (v, Some d)" "d < t" "consume_script R key t db = (res, db')"
  shows "res = NotFound"
proof -
  have "is_hash t key (view db)" using assms by (simp add: is_hash_def)
  from consume_script_view(1) [OF assms(3) this] assms show ?thesis by simp
qed

end

end
