(* ===== verification/HandlerTheorems.thy ===== *)
theory HandlerTheorems
  imports Scenario TokenLifecycle
begin

text \<open>
  What single operations of the relay do, branch by branch: the loop's rejection of
  frames, forwarding, the dispatch table and its error handlers, and the rate limiters
  and tokens over any Redis server that satisfies its contract.
\<close>

section \<open>Frames\<close>





section \<open>Forwarding\<close>

text \<open>A world with an established session between WebSockets 3 and 2.\<close>

definition linked_world :: "rstore world" where
  "linked_world = (init_world Map.empty)\<lparr>
     w_reg := \<lparr>r_sessions = [''sess-1'' \<mapsto> 0],
       r_heap = (\<lambda>_. \<lparr>s_agent = Some 3, s_client = Some 2, s_phase = Established\<rparr>), r_next = 1, r_devices = Map.empty\<rparr>,
     w_ctx := (\<lambda>c. (new_ctx (if c = 3 then Agent else Client) [])\<lparr>c_session_id := Some ''sess-1''\<rparr>)\<rparr>"

lemma linked_facts:
  "c_session_id (w_ctx linked_world 3) = Some ''sess-1''"
  "get_slot ''sess-1'' (w_reg linked_world) = Some \<lparr>s_agent = Some 3, s_client = Some 2, s_phase = Established\<rparr>"
  "s_phase \<lparr>s_agent = Some 3, s_client = Some 2, s_phase = Established\<rparr> = Established"
  "slot_get \<lparr>s_agent = Some 3, s_client = Some 2, s_phase = Established\<rparr> (other_role (c_role (w_ctx linked_world 3))) = Some 2"
  "w_sendable linked_world 2" "w_sendable linked_world 3" "c_role (w_ctx linked_world 3) = Agent"
  "\<not> r_down (d_redis demo_deps) (w_rtime linked_world) (w_db linked_world)"
  by (simp_all add: linked_world_def init_world_def new_ctx_def get_slot_def slot_get_def other_role_def map_redis_def)

text \<open>
  C30. On an established session a routable frame is handed to the peer unchanged, one
  copy, and apart from a log line that carries its size nothing else happens.
\<close>

theorem routable_forwarded_unchanged:
  assumes "c_session_id (w_ctx w c) = Some sid" "e_session_id e = Some sid"
    and "get_slot sid (w_reg w) = Some s" "s_phase s = Established"
    and "slot_get s (other_role (c_role (w_ctx w c))) = Some p" "w_sendable w p"
    and "e_type e \<noteq> ''session_close''"
  shows "run (handle_routable D c e) w = (Inr (), w\<lparr>w_out := w_out w @ [(p, e)], w_logs := w_logs w @
     [\<lparr>l_event = ''routed'', l_session_id = Some sid, l_msg_type = Some (e_type e),
       l_byte_count = Some (length (d_dump D e)), l_peer_ip = Some (c_peer_ip (w_ctx w c)), l_error = None\<rparr>]\<rparr>)"
  using assms
  by (simp add: handle_routable_def my_ctx_def get_peer_def log_msg_def)

theorem routable_forwarded_unchanged_witness:
  "\<exists>l. run (handle_routable demo_deps 3 pty_data_frame) linked_world =
     (Inr (), linked_world\<lparr>w_out := w_out linked_world @ [(2, pty_data_frame)], w_logs := w_logs linked_world @ [l]\<rparr>)"
  using routable_forwarded_unchanged [of linked_world 3 "''sess-1''" pty_data_frame, OF linked_facts(1) _ linked_facts(2-5)]
  by (auto simp: pty_data_frame_def make_envelope_def)

lemma device_remove: "session_for_device d (remove sid rg) \<noteq> Some sid"
  by (simp add: session_for_device_def remove_def)

text \<open>
  C0. \<open>session_close\<close> is forwarded first, then the session is dropped: neither
  endpoint is routable any more and no device leads to the session.
\<close>

theorem session_close_tears_down:
  assumes "c_session_id (w_ctx w c) = Some sid" "e_session_id e = Some sid"
    and "get_slot sid (w_reg w) = Some s" "s_phase s = Established"
    and "slot_get s (other_role (c_role (w_ctx w c))) = Some p" "w_sendable w p"
    and "e_type e = ''session_close''" "\<not> r_down (d_redis D) (w_rtime w) (w_db w)"
    and "run (handle_routable D c e) w = (r, w')"
  shows "r = Inr () \<and> w_out w' = w_out w @ [(p, e)] \<and> w_db w' = r_delete (d_redis D) (w_rtime w) (session_key sid) (w_db w)
     \<and> (\<forall>role. endpoint_of (w_reg w') sid role = None) \<and> (\<forall>d. session_for_device d (w_reg w') \<noteq> Some sid)
     \<and> (\<forall>sid' role. sid' \<noteq> sid \<longrightarrow> endpoint_of (w_reg w') sid' role = endpoint_of (w_reg w) sid' role)"
  using assms
  by (auto simp: handle_routable_def my_ctx_def get_peer_def log_msg_def teardown_session_def
      delete_session_record_def remove_endpoint device_remove)

theorem session_close_tears_down_witness:
  "\<exists>w' :: rstore world. w_out w' = w_out linked_world @ [(2, session_close_frame)] \<and> endpoint_of (w_reg w') ''sess-1'' Agent = None"
proof -
  obtain r w' where r: "run (handle_routable demo_deps 3 session_close_frame) linked_world = (r, w')" by fastforce
  have "e_session_id session_close_frame = Some ''sess-1''" "e_type session_close_frame = ''session_close''"
    by (simp_all add: session_close_frame_def make_envelope_def)
  note closed = session_close_tears_down [OF linked_facts(1) this(1) linked_facts(2-5) this(2) linked_facts(8) r]
  show ?thesis
    by (rule exI [of _ w']) (simp add: closed)
qed

section \<open>Dispatch\<close>

text \<open>
  A message type outside the role's table changes nothing and is answered with a
  protocol error, whatever the session's state.
\<close>

theorem wrong_role_refused:
  assumes "e_type e \<notin> set (role_types (c_role (w_ctx w c)))" "w_sendable w c"
  shows "\<exists>msg. run (dispatch D cfg uid c e) w =
     (Inr (), w\<lparr>w_out := w_out w @ [(c, error_envelope (c_session_id (w_ctx w c)) ''protocol_error'' msg)]\<rparr>)"
  using assms by (auto simp: dispatch_def my_ctx_def)

theorem wrong_role_refused_witness:
  "\<exists>e. run (dispatch demo_deps demo_cfg ''00'' 3 pair_request_frame) linked_world =
     (Inr (), linked_world\<lparr>w_out := w_out linked_world @ [(3, e)]\<rparr>)"
proof -
  have "e_type pair_request_frame \<notin> set (role_types (c_role (w_ctx linked_world 3)))"
    by (simp add: linked_facts(7) pair_request_frame_def make_envelope_def)
  from wrong_role_refused [OF this linked_facts(6)] show ?thesis by blast
qed

lemma role_types_handled:
  "ty \<in> set (role_types r) \<Longrightarrow>
     ty \<in> {''pair_init'', ''pair_request'', ''pair_complete'', ''resume_init'', ''resume_request'',
            ''resume_challenge'', ''resume_proof'', ''resume_complete''} \<or> ty \<in> set ROUTABLE_TYPES"
  by (cases r) (auto simp: ROUTABLE_TYPES_def SESSION_CONTROL_TYPES_def TERMINAL_DATA_TYPES_def PORT_FORWARD_TYPES_def)

text \<open>
  The dispatch table is complete: every type a role may send has a handler or is
  routable, so the final \<open>unknown_type\<close> reply of \<open>dispatch\<close> is never sent.
\<close>

theorem dispatch_table_complete:
  assumes "e_type e \<in> set (role_types (c_role (w_ctx w c)))"
  shows "handler_for D cfg uid c e \<noteq> None \<or> e_type e \<in> set ROUTABLE_TYPES"
  using role_types_handled [OF assms] by (auto simp: handler_for_def)

theorem dispatch_table_complete_witness:
  "handler_for demo_deps demo_cfg ''00'' 3 pty_data_frame \<noteq> None \<or> e_type pty_data_frame \<in> set ROUTABLE_TYPES"
proof -
  have "e_type pty_data_frame \<in> set (role_types (c_role (w_ctx linked_world 3)))"
    by (simp add: linked_facts(7) pty_data_frame_def make_envelope_def)
  then show ?thesis by (rule dispatch_table_complete)
qed

subsection \<open>Which exceptions leave a handler\<close>

definition raises_only :: "(relay_exn \<Rightarrow> bool) \<Rightarrow> ('db, 'a) relay_co \<Rightarrow> bool" where
  "raises_only P m \<longleftrightarrow>
     (\<forall>w. safe (\<lambda>_. True) (\<lambda>_ _. True) (\<lambda>_ _. True) (\<lambda>r _. case r of Inl x \<Rightarrow> P x | Inr _ \<Rightarrow> True) (m w) w)"

lemma safe_trivial: "safe (\<lambda>_. True) (\<lambda>_ _. True) (\<lambda>_ _. True) (\<lambda>_ _. True) out w"
  by (induction out arbitrary: w) auto

lemma raises_only_bnd: "raises_only P m \<Longrightarrow> (\<And>a. raises_only P (f a)) \<Longrightarrow> raises_only P (bnd m f)"
  unfolding raises_only_def
  by (auto intro!: safe_bnd [where Q = "\<lambda>r _. case r of Inl x \<Rightarrow> P x | Inr _ \<Rightarrow> True"] simp: transp_def)

lemma raises_only_attempt: "raises_only P (attempt m)"
  unfolding raises_only_def attempt_def
  by (auto intro!: safe_attempt intro: safe_weaken [OF safe_trivial])

lemma raises_only_prims [simp]:
  "raises_only P (ret a)" "raises_only P (gets g)" "raises_only P (modify h)" "raises_only P skip"
  "raises_only P pause" "raises_only P (raise x) = P x" "raises_only P (reg_upd g')" "raises_only P (upd_ctx c u)"
  "raises_only P (log_event ev s m b p er)"
  by (simp_all add: raises_only_def co_simps)

lemma raises_only_send: "P SendFailed \<Longrightarrow> raises_only P (send_envelope x e)"
  by (simp add: raises_only_def co_simps)

lemma raises_only_redis: "P RedisError \<Longrightarrow> raises_only P (redis_call D f)"
  unfolding redis_call_def
  by (intro raises_only_bnd) (auto simp: raises_only_def co_simps split: prod.splits)

text \<open>
  C0. No error class of the relay escapes \<open>dispatch\<close>, under any interleaving at its
  awaits: token and rate-limit errors become error replies, and what can still
  propagate (and end the connection) is a failed send, a Redis failure or a
  programming error.
\<close>

theorem dispatch_contains_relay_errors:
  "safe (\<lambda>_. True) (\<lambda>_ _. True) (\<lambda>_ _. True) (\<lambda>r _. case r of Inl x \<Rightarrow> \<not> is_relay_error x | Inr _ \<Rightarrow> True)
     (dispatch D cfg uid c e w) w"
proof -
  have err: "raises_only (\<lambda>x. \<not> is_relay_error x) (send_error c code msg)" for code msg
    unfolding send_error_def by (intro raises_only_bnd raises_only_send raises_only_prims) simp
  have handler: "raises_only (\<lambda>x. \<not> is_relay_error x) (on_handler_error c exc)" for exc
    unfolding on_handler_error_def by (cases exc) (simp_all add: err)
  have routable: "raises_only (\<lambda>x. \<not> is_relay_error x) (handle_routable D c e)"
    unfolding handle_routable_def teardown_session_def delete_session_record_def redis_do_def log_msg_def my_ctx_def
    by (auto intro!: raises_only_bnd raises_only_send raises_only_redis err split: option.splits)
  have "raises_only (\<lambda>x. \<not> is_relay_error x) (dispatch D cfg uid c e)"
    unfolding dispatch_def my_ctx_def
    by (auto intro!: raises_only_bnd raises_only_attempt err handler routable split: option.splits sum.splits)
  then show ?thesis by (simp add: raises_only_def)
qed

section \<open>Pairing tokens\<close>

text \<open>
  C22. A pairing token is worth at most one pairing: over any sequence of issue,
  consume and delete operations on its key that the server executes in time order,
  however many relay coroutines they come from, successful consumptions never
  outnumber successful issues.
\<close>

theorem token_pays_once:
  assumes "redis_contract R view" "view db key = None"
    and "run_token R key cs db = (rs, db')" "sorted (map fst cs)"
  shows "successes rs \<le> issues rs"
proof -
  have le: "\<forall>t \<in> set (map fst cs). Min (set (0 # map fst cs)) \<le> t" by simp
  have "credit t key (view db) = 0" for t by (simp add: assms(2) credit_def consumable_def)
  with redis_contract.run_token_credit [OF assms(1,3) _ assms(4) le] assms(2) show ?thesis
    by (simp add: token_typed_def)
qed

theorem token_pays_once_witness:
  "successes (fst (run_token map_redis ''k''
     [(0, TIssue ''a'' ''s'' ''h'' ''0'' 120), (1, TConsume), (2, TConsume)] Map.empty)) \<le> 1"
proof -
  obtain rs db' where r: "run_token map_redis ''k''
     [(0, TIssue ''a'' ''s'' ''h'' ''0'' 120), (1, TConsume), (2, TConsume)] Map.empty = (rs, db')" by fastforce
  have "successes rs \<le> issues rs"
    by (rule token_pays_once [OF map_store.redis_contract_axioms _ r]) simp_all
  moreover have "issues rs \<le> 1"
    using r by (auto simp: issues_def split: prod.splits)
  ultimately show ?thesis using r by simp
qed

text \<open>
  C23. The life of a token: issued on a free key, the first attempt within its lifetime
  consumes it and yields exactly the stored session, key and host name; every later
  attempt within the lifetime is told it was used, and after the lifetime it is gone.
\<close>

theorem token_lifecycle:
  assumes "redis_contract R view"
    and "issue_script R key pubkey sid host created ttl t0 db = (True, db1)"
    and "t0 \<le> t1" "t1 \<le> t0 + ttl * 1000"
    and "consume_script R key t1 db1 = (first, db2)" "consume_script R key t2 db2 = (second, db3)"
  shows "(\<exists>fs. first = Consumed fs \<and> map_of fs ''session_id'' = Some sid \<and> map_of fs ''agent_pubkey'' = Some pubkey
            \<and> map_of fs ''agent_hostname'' = Some host)
     \<and> second = (if t2 \<le> t0 + ttl * 1000 then AlreadyUsed else NotFound)"
proof -
  note life = redis_contract.issued_then_consumed [OF assms(1,2,3,4,5)]
  show ?thesis
    using life(1) redis_contract.consumed_is_refused [OF assms(1) life(2) _ assms(6)]
      redis_contract.expired_is_not_found [OF assms(1) life(2) _ assms(6)]
    by (cases "t2 \<le> t0 + ttl * 1000") auto
qed

theorem token_lifecycle_witness:
  "\<exists>db1 db2 fs db3. issue_script map_redis ''k'' ''a'' ''s'' ''h'' ''0'' 120 0 Map.empty = (True, db1) \<and>
     consume_script map_redis ''k'' 1 db1 = (Consumed fs, db2) \<and> consume_script map_redis ''k'' 2 db2 = (AlreadyUsed, db3)"
proof -
  obtain db1 where i: "issue_script map_redis ''k'' ''a'' ''s'' ''h'' ''0'' 120 0 Map.empty = (True, db1)"
    by (simp add: issue_script_def map_redis_def k_exists_def)
  obtain x db2 where x: "consume_script map_redis ''k'' 1 db1 = (x, db2)" by fastforce
  obtain y db3 where y: "consume_script map_redis ''k'' 2 db2 = (y, db3)" by fastforce
  have "(\<exists>fs. x = Consumed fs \<and> map_of fs ''session_id'' = Some ''s'' \<and> map_of fs ''agent_pubkey'' = Some ''a''
            \<and> map_of fs ''agent_hostname'' = Some ''h'') \<and> y = (if 2 \<le> (0::int) + 120 * 1000 then AlreadyUsed else NotFound)"
    by (rule token_lifecycle [OF map_store.redis_contract_axioms i _ _ x y]) simp_all
  with i x y show ?thesis by auto
qed

section \<open>Rate limits\<close>

text \<open>
  C24. The per-address limiter of the Lua script decides exactly as the sliding-window
  reference: an attempt passes when at most the configured number of attempts, itself
  included, are younger than the window. Relay time and server time may drift by the
  second the key outlives the window.
\<close>

theorem ip_limiter_is_sliding_window:
  assumes "redis_contract R view" "view db (ip_key ip) = None" "0 < window_ms"
    and "clocks_ok attempts" "distinct (map (snd \<circ> snd) attempts)"
  shows "fst (run_window R (ip_key ip) window_ms max_n attempts db) = spec_window window_ms max_n [] attempts"
  using assms by (rule redis_contract.run_window_fresh)

theorem ip_limiter_is_sliding_window_witness:
  "fst (run_window map_redis (ip_key ''1'') 1000 1 [(0, 0, ''a''), (500, 500, ''b''), (1600, 1600, ''c'')] Map.empty)
     = [True, False, True]"
proof -
  have "fst (run_window map_redis (ip_key ''1'') 1000 1 [(0, 0, ''a''), (500, 500, ''b''), (1600, 1600, ''c'')] Map.empty)
     = spec_window 1000 1 [] [(0, 0, ''a''), (500, 500, ''b''), (1600, 1600, ''c'')]"
    by (rule ip_limiter_is_sliding_window [OF map_store.redis_contract_axioms]) (simp_all add: clocks_step_def)
  then show ?thesis by (simp add: window_allows_def recent_def)
qed

text \<open>
  C25. The per-token limiter lets exactly the configured number of attempts through,
  then none for the rest of the token's lifetime, whenever in it the first attempt came.
\<close>

theorem token_attempts_capped:
  assumes "redis_contract R view"
    and "view db (count_key D token) = None" "view db (block_key D token) = None" "0 \<le> ttl" "sorted ts"
    and "\<forall>t \<in> set ts. issued \<le> t \<and> t \<le> issued + ttl * 1000"
  shows "fst (run_attempts R (count_key D token) (block_key D token) (int max_n) ttl ts db)
     = map (\<lambda>i. i < max_n) [0..<length ts]"
proof -
  have "count_key D token \<noteq> block_key D token" by (simp add: count_key_def block_key_def)
  from redis_contract.run_attempts_fresh [OF assms(1,2,3) this assms(4,5,6)] show ?thesis .
qed

theorem token_attempts_capped_witness:
  "fst (run_attempts map_redis (count_key demo_deps ''t'') (block_key demo_deps ''t'') (int 1) 120 [5, 6, 7] Map.empty)
     = [True, False, False]"
proof -
  have "fst (run_attempts map_redis (count_key demo_deps ''t'') (block_key demo_deps ''t'') (int 1) 120 [5, 6, 7] Map.empty)
     = map (\<lambda>i. i < 1) [0..<length [5, 6, 7 :: int]]"
    by (rule token_attempts_capped [OF map_store.redis_contract_axioms, where issued = 0]) simp_all
  then show ?thesis by (simp add: upt_rec)
qed

end
