(* ===== verification/DataTheorems.thy ===== *)
theory DataTheorems
  imports Scenario
begin

text \<open>
  Properties of the relay's data: configuration, envelopes, base64, the connection
  limiter as a refinement of a count per address, and the routing table.
\<close>

section \<open>Configuration\<close>

text \<open>
  C34. A relay only starts with settings inside every documented bound, on protocol
  version 2, and with at least one browser origin, each of which is an HTTPS URL.
\<close>

theorem from_env_bounds:
  assumes "from_env ip_ok env = Inr cfg"
  shows "config_ok cfg \<and> (\<forall>x \<in> set (client_origins cfg). https_origin ip_ok x)"
proof -
  have "config_ok cfg \<and> all_https ip_ok (client_origins cfg) = Inr True"
    using assms
    by (auto simp: from_env_def Let_def config_ok_def PROTOCOL_VERSION_def
        split: if_splits dest!: and_then_InrD bounded_int_InrD)
  then show ?thesis by (auto intro: all_https_InrD)
qed

definition demo_env :: environ where
  "demo_env = [''CLIENT_ORIGINS'' \<mapsto> ''https://a.b'']"

theorem from_env_bounds_witness:
  "\<exists>cfg. from_env (\<lambda>_. True) demo_env = Inr cfg \<and> config_ok cfg"
proof -
  have "case from_env (\<lambda>_. True) demo_env of Inr cfg \<Rightarrow> True | Inl x \<Rightarrow> False" by code_simp
  then obtain cfg where c: "from_env (\<lambda>_. True) demo_env = Inr cfg" by (auto split: sum.splits)
  from from_env_bounds [OF c] c show ?thesis by blast
qed

section \<open>Envelopes\<close>




section \<open>Base64\<close>

text \<open>Encoding then strictly decoding gives the bytes back, and the size check sees their number.\<close>

theorem base64_round_trip:
  assumes "list_all is_byte bs"
  shows "b64decode (b64encode bs) = Some bs \<and> (valid_base64_size (JStr (b64encode bs)) n \<longleftrightarrow> length bs = n)"
  using b64decode_b64encode [OF assms] by (simp add: valid_base64_size_def)

theorem base64_round_trip_witness: "b64decode (b64encode [0, 255, 7]) = Some [0, 255, 7]"
  using base64_round_trip [of "[0, 255, 7]"] by (simp add: is_byte_def)

section \<open>The connection limiter\<close>

datatype limiter_cmd = Acquire string | Release string

text \<open>The code's limiter, and the reference that just counts the connections held.\<close>

fun run_limiter :: "int \<Rightarrow> limiter_cmd list \<Rightarrow> limiter \<Rightarrow> bool list \<times> limiter" where
  "run_limiter m [] l = ([], l)"
| "run_limiter m (Acquire ip # cs) l =
     (case try_acquire ip m l of (ok, l1) \<Rightarrow> (case run_limiter m cs l1 of (oks, l2) \<Rightarrow> (ok # oks, l2)))"
| "run_limiter m (Release ip # cs) l = run_limiter m cs (release_conn ip l)"

fun count_limiter :: "int \<Rightarrow> limiter_cmd list \<Rightarrow> (string \<Rightarrow> nat) \<Rightarrow> bool list \<times> (string \<Rightarrow> nat)" where
  "count_limiter m [] held = ([], held)"
| "count_limiter m (Acquire ip # cs) held =
     (let ok = int (held ip) < m in
      case count_limiter m cs (if ok then held(ip := Suc (held ip)) else held) of (oks, h) \<Rightarrow> (ok # oks, h))"
| "count_limiter m (Release ip # cs) held = count_limiter m cs (held(ip := held ip - 1))"

text \<open>Releases match earlier acquisitions, as the \<open>finally\<close> of \<open>_ws_loop\<close> guarantees.\<close>

fun balanced :: "int \<Rightarrow> limiter_cmd list \<Rightarrow> (string \<Rightarrow> nat) \<Rightarrow> bool" where
  "balanced m [] held = True"
| "balanced m (Acquire ip # cs) held = balanced m cs (if int (held ip) < m then held(ip := Suc (held ip)) else held)"
| "balanced m (Release ip # cs) held = (0 < held ip \<and> balanced m cs (held(ip := held ip - 1)))"

lemma run_limiter_refines:
  assumes "limiter_rep held l" "balanced m cs held"
  shows "fst (run_limiter m cs l) = fst (count_limiter m cs held) \<and>
    limiter_rep (snd (count_limiter m cs held)) (snd (run_limiter m cs l))"
  using assms
proof (induction m cs held arbitrary: l rule: count_limiter.induct)
  case (2 m ip cs held)
  obtain ok l1 where acq: "try_acquire ip m l = (ok, l1)" by fastforce
  note step = limiter_rep_acquire [OF "2.prems"(1) acq]
  have bal: "balanced m cs (if ok then held(ip := Suc (held ip)) else held)"
    using "2.prems"(2) step(1) by simp
  have "fst (run_limiter m cs l1) = fst (count_limiter m cs (if ok then held(ip := Suc (held ip)) else held)) \<and>
    limiter_rep (snd (count_limiter m cs (if ok then held(ip := Suc (held ip)) else held))) (snd (run_limiter m cs l1))"
    using "2.IH" [OF refl, of l1] step bal by simp
  with acq step(1) show ?case by (auto split: prod.splits)
next
  case (3 m ip cs held)
  then have p: "0 < held ip" and bal: "balanced m cs (held(ip := held ip - 1))" by simp_all
  from "3.IH" [OF limiter_rep_release [OF "3.prems"(1) p] bal] show ?case by (simp add: fun_upd_def)
qed simp

text \<open>
  C33. The connection limiter is a refinement of counting: over any sequence of
  connections and disconnections it admits exactly those connections whose address
  holds fewer than the maximum, and ends with exactly the counts that are held.
\<close>

theorem limiter_refines_count:
  assumes "balanced m cs (\<lambda>_. 0)"
  shows "fst (run_limiter m cs Map.empty) = fst (count_limiter m cs (\<lambda>_. 0)) \<and>
    limiter_count ip (snd (run_limiter m cs Map.empty)) = int (snd (count_limiter m cs (\<lambda>_. 0)) ip)"
proof -
  have "limiter_rep (\<lambda>_. 0) Map.empty" by (simp add: limiter_rep_def)
  from run_limiter_refines [OF this assms] show ?thesis by (simp add: limiter_rep_count)
qed

theorem limiter_refines_count_witness:
  "fst (run_limiter 1 [Acquire ''a'', Acquire ''a'', Release ''a'', Acquire ''a''] Map.empty) = [True, False, True]"
proof -
  have "fst (run_limiter 1 [Acquire ''a'', Acquire ''a'', Release ''a'', Acquire ''a''] Map.empty)
     = fst (count_limiter 1 [Acquire ''a'', Acquire ''a'', Release ''a'', Acquire ''a''] (\<lambda>_. 0))"
    using limiter_refines_count [of 1 "[Acquire ''a'', Acquire ''a'', Release ''a'', Acquire ''a'']"] by simp
  then show ?thesis by simp
qed

section \<open>The routing table\<close>

text \<open>
  C37. An attached WebSocket cannot be displaced: whatever sequence of attach, detach
  and remove operations follows, as long as none of them detaches that role of that
  session or removes the session, the session's endpoint is still the same.
\<close>

theorem attached_endpoint_stays:
  assumes "wf_registry rg" "endpoint_of rg sid r = Some w"
    and "RDetach sid r \<notin> set cmds" "RRemove sid \<notin> set cmds"
  shows "endpoint_of (foldl (routing_table.exec attach_reg detach remove) rg cmds) sid r = Some w"
  using assms by (rule reg.incumbent_stays)

theorem attached_endpoint_stays_witness:
  "endpoint_of (foldl (routing_table.exec attach_reg detach remove) (attach_reg ''s'' Agent 1 empty_registry)
     [RAttach ''s'' Agent 2, RDetach ''s'' Client]) ''s'' Agent = Some 1"
proof (rule attached_endpoint_stays)
  show "wf_registry (attach_reg ''s'' Agent 1 empty_registry)" by (simp add: wf_attach_reg)
  show "endpoint_of (attach_reg ''s'' Agent 1 empty_registry) ''s'' Agent = Some 1"
    by (simp add: attach_reg_def attach_def create_def endpoint_of_def get_slot_def slot_get_def slot_set_def
        empty_registry_def new_slot_def heap_upd_def Let_def)
qed simp_all

end
