(* ===== verification/Findings.thy ===== *)
theory Findings
  imports Scenario TokenLifecycle
begin

text \<open>
  Behaviours of the relay that differ from what its comments or documents say, each
  as a theorem about the model: concrete reachable runs where the interleaving
  matters, general statements elsewhere.
\<close>

section \<open>A connection that outlives its session\<close>

text \<open>
  C0. After \<open>session_close\<close> the agent's connection stays open and stays bound to the
  session id. When another agent takes the id over, a frame of the old connection
  still passes the checks of \<open>handle_pair_complete\<close>, which compare session ids but not
  the WebSocket: the new agent's session is marked established and its client gets
  the old connection's message.
\<close>

theorem stale_agent_establishes_new_session:
  "\<exists>s s' sl. reachable demo_deps demo_cfg s \<and>
     exec_event demo_deps demo_cfg (Frame 1 ''00'' ''late_complete'') s = Some s' \<and>
     endpoint_of (w_reg (sy_world s)) ''sess-1'' Agent = Some 3 \<and>
     get_slot ''sess-1'' (w_reg (sy_world s')) = Some sl \<and> s_phase sl = Established \<and>
     w_out (sy_world s') = w_out (sy_world s) @ [(4, late_complete_frame)]"
proof -
  have "holds_after takeover_events (\<lambda>s. endpoint_of (w_reg (sy_world s)) ''sess-1'' Agent = Some 3 \<and>
     (case exec_event demo_deps demo_cfg (Frame 1 ''00'' ''late_complete'') s of None \<Rightarrow> False
      | Some s' \<Rightarrow> w_out (sy_world s') = w_out (sy_world s) @ [(4, late_complete_frame)] \<and>
          (case get_slot ''sess-1'' (w_reg (sy_world s')) of None \<Rightarrow> False | Some sl \<Rightarrow> s_phase sl = Established)))"
    by (simp add: holds_after_def takeover_events_def pairing_events_def endpoint_of_def loop_defs reg_defs
        handler_defs store_defs demo_facts frame_defs cong: eval_congs)
  from holds_afterD [OF this] show ?thesis by (auto split: option.splits) blast
qed

section \<open>The timer of the client that paired\<close>

text \<open>
  C0. The timeout of a read is fixed before the read. A client that sent \<open>pair_request\<close>
  and then stays silent is closed with \<open>handshake timed out\<close> although its session was
  established meanwhile, a phase the comment in \<open>_ws_loop\<close> declares exempt.
\<close>

theorem established_client_times_out:
  "\<exists>s s'. reachable demo_deps demo_cfg s \<and> exempt_phase (w_reg (sy_world s)) (Some ''sess-1'') \<and>
     c_session_id (w_ctx (sy_world s) 2) = Some ''sess-1'' \<and>
     exec_event demo_deps demo_cfg (Timeout 2) s = Some s' \<and> w_closed (sy_world s') = [(2, ''handshake timed out'')]"
proof -
  have "holds_after idle_events (\<lambda>s. exempt_phase (w_reg (sy_world s)) (Some ''sess-1'') \<and>
     c_session_id (w_ctx (sy_world s) 2) = Some ''sess-1'' \<and>
     (case exec_event demo_deps demo_cfg (Timeout 2) s of None \<Rightarrow> False
      | Some s' \<Rightarrow> w_closed (sy_world s') = [(2, ''handshake timed out'')]))"
    by (simp add: holds_after_def ws_timeout_def idle_events_def pairing_events_def close_frame_def loop_defs
        reg_defs handler_defs store_defs demo_facts frame_defs cong: eval_congs)
  from holds_afterD [OF this] show ?thesis by (auto split: option.splits)
qed

section \<open>Resuming evicts the incumbent\<close>

text \<open>
  C0. \<open>handle_resume_init\<close> undoes its attach on any \<open>ValueError\<close>, also when the attach
  itself was refused: then the \<open>detach\<close> removes the agent that was connected already.
\<close>

theorem refused_resume_evicts_incumbent:
  assumes "c_role (w_ctx w c) = Agent" "c_session_id (w_ctx w c) = None" "wf_registry (w_reg w)"
    and "payload_get e ''session_id'' = JStr sid" "session_id_re sid"
    and "payload_get e ''device_id'' = JStr dev" "device_id_re dev"
    and "valid_base64_size (payload_get e ''agent_pubkey'') 32" "valid_hostname (payload_get e ''agent_hostname'')"
    and "endpoint_of (w_reg w) sid Agent = Some a" "a \<noteq> c" "w_sendable w c"
    and "run (handle_resume_init D cfg uid c e) w = (r, w')"
  shows "r = Inr () \<and> endpoint_of (w_reg w') sid Agent = None \<and>
     (\<exists>msg. w_out w' = w_out w @ [(c, error_envelope None ''session_conflict'' msg)])"
proof (cases sid Agent c "w_reg w" rule: attach_cases)
  case (free ref rg1)
  with assms(10,11) have False
    by (auto simp: attach_def create_def endpoint_of_def get_slot_def Let_def split: option.splits if_splits)
  then show ?thesis ..
next
  case (taken m)
  from assms have "w' = w\<lparr>w_reg := detach sid Agent (w_reg w),
      w_out := w_out w @ [(c, error_envelope None ''session_conflict'' ''device or session is already connected'')]\<rparr>" "r = Inr ()"
    by (auto simp: handle_resume_init_def my_ctx_def valid_session_id_def taken)
  with detach_endpoint [OF assms(3)] show ?thesis by auto
qed

definition occupied_world :: "rstore world" where
  "occupied_world = (init_world Map.empty)\<lparr>w_reg := attach_reg ''sess-1'' Agent 7 empty_registry,
     w_ctx := (\<lambda>c. new_ctx Agent [])\<rparr>"

theorem refused_resume_evicts_incumbent_witness:
  "\<exists>w'. endpoint_of (w_reg (occupied_world)) ''sess-1'' Agent = Some 7 \<and>
     endpoint_of (w_reg (w' :: rstore world)) ''sess-1'' Agent = None"
proof -
  have here: "endpoint_of (w_reg occupied_world) ''sess-1'' Agent = Some 7"
    by (simp add: occupied_world_def endpoint_attach endpoint_of_def empty_no_slot get_slot_def attach_reg_def
        attach_def create_def slot_get_def slot_set_def empty_registry_def new_slot_def heap_upd_def Let_def)
  obtain r w' where run: "run (handle_resume_init demo_deps demo_cfg ''00'' 3 resume_init_frame) occupied_world = (r, w')"
    by fastforce
  have "r = Inr () \<and> endpoint_of (w_reg w') ''sess-1'' Agent = None \<and>
     (\<exists>msg. w_out w' = w_out occupied_world @ [(3, error_envelope None ''session_conflict'' msg)])"
    by (rule refused_resume_evicts_incumbent [OF _ _ _ _ _ _ demo_device_ok _ _ here _ _ run])
       (simp_all add: occupied_world_def init_world_def new_ctx_def wf_attach_reg resume_init_frame_def
        make_envelope_def payload_get_def dict_get_def demo_key_ok demo_sid_ok, code_simp)
  with here show ?thesis by blast
qed

section \<open>Tokens\<close>

text \<open>A token may end in a newline: \<open>$\<close> matches before it.\<close>

theorem token_with_newline_accepted:
  assumes "list_all url_safe_char body" "body \<noteq> []"
    and "token_min_len cfg \<le> int (length body) + 1" "int (length body) + 1 \<le> token_max_len cfg"
  shows "validate_token_format (JStr (body @ [newline])) cfg = Inr ()"
proof -
  have "token_re_match (body @ [newline])" using assms(1,2) by (auto simp: token_re_match_iff)
  with assms(3,4) show ?thesis by (simp add: validate_token_format_def add.commute)
qed

text \<open>
  \<open>TOKEN_MIN_LEN\<close> and \<open>TOKEN_MAX_LEN\<close> are bounded separately, so a configuration that
  passes every check may accept no token at all.
\<close>

theorem config_may_refuse_every_token:
  "\<exists>cfg. config_ok cfg \<and> (\<forall>j. validate_token_format j cfg \<noteq> Inr ())"
proof (intro exI conjI allI)
  let ?cfg = "demo_cfg\<lparr>token_min_len := 64, token_max_len := 32\<rparr>"
  show "config_ok ?cfg" by (simp add: config_ok_def demo_cfg_def)
  show "validate_token_format j ?cfg \<noteq> Inr ()" for j
    by (auto dest!: validate_token_InrD)
qed

section \<open>Session records\<close>

text \<open>
  \<open>set_session_state\<close> writes the field whether or not the record still exists. Once the
  pending record has expired (60 seconds by default, half the token's lifetime), it
  creates one without a lifetime.
\<close>

theorem expired_record_comes_back_for_good:
  assumes "redis_contract (d_redis D) view" "\<not> r_down (d_redis D) (w_rtime w) (w_db w)"
    and "alive (w_rtime w) (view (w_db w) (session_key sid)) = None"
    and "run (set_session_state D sid st) w = (r, w')"
  shows "view (w_db w') (session_key sid) = Some (RHash [(''state'', st)], None)"
proof -
  have "is_hash (w_rtime w) (session_key sid) (view (w_db w))" using assms(3) by simp
  from redis_contract.hset_law [OF assms(1) this, of "[(''state'', st)]"] assms show ?thesis
    by (auto simp: set_session_state_def k_hset_def hash_at_def ttl_at_def)
qed

end
