(* ===== verification/AgentErrors.thy ===== *)
theory AgentErrors
  imports Prelude
begin

text \<open>
  The exceptions of the agent: its own classes (\<open>CryptoError\<close>, \<open>HandshakeError\<close>,
  \<open>EnvelopeError\<close>, \<open>SessionError\<close>) and the built-in ones its code can raise. Messages
  keep the prefix the source writes; what it appends of a library's own message, or of
  a payload's \<open>repr\<close>, is left out. \<open>ValidationError\<close> is pydantic's, \<open>ConnectionClosed\<close>
  the WebSocket library's.
\<close>

datatype agent_exn =
    CryptoError string
  | HandshakeError string
  | EnvelopeError string
  | SessionError string
  | UnicodeEncodeError
  | PyTypeError
  | PyValueError
  | PyAttributeError
  | ValidationError
  | EOFError
  | AssertionError
  | OsError
  | ConnectionClosed

text \<open>\<open>s.encode("ascii")\<close>.\<close>

definition ascii_string :: "string \<Rightarrow> bool" where
  "ascii_string s \<longleftrightarrow> list_all (\<lambda>c. ord c < 128) s"

definition encode_ascii :: "string \<Rightarrow> agent_exn + bytes" where
  "encode_ascii s = (if ascii_string s then Inr (map ord s) else Inl UnicodeEncodeError)"

text \<open>Fallible steps in sequence.\<close>

definition try_then :: "agent_exn + 'a \<Rightarrow> ('a \<Rightarrow> agent_exn + 'b) \<Rightarrow> agent_exn + 'b" where
  "try_then m f = (case m of Inl e \<Rightarrow> Inl e | Inr a \<Rightarrow> f a)"

lemma try_then_simps [simp]: "try_then (Inl e) f = Inl e" "try_then (Inr a) f = f a"
  by (simp_all add: try_then_def)

lemma try_then_InrD: "try_then m f = Inr b \<Longrightarrow> \<exists>a. m = Inr a \<and> f a = Inr b"
  by (cases m) simp_all

lemma encode_ascii_InrD: "encode_ascii s = Inr b \<Longrightarrow> ascii_string s \<and> b = map ord s"
  by (simp add: encode_ascii_def split: if_splits)

lemma inj_ord: "inj ord"
  by (simp add: inj_def char_eq_ord)

lemma map_ord_eq [simp]: "map ord s = map ord t \<longleftrightarrow> s = t"
  by (simp add: inj_map_eq_map [OF inj_ord])

lemma ascii_simps [simp]:
  "ascii_string []" "ascii_string (s @ t) \<longleftrightarrow> ascii_string s \<and> ascii_string t"
  "ascii_string (c # s) \<longleftrightarrow> ord c < 128 \<and> ascii_string s"
  by (auto simp: ascii_string_def)

section \<open>Decimal numerals\<close>

definition digits_nat :: "string \<Rightarrow> nat" where
  "digits_nat s = foldl (\<lambda>n c. n * 10 + (ord c - 48)) 0 s"

lemma ord_digit_char: "d < 10 \<Longrightarrow> ord (digit_char d) = 48 + d"
  by (simp add: digit_char_def)

lemma digits_nat_str_nat [simp]: "digits_nat (str_nat n) = n"
proof (induction n rule: less_induct)
  case (less n)
  show ?case
  proof (cases "n < 10")
    case True
    then show ?thesis by (simp add: str_nat.simps [of n] digits_nat_def ord_digit_char)
  next
    case False
    then have "digits_nat (str_nat (n div 10)) = n div 10" by (intro less) simp
    with False show ?thesis
      by (simp add: str_nat.simps [of n] digits_nat_def ord_digit_char)
  qed
qed

lemma str_nat_digits: "c \<in> set (str_nat n) \<Longrightarrow> is_digit c"
proof (induction n rule: less_induct)
  case (less n)
  have "is_digit (digit_char d)" if "d < 10" for d
    using that ord_digit_char [OF that] by (simp add: is_digit_def)
  moreover have "is_digit c" if "\<not> n < 10" "c \<in> set (str_nat (n div 10))"
    using that by (intro less.IH [of "n div 10"]) simp_all
  ultimately show ?case
    using less.prems by (auto simp: str_nat.simps [of n] split: if_splits)
qed

lemma str_nat_inj: "str_nat m = str_nat n \<Longrightarrow> m = n"
  by (metis digits_nat_str_nat)

lemma minus_not_digit: "\<not> is_digit (CHR ''-'')"
  by (simp add: is_digit_def ord_def)

lemma str_int_inj: "str_int i = str_int j \<Longrightarrow> i = j"
proof -
  have "CHR ''-'' \<notin> set (str_nat n)" for n using str_nat_digits minus_not_digit by blast
  then have ne: "CHR ''-'' # xs \<noteq> str_nat n" for xs n by (metis list.set_intros(1))
  assume "str_int i = str_int j"
  then show ?thesis
    using ne ne [symmetric] by (auto simp: str_int_def split: if_splits dest!: str_nat_inj)
qed

lemma ascii_str_int [simp]: "ascii_string (str_int i)"
  by (auto simp: ascii_string_def str_int_def list_all_iff is_digit_def ord_def dest!: str_nat_digits)

section \<open>Newline-separated records\<close>

lemma line_eq:
  "sep \<notin> set a \<Longrightarrow> sep \<notin> set a' \<Longrightarrow> a @ sep # b = a' @ sep # b' \<longleftrightarrow> a = a' \<and> b = b'"
  by (induction a arbitrary: a') (case_tac a'; auto)+

end
