(* ===== verification/Crypto.thy ===== *)
theory Crypto
  imports AgentErrors Base64
begin

text \<open>
  \<open>agent/common/crypto.py\<close>: the canonical transcript and associated data, key
  derivation, proofs, and authenticated encryption. The primitives (X25519, HKDF,
  HMAC, SHA-256, XChaCha20-Poly1305) are libraries: fields of a record \<open>prims\<close>, with
  what the code relies on as the laws of the locale \<open>prims_contract\<close>. Random bytes are
  arguments.
\<close>

record prims =
  p_base :: "bytes \<Rightarrow> bytes"
  p_mult :: "bytes \<Rightarrow> bytes \<Rightarrow> bytes option"
  p_hkdf :: "bytes \<Rightarrow> bytes \<Rightarrow> bytes \<Rightarrow> nat \<Rightarrow> bytes"
  p_sha256 :: "bytes \<Rightarrow> bytes"
  p_hmac :: "bytes \<Rightarrow> bytes \<Rightarrow> bytes"
  p_seal :: "bytes \<Rightarrow> bytes \<Rightarrow> bytes \<Rightarrow> bytes \<Rightarrow> bytes"
  p_open :: "bytes \<Rightarrow> bytes \<Rightarrow> bytes \<Rightarrow> bytes \<Rightarrow> bytes option"

definition NONCE_LEN :: nat where
  "NONCE_LEN = 24"

definition TAG_LEN :: nat where
  "TAG_LEN = 16"

definition SESSION_KEY_LEN :: nat where
  "SESSION_KEY_LEN = 32"

definition KEY_MATERIAL_LEN :: nat where
  "KEY_MATERIAL_LEN = SESSION_KEY_LEN * 3"

definition HKDF_INFO_PREFIX :: bytes where
  "HKDF_INFO_PREFIX = map ord ''termhop-handshake-v2'' @ [0]"

record session_keys =
  k_agent_to_client :: bytes
  k_client_to_agent :: bytes
  k_proof :: bytes

section \<open>Transcript and associated data\<close>

definition transcript_text :: "string \<Rightarrow> string \<Rightarrow> string \<Rightarrow> string \<Rightarrow> string" where
  "transcript_text session_id token agent_pubkey client_pubkey =
     ''termhop-handshake-v2'' @ newline # ''session_id='' @ session_id @ newline #
     ''token='' @ token @ newline # ''agent_pubkey='' @ agent_pubkey @ newline #
     ''client_pubkey='' @ client_pubkey"

definition handshake_transcript :: "string \<Rightarrow> string \<Rightarrow> string \<Rightarrow> string \<Rightarrow> agent_exn + bytes" where
  "handshake_transcript session_id token agent_pubkey client_pubkey =
     encode_ascii (transcript_text session_id token agent_pubkey client_pubkey)"

definition aad_text :: "string \<Rightarrow> string \<Rightarrow> int \<Rightarrow> string \<Rightarrow> string" where
  "aad_text ty session_id sq direction =
     ''termhop-message-v2'' @ newline # ''direction='' @ direction @ newline #
     ''type='' @ ty @ newline # ''session_id='' @ session_id @ newline # ''seq='' @ str_int sq"

definition message_aad :: "string \<Rightarrow> string \<Rightarrow> int \<Rightarrow> string \<Rightarrow> agent_exn + bytes" where
  "message_aad ty session_id sq direction =
     (if direction \<notin> {''agent_to_client'', ''client_to_agent''}
      then Inl (CryptoError (''invalid message direction: '' @ direction))
      else encode_ascii (aad_text ty session_id sq direction))"

section \<open>Keys\<close>

definition generate_ephemeral_keypair :: "prims \<Rightarrow> bytes \<Rightarrow> bytes \<times> bytes" where
  "generate_ephemeral_keypair P random32 = (random32, p_base P random32)"

definition decode_pairing_secret :: "string \<Rightarrow> agent_exn + bytes" where
  "decode_pairing_secret secret =
     (case urlsafe_b64decode (secret @ replicate (nat (- int (length secret) mod 4)) b64_pad) of
        None \<Rightarrow> Inl (CryptoError ''invalid pairing secret: '')
      | Some raw \<Rightarrow>
          (if length raw \<noteq> 32 then Inl (CryptoError ''pairing secret must decode to exactly 32 bytes'')
           else Inr raw))"

definition derive_session_keys :: "prims \<Rightarrow> bytes \<Rightarrow> bytes \<Rightarrow> string \<Rightarrow> bytes \<Rightarrow> agent_exn + session_keys" where
  "derive_session_keys P own_private peer_public secret transcript =
     (if length own_private \<noteq> 32 \<or> length peer_public \<noteq> 32
      then Inl (CryptoError ''X25519 private and public keys must each be 32 bytes'')
      else case p_mult P own_private peer_public of
        None \<Rightarrow> Inl (CryptoError ''ECDH failed: '')
      | Some shared \<Rightarrow>
          try_then (decode_pairing_secret secret) (\<lambda>salt.
            (let material = p_hkdf P salt (HKDF_INFO_PREFIX @ p_sha256 P transcript) shared KEY_MATERIAL_LEN
             in Inr \<lparr>k_agent_to_client = take SESSION_KEY_LEN material,
                     k_client_to_agent = drop SESSION_KEY_LEN (take (SESSION_KEY_LEN * 2) material),
                     k_proof = drop (SESSION_KEY_LEN * 2) material\<rparr>)))"

definition encode_pubkey :: "bytes \<Rightarrow> string" where
  "encode_pubkey raw = b64encode raw"

text \<open>\<open>b64decode(value, validate=True)\<close> of any JSON value: what is not a string raises \<open>TypeError\<close>.\<close>

definition b64decode_json :: "json \<Rightarrow> bytes option" where
  "b64decode_json v = (if is_str v then b64decode (as_str v) else None)"

definition decode_pubkey :: "json \<Rightarrow> agent_exn + bytes" where
  "decode_pubkey v =
     (case b64decode_json v of
        None \<Rightarrow> Inl (CryptoError ''invalid base64 pubkey: '')
      | Some raw \<Rightarrow>
          (if length raw \<noteq> 32 then Inl (CryptoError ''public key must decode to exactly 32 bytes'') else Inr raw))"

section \<open>Proofs\<close>

definition pairing_proof :: "prims \<Rightarrow> bytes \<Rightarrow> bytes \<Rightarrow> string \<Rightarrow> agent_exn + string" where
  "pairing_proof P proof_key transcript role =
     (if role \<notin> {''agent'', ''client''} then Inl (CryptoError (''invalid proof role: '' @ role))
      else Inr (b64encode (p_hmac P proof_key (transcript @ map ord (newline # ''role='' @ role)))))"

text \<open>\<open>compare_digest\<close> takes two ASCII strings; anything else raises \<open>TypeError\<close>.\<close>

definition compare_digest :: "string \<Rightarrow> json \<Rightarrow> agent_exn + bool" where
  "compare_digest a v =
     (if is_str v \<and> ascii_string a \<and> ascii_string (as_str v) then Inr (a = as_str v) else Inl PyTypeError)"

definition verify_pairing_proof :: "prims \<Rightarrow> bytes \<Rightarrow> bytes \<Rightarrow> string \<Rightarrow> json \<Rightarrow> agent_exn + bool" where
  "verify_pairing_proof P proof_key transcript role proof_b64 =
     try_then (pairing_proof P proof_key transcript role) (\<lambda>expected. compare_digest expected proof_b64)"

section \<open>Authenticated encryption\<close>

definition encrypt :: "prims \<Rightarrow> bytes \<Rightarrow> bytes \<Rightarrow> bytes \<Rightarrow> bytes \<Rightarrow> string \<times> string" where
  "encrypt P key plaintext aad nonce = (b64encode nonce, b64encode (p_seal P plaintext aad nonce key))"

definition decrypt :: "prims \<Rightarrow> bytes \<Rightarrow> json \<Rightarrow> json \<Rightarrow> bytes \<Rightarrow> agent_exn + bytes" where
  "decrypt P key nonce_b64 ciphertext_b64 aad =
     (case (b64decode_json nonce_b64, b64decode_json ciphertext_b64) of
        (Some nonce, Some ciphertext) \<Rightarrow>
          (if length nonce \<noteq> NONCE_LEN then Inl (CryptoError ''nonce must decode to exactly 24 bytes'')
           else if length ciphertext < TAG_LEN then
             Inl (CryptoError ''ciphertext is shorter than the authentication tag'')
           else (case p_open P ciphertext aad nonce key of
               None \<Rightarrow> Inl (CryptoError ''decryption/authentication failed: '')
             | Some plaintext \<Rightarrow> Inr plaintext))
      | _ \<Rightarrow> Inl (CryptoError ''invalid base64 in encrypted payload: ''))"

section \<open>The laws of the primitives\<close>

text \<open>
  X25519 agrees on a shared secret; HKDF yields as many bytes as asked; the AEAD is
  deterministic in (plaintext, data, nonce, key), and opening succeeds exactly on the
  sealed text (it recomputes the tag over the ciphertext it decrypts).
\<close>

locale prims_contract =
  fixes P :: prims
  assumes base_bytes: "length a = 32 \<Longrightarrow> list_all is_byte a \<Longrightarrow> length (p_base P a) = 32 \<and> list_all is_byte (p_base P a)"
    and agree: "length a = 32 \<Longrightarrow> length b = 32 \<Longrightarrow> p_mult P a (p_base P b) = p_mult P b (p_base P a)"
    and hkdf_length: "length (p_hkdf P salt info ikm len) = len"
    and hmac_bytes: "list_all is_byte (p_hmac P k m) \<and> length (p_hmac P k m) = 32"
    and seal_bytes: "list_all is_byte m \<Longrightarrow> list_all is_byte (p_seal P m ad n k)"
    and seal_length: "length (p_seal P m ad n k) = length m + TAG_LEN"
    and open_iff: "length n = NONCE_LEN \<Longrightarrow> length k = SESSION_KEY_LEN \<Longrightarrow>
          p_open P ct ad n k = Some m \<longleftrightarrow> ct = p_seal P m ad n k"
begin

lemma keys_length:
  assumes "derive_session_keys P a b s t = Inr ks"
  shows "length (k_agent_to_client ks) = 32" "length (k_client_to_agent ks) = 32" "length (k_proof ks) = 32"
  using assms
  by (auto simp: derive_session_keys_def Let_def KEY_MATERIAL_LEN_def SESSION_KEY_LEN_def hkdf_length
      split: if_splits option.splits dest!: try_then_InrD)

text \<open>Both ends of a Diffie-Hellman exchange derive the same keys from the same transcript.\<close>

lemma derive_agree:
  assumes "length a = 32" "list_all is_byte a" "length b = 32" "list_all is_byte b"
  shows "derive_session_keys P a (p_base P b) s t = derive_session_keys P b (p_base P a) s t"
  using assms base_bytes [of a] base_bytes [of b] agree [of a b]
  by (simp add: derive_session_keys_def)

lemma decrypt_encrypt:
  assumes "encrypt P key m ad nonce = (n64, c64)" "length nonce = NONCE_LEN" "list_all is_byte nonce"
    and "length key = SESSION_KEY_LEN" "list_all is_byte m"
  shows "decrypt P key (JStr n64) (JStr c64) ad = Inr m"
  using assms open_iff [of nonce key "p_seal P m ad nonce key" ad m]
  by (auto simp: encrypt_def decrypt_def b64decode_json_def b64decode_b64encode seal_bytes seal_length)

lemma decrypt_InrD:
  assumes "decrypt P key n64 c64 ad = Inr m" "length key = SESSION_KEY_LEN"
  shows "\<exists>nonce. b64decode_json n64 = Some nonce \<and> length nonce = NONCE_LEN \<and>
     b64decode_json c64 = Some (p_seal P m ad nonce key)"
  using assms open_iff by (auto simp: decrypt_def split: option.splits if_splits)

end

section \<open>Primitives that satisfy the laws\<close>

text \<open>
  For the witnesses: keys are their own public keys, the shared secret is their sum,
  and a sealed text is the plaintext followed by a tag that names its context.
\<close>

definition toy_sum :: "bytes \<Rightarrow> bytes \<Rightarrow> bytes" where
  "toy_sum a b = map2 (\<lambda>x y. (x + y) mod 256) a b"

definition toy_tag :: "bytes \<Rightarrow> bytes \<Rightarrow> bytes \<Rightarrow> bytes" where
  "toy_tag ad n k = replicate TAG_LEN ((sum_list ad + sum_list n + sum_list k) mod 256)"

definition toy_prims :: prims where
  "toy_prims = \<lparr>p_base = (\<lambda>a. a), p_mult = (\<lambda>a b. Some (toy_sum a b)),
     p_hkdf = (\<lambda>salt info ikm n. take n (ikm @ replicate n 0)),
     p_sha256 = (\<lambda>m. replicate 32 (sum_list m mod 256)),
     p_hmac = (\<lambda>k m. replicate 32 ((sum_list k + sum_list m) mod 256)),
     p_seal = (\<lambda>m ad n k. m @ toy_tag ad n k),
     p_open = (\<lambda>ct ad n k. if length ct < TAG_LEN \<or> drop (length ct - TAG_LEN) ct \<noteq> toy_tag ad n k then None
                           else Some (take (length ct - TAG_LEN) ct))\<rparr>"

lemma toy_sum_comm: "toy_sum a b = toy_sum b a"
  by (induction a arbitrary: b) (case_tac b; auto simp: toy_sum_def add.commute)+

interpretation toy: prims_contract toy_prims
proof unfold_locales
  fix ct ad n k m :: bytes
  have "length (toy_tag ad n k) = TAG_LEN" by (simp add: toy_tag_def)
  then show "p_open toy_prims ct ad n k = Some m \<longleftrightarrow> ct = p_seal toy_prims m ad n k"
    by (auto simp: toy_prims_def) (metis append_take_drop_id)
qed (auto simp: toy_prims_def toy_sum_comm toy_tag_def is_byte_def TAG_LEN_def list_all_iff)

section \<open>Canonical encodings\<close>

definition single_line :: "string \<Rightarrow> bool" where
  "single_line s \<longleftrightarrow> newline \<notin> set s"

text \<open>The transcript determines its fields.\<close>

lemma transcript_text_inj:
  assumes "single_line s" "single_line s'" "single_line t" "single_line t'" "single_line a" "single_line a'"
  shows "transcript_text s t a c = transcript_text s' t' a' c' \<longleftrightarrow> s = s' \<and> t = t' \<and> a = a' \<and> c = c'"
  using assms by (auto simp: transcript_text_def single_line_def line_eq)

lemma aad_text_inj:
  assumes "single_line d" "single_line d'" "single_line ty" "single_line ty'" "single_line s" "single_line s'"
  shows "aad_text ty s n d = aad_text ty' s' n' d' \<longleftrightarrow> ty = ty' \<and> s = s' \<and> n = n' \<and> d = d'"
  using assms by (auto simp: aad_text_def single_line_def line_eq dest: str_int_inj)

lemma direction_single_line: "d \<in> {''agent_to_client'', ''client_to_agent''} \<Longrightarrow> single_line d"
  by (auto simp: single_line_def newline_def)

lemma message_aad_inj:
  assumes "message_aad ty s n d = Inr b" "message_aad ty' s' n' d' = Inr b"
    and "single_line ty" "single_line ty'" "single_line s" "single_line s'"
  shows "ty = ty' \<and> s = s' \<and> n = n' \<and> d = d'"
proof -
  have d: "d \<in> {''agent_to_client'', ''client_to_agent''}" "encode_ascii (aad_text ty s n d) = Inr b"
    using assms(1) by (simp_all only: message_aad_def split: if_splits) simp_all
  have d': "d' \<in> {''agent_to_client'', ''client_to_agent''}" "encode_ascii (aad_text ty' s' n' d') = Inr b"
    using assms(2) by (simp_all only: message_aad_def split: if_splits) simp_all
  have "aad_text ty s n d = aad_text ty' s' n' d'"
    using encode_ascii_InrD [OF d(2)] encode_ascii_InrD [OF d'(2)] by simp
  then show ?thesis
    by (subst (asm) aad_text_inj)
       (rule direction_single_line [OF d(1)] direction_single_line [OF d'(1)] assms(3-6) | simp)+
qed

end
