(* ===== verification/AgentPairing.thy ===== *)
theory AgentPairing
  imports Crypto Url
begin

text \<open>
  \<open>agent/common/pairing.py\<close> and \<open>agent/common/pairing_link.py\<close>: the values the agent
  generates for a pairing, and the link that carries them out of band. The random
  bytes drawn are arguments.
\<close>

section \<open>Generated values\<close>

definition TOKEN_BYTES :: nat where
  "TOKEN_BYTES = 16"

definition PAIRING_SECRET_BYTES :: nat where
  "PAIRING_SECRET_BYTES = 32"

text \<open>\<open>secrets.token_hex\<close> of given random bytes.\<close>

definition lower_hex_digit :: "nat \<Rightarrow> char" where
  "lower_hex_digit n = (if n < 10 then char_of (48 + n) else char_of (87 + n))"

definition token_hex :: "bytes \<Rightarrow> string" where
  "token_hex bs = concat (map (\<lambda>b. [lower_hex_digit (b div 16), lower_hex_digit (b mod 16)]) bs)"

definition generate_pairing_token :: "bytes \<Rightarrow> string" where
  "generate_pairing_token random = token_urlsafe random"

definition generate_pairing_secret :: "bytes \<Rightarrow> string" where
  "generate_pairing_secret random = token_urlsafe random"

definition generate_session_id :: "bytes \<Rightarrow> string" where
  "generate_session_id random = ''sess-'' @ token_hex random"

definition generate_device_id :: "bytes \<Rightarrow> string" where
  "generate_device_id random = ''dev-'' @ token_hex random"

section \<open>The pairing link\<close>

definition build_pairing_uri :: "string \<Rightarrow> string \<Rightarrow> string \<Rightarrow> string \<Rightarrow> string \<Rightarrow> string \<Rightarrow> string" where
  "build_pairing_uri relay_url token hostname pairing_secret agent_pubkey session_id =
     ''termhop://pair?'' @ urlencode
       [(''relay'', relay_url), (''token'', token), (''secret'', pairing_secret),
        (''agent_key'', agent_pubkey), (''session'', session_id), (''hostname'', hostname)]"

section \<open>Shape of the generated values\<close>

definition is_random :: "nat \<Rightarrow> bytes \<Rightarrow> bool" where
  "is_random n bs \<longleftrightarrow> length bs = n \<and> list_all is_byte bs"

lemma lower_hex_digit_hex: "n < 16 \<Longrightarrow> hex_char (lower_hex_digit n)"
  by (auto simp: lower_hex_digit_def hex_char_def is_digit_def)

lemma token_hex_shape:
  assumes "is_random n bs"
  shows "length (token_hex bs) = 2 * n" "list_all hex_char (token_hex bs)"
proof -
  show "length (token_hex bs) = 2 * n"
    using assms by (induction bs arbitrary: n) (auto simp: token_hex_def is_random_def)
  have "list_all is_byte bs" using assms by (simp add: is_random_def)
  then show "list_all hex_char (token_hex bs)"
    by (induction bs) (auto simp: token_hex_def is_byte_def intro!: lower_hex_digit_hex)
qed

lemma hex_url_safe: "hex_char c \<Longrightarrow> url_safe_char c"
  by (auto simp: hex_char_def url_safe_char_def is_lower_def)

text \<open>Base64 text is a body over the alphabet, then the padding.\<close>

definition pad_count :: "nat \<Rightarrow> nat" where
  "pad_count n = (3 - n mod 3) mod 3"

definition b64_alpha :: "char \<Rightarrow> bool" where
  "b64_alpha c \<longleftrightarrow> (\<exists>n < 64. c = b64_char n)"

lemma b64_alphaI [intro]: "n < 64 \<Longrightarrow> b64_alpha (b64_char n)"
  by (auto simp: b64_alpha_def)

lemma b64_body:
  assumes "list_all is_byte bs"
  shows "\<exists>body. b64encode bs = body @ replicate (pad_count (length bs)) b64_pad \<and> list_all b64_alpha body"
  using assms
proof (induction bs rule: b64encode.induct)
  case (2 x)
  then show ?case
    using pack_bounds
    by (intro exI [of _ "[b64_char (x div 4), b64_char (x mod 4 * 16)]"])
       (auto simp: pad_count_def is_byte_def numeral_2_eq_2)
next
  case (3 x y)
  then show ?case
    by (intro exI [of _ "[b64_char (x div 4), b64_char (x mod 4 * 16 + y div 16), b64_char (y mod 16 * 4)]"])
       (auto simp: pad_count_def is_byte_def)
next
  case (4 x y z rest)
  then obtain body where b: "b64encode rest = body @ replicate (pad_count (length rest)) b64_pad" "list_all b64_alpha body"
    by auto
  have "pad_count (length (x # y # z # rest)) = pad_count (length rest)"
    by (simp add: pad_count_def)
  with b 4 show ?case
    by (intro exI [of _ "b64_char (x div 4) # b64_char (x mod 4 * 16 + y div 16) #
       b64_char (y mod 16 * 4 + z div 64) # b64_char (z mod 64) # body"])
       (auto simp: is_byte_def)
qed (simp add: pad_count_def)

lemma rstrip_replicate:
  assumes "P p" "xs = [] \<or> \<not> P (last xs)"
  shows "rstrip P (xs @ replicate k p) = xs"
proof -
  have "dropWhile P (replicate k p @ rev xs) = dropWhile P (rev xs)"
    using assms(1) by (induction k) auto
  moreover have "dropWhile P (rev xs) = rev xs"
    using assms(2) by (cases xs rule: rev_cases) auto
  ultimately show ?thesis by (simp add: rstrip_def)
qed

text \<open>The 64 characters, one by one.\<close>

lemma b64_char_cases:
  assumes "n < 64"
  obtains "is_upper (b64_char n)" | "is_lower (b64_char n)" | "is_digit (b64_char n)"
    | "b64_char n = CHR ''+''" | "b64_char n = CHR ''/''"
proof -
  note o = ord_b64_char [OF assms]
  consider "n < 26" | "26 \<le> n" "n < 52" | "52 \<le> n" "n < 62" | "n = 62" | "n = 63"
    using assms by linarith
  then show ?thesis
  proof cases
    case 1
    with o show ?thesis by (intro that(1)) (simp add: is_upper_def)
  next
    case 2
    with o show ?thesis by (intro that(2)) (simp add: is_lower_def)
  next
    case 3
    then have "48 \<le> n - 4" "n - 4 \<le> 57" by linarith+
    with 3 o show ?thesis by (intro that(3)) (simp add: is_digit_def)
  next
    case 4
    then show ?thesis by (intro that(4)) (simp add: b64_char_def)
  next
    case 5
    then show ?thesis by (intro that(5)) (simp add: b64_char_def)
  qed
qed

lemma alnum_urlsafe:
  assumes "is_upper c \<or> is_lower c \<or> is_digit c"
  shows "to_urlsafe c = c" "from_urlsafe c = c" "c \<noteq> b64_pad" "url_safe_char c"
  using assms
  by (auto simp: to_urlsafe_def from_urlsafe_def b64_pad_def url_safe_char_def is_upper_def is_lower_def
      is_digit_def ord_def)

lemma b64_alpha_urlsafe:
  assumes "b64_alpha c"
  shows "url_safe_char (to_urlsafe c)" "from_urlsafe (to_urlsafe c) = c" "to_urlsafe c \<noteq> b64_pad"
proof -
  from assms obtain n where n: "n < 64" "c = b64_char n" by (auto simp: b64_alpha_def)
  have "url_safe_char (to_urlsafe c) \<and> from_urlsafe (to_urlsafe c) = c \<and> to_urlsafe c \<noteq> b64_pad"
    using n
    by (cases rule: b64_char_cases [OF n(1)])
       (auto simp: alnum_urlsafe, auto simp: to_urlsafe_def from_urlsafe_def url_safe_char_def b64_pad_def)
  then show "url_safe_char (to_urlsafe c)" "from_urlsafe (to_urlsafe c) = c" "to_urlsafe c \<noteq> b64_pad"
    by blast+
qed

lemma token_urlsafe_body:
  assumes "list_all is_byte bs"
  obtains body where "token_urlsafe bs = map to_urlsafe body" "list_all b64_alpha body"
    "b64encode bs = body @ replicate (pad_count (length bs)) b64_pad"
proof -
  obtain body where b: "b64encode bs = body @ replicate (pad_count (length bs)) b64_pad" "list_all b64_alpha body"
    using b64_body [OF assms] by blast
  have "map to_urlsafe body = [] \<or> last (map to_urlsafe body) \<noteq> b64_pad"
    using b(2) b64_alpha_urlsafe(3) by (cases body rule: rev_cases) auto
  then have "token_urlsafe bs = map to_urlsafe body"
    by (simp add: token_urlsafe_def b(1) to_urlsafe_def [of b64_pad] rstrip_replicate)
       (simp add: b64_pad_def rstrip_replicate)
  with b that show ?thesis by blast
qed

lemma token_urlsafe_shape:
  assumes "is_random n bs"
  shows "length (token_urlsafe bs) = 4 * ((n + 2) div 3) - pad_count n"
    and "list_all url_safe_char (token_urlsafe bs)"
proof -
  have bytes: "list_all is_byte bs" and len: "length bs = n" using assms by (simp_all add: is_random_def)
  obtain body where b: "token_urlsafe bs = map to_urlsafe body" "list_all b64_alpha body"
    "b64encode bs = body @ replicate (pad_count (length bs)) b64_pad"
    by (rule token_urlsafe_body [OF bytes])
  have "length body + pad_count n = 4 * ((n + 2) div 3)"
    using arg_cong [OF b(3), of length] by (simp add: length_b64encode len)
  then show "length (token_urlsafe bs) = 4 * ((n + 2) div 3) - pad_count n" by (simp add: b(1))
  show "list_all url_safe_char (token_urlsafe bs)"
    using b(2) b64_alpha_urlsafe(1) by (auto simp: b(1) list_all_iff)
qed

text \<open>The pairing secret that travels in the link decodes to the bytes drawn.\<close>

lemma decode_generated_secret:
  assumes "is_random 32 bs"
  shows "decode_pairing_secret (generate_pairing_secret bs) = Inr bs"
proof -
  have bytes: "list_all is_byte bs" and len: "length bs = 32" using assms by (simp_all add: is_random_def)
  obtain body where b: "token_urlsafe bs = map to_urlsafe body" "list_all b64_alpha body"
    "b64encode bs = body @ replicate (pad_count (length bs)) b64_pad"
    by (rule token_urlsafe_body [OF bytes])
  have "length body = 43"
    using token_urlsafe_shape(1) [OF assms] by (simp add: b(1) pad_count_def)
  moreover have "map from_urlsafe (map to_urlsafe body) = body"
    using b(2) b64_alpha_urlsafe(2) by (auto simp: list_all_iff intro!: map_idI)
  moreover have "from_urlsafe b64_pad = b64_pad" by (simp add: from_urlsafe_def b64_pad_def)
  moreover have "b64decode (body @ [b64_pad]) = Some bs"
    using b64decode_b64encode [OF bytes] by (simp add: b(3) len pad_count_def)
  ultimately show ?thesis
    by (simp add: decode_pairing_secret_def generate_pairing_secret_def urlsafe_b64decode_def b(1) len)
qed

lemma decode_encoded_pubkey:
  "is_random 32 raw \<Longrightarrow> decode_pubkey (JStr (encode_pubkey raw)) = Inr raw"
  by (simp add: decode_pubkey_def b64decode_json_def encode_pubkey_def b64decode_b64encode is_random_def)

end
