(* ===== verification/RelayClient.thy ===== *)
theory RelayClient
  imports AgentPairing Envelope
begin

text \<open>
  \<open>agent/common/relay_client.py\<close>: the agent's WebSocket client. The attributes of a
  \<open>RelayClient\<close> are the record \<open>rclient\<close>; a coroutine runs on a \<open>cworld\<close>, which adds
  the connection (messages still to be received, envelopes sent, whether a send would
  succeed), the clock and the number of random draws. A read of an empty inbox is a
  connection that has closed. The primitives, the JSON decoder, the random source and
  \<open>urllib\<close>'s IP literal check are the record \<open>adeps\<close>.
\<close>

section \<open>State\<close>

definition AGENT_PROTOCOL_VERSION :: int where
  "AGENT_PROTOCOL_VERSION = 2"

definition LOOPBACK_HOSTS :: "string list" where
  "LOOPBACK_HOSTS = [''localhost'', ''127.0.0.1'', ''::1'']"

datatype handshake_state =
    IDLE
  | CONNECTING
  | AWAITING_PAIR_INIT_ACK
  | AWAITING_PAIR_CHALLENGE
  | PAIRED
  | STREAMING
  | CLOSED

record rclient =
  rc_relay_url :: string
  rc_agent_hostname :: string
  rc_ws :: bool
  rc_seq :: int
  rc_state :: handshake_state
  rc_token :: "string option"
  rc_pairing_secret :: "string option"
  rc_session_id :: "string option"
  rc_own_private_key :: "bytes option"
  rc_agent_pubkey :: "string option"
  rc_session_keys :: "session_keys option"
  rc_transcript :: "bytes option"
  rc_last_peer_seq :: int

record cworld =
  cw_client :: rclient
  cw_inbox :: "wire list"
  cw_out :: "envelope list"
  cw_open :: bool
  cw_reachable :: bool
  cw_now_ms :: int
  cw_draws :: nat

record adeps =
  ad_prims :: prims
  ad_loads :: "wire \<Rightarrow> json option"
  ad_random :: "nat \<Rightarrow> nat \<Rightarrow> bytes"
  ad_ip_ok :: "string \<Rightarrow> bool"

type_synonym 'a client_co = "(agent_exn, cworld, 'a) co"

section \<open>Construction\<close>

definition relay_url_check :: "(string \<Rightarrow> bool) \<Rightarrow> string \<Rightarrow> agent_exn + unit" where
  "relay_url_check ip_ok relay_url =
     (case urlsplit ip_ok relay_url of
        None \<Rightarrow> Inl PyValueError
      | Some u \<Rightarrow>
          (if u_scheme u \<notin> {''ws'', ''wss''} \<or> u_hostname u = None
           then Inl (HandshakeError ''relay URL must use ws:// or wss://'')
           else if fst (u_userinfo u) \<noteq> None \<or> snd (u_userinfo u) \<noteq> None \<or> u_query u \<noteq> [] \<or> u_fragment u \<noteq> []
           then Inl (HandshakeError ''relay URL must not contain credentials, query, or fragment'')
           else if u_scheme u = ''ws'' \<and> the (u_hostname u) \<notin> set LOOPBACK_HOSTS
           then Inl (HandshakeError ''plaintext ws:// is allowed only for loopback development'')
           else Inr ()))"

definition new_client :: "(string \<Rightarrow> bool) \<Rightarrow> string \<Rightarrow> string \<Rightarrow> agent_exn + rclient" where
  "new_client ip_ok relay_url agent_hostname =
     try_then (relay_url_check ip_ok relay_url) (\<lambda>_.
       Inr \<lparr>rc_relay_url = rstrip (\<lambda>c. c = CHR ''/'') relay_url, rc_agent_hostname = agent_hostname,
            rc_ws = False, rc_seq = 0, rc_state = IDLE, rc_token = None, rc_pairing_secret = None,
            rc_session_id = None, rc_own_private_key = None, rc_agent_pubkey = None,
            rc_session_keys = None, rc_transcript = None, rc_last_peer_seq = 0\<rparr>)"

section \<open>Primitives\<close>

definition upd_client :: "(rclient \<Rightarrow> rclient) \<Rightarrow> unit client_co" where
  "upd_client f = modify (\<lambda>w. w\<lparr>cw_client := f (cw_client w)\<rparr>)"

definition self :: "(rclient \<Rightarrow> 'a) \<Rightarrow> 'a client_co" where
  "self f = gets (\<lambda>w. f (cw_client w))"

definition assert_that :: "bool \<Rightarrow> unit client_co" where
  "assert_that b = (if b then skip else raise AssertionError)"

text \<open>The next random bytes.\<close>

definition draw :: "adeps \<Rightarrow> nat \<Rightarrow> bytes client_co" where
  "draw D n = sync (\<lambda>w. (Inr (ad_random D (cw_draws w) n), w\<lparr>cw_draws := Suc (cw_draws w)\<rparr>))"

definition lift_result :: "agent_exn + 'a \<Rightarrow> 'a client_co" where
  "lift_result r = (case r of Inl e \<Rightarrow> raise e | Inr a \<Rightarrow> ret a)"

section \<open>Connection, sending and receiving\<close>

definition connect :: "unit client_co" where
  "connect =
     bnd (upd_client (\<lambda>c. c\<lparr>rc_state := CONNECTING\<rparr>)) (\<lambda>_.
     bnd pause (\<lambda>_.
     bnd (gets cw_reachable) (\<lambda>ok.
     if ok then modify (\<lambda>w. w\<lparr>cw_client := (cw_client w)\<lparr>rc_ws := True\<rparr>, cw_open := True\<rparr>)
     else raise OsError)))"

definition next_seq :: "int client_co" where
  "next_seq = bnd (upd_client (\<lambda>c. c\<lparr>rc_seq := rc_seq c + 1\<rparr>)) (\<lambda>_. self rc_seq)"

definition agent_envelope :: "string \<Rightarrow> string option \<Rightarrow> int \<Rightarrow> int \<Rightarrow> (string \<times> json) list \<Rightarrow> envelope" where
  "agent_envelope ty sid sq ts pl =
     \<lparr>e_v = AGENT_PROTOCOL_VERSION, e_type = ty, e_session_id = sid, e_seq = sq, e_ts = ts, e_payload = pl\<rparr>"

definition ws_send :: "envelope \<Rightarrow> unit client_co" where
  "ws_send e =
     bnd (gets cw_open) (\<lambda>ok.
     if ok then bnd (modify (\<lambda>w. w\<lparr>cw_out := cw_out w @ [e]\<rparr>)) (\<lambda>_. pause) else raise ConnectionClosed)"

definition client_send :: "string \<Rightarrow> string option \<Rightarrow> (string \<times> json) list \<Rightarrow> int option \<Rightarrow> unit client_co" where
  "client_send ty sid pl sq_opt =
     bnd (self rc_ws) (\<lambda>ws.
     bnd (assert_that ws) (\<lambda>_.
     bnd (case sq_opt of None \<Rightarrow> next_seq | Some s \<Rightarrow> ret s) (\<lambda>sq.
     bnd (gets cw_now_ms) (\<lambda>now.
     if envelope_ok (agent_envelope ty sid sq now pl) then ws_send (agent_envelope ty sid sq now pl)
     else raise ValidationError))))"

definition ws_recv :: "wire client_co" where
  "ws_recv =
     bnd pause (\<lambda>_. sync (\<lambda>w. case cw_inbox w of [] \<Rightarrow> (Inl ConnectionClosed, w\<lparr>cw_open := False\<rparr>)
       | raw # rest \<Rightarrow> (Inr raw, w\<lparr>cw_inbox := rest\<rparr>)))"

definition check_incoming :: "adeps \<Rightarrow> wire \<Rightarrow> agent_exn + envelope" where
  "check_incoming D raw =
     (case agent_parse_envelope (ad_loads D) raw of
        Inl msg \<Rightarrow> Inl (HandshakeError (''malformed envelope from relay: '' @ msg))
      | Inr e \<Rightarrow>
          (if e_v e \<noteq> AGENT_PROTOCOL_VERSION
           then Inl (HandshakeError (''relay protocol version '' @ str_int (e_v e) @
                  '' does not match client version '' @ str_int AGENT_PROTOCOL_VERSION))
           else Inr e))"

definition client_recv :: "adeps \<Rightarrow> envelope client_co" where
  "client_recv D =
     bnd (self rc_ws) (\<lambda>ws.
     bnd (assert_that ws) (\<lambda>_.
     bnd ws_recv (\<lambda>raw. lift_result (check_incoming D raw))))"

definition recv_decrypted :: "adeps \<Rightarrow> envelope client_co" where
  "recv_decrypted D = client_recv D"

section \<open>Starting a pairing\<close>

text \<open>The values a pairing or a resume starts with: fresh session id and key pair.\<close>

definition fresh_identity :: "adeps \<Rightarrow> unit client_co" where
  "fresh_identity D =
     bnd (draw D 8) (\<lambda>r_session.
     bnd (upd_client (\<lambda>c. c\<lparr>rc_session_id := Some (generate_session_id r_session)\<rparr>)) (\<lambda>_.
     bnd (draw D 32) (\<lambda>r_key.
     (case generate_ephemeral_keypair (ad_prims D) r_key of (private_key, pubkey_raw) \<Rightarrow>
       upd_client (\<lambda>c. c\<lparr>rc_own_private_key := Some private_key,
         rc_agent_pubkey := Some (encode_pubkey pubkey_raw)\<rparr>)))))"

definition opt_str :: "string option \<Rightarrow> json" where
  "opt_str v = (case v of None \<Rightarrow> JNull | Some s \<Rightarrow> JStr s)"

definition pair_init_payload :: "rclient \<Rightarrow> string option \<Rightarrow> (string \<times> json) list" where
  "pair_init_payload c device_id =
     [(''token'', opt_str (rc_token c)), (''agent_pubkey'', opt_str (rc_agent_pubkey c)),
      (''session_id'', opt_str (rc_session_id c)), (''agent_hostname'', JStr (rc_agent_hostname c)),
      (''device_id'', JStr (case device_id of None \<Rightarrow> [] | Some d \<Rightarrow> d))]"

definition send_pair_init :: "adeps \<Rightarrow> string option \<Rightarrow> string option \<Rightarrow> (string option \<times> string option) client_co" where
  "send_pair_init D pairing_secret device_id =
     bnd (draw D TOKEN_BYTES) (\<lambda>r_token.
     bnd (upd_client (\<lambda>c. c\<lparr>rc_token := Some (generate_pairing_token r_token)\<rparr>)) (\<lambda>_.
     bnd (if pairing_secret \<noteq> None \<and> pairing_secret \<noteq> Some []
          then upd_client (\<lambda>c. c\<lparr>rc_pairing_secret := pairing_secret\<rparr>)
          else bnd (draw D PAIRING_SECRET_BYTES) (\<lambda>r_secret.
            upd_client (\<lambda>c. c\<lparr>rc_pairing_secret := Some (generate_pairing_secret r_secret)\<rparr>))) (\<lambda>_.
     bnd (fresh_identity D) (\<lambda>_.
     bnd (upd_client (\<lambda>c. c\<lparr>rc_state := AWAITING_PAIR_INIT_ACK\<rparr>)) (\<lambda>_.
     bnd (self (\<lambda>c. pair_init_payload c device_id)) (\<lambda>payload.
     bnd (client_send ''pair_init'' None payload None) (\<lambda>_.
     self (\<lambda>c. (rc_token c, rc_session_id c)))))))))"

definition resume_init_payload :: "rclient \<Rightarrow> string \<Rightarrow> (string \<times> json) list" where
  "resume_init_payload c device_id =
     [(''device_id'', JStr device_id), (''session_id'', opt_str (rc_session_id c)),
      (''agent_pubkey'', opt_str (rc_agent_pubkey c)), (''agent_hostname'', JStr (rc_agent_hostname c))]"

definition send_resume_init :: "adeps \<Rightarrow> string \<Rightarrow> string \<Rightarrow> string option client_co" where
  "send_resume_init D device_id device_secret =
     bnd (upd_client (\<lambda>c. c\<lparr>rc_token := Some (''resume:'' @ device_id), rc_pairing_secret := Some device_secret\<rparr>)) (\<lambda>_.
     bnd (fresh_identity D) (\<lambda>_.
     bnd (self (\<lambda>c. resume_init_payload c device_id)) (\<lambda>payload.
     bnd (client_send ''resume_init'' None payload None) (\<lambda>_.
     bnd (client_recv D) (\<lambda>ack.
     if e_type ack \<noteq> ''resume_init_ack''
     then raise (HandshakeError (''expected resume_init_ack, got '' @ e_type ack))
     else self rc_session_id)))))"

definition await_pair_init_ack :: "adeps \<Rightarrow> unit client_co" where
  "await_pair_init_ack D =
     bnd (client_recv D) (\<lambda>e.
     if e_type e = ''error'' then raise (HandshakeError ''relay rejected pair_init: '')
     else if e_type e \<noteq> ''pair_init_ack'' then raise (HandshakeError (''expected pair_init_ack, got '' @ e_type e))
     else upd_client (\<lambda>c. c\<lparr>rc_state := AWAITING_PAIR_CHALLENGE\<rparr>))"

section \<open>Text of a JSON value\<close>

text \<open>
  \<open>str(v)\<close>, as the f-string of the transcript prints what the peer sent. The text of a
  value that is not a string is never authenticated (its decoding as a key fails
  next); what matters of it is whether it is ASCII. A float is printed by its decimal
  reading.
\<close>

definition repr_char :: "char \<Rightarrow> char \<Rightarrow> string" where
  "repr_char quote c =
     (if c = quote \<or> c = CHR 0x5C then [CHR 0x5C, c]
      else if ord c = 9 then [CHR 0x5C, CHR ''t''] else if ord c = 10 then [CHR 0x5C, CHR ''n'']
      else if ord c = 13 then [CHR 0x5C, CHR ''r'']
      else if ord c < 32 \<or> (127 \<le> ord c \<and> ord c \<le> 160) \<or> ord c = 173
      then [CHR 0x5C, CHR ''x'', lower_hex_digit (ord c div 16), lower_hex_digit (ord c mod 16)]
      else [c])"

definition repr_string :: "string \<Rightarrow> string" where
  "repr_string s =
     (let quote = (if CHR 0x27 \<in> set s \<and> CHR 0x22 \<notin> set s then CHR 0x22 else CHR 0x27)
      in quote # concat (map (repr_char quote) s) @ [quote])"

fun join_comma :: "string list \<Rightarrow> string" where
  "join_comma [] = []"
| "join_comma [x] = x"
| "join_comma (x # xs) = x @ '', '' @ join_comma xs"

fun py_repr :: "json \<Rightarrow> string" where
  "py_repr JNull = ''None''"
| "py_repr (JBool b) = (if b then ''True'' else ''False'')"
| "py_repr (JInt i) = str_int i"
| "py_repr (JFloat m e) = str_int m @ ''e'' @ str_int e"
| "py_repr (JNonFinite s) = s"
| "py_repr (JStr s) = repr_string s"
| "py_repr (JList xs) = ''['' @ join_comma (map py_repr xs) @ '']''"
| "py_repr (JObj kvs) = ''{'' @ join_comma (map (\<lambda>(k, v). repr_string k @ '': '' @ py_repr v) kvs) @ ''}''"

definition py_str :: "json \<Rightarrow> string" where
  "py_str v = (if is_str v then as_str v else py_repr v)"

section \<open>Completing the handshake\<close>

definition set_transcript :: "string \<Rightarrow> string \<Rightarrow> string \<Rightarrow> string \<Rightarrow> bytes client_co" where
  "set_transcript session_id token agent_pubkey client_pubkey =
     bnd (lift_result (handshake_transcript session_id token agent_pubkey client_pubkey)) (\<lambda>t.
     bnd (upd_client (\<lambda>c. c\<lparr>rc_transcript := Some t\<rparr>)) (\<lambda>_. ret t))"

definition set_session_keys :: "adeps \<Rightarrow> bytes \<Rightarrow> bytes \<Rightarrow> string \<Rightarrow> bytes \<Rightarrow> session_keys client_co" where
  "set_session_keys D own_private peer_raw secret transcript =
     bnd (lift_result (derive_session_keys (ad_prims D) own_private peer_raw secret transcript)) (\<lambda>ks.
     bnd (upd_client (\<lambda>c. c\<lparr>rc_session_keys := Some ks\<rparr>)) (\<lambda>_. ret ks))"

text \<open>Check the client's proof, answer with the agent's.\<close>

definition prove :: "adeps \<Rightarrow> session_keys \<Rightarrow> bytes \<Rightarrow> json \<Rightarrow> string \<Rightarrow> string \<Rightarrow> string \<Rightarrow> unit client_co" where
  "prove D ks transcript client_proof refusal answer session_id =
     bnd (lift_result (verify_pairing_proof (ad_prims D) (k_proof ks) transcript ''client'' client_proof)) (\<lambda>ok.
     if \<not> ok then raise (HandshakeError refusal)
     else
       bnd (lift_result (pairing_proof (ad_prims D) (k_proof ks) transcript ''agent'')) (\<lambda>agent_proof.
       bnd (client_send answer (Some session_id) [(''agent_proof'', JStr agent_proof)] None) (\<lambda>_.
       upd_client (\<lambda>c. c\<lparr>rc_state := PAIRED\<rparr>))))"

definition await_pair_challenge_and_complete :: "adeps \<Rightarrow> unit client_co" where
  "await_pair_challenge_and_complete D =
     bnd (client_recv D) (\<lambda>e.
     if e_type e = ''error'' then raise (HandshakeError ''relay rejected pairing: '')
     else if e_type e \<noteq> ''pair_challenge'' then raise (HandshakeError (''expected pair_challenge, got '' @ e_type e))
     else
      (let peer_pubkey = dict_get (e_payload e) ''peer_pubkey'' JNull;
           client_proof = dict_get (e_payload e) ''client_proof'' JNull
       in if \<not> truthy peer_pubkey then raise (HandshakeError ''pair_challenge missing payload.peer_pubkey'')
       else if \<not> truthy client_proof then raise (HandshakeError ''pair_challenge missing payload.client_proof'')
       else
        bnd (self id) (\<lambda>c.
        if e_session_id e \<noteq> rc_session_id c
        then raise (HandshakeError ''pair_challenge session_id does not match the pairing link'')
        else (case (rc_own_private_key c, rc_agent_pubkey c, rc_pairing_secret c, rc_token c, rc_session_id c) of
            (Some own_private, Some agent_pubkey, Some secret, Some token, Some session_id) \<Rightarrow>
              bnd (lift_result (decode_pubkey peer_pubkey)) (\<lambda>peer_raw.
              bnd (set_transcript session_id token agent_pubkey (py_str peer_pubkey)) (\<lambda>transcript.
              bnd (set_session_keys D own_private peer_raw secret transcript) (\<lambda>ks.
              prove D ks transcript client_proof ''client pairing proof is invalid'' ''pair_complete'' session_id)))
          | _ \<Rightarrow> raise AssertionError))))"

definition present :: "'a list option \<Rightarrow> bool" where
  "present v = (case v of None \<Rightarrow> False | Some s \<Rightarrow> s \<noteq> [])"

definition check_resume_proof :: "adeps \<Rightarrow> rclient \<Rightarrow> envelope \<Rightarrow> unit client_co" where
  "check_resume_proof D c reply =
     (let client_pubkey = dict_get (e_payload reply) ''client_pubkey'' (JStr []);
          client_proof = dict_get (e_payload reply) ''client_proof'' (JStr [])
      in (case (rc_own_private_key c, rc_agent_pubkey c, rc_pairing_secret c, rc_token c, rc_session_id c) of
            (Some own_private, Some agent_pubkey, Some secret, Some token, Some session_id) \<Rightarrow>
              bnd (assert_that (own_private \<noteq> [] \<and> secret \<noteq> [])) (\<lambda>_.
              bnd (set_transcript session_id token agent_pubkey (py_str client_pubkey)) (\<lambda>transcript.
              bnd (lift_result (decode_pubkey client_pubkey)) (\<lambda>peer_raw.
              bnd (set_session_keys D own_private peer_raw secret transcript) (\<lambda>ks.
              prove D ks transcript client_proof ''saved client proof is invalid'' ''resume_complete'' session_id))))
          | _ \<Rightarrow> raise AssertionError))"

definition await_resume_and_complete :: "adeps \<Rightarrow> unit client_co" where
  "await_resume_and_complete D =
     bnd (client_recv D) (\<lambda>request.
     bnd (self id) (\<lambda>c.
     if e_type request \<noteq> ''resume_request'' \<or> e_session_id request \<noteq> rc_session_id c
     then raise (HandshakeError (''expected resume_request, got '' @ e_type request))
     else
      bnd (assert_that (present (rc_session_id c) \<and> present (rc_agent_pubkey c) \<and> present (rc_token c))) (\<lambda>_.
      bnd (client_send ''resume_challenge'' (rc_session_id c)
             [(''agent_pubkey'', opt_str (rc_agent_pubkey c)), (''agent_hostname'', JStr (rc_agent_hostname c))] None) (\<lambda>_.
      bnd (client_recv D) (\<lambda>reply.
      bnd (self id) (\<lambda>c.
      if e_type reply \<noteq> ''resume_proof'' \<or> e_session_id reply \<noteq> rc_session_id c
      then raise (HandshakeError (''expected resume_proof, got '' @ e_type reply))
      else check_resume_proof D c reply))))))"

definition pair :: "adeps \<Rightarrow> (string option \<times> string option) client_co" where
  "pair D =
     bnd connect (\<lambda>_.
     bnd (send_pair_init D None None) (\<lambda>ids.
     bnd (await_pair_init_ack D) (\<lambda>_.
     bnd (await_pair_challenge_and_complete D) (\<lambda>_.
     bnd (upd_client (\<lambda>c. c\<lparr>rc_state := STREAMING\<rparr>)) (\<lambda>_. ret ids)))))"

section \<open>The encrypted channel\<close>

definition the_session :: "(string \<times> session_keys) client_co" where
  "the_session =
     bnd (self id) (\<lambda>c.
     (case (rc_session_keys c, rc_session_id c) of
        (Some ks, Some sid) \<Rightarrow> ret (sid, ks)
      | _ \<Rightarrow> raise AssertionError))"

definition send_encrypted :: "adeps \<Rightarrow> string \<Rightarrow> bytes \<Rightarrow> unit client_co" where
  "send_encrypted D ty plaintext =
     bnd the_session (\<lambda>(sid, ks).
     bnd next_seq (\<lambda>sq.
     bnd (lift_result (message_aad ty sid sq ''agent_to_client'')) (\<lambda>aad.
     bnd (draw D NONCE_LEN) (\<lambda>nonce.
     (case encrypt (ad_prims D) (k_agent_to_client ks) plaintext aad nonce of
        (nonce_b64, ciphertext_b64) \<Rightarrow>
          client_send ty (Some sid) [(''nonce'', JStr nonce_b64), (''ciphertext'', JStr ciphertext_b64)] (Some sq))))))"

definition send_pty_data :: "adeps \<Rightarrow> bytes \<Rightarrow> unit client_co" where
  "send_pty_data D plaintext = send_encrypted D ''pty_data'' plaintext"

text \<open>\<open>json.dumps\<close> of a string, and of the credential.\<close>

definition json_char :: "char \<Rightarrow> string" where
  "json_char c =
     (if c = CHR 0x22 \<or> c = CHR 0x5C then [CHR 0x5C, c]
      else if ord c = 8 then [CHR 0x5C, CHR ''b''] else if ord c = 9 then [CHR 0x5C, CHR ''t'']
      else if ord c = 10 then [CHR 0x5C, CHR ''n''] else if ord c = 12 then [CHR 0x5C, CHR ''f'']
      else if ord c = 13 then [CHR 0x5C, CHR ''r'']
      else if ord c < 32 \<or> 126 < ord c
      then CHR 0x5C # ''u00'' @ [lower_hex_digit (ord c div 16), lower_hex_digit (ord c mod 16)]
      else [c])"

definition json_string :: "string \<Rightarrow> string" where
  "json_string s = CHR 0x22 # concat (map json_char s) @ [CHR 0x22]"

definition credential_text :: "string \<Rightarrow> string \<Rightarrow> string" where
  "credential_text device_id device_secret =
     ''{'' @ json_string ''device_id'' @ '': '' @ json_string device_id @ '', '' @
     json_string ''device_secret'' @ '': '' @ json_string device_secret @ ''}''"

definition send_device_credential :: "adeps \<Rightarrow> string \<Rightarrow> string \<Rightarrow> unit client_co" where
  "send_device_credential D device_id device_secret =
     send_encrypted D ''device_credential'' (map ord (credential_text device_id device_secret))"

definition decrypt_payload :: "adeps \<Rightarrow> envelope \<Rightarrow> bytes client_co" where
  "decrypt_payload D e =
     bnd the_session (\<lambda>(sid, ks).
     bnd (self rc_last_peer_seq) (\<lambda>last_seq.
     if e_session_id e \<noteq> Some sid
     then raise (HandshakeError ''encrypted envelope session_id does not match this connection'')
     else if e_seq e \<le> last_seq then raise (HandshakeError ''replayed or out-of-order encrypted envelope'')
     else
      (let nonce_b64 = dict_get (e_payload e) ''nonce'' JNull;
           ciphertext_b64 = dict_get (e_payload e) ''ciphertext'' JNull
       in if \<not> truthy nonce_b64 \<or> \<not> truthy ciphertext_b64
       then raise (HandshakeError (e_type e @ '' missing nonce/ciphertext''))
       else
        bnd (lift_result (message_aad (e_type e) sid (e_seq e) ''client_to_agent'')) (\<lambda>aad.
        (case decrypt (ad_prims D) (k_client_to_agent ks) nonce_b64 ciphertext_b64 aad of
           Inr plaintext \<Rightarrow>
             bnd (upd_client (\<lambda>c. c\<lparr>rc_last_peer_seq := e_seq e\<rparr>)) (\<lambda>_. ret plaintext)
         | Inl (CryptoError _) \<Rightarrow> raise (HandshakeError ''encrypted message authentication failed'')
         | Inl x \<Rightarrow> raise x)))))"

section \<open>Control messages\<close>

definition send_session_close :: "string \<Rightarrow> unit client_co" where
  "send_session_close reason =
     bnd (self rc_session_id) (\<lambda>sid. client_send ''session_close'' sid [(''reason'', JStr reason)] None)"

definition send_session_list :: "json list \<Rightarrow> unit client_co" where
  "send_session_list sessions =
     bnd (self rc_session_id) (\<lambda>sid. client_send ''session_list'' sid [(''sessions'', JList (take 64 sessions))] None)"

definition client_close :: "unit client_co" where
  "client_close =
     bnd (self rc_ws) (\<lambda>ws.
     bnd (if ws then bnd (modify (\<lambda>w. w\<lparr>cw_open := False\<rparr>)) (\<lambda>_. pause) else skip) (\<lambda>_.
     upd_client (\<lambda>c. c\<lparr>rc_state := CLOSED\<rparr>)))"

end
