(* ===== verification/ClientLemmas.thy ===== *)
theory ClientLemmas
  imports RelayClient
begin

text \<open>
  Uninterrupted execution of the client's primitives, and what each method of the
  handshake does when it succeeds.
\<close>

section \<open>Running the primitives\<close>

lemma run_upd_client [simp]: "run (upd_client f) w = (Inr (), w\<lparr>cw_client := f (cw_client w)\<rparr>)"
  by (simp add: upd_client_def)

lemma run_self [simp]: "run (self f) w = (Inr (f (cw_client w)), w)"
  by (simp add: self_def)

lemma run_assert_that [simp]: "run (assert_that b) w = (if b then Inr () else Inl AssertionError, w)"
  by (simp add: assert_that_def)

lemma run_draw [simp]: "run (draw D n) w = (Inr (ad_random D (cw_draws w) n), w\<lparr>cw_draws := Suc (cw_draws w)\<rparr>)"
  by (simp add: draw_def)

lemma run_lift_result [simp]: "run (lift_result r) w = (r, w)"
  by (cases r) (simp_all add: lift_result_def)

lemma run_next_seq [simp]:
  "run next_seq w = (Inr (rc_seq (cw_client w) + 1), w\<lparr>cw_client := (cw_client w)\<lparr>rc_seq := rc_seq (cw_client w) + 1\<rparr>\<rparr>)"
  by (simp add: next_seq_def)

lemma run_ws_send [simp]:
  "run (ws_send e) w = (if cw_open w then (Inr (), w\<lparr>cw_out := cw_out w @ [e]\<rparr>) else (Inl ConnectionClosed, w))"
  by (simp add: ws_send_def)

lemma run_ws_recv [simp]:
  "run ws_recv w = (case cw_inbox w of [] \<Rightarrow> (Inl ConnectionClosed, w\<lparr>cw_open := False\<rparr>) | raw # rest \<Rightarrow> (Inr raw, w\<lparr>cw_inbox := rest\<rparr>))"
  by (simp add: ws_recv_def)

text \<open>The next message, checked.\<close>

definition incoming :: "adeps \<Rightarrow> cworld \<Rightarrow> agent_exn + envelope" where
  "incoming D w = (if \<not> rc_ws (cw_client w) then Inl AssertionError
     else case cw_inbox w of [] \<Rightarrow> Inl ConnectionClosed | raw # _ \<Rightarrow> check_incoming D raw)"

definition after_recv :: "cworld \<Rightarrow> cworld" where
  "after_recv w = (if \<not> rc_ws (cw_client w) then w
     else case cw_inbox w of [] \<Rightarrow> w\<lparr>cw_open := False\<rparr> | _ # rest \<Rightarrow> w\<lparr>cw_inbox := rest\<rparr>)"

lemma run_client_recv [simp]: "run (client_recv D) w = (incoming D w, after_recv w)"
  by (auto simp: client_recv_def incoming_def after_recv_def split: list.splits)

lemma after_recv_sel [simp]:
  "cw_client (after_recv w) = cw_client w" "cw_out (after_recv w) = cw_out w"
  "cw_now_ms (after_recv w) = cw_now_ms w" "cw_draws (after_recv w) = cw_draws w"
  "incoming D w = Inr e \<Longrightarrow> cw_open (after_recv w) = cw_open w"
  by (auto simp: after_recv_def incoming_def split: list.splits if_splits)

text \<open>A send with the next sequence number: either it appends one envelope, or nothing.\<close>

definition next_envelope :: "string \<Rightarrow> string option \<Rightarrow> (string \<times> json) list \<Rightarrow> cworld \<Rightarrow> envelope" where
  "next_envelope ty sid pl w = agent_envelope ty sid (rc_seq (cw_client w) + 1) (cw_now_ms w) pl"

definition bump_seq :: "cworld \<Rightarrow> cworld" where
  "bump_seq w = w\<lparr>cw_client := (cw_client w)\<lparr>rc_seq := rc_seq (cw_client w) + 1\<rparr>\<rparr>"

lemma run_client_send [simp]:
  "run (client_send ty sid pl None) w =
     (if \<not> rc_ws (cw_client w) then (Inl AssertionError, w)
      else if \<not> envelope_ok (next_envelope ty sid pl w) then (Inl ValidationError, bump_seq w)
      else if \<not> cw_open w then (Inl ConnectionClosed, bump_seq w)
      else (Inr (), (bump_seq w)\<lparr>cw_out := cw_out w @ [next_envelope ty sid pl w]\<rparr>))"
  by (simp add: client_send_def next_envelope_def bump_seq_def)

lemma run_client_send_at [simp]:
  "run (client_send ty sid pl (Some sq)) w =
     (if \<not> rc_ws (cw_client w) then (Inl AssertionError, w)
      else if \<not> envelope_ok (agent_envelope ty sid sq (cw_now_ms w) pl) then (Inl ValidationError, w)
      else if \<not> cw_open w then (Inl ConnectionClosed, w)
      else (Inr (), w\<lparr>cw_out := cw_out w @ [agent_envelope ty sid sq (cw_now_ms w) pl]\<rparr>))"
  by (simp add: client_send_def)

lemma bump_seq_sel [simp]:
  "cw_out (bump_seq w) = cw_out w" "cw_open (bump_seq w) = cw_open w" "cw_inbox (bump_seq w) = cw_inbox w"
  "cw_now_ms (bump_seq w) = cw_now_ms w" "cw_draws (bump_seq w) = cw_draws w"
  "cw_client (bump_seq w) = (cw_client w)\<lparr>rc_seq := rc_seq (cw_client w) + 1\<rparr>"
  by (simp_all add: bump_seq_def)

lemma run_set_transcript [simp]:
  "run (set_transcript s t a c) w =
     (case handshake_transcript s t a c of Inl e \<Rightarrow> (Inl e, w)
      | Inr tr \<Rightarrow> (Inr tr, w\<lparr>cw_client := (cw_client w)\<lparr>rc_transcript := Some tr\<rparr>\<rparr>))"
  by (simp add: set_transcript_def split: sum.splits)

lemma run_set_session_keys [simp]:
  "run (set_session_keys D own peer s t) w =
     (case derive_session_keys (ad_prims D) own peer s t of Inl e \<Rightarrow> (Inl e, w)
      | Inr ks \<Rightarrow> (Inr ks, w\<lparr>cw_client := (cw_client w)\<lparr>rc_session_keys := Some ks\<rparr>\<rparr>))"
  by (simp add: set_session_keys_def split: sum.splits)

lemma run_the_session [simp]:
  "run the_session w = (case (rc_session_keys (cw_client w), rc_session_id (cw_client w)) of
      (Some ks, Some sid) \<Rightarrow> (Inr (sid, ks), w) | _ \<Rightarrow> (Inl AssertionError, w))"
  by (simp add: the_session_def split: option.splits)

section \<open>The proof exchange\<close>

text \<open>The client's proof is accepted exactly when it is the tag of the transcript under the proof key.\<close>

definition proof_of :: "prims \<Rightarrow> bytes \<Rightarrow> bytes \<Rightarrow> string \<Rightarrow> string" where
  "proof_of P k t who = b64encode (p_hmac P k (t @ map ord (newline # ''role='' @ who)))"

lemma pairing_proof_role [simp]:
  "who = ''agent'' \<or> who = ''client'' \<Longrightarrow> pairing_proof P k t who = Inr (proof_of P k t who)"
  by (auto simp: pairing_proof_def proof_of_def)

lemma verify_pairing_proof_InrD:
  "verify_pairing_proof P k t ''client'' v = Inr True \<Longrightarrow> v = JStr (proof_of P k t ''client'')"
  by (auto simp: verify_pairing_proof_def compare_digest_def is_str_iff split: if_splits)

lemma run_prove_InrD:
  assumes "run (prove D ks t v refusal answer sid) w = (Inr (), w')"
  shows "v = JStr (proof_of (ad_prims D) (k_proof ks) t ''client'') \<and>
     (\<exists>e. e_type e = answer \<and> e_session_id e = Some sid \<and> e_seq e = rc_seq (cw_client w) + 1 \<and>
        e_payload e = [(''agent_proof'', JStr (proof_of (ad_prims D) (k_proof ks) t ''agent''))] \<and>
        cw_out w' = cw_out w @ [e]) \<and> rc_state (cw_client w') = PAIRED \<and> cw_inbox w' = cw_inbox w \<and>
     cw_client w' = (cw_client w)\<lparr>rc_seq := rc_seq (cw_client w) + 1, rc_state := PAIRED\<rparr>"
  using assms
  by (auto simp: prove_def next_envelope_def agent_envelope_def split: sum.splits if_splits
      dest!: verify_pairing_proof_InrD)

lemma run_prove_InlD:
  assumes "run (prove D ks t v refusal answer sid) w = (Inl x, w')"
  shows "cw_out w' = cw_out w \<and> rc_state (cw_client w') = rc_state (cw_client w)"
  using assms by (auto simp: prove_def split: sum.splits if_splits)

section \<open>What authenticates a peer\<close>

text \<open>
  The peer's message authenticates it to the agent \<open>c\<close>: its proof is the tag, under
  the proof key that the agent derives with the peer's public key and the pairing
  secret, of the transcript of this session.
\<close>

definition authenticates :: "adeps \<Rightarrow> rclient \<Rightarrow> json \<Rightarrow> json \<Rightarrow> session_keys \<Rightarrow> bytes \<Rightarrow> bool" where
  "authenticates D c pubkey client_proof ks t \<longleftrightarrow>
     (\<exists>own agent_pubkey secret token sid peer_raw.
        rc_own_private_key c = Some own \<and> rc_agent_pubkey c = Some agent_pubkey \<and> rc_pairing_secret c = Some secret \<and>
        rc_token c = Some token \<and> rc_session_id c = Some sid \<and> is_str pubkey \<and>
        decode_pubkey pubkey = Inr peer_raw \<and> handshake_transcript sid token agent_pubkey (as_str pubkey) = Inr t \<and>
        derive_session_keys (ad_prims D) own peer_raw secret t = Inr ks \<and>
        client_proof = JStr (proof_of (ad_prims D) (k_proof ks) t ''client''))"

lemma decode_pubkey_is_str: "decode_pubkey v = Inr raw \<Longrightarrow> is_str v"
  by (auto simp: decode_pubkey_def b64decode_json_def split: option.splits if_splits)

lemma py_str_string [simp]: "is_str v \<Longrightarrow> py_str v = as_str v"
  by (simp add: py_str_def)

lemma run_challenge_InrD:
  assumes "run (await_pair_challenge_and_complete D) w = (Inr (), w')"
  shows "\<exists>e ks t. incoming D w = Inr e \<and> e_type e = ''pair_challenge'' \<and> e_session_id e = rc_session_id (cw_client w) \<and>
     authenticates D (cw_client w) (dict_get (e_payload e) ''peer_pubkey'' JNull)
       (dict_get (e_payload e) ''client_proof'' JNull) ks t \<and>
     cw_client w' = (cw_client w)\<lparr>rc_transcript := Some t, rc_session_keys := Some ks,
        rc_seq := rc_seq (cw_client w) + 1, rc_state := PAIRED\<rparr> \<and>
     (\<exists>a. cw_out w' = cw_out w @ [a] \<and> e_type a = ''pair_complete'' \<and> e_session_id a = rc_session_id (cw_client w) \<and>
        e_payload a = [(''agent_proof'', JStr (proof_of (ad_prims D) (k_proof ks) t ''agent''))])"
  using assms
  by (auto simp: await_pair_challenge_and_complete_def Let_def authenticates_def dest!: run_prove_InrD
      split: sum.splits if_splits option.splits dest: decode_pubkey_is_str intro!: exI)

lemma run_challenge_InlD:
  assumes "run (await_pair_challenge_and_complete D) w = (Inl x, w')"
  shows "cw_out w' = cw_out w" "rc_state (cw_client w') = rc_state (cw_client w)"
  using assms
  by (auto simp: await_pair_challenge_and_complete_def Let_def dest!: run_prove_InlD
      split: sum.splits if_splits option.splits)

lemma run_resume_proof_InrD:
  assumes "run (check_resume_proof D c reply) w = (Inr (), w')" "cw_client w = c"
  shows "\<exists>ks t a. authenticates D c (dict_get (e_payload reply) ''client_pubkey'' (JStr []))
       (dict_get (e_payload reply) ''client_proof'' (JStr [])) ks t \<and>
     cw_client w' = c\<lparr>rc_transcript := Some t, rc_session_keys := Some ks, rc_seq := rc_seq c + 1, rc_state := PAIRED\<rparr> \<and>
     cw_out w' = cw_out w @ [a] \<and> e_type a = ''resume_complete'' \<and> e_session_id a = rc_session_id c \<and>
     e_payload a = [(''agent_proof'', JStr (proof_of (ad_prims D) (k_proof ks) t ''agent''))]"
proof -
  let ?pk = "dict_get (e_payload reply) ''client_pubkey'' (JStr [])"
  obtain raw where raw: "decode_pubkey ?pk = Inr raw"
    using assms by (auto simp: check_resume_proof_def Let_def split: sum.splits if_splits option.splits)
  note str = decode_pubkey_is_str [OF raw]
  from assms raw show ?thesis
    by (auto simp: check_resume_proof_def Let_def authenticates_def str dest!: run_prove_InrD
        split: sum.splits if_splits option.splits intro!: exI)
qed

lemma run_resume_proof_InlD:
  assumes "run (check_resume_proof D c reply) w = (Inl x, w')"
  shows "cw_out w' = cw_out w" "rc_state (cw_client w') = rc_state (cw_client w)"
  using assms
  by (auto simp: check_resume_proof_def Let_def dest!: run_prove_InlD split: sum.splits if_splits option.splits)

text \<open>What \<open>await_resume_and_complete\<close> leaves when it sends its challenge.\<close>

definition challenged :: "cworld \<Rightarrow> cworld" where
  "challenged w = (bump_seq (after_recv w))\<lparr>cw_out := cw_out w @
     [next_envelope ''resume_challenge'' (rc_session_id (cw_client w))
       [(''agent_pubkey'', opt_str (rc_agent_pubkey (cw_client w))),
        (''agent_hostname'', JStr (rc_agent_hostname (cw_client w)))] w]\<rparr>"

lemma next_envelope_after_recv [simp]: "next_envelope ty sid pl (after_recv w) = next_envelope ty sid pl w"
  by (simp add: next_envelope_def)

lemma challenged_sel [simp]:
  "cw_client (challenged w) = (cw_client w)\<lparr>rc_seq := rc_seq (cw_client w) + 1\<rparr>"
  by (simp add: challenged_def)

lemma run_resume_cases:
  assumes "run (await_resume_and_complete D) w = (r, w')"
  obtains (refused) x where "r = Inl x" "cw_out w' = cw_out w" "rc_state (cw_client w') = rc_state (cw_client w)"
    | (no_reply) x where "r = Inl x" "cw_out w' = cw_out (challenged w)"
        "rc_state (cw_client w') = rc_state (cw_client w)"
    | (reply) e where "incoming D (challenged w) = Inr e" "e_type e = ''resume_proof''"
        "e_session_id e = rc_session_id (cw_client w)"
        "run (check_resume_proof D (cw_client (challenged w)) e) (after_recv (challenged w)) = (r, w')"
  using assms
  by (auto simp: await_resume_and_complete_def challenged_def [symmetric] split: sum.splits if_splits)

end
