(* ===== verification/ClientTheorems.thy ===== *)
theory ClientTheorems
  imports ClientLemmas "HOL-Library.Sublist"
begin

text \<open>
  Properties of the agent's handshake and of its encrypted channel.
\<close>

section \<open>The agent only pairs with a peer that proves the secret\<close>

text \<open>
  C0. \<open>await_pair_challenge_and_complete\<close> returns only for a \<open>pair_challenge\<close> of the
  agent's own session whose proof is the tag of this session's transcript under keys
  derived from the peer's public key and the pairing secret; then the agent is
  PAIRED with these keys and has sent one \<open>pair_complete\<close> with its own proof. On
  every other input it raises, sends nothing and does not change its state.
\<close>

theorem paired_only_with_proof:
  "case run (await_pair_challenge_and_complete D) w of
     (Inr _, w') \<Rightarrow>
       (\<exists>e ks t a. incoming D w = Inr e \<and> e_type e = ''pair_challenge'' \<and> e_session_id e = rc_session_id (cw_client w) \<and>
          authenticates D (cw_client w) (dict_get (e_payload e) ''peer_pubkey'' JNull)
            (dict_get (e_payload e) ''client_proof'' JNull) ks t \<and>
          rc_state (cw_client w') = PAIRED \<and> rc_session_keys (cw_client w') = Some ks \<and>
          cw_out w' = cw_out w @ [a] \<and> e_type a = ''pair_complete'' \<and> e_session_id a = rc_session_id (cw_client w) \<and>
          e_payload a = [(''agent_proof'', JStr (proof_of (ad_prims D) (k_proof ks) t ''agent''))])
   | (Inl _, w') \<Rightarrow> cw_out w' = cw_out w \<and> rc_state (cw_client w') = rc_state (cw_client w)"
proof -
  obtain r w' where run: "run (await_pair_challenge_and_complete D) w = (r, w')" by fastforce
  show ?thesis
  proof (cases r)
    case (Inl x)
    with run run_challenge_InlD [of D w x w'] show ?thesis by simp
  next
    case (Inr u)
    with run have "run (await_pair_challenge_and_complete D) w = (Inr (), w')" by simp
    from run_challenge_InrD [OF this] run Inr show ?thesis by fastforce
  qed
qed

text \<open>
  C0. A saved device is resumed only by a peer that proves the durable secret over the
  transcript of the fresh session: otherwise \<open>await_resume_and_complete\<close> raises, its
  state is unchanged, and it has sent at most its public challenge.
\<close>

theorem resumed_only_with_proof:
  "case run (await_resume_and_complete D) w of
     (Inr _, w') \<Rightarrow>
       (\<exists>e ks t a. incoming D (challenged w) = Inr e \<and> e_type e = ''resume_proof'' \<and>
          e_session_id e = rc_session_id (cw_client w) \<and>
          authenticates D (cw_client w) (dict_get (e_payload e) ''client_pubkey'' (JStr []))
            (dict_get (e_payload e) ''client_proof'' (JStr [])) ks t \<and>
          rc_state (cw_client w') = PAIRED \<and> rc_session_keys (cw_client w') = Some ks \<and>
          cw_out w' = cw_out (challenged w) @ [a] \<and> e_type a = ''resume_complete'' \<and>
          e_payload a = [(''agent_proof'', JStr (proof_of (ad_prims D) (k_proof ks) t ''agent''))])
   | (Inl _, w') \<Rightarrow> cw_out w' \<in> {cw_out w, cw_out (challenged w)} \<and>
       rc_state (cw_client w') = rc_state (cw_client w)"
proof -
  obtain r w' where run: "run (await_resume_and_complete D) w = (r, w')" by fastforce
  from run show ?thesis
  proof (cases rule: run_resume_cases)
    case (reply e)
    show ?thesis
    proof (cases r)
      case (Inl x)
      with reply run run_resume_proof_InlD [of D _ e "after_recv (challenged w)" x w'] show ?thesis by simp
    next
      case (Inr u)
      with reply(4) have "run (check_resume_proof D (cw_client (challenged w)) e) (after_recv (challenged w)) = (Inr (), w')"
        by simp
      from run_resume_proof_InrD [OF this] obtain ks t a where
        "authenticates D (cw_client (challenged w)) (dict_get (e_payload e) ''client_pubkey'' (JStr []))
           (dict_get (e_payload e) ''client_proof'' (JStr [])) ks t"
        "cw_client w' = (cw_client (challenged w))\<lparr>rc_transcript := Some t, rc_session_keys := Some ks,
           rc_seq := rc_seq (cw_client (challenged w)) + 1, rc_state := PAIRED\<rparr>"
        "cw_out w' = cw_out (challenged w) @ [a]" "e_type a = ''resume_complete''"
        "e_payload a = [(''agent_proof'', JStr (proof_of (ad_prims D) (k_proof ks) t ''agent''))]"
        by auto
      moreover from this(1) have "authenticates D (cw_client w) (dict_get (e_payload e) ''client_pubkey'' (JStr []))
           (dict_get (e_payload e) ''client_proof'' (JStr [])) ks t"
        by (simp add: authenticates_def)
      ultimately show ?thesis using reply(1-3) run Inr by auto
    qed
  qed (use run in auto)
qed

section \<open>An honest pairing completes\<close>

text \<open>The message types a \<open>RelayClient\<close> sends.\<close>

definition agent_types :: "string list" where
  "agent_types = [''pair_init'', ''pair_complete'', ''resume_init'', ''resume_challenge'', ''resume_complete'',
     ''pty_data'', ''device_credential'', ''session_close'', ''session_list'']"

lemma agent_types_ok: "ty \<in> set agent_types \<Longrightarrow> 1 \<le> length ty \<and> length ty \<le> 64 \<and> type_pattern ty"
proof -
  have "list_all (\<lambda>ty. 1 \<le> length ty \<and> length ty \<le> 64 \<and> type_pattern ty) agent_types" by code_simp
  then show "ty \<in> set agent_types \<Longrightarrow> 1 \<le> length ty \<and> length ty \<le> 64 \<and> type_pattern ty"
    by (auto simp: list_all_iff)
qed

definition clock_ok :: "cworld \<Rightarrow> bool" where
  "clock_ok w \<longleftrightarrow> 0 \<le> cw_now_ms w \<and> cw_now_ms w \<le> 2 ^ 63 - 1"

lemma agent_envelope_ok:
  assumes "ty \<in> set agent_types" "case sid of None \<Rightarrow> True | Some s \<Rightarrow> length s \<le> 69"
    and "0 \<le> sq" "sq \<le> 2 ^ 53 - 1" "0 \<le> ts" "ts \<le> 2 ^ 63 - 1"
  shows "envelope_ok (agent_envelope ty sid sq ts pl)"
  using assms agent_types_ok [OF assms(1)]
  by (simp add: envelope_ok_def agent_envelope_def AGENT_PROTOCOL_VERSION_def)

text \<open>
  What the holder of the pairing link computes with its own private key \<open>b\<close>: the
  transcript, and the keys from the agent's public key and the secret of the link.
\<close>

definition link_keys :: "prims \<Rightarrow> bytes \<Rightarrow> string \<Rightarrow> string \<Rightarrow> string \<Rightarrow> string \<Rightarrow> agent_exn + session_keys \<times> bytes" where
  "link_keys P b session_id token agent_pubkey secret =
     try_then (handshake_transcript session_id token agent_pubkey (encode_pubkey (p_base P b))) (\<lambda>t.
     try_then (decode_pubkey (JStr agent_pubkey)) (\<lambda>raw.
     try_then (derive_session_keys P b raw secret t) (\<lambda>ks. Inr (ks, t))))"

definition honest_challenge :: "prims \<Rightarrow> bytes \<Rightarrow> string \<Rightarrow> session_keys \<Rightarrow> bytes \<Rightarrow> envelope \<Rightarrow> bool" where
  "honest_challenge P b sid ks t e \<longleftrightarrow> e_type e = ''pair_challenge'' \<and> e_session_id e = Some sid \<and>
     dict_get (e_payload e) ''peer_pubkey'' JNull = JStr (encode_pubkey (p_base P b)) \<and>
     dict_get (e_payload e) ''client_proof'' JNull = JStr (proof_of P (k_proof ks) t ''client'')"

text \<open>The values of the pairing that starts with draw number \<open>n\<close>.\<close>

definition pairing_values :: "adeps \<Rightarrow> nat \<Rightarrow> string \<times> string \<times> string \<times> bytes" where
  "pairing_values D n = (generate_pairing_token (ad_random D n TOKEN_BYTES),
     generate_pairing_secret (ad_random D (Suc n) PAIRING_SECRET_BYTES),
     generate_session_id (ad_random D (Suc (Suc n)) 8), ad_random D (Suc (Suc (Suc n))) 32)"

definition good_random :: "adeps \<Rightarrow> bool" where
  "good_random D \<longleftrightarrow> (\<forall>i n. is_random n (ad_random D i n))"

lemma session_id_length: "good_random D \<Longrightarrow> length (generate_session_id (ad_random D i 8)) = 21"
  using token_hex_shape(1) [of 8 "ad_random D i 8"] by (simp add: good_random_def generate_session_id_def)

lemma link_keys_agree:
  assumes P: "prims_contract P" and a: "is_random 32 a" and b: "is_random 32 b"
    and l: "link_keys P b sid token (encode_pubkey (p_base P a)) secret = Inr (ks, t)"
  shows "handshake_transcript sid token (encode_pubkey (p_base P a)) (encode_pubkey (p_base P b)) = Inr t"
    and "derive_session_keys P a (p_base P b) secret t = Inr ks"
    and "decode_pubkey (JStr (encode_pubkey (p_base P b))) = Inr (p_base P b)"
proof -
  have a': "is_random 32 (p_base P a)" and b': "is_random 32 (p_base P b)"
    using prims_contract.base_bytes [OF P] a b by (simp_all add: is_random_def)
  from l show "handshake_transcript sid token (encode_pubkey (p_base P a)) (encode_pubkey (p_base P b)) = Inr t"
    by (auto simp: link_keys_def dest!: try_then_InrD)
  from l have "derive_session_keys P b (p_base P a) secret t = Inr ks"
    by (auto simp: link_keys_def decode_encoded_pubkey [OF a'] dest!: try_then_InrD)
  then show "derive_session_keys P a (p_base P b) secret t = Inr ks"
    using prims_contract.derive_agree [OF P, of a b] a b by (simp add: is_random_def)
  show "decode_pubkey (JStr (encode_pubkey (p_base P b))) = Inr (p_base P b)"
    by (rule decode_encoded_pubkey [OF b'])
qed

lemma encode_pubkey_nonempty: "is_random 32 raw \<Longrightarrow> encode_pubkey raw \<noteq> []"
  by (auto simp: encode_pubkey_def is_random_def)

lemma proof_of_nonempty: "prims_contract P \<Longrightarrow> proof_of P k t who \<noteq> []"
  using prims_contract.hmac_bytes [of P k "t @ map ord (newline # ''role='' @ who)"]
  by (auto simp: proof_of_def)

lemma ascii_b64encode: "list_all is_byte bs \<Longrightarrow> ascii_string (b64encode bs)"
  using b64decode_ascii [OF b64decode_b64encode] by (simp add: ascii_string_def list_all_iff)

lemma verify_own_proof:
  assumes "prims_contract P" "who = ''agent'' \<or> who = ''client''"
  shows "verify_pairing_proof P k t who (JStr (proof_of P k t who)) = Inr True"
  using assms prims_contract.hmac_bytes [OF assms(1)]
  by (auto simp: verify_pairing_proof_def compare_digest_def proof_of_def ascii_b64encode)

text \<open>The agent's side, faced with an honest challenge.\<close>

lemma run_honest_challenge:
  assumes P: "prims_contract (ad_prims D)" and a: "is_random 32 a" and b: "is_random 32 b"
    and l: "link_keys (ad_prims D) b sid token (encode_pubkey (p_base (ad_prims D) a)) secret = Inr (ks, t)"
    and e: "incoming D w = Inr e" "honest_challenge (ad_prims D) b sid ks t e"
    and c: "rc_session_id (cw_client w) = Some sid" "rc_token (cw_client w) = Some token"
      "rc_pairing_secret (cw_client w) = Some secret" "rc_own_private_key (cw_client w) = Some a"
      "rc_agent_pubkey (cw_client w) = Some (encode_pubkey (p_base (ad_prims D) a))"
    and s: "rc_ws (cw_client w)" "cw_open w" "clock_ok w" "length sid \<le> 69"
      "0 \<le> rc_seq (cw_client w)" "rc_seq (cw_client w) < 2 ^ 53 - 1"
  shows "run (await_pair_challenge_and_complete D) w =
    (Inr (), (after_recv w)\<lparr>cw_client := (cw_client w)\<lparr>rc_transcript := Some t, rc_session_keys := Some ks,
         rc_seq := rc_seq (cw_client w) + 1, rc_state := PAIRED\<rparr>,
       cw_out := cw_out w @ [agent_envelope ''pair_complete'' (Some sid) (rc_seq (cw_client w) + 1) (cw_now_ms w)
         [(''agent_proof'', JStr (proof_of (ad_prims D) (k_proof ks) t ''agent''))]]\<rparr>)"
proof -
  have b': "is_random 32 (p_base (ad_prims D) b)"
    using prims_contract.base_bytes [OF P] b by (simp add: is_random_def)
  have ok: "envelope_ok (agent_envelope ''pair_complete'' (Some sid) (rc_seq (cw_client w) + 1) (cw_now_ms w) pl)" for pl
    using s by (intro agent_envelope_ok) (auto simp: agent_types_def clock_ok_def)
  show ?thesis
    using e(2) s ok
    by (simp add: await_pair_challenge_and_complete_def e(1) after_recv_sel(5) [OF e(1)] Let_def honest_challenge_def c
        encode_pubkey_nonempty [OF b'] proof_of_nonempty [OF P] link_keys_agree [OF P a b l] prove_def
        verify_own_proof [OF P] next_envelope_def bump_seq_def clock_ok_def)
qed

lemma run_connect [simp]:
  "run connect w = (if cw_reachable w
      then (Inr (), w\<lparr>cw_client := (cw_client w)\<lparr>rc_state := CONNECTING, rc_ws := True\<rparr>, cw_open := True\<rparr>)
      else (Inl OsError, w\<lparr>cw_client := (cw_client w)\<lparr>rc_state := CONNECTING\<rparr>\<rparr>))"
  by (simp add: connect_def)

text \<open>The agent after \<open>connect\<close> and \<open>send_pair_init\<close>.\<close>

definition offering :: "adeps \<Rightarrow> cworld \<Rightarrow> cworld" where
  "offering D w = (case pairing_values D (cw_draws w) of (token, secret, sid, a) \<Rightarrow>
     (let c = (cw_client w)\<lparr>rc_ws := True, rc_token := Some token, rc_pairing_secret := Some secret,
            rc_session_id := Some sid, rc_own_private_key := Some a,
            rc_agent_pubkey := Some (encode_pubkey (p_base (ad_prims D) a)),
            rc_state := AWAITING_PAIR_INIT_ACK, rc_seq := rc_seq (cw_client w) + 1\<rparr>
      in w\<lparr>cw_client := c, cw_open := True, cw_draws := cw_draws w + 4,
           cw_out := cw_out w @ [agent_envelope ''pair_init'' None (rc_seq c) (cw_now_ms w) (pair_init_payload c None)]\<rparr>))"

lemma run_offer:
  assumes "cw_reachable w" "clock_ok w" "0 \<le> rc_seq (cw_client w)" "rc_seq (cw_client w) < 2 ^ 53 - 1"
  shows "run (bnd connect (\<lambda>_. send_pair_init D None None)) w =
    (case pairing_values D (cw_draws w) of (token, _, sid, _) \<Rightarrow> (Inr (Some token, Some sid), offering D w))"
proof -
  have "envelope_ok (agent_envelope ''pair_init'' None (rc_seq (cw_client w) + 1) (cw_now_ms w) pl)" for pl
    using assms by (intro agent_envelope_ok) (auto simp: agent_types_def clock_ok_def)
  with assms show ?thesis
    by (simp add: send_pair_init_def fresh_identity_def generate_ephemeral_keypair_def offering_def
        pairing_values_def next_envelope_def bump_seq_def Let_def pair_init_payload_def)
qed

lemma honest_pairing:
  assumes P: "prims_contract (ad_prims D)" and rnd: "good_random D" and b: "is_random 32 b"
    and vals: "pairing_values D (cw_draws w) = (token, secret, sid, a)"
    and l: "link_keys (ad_prims D) b sid token (encode_pubkey (p_base (ad_prims D) a)) secret = Inr (ks, t)"
    and relay: "cw_reachable w" "cw_inbox w = raw_ack # raw_challenge # rest"
    and ack: "check_incoming D raw_ack = Inr ack" "e_type ack = ''pair_init_ack''"
    and ch: "check_incoming D raw_challenge = Inr e" "honest_challenge (ad_prims D) b sid ks t e"
    and fresh: "clock_ok w" "rc_seq (cw_client w) = 0"
  shows "\<exists>w' init complete proof. run (pair D) w = (Inr (Some token, Some sid), w') \<and>
     rc_state (cw_client w') = STREAMING \<and> rc_session_keys (cw_client w') = Some ks \<and>
     cw_out w' = cw_out w @ [init, complete] \<and> e_type init = ''pair_init'' \<and> e_type complete = ''pair_complete'' \<and>
     e_payload complete = [(''agent_proof'', JStr proof)] \<and>
     verify_pairing_proof (ad_prims D) (k_proof ks) t ''agent'' (JStr proof) = Inr True"
proof -
  let ?w1 = "(after_recv (offering D w))\<lparr>cw_client := (cw_client (offering D w))\<lparr>rc_state := AWAITING_PAIR_CHALLENGE\<rparr>\<rparr>"
  have sid: "length sid = 21" and a: "is_random 32 a"
    using vals rnd session_id_length [OF rnd] by (auto simp: pairing_values_def good_random_def)
  define prologue where "prologue = bnd connect (\<lambda>_. send_pair_init D None None)"
  have split: "pair D = bnd prologue (\<lambda>ids.
     bnd (await_pair_init_ack D) (\<lambda>_. bnd (await_pair_challenge_and_complete D) (\<lambda>_.
     bnd (upd_client (\<lambda>c. c\<lparr>rc_state := STREAMING\<rparr>)) (\<lambda>_. ret ids))))"
    by (simp add: pair_def prologue_def bnd_assoc)
  have offer: "run prologue w = (Inr (Some token, Some sid), offering D w)"
    using run_offer [of w D] relay(1) fresh by (simp only: prologue_def vals) simp
  have acked: "run (await_pair_init_ack D) (offering D w) = (Inr (), ?w1)"
    using ack relay(2) by (simp add: await_pair_init_ack_def incoming_def offering_def vals Let_def)
  have "incoming D (offering D w) = Inr ack"
    using ack relay(2) by (simp add: incoming_def offering_def vals Let_def)
  then have open1: "cw_open (after_recv (offering D w))"
    by (simp only: after_recv_sel(5)) (simp add: offering_def vals Let_def)
  note finish = run_honest_challenge [OF P a b l, of ?w1 e]
  have e: "incoming D ?w1 = Inr e"
    using ch(1) relay(2) by (simp add: incoming_def offering_def vals Let_def after_recv_def)
  from finish [OF e ch(2)] fresh sid open1
  have "run (await_pair_challenge_and_complete D) ?w1 = (Inr (), (after_recv ?w1)\<lparr>cw_client :=
       (cw_client ?w1)\<lparr>rc_transcript := Some t, rc_session_keys := Some ks,
         rc_seq := rc_seq (cw_client ?w1) + 1, rc_state := PAIRED\<rparr>,
       cw_out := cw_out ?w1 @ [agent_envelope ''pair_complete'' (Some sid) (rc_seq (cw_client ?w1) + 1) (cw_now_ms ?w1)
         [(''agent_proof'', JStr (proof_of (ad_prims D) (k_proof ks) t ''agent''))]]\<rparr>)"
    by (simp add: offering_def vals Let_def clock_ok_def)
  note completed = this
  show ?thesis
    by (simp only: split run_bnd offer acked completed prod.case sum.case run_upd_client run_prims)
      (simp add: offering_def vals Let_def agent_envelope_def verify_own_proof [OF P])
qed

text \<open>
  C0. Pairing succeeds: over a reachable relay that acknowledges \<open>pair_init\<close> and then
  forwards the challenge of a peer that holds the link, \<open>pair\<close> returns the token and
  session id of the link and ends STREAMING, both ends hold the same session keys,
  and the \<open>pair_complete\<close> it sent carries a proof that the peer's check accepts.
\<close>

theorem honest_pairing_completes:
  assumes P: "prims_contract (ad_prims D)" and rnd: "good_random D" and b: "is_random 32 b"
    and vals: "pairing_values D (cw_draws w) = (token, secret, sid, a)"
    and l: "link_keys (ad_prims D) b sid token (encode_pubkey (p_base (ad_prims D) a)) secret = Inr (ks, t)"
    and relay: "cw_reachable w" "cw_inbox w = raw_ack # raw_challenge # rest"
    and ack: "check_incoming D raw_ack = Inr ack" "e_type ack = ''pair_init_ack''"
    and ch: "check_incoming D raw_challenge = Inr e" "honest_challenge (ad_prims D) b sid ks t e"
    and fresh: "clock_ok w" "rc_seq (cw_client w) = 0"
  shows "\<exists>w' init complete proof. run (pair D) w = (Inr (Some token, Some sid), w') \<and>
     rc_state (cw_client w') = STREAMING \<and> rc_session_keys (cw_client w') = Some ks \<and>
     cw_out w' = cw_out w @ [init, complete] \<and> e_type init = ''pair_init'' \<and> e_type complete = ''pair_complete'' \<and>
     e_payload complete = [(''agent_proof'', JStr proof)] \<and>
     verify_pairing_proof (ad_prims D) (k_proof ks) t ''agent'' (JStr proof) = Inr True"
  using assms by (rule honest_pairing)

text \<open>A concrete agent: the primitives of \<open>Crypto\<close>, and a relay that acknowledges and forwards.\<close>

lemma url_safe_ascii: "list_all url_safe_char s \<Longrightarrow> ascii_string s"
  by (auto simp: ascii_string_def list_all_iff url_safe_char_def is_upper_def is_lower_def is_digit_def ord_def
      dest!: bspec)

lemma ascii_token_urlsafe: "is_random n bs \<Longrightarrow> ascii_string (token_urlsafe bs)"
  by (rule url_safe_ascii [OF token_urlsafe_shape(2)])

lemma hex_url_safe_all: "list_all hex_char s \<Longrightarrow> list_all url_safe_char s"
  by (auto simp: list_all_iff hex_url_safe)

lemma ascii_session_id: "is_random 8 bs \<Longrightarrow> ascii_string (generate_session_id bs)"
  using url_safe_ascii [OF hex_url_safe_all [OF token_hex_shape(2)]]
  by (simp add: generate_session_id_def ord_def)

lemma link_keys_defined:
  assumes P: "prims_contract P" and rnd: "good_random D" and b: "is_random 32 b"
    and vals: "pairing_values D n = (token, secret, sid, a)" and m: "p_mult P b (p_base P a) \<noteq> None"
  shows "\<exists>ks t. link_keys P b sid token (encode_pubkey (p_base P a)) secret = Inr (ks, t)"
proof -
  have r: "is_random k (ad_random D i k)" for i k using rnd by (simp add: good_random_def)
  have a: "is_random 32 (p_base P a)" "is_random 32 (p_base P b)"
    using vals b r prims_contract.base_bytes [OF P] by (auto simp: pairing_values_def is_random_def)
  have asc: "ascii_string (transcript_text sid token (encode_pubkey (p_base P a)) (encode_pubkey (p_base P b)))"
    using a vals ascii_token_urlsafe [OF r] ascii_session_id [OF r]
    by (auto simp: transcript_text_def pairing_values_def generate_pairing_token_def encode_pubkey_def
        is_random_def ascii_b64encode newline_def ord_def)
  have "decode_pairing_secret secret = Inr (ad_random D (Suc n) 32)"
    using vals decode_generated_secret [OF r] by (auto simp: pairing_values_def PAIRING_SECRET_BYTES_def)
  with asc m a b show ?thesis
    by (auto simp: link_keys_def handshake_transcript_def encode_ascii_def decode_encoded_pubkey
        derive_session_keys_def is_random_def Let_def)
qed

definition fresh_client :: rclient where
  "fresh_client = \<lparr>rc_relay_url = ''wss://relay.example.com'', rc_agent_hostname = ''host'', rc_ws = False,
     rc_seq = 0, rc_state = IDLE, rc_token = None, rc_pairing_secret = None, rc_session_id = None,
     rc_own_private_key = None, rc_agent_pubkey = None, rc_session_keys = None, rc_transcript = None,
     rc_last_peer_seq = 0\<rparr>"

definition fresh_world :: cworld where
  "fresh_world = \<lparr>cw_client = fresh_client, cw_inbox = [WText ''ack'', WText ''challenge''], cw_out = [],
     cw_open = False, cw_reachable = True, cw_now_ms = 0, cw_draws = 0\<rparr>"

definition demo_random :: "nat \<Rightarrow> nat \<Rightarrow> bytes" where
  "demo_random i n = replicate n (i mod 256)"

text \<open>A relay whose two messages are \<open>ack\<close> and the envelope \<open>e\<close>.\<close>

definition ack_envelope :: envelope where
  "ack_envelope = agent_envelope ''pair_init_ack'' None 0 0 []"

definition demo_agent :: "envelope \<Rightarrow> adeps" where
  "demo_agent e = \<lparr>ad_prims = toy_prims,
     ad_loads = (\<lambda>raw. if raw = WText ''ack'' then Some (envelope_json ack_envelope)
                 else if raw = WText ''challenge'' then Some (envelope_json e) else None),
     ad_random = demo_random, ad_ip_ok = (\<lambda>_. True)\<rparr>"

lemma demo_agent_sel [simp]:
  "ad_prims (demo_agent e) = toy_prims" "ad_random (demo_agent e) = demo_random" "good_random (demo_agent e)"
  by (simp_all add: demo_agent_def good_random_def is_random_def demo_random_def is_byte_def list_all_iff)

lemma demo_incoming:
  "check_incoming (demo_agent e) (WText ''ack'') = Inr ack_envelope"
  "envelope_ok e \<Longrightarrow> e_v e = 2 \<Longrightarrow> check_incoming (demo_agent e) (WText ''challenge'') = Inr e"
proof -
  have "envelope_ok ack_envelope" by (simp add: ack_envelope_def agent_envelope_def envelope_ok_def
      AGENT_PROTOCOL_VERSION_def is_lower_def ord_def)
  then show "check_incoming (demo_agent e) (WText ''ack'') = Inr ack_envelope"
    by (simp add: check_incoming_def agent_parse_envelope_def demo_agent_def validate_envelope_json)
      (simp add: ack_envelope_def agent_envelope_def)
qed (simp add: check_incoming_def agent_parse_envelope_def demo_agent_def validate_envelope_json AGENT_PROTOCOL_VERSION_def)

text \<open>The challenge of the peer with private key \<open>b\<close>.\<close>

definition challenge_of :: "bytes \<Rightarrow> string \<Rightarrow> session_keys \<Rightarrow> bytes \<Rightarrow> envelope" where
  "challenge_of b sid ks t = agent_envelope ''pair_challenge'' (Some sid) 0 0
     [(''peer_pubkey'', JStr (encode_pubkey (p_base toy_prims b))),
      (''client_proof'', JStr (proof_of toy_prims (k_proof ks) t ''client''))]"

lemma challenge_of_ok:
  assumes "length sid \<le> 69"
  shows "honest_challenge toy_prims b sid ks t (challenge_of b sid ks t)"
    "envelope_ok (challenge_of b sid ks t)" "e_v (challenge_of b sid ks t) = 2"
  using assms
  by (simp_all add: honest_challenge_def challenge_of_def agent_envelope_def dict_get_def envelope_ok_def
      AGENT_PROTOCOL_VERSION_def is_lower_def ord_def)

text \<open>Its honest peer, with the private key of nines, for the offer that starts with draw \<open>n\<close>.\<close>

lemma demo_peer_at:
  obtains D token secret sid a ks t e where "ad_prims D = toy_prims" "good_random D" "is_random 32 (replicate 32 (9::nat))"
    "pairing_values D n = (token, secret, sid, a)"
    "link_keys (ad_prims D) (replicate 32 9) sid token (encode_pubkey (p_base (ad_prims D) a)) secret = Inr (ks, t)"
    "check_incoming D (WText ''ack'') = Inr ack_envelope" "check_incoming D (WText ''challenge'') = Inr e"
    "honest_challenge (ad_prims D) (replicate 32 9) sid ks t e" "D = demo_agent e"
proof -
  let ?b = "replicate 32 (9::nat)"
  let ?D0 = "demo_agent ack_envelope"
  obtain token secret sid a where vals: "pairing_values ?D0 n = (token, secret, sid, a)"
    by (cases "pairing_values ?D0 n") auto
  have b: "is_random 32 ?b" by (simp add: is_random_def is_byte_def list_all_iff)
  have "p_mult toy_prims ?b (p_base toy_prims a) \<noteq> None" by (simp add: toy_prims_def)
  from link_keys_defined [OF toy.prims_contract_axioms _ b vals this]
  obtain ks t where l: "link_keys toy_prims ?b sid token (encode_pubkey (p_base toy_prims a)) secret = Inr (ks, t)"
    by auto
  let ?e = "challenge_of ?b sid ks t"
  have sid: "length sid = 21" using vals session_id_length [of ?D0] by (auto simp: pairing_values_def)
  have v: "pairing_values (demo_agent ?e) n = (token, secret, sid, a)"
    using vals by (simp add: pairing_values_def)
  with b l sid challenge_of_ok [of sid ?b ks t] demo_incoming [of ?e] show ?thesis
    by (intro that [of "demo_agent ?e" token secret sid a ks t ?e]) simp_all
qed

lemma demo_peer:
  obtains D token secret sid a ks t e where "ad_prims D = toy_prims" "good_random D" "is_random 32 (replicate 32 (9::nat))"
    "pairing_values D (cw_draws fresh_world) = (token, secret, sid, a)"
    "link_keys (ad_prims D) (replicate 32 9) sid token (encode_pubkey (p_base (ad_prims D) a)) secret = Inr (ks, t)"
    "check_incoming D (WText ''ack'') = Inr ack_envelope" "check_incoming D (WText ''challenge'') = Inr e"
    "honest_challenge (ad_prims D) (replicate 32 9) sid ks t e"
    "token = generate_pairing_token (replicate 16 0)" "sid = generate_session_id (replicate 8 2)"
proof -
  obtain D token secret sid a ks t e where d: "ad_prims D = toy_prims" "good_random D" "is_random 32 (replicate 32 (9::nat))"
    "pairing_values D (cw_draws fresh_world) = (token, secret, sid, a)"
    "link_keys (ad_prims D) (replicate 32 9) sid token (encode_pubkey (p_base (ad_prims D) a)) secret = Inr (ks, t)"
    "check_incoming D (WText ''ack'') = Inr ack_envelope" "check_incoming D (WText ''challenge'') = Inr e"
    "honest_challenge (ad_prims D) (replicate 32 9) sid ks t e" and D: "D = demo_agent e"
    by (rule demo_peer_at)
  have "token = generate_pairing_token (replicate 16 0)" "sid = generate_session_id (replicate 8 2)"
    using d(4) by (auto simp: D pairing_values_def demo_random_def TOKEN_BYTES_def numeral_2_eq_2 fresh_world_def)
  with d show ?thesis by (rule that)
qed

lemma fresh_world_sel [simp]:
  "cw_reachable fresh_world" "cw_inbox fresh_world = [WText ''ack'', WText ''challenge'']" "clock_ok fresh_world"
  "rc_seq (cw_client fresh_world) = 0" "cw_out fresh_world = []" "e_type ack_envelope = ''pair_init_ack''"
  by (simp_all add: fresh_world_def fresh_client_def clock_ok_def ack_envelope_def agent_envelope_def)

theorem honest_pairing_completes_witness:
  "\<exists>D w'. ad_prims D = toy_prims \<and>
     run (pair D) fresh_world = (Inr (Some (generate_pairing_token (replicate 16 0)),
       Some (generate_session_id (replicate 8 2))), w') \<and> rc_state (cw_client w') = STREAMING"
proof -
  obtain D token secret sid a ks t e where d: "ad_prims D = toy_prims" "good_random D" "is_random 32 (replicate 32 (9::nat))"
    "pairing_values D (cw_draws fresh_world) = (token, secret, sid, a)"
    "link_keys (ad_prims D) (replicate 32 9) sid token (encode_pubkey (p_base (ad_prims D) a)) secret = Inr (ks, t)"
    "check_incoming D (WText ''ack'') = Inr ack_envelope" "check_incoming D (WText ''challenge'') = Inr e"
    "honest_challenge (ad_prims D) (replicate 32 9) sid ks t e"
    "token = generate_pairing_token (replicate 16 0)" "sid = generate_session_id (replicate 8 2)"
    by (rule demo_peer)
  have P: "prims_contract (ad_prims D)" using toy.prims_contract_axioms d(1) by simp
  from honest_pairing_completes [OF P d(2-5) fresh_world_sel(1,2) d(6) fresh_world_sel(6) d(7,8) fresh_world_sel(3,4)] d(1,9,10)
  show ?thesis by auto
qed

text \<open>The agent it pairs with.\<close>

lemma demo_pairing:
  obtains D w' ids where "ad_prims D = toy_prims" "run (pair D) fresh_world = (Inr ids, w')" "length (cw_out w') = 2"
proof -
  obtain D token secret sid a ks t e where d: "ad_prims D = toy_prims" "good_random D" "is_random 32 (replicate 32 (9::nat))"
    "pairing_values D (cw_draws fresh_world) = (token, secret, sid, a)"
    "link_keys (ad_prims D) (replicate 32 9) sid token (encode_pubkey (p_base (ad_prims D) a)) secret = Inr (ks, t)"
    "check_incoming D (WText ''ack'') = Inr ack_envelope" "check_incoming D (WText ''challenge'') = Inr e"
    "honest_challenge (ad_prims D) (replicate 32 9) sid ks t e"
    by (rule demo_peer)
  have P: "prims_contract (ad_prims D)" using toy.prims_contract_axioms d(1) by simp
  from honest_pairing [OF P d(2-5) fresh_world_sel(1,2) d(6) fresh_world_sel(6) d(7,8) fresh_world_sel(3,4)] d(1)
  show ?thesis by (auto intro!: that [of D])
qed

section \<open>The encrypted channel\<close>

lemma sent_under_keys:
  assumes "run (send_encrypted D ty m) w = (Inr (), w')"
  shows "\<exists>ks sid ad nonce n64 c64. rc_session_keys (cw_client w) = Some ks \<and> rc_session_id (cw_client w) = Some sid \<and>
     message_aad ty sid (rc_seq (cw_client w) + 1) ''agent_to_client'' = Inr ad \<and>
     nonce = ad_random D (cw_draws w) NONCE_LEN \<and>
     encrypt (ad_prims D) (k_agent_to_client ks) m ad nonce = (n64, c64) \<and>
     cw_out w' = cw_out w @ [agent_envelope ty (Some sid) (rc_seq (cw_client w) + 1) (cw_now_ms w)
       [(''nonce'', JStr n64), (''ciphertext'', JStr c64)]]"
  using assms by (auto simp: send_encrypted_def split: option.splits sum.splits prod.splits if_splits)

text \<open>
  C0. What the agent encrypts, the peer reads: the envelope \<open>send_encrypted\<close> appends
  decrypts under the agent-to-client key, with the associated data rebuilt from the
  envelope's own type, session and sequence number, to the plaintext.
\<close>

theorem sent_payload_decrypts:
  assumes P: "prims_contract (ad_prims D)" and rnd: "good_random D" and m: "list_all is_byte m"
    and ks: "rc_session_keys (cw_client w) = Some ks" "length (k_agent_to_client ks) = SESSION_KEY_LEN"
    and sent: "run (send_encrypted D ty m) w = (Inr (), w')"
  shows "\<exists>e ad sid. cw_out w' = cw_out w @ [e] \<and> e_type e = ty \<and> e_session_id e = Some sid \<and>
     e_seq e = rc_seq (cw_client w) + 1 \<and> message_aad (e_type e) sid (e_seq e) ''agent_to_client'' = Inr ad \<and>
     decrypt (ad_prims D) (k_agent_to_client ks) (dict_get (e_payload e) ''nonce'' JNull)
       (dict_get (e_payload e) ''ciphertext'' JNull) ad = Inr m"
proof -
  from sent_under_keys [OF sent] obtain sid ad n64 c64 where
    ad: "message_aad ty sid (rc_seq (cw_client w) + 1) ''agent_to_client'' = Inr ad"
    and enc: "encrypt (ad_prims D) (k_agent_to_client ks) m ad (ad_random D (cw_draws w) NONCE_LEN) = (n64, c64)"
    and out: "cw_out w' = cw_out w @ [agent_envelope ty (Some sid) (rc_seq (cw_client w) + 1) (cw_now_ms w)
       [(''nonce'', JStr n64), (''ciphertext'', JStr c64)]]"
    using ks(1) by auto
  have "is_random NONCE_LEN (ad_random D (cw_draws w) NONCE_LEN)" using rnd by (simp add: good_random_def)
  with prims_contract.decrypt_encrypt [OF P enc _ _ ks(2) m] ad out show ?thesis
    by (auto simp: is_random_def agent_envelope_def dict_get_def)
qed

text \<open>A message from the client, sealed for the agent.\<close>

definition sealed_for :: "prims \<Rightarrow> session_keys \<Rightarrow> string \<Rightarrow> envelope \<Rightarrow> bytes \<Rightarrow> bool" where
  "sealed_for P ks sid e m \<longleftrightarrow> e_session_id e = Some sid \<and>
     (\<exists>ad nonce. message_aad (e_type e) sid (e_seq e) ''client_to_agent'' = Inr ad \<and> length nonce = NONCE_LEN \<and>
        b64decode_json (dict_get (e_payload e) ''nonce'' JNull) = Some nonce \<and>
        b64decode_json (dict_get (e_payload e) ''ciphertext'' JNull) = Some (p_seal P m ad nonce (k_client_to_agent ks)))"

lemma decrypt_errors: "decrypt P key n c ad = Inl x \<Longrightarrow> \<exists>msg. x = CryptoError msg"
  by (auto simp: decrypt_def split: option.splits if_splits)

lemma run_decrypt_InrD:
  assumes P: "prims_contract (ad_prims D)" and ks: "rc_session_keys (cw_client w) = Some ks" "length (k_client_to_agent ks) = 32"
    and sid: "rc_session_id (cw_client w) = Some sid" and run: "run (decrypt_payload D e) w = (Inr m, w')"
  shows "sealed_for (ad_prims D) ks sid e m" "rc_last_peer_seq (cw_client w) < e_seq e"
    "w' = w\<lparr>cw_client := (cw_client w)\<lparr>rc_last_peer_seq := e_seq e\<rparr>\<rparr>"
proof -
  from run ks sid obtain ad where ad: "message_aad (e_type e) sid (e_seq e) ''client_to_agent'' = Inr ad"
    and dec: "decrypt (ad_prims D) (k_client_to_agent ks) (dict_get (e_payload e) ''nonce'' JNull)
        (dict_get (e_payload e) ''ciphertext'' JNull) ad = Inr m"
    and rest: "e_session_id e = Some sid" "rc_last_peer_seq (cw_client w) < e_seq e"
      "w' = w\<lparr>cw_client := (cw_client w)\<lparr>rc_last_peer_seq := e_seq e\<rparr>\<rparr>"
    by (auto simp: decrypt_payload_def Let_def split: sum.splits if_splits agent_exn.splits)
  from prims_contract.decrypt_InrD [OF P dec] ks(2) ad rest(1)
  show "sealed_for (ad_prims D) ks sid e m" by (auto simp: sealed_for_def SESSION_KEY_LEN_def)
  show "rc_last_peer_seq (cw_client w) < e_seq e"
    "w' = w\<lparr>cw_client := (cw_client w)\<lparr>rc_last_peer_seq := e_seq e\<rparr>\<rparr>" by (fact rest)+
qed

lemma run_decrypt_InlD: "run (decrypt_payload D e) w = (Inl x, w') \<Longrightarrow> w' = w"
  by (auto simp: decrypt_payload_def Let_def split: option.splits sum.splits if_splits agent_exn.splits)

text \<open>The agent reads a sequence of envelopes; those that raise are skipped.\<close>

fun decrypt_all :: "adeps \<Rightarrow> envelope list \<Rightarrow> cworld \<Rightarrow> (envelope \<times> bytes) list \<times> cworld" where
  "decrypt_all D [] w = ([], w)"
| "decrypt_all D (e # es) w =
     (case run (decrypt_payload D e) w of
        (Inr m, w1) \<Rightarrow> (case decrypt_all D es w1 of (acc, w2) \<Rightarrow> ((e, m) # acc, w2))
      | (Inl _, w1) \<Rightarrow> decrypt_all D es w1)"

lemma decrypt_all_ok:
  assumes "prims_contract (ad_prims D)" "rc_session_keys (cw_client w) = Some ks" "length (k_client_to_agent ks) = 32"
    "rc_session_id (cw_client w) = Some sid" "decrypt_all D es w = (acc, w')"
  shows "(\<forall>(e, m) \<in> set acc. sealed_for (ad_prims D) ks sid e m \<and> rc_last_peer_seq (cw_client w) < e_seq e) \<and>
    sorted_wrt (<) (map (e_seq \<circ> fst) acc) \<and> subseq (map fst acc) es \<and>
    w' = w\<lparr>cw_client := (cw_client w)\<lparr>rc_last_peer_seq :=
      (if acc = [] then rc_last_peer_seq (cw_client w) else e_seq (fst (last acc)))\<rparr>\<rparr>"
  using assms
proof (induction es arbitrary: w acc)
  case (Cons e es)
  obtain r w1 where r: "run (decrypt_payload D e) w = (r, w1)" by fastforce
  show ?case
  proof (cases r)
    case (Inl x)
    with run_decrypt_InlD [of D e w x w1] Cons r show ?thesis by auto
  next
    case (Inr m)
    note d = run_decrypt_InrD [OF Cons.prems(1-4), of e m w1]
    from Inr r have run: "run (decrypt_payload D e) w = (Inr m, w1)" by simp
    obtain acc1 where acc1: "decrypt_all D es w1 = (acc1, w')" "acc = (e, m) # acc1"
      using Cons.prems(5) run by (auto split: prod.splits)
    from Cons.IH [OF Cons.prems(1) _ Cons.prems(3) _ acc1(1)] d [OF run] Cons.prems(2,4) acc1(2)
    show ?thesis by auto
  qed
qed auto

text \<open>
  C13. Whatever envelopes arrive, those whose payload the agent accepts carry its own
  session id and strictly increasing sequence numbers above all accepted before (no
  replay, no reordering), and each ciphertext is exactly the seal of the plaintext
  under the client-to-agent key for that envelope's type, session and number. What
  is refused changes nothing.
\<close>

theorem accepted_payloads_authentic:
  assumes "prims_contract (ad_prims D)" "rc_session_keys (cw_client w) = Some ks" "length (k_client_to_agent ks) = 32"
    "rc_session_id (cw_client w) = Some sid" "decrypt_all D es w = (acc, w')"
  shows "(\<forall>(e, m) \<in> set acc. sealed_for (ad_prims D) ks sid e m \<and> rc_last_peer_seq (cw_client w) < e_seq e) \<and>
    sorted_wrt (<) (map (e_seq \<circ> fst) acc) \<and> subseq (map fst acc) es \<and>
    w' = w\<lparr>cw_client := (cw_client w)\<lparr>rc_last_peer_seq :=
      (if acc = [] then rc_last_peer_seq (cw_client w) else e_seq (fst (last acc)))\<rparr>\<rparr>"
  using assms by (rule decrypt_all_ok)

lemma run_decrypt_fresh:
  assumes P: "prims_contract (ad_prims D)" and ks: "rc_session_keys (cw_client w) = Some ks"
    "length (k_client_to_agent ks) = SESSION_KEY_LEN" and sid: "rc_session_id (cw_client w) = Some sid"
    and ad: "message_aad (e_type e) sid (e_seq e) ''client_to_agent'' = Inr ad"
    and enc: "encrypt (ad_prims D) (k_client_to_agent ks) m ad nonce = (n64, c64)"
    and bytes: "length nonce = NONCE_LEN" "list_all is_byte nonce" "list_all is_byte m"
    and e: "e_session_id e = Some sid" "rc_last_peer_seq (cw_client w) < e_seq e"
      "dict_get (e_payload e) ''nonce'' JNull = JStr n64" "dict_get (e_payload e) ''ciphertext'' JNull = JStr c64"
  shows "run (decrypt_payload D e) w = (Inr m, w\<lparr>cw_client := (cw_client w)\<lparr>rc_last_peer_seq := e_seq e\<rparr>\<rparr>)"
proof -
  have "n64 \<noteq> []" using enc bytes(1) by (auto simp: encrypt_def NONCE_LEN_def)
  moreover have "c64 \<noteq> []"
    using enc prims_contract.seal_length [OF P, of m ad nonce "k_client_to_agent ks"]
    by (auto simp: encrypt_def TAG_LEN_def)
  moreover have "\<not> e_seq e \<le> rc_last_peer_seq (cw_client w)" using e(2) by simp
  ultimately show ?thesis
    using prims_contract.decrypt_encrypt [OF P enc bytes(1,2) ks(2) bytes(3)]
    by (simp add: decrypt_payload_def ks sid ad e(1,3,4) Let_def)
qed

text \<open>
  C15. A message the peer seals with a fresh sequence number is accepted, and gives the
  plaintext back.
\<close>

theorem fresh_payload_accepted:
  assumes "prims_contract (ad_prims D)" "rc_session_keys (cw_client w) = Some ks"
    "length (k_client_to_agent ks) = SESSION_KEY_LEN" "rc_session_id (cw_client w) = Some sid"
    and "message_aad (e_type e) sid (e_seq e) ''client_to_agent'' = Inr ad"
    and "encrypt (ad_prims D) (k_client_to_agent ks) m ad nonce = (n64, c64)"
    and "length nonce = NONCE_LEN" "list_all is_byte nonce" "list_all is_byte m"
    and "e_session_id e = Some sid" "rc_last_peer_seq (cw_client w) < e_seq e"
      "dict_get (e_payload e) ''nonce'' JNull = JStr n64" "dict_get (e_payload e) ''ciphertext'' JNull = JStr c64"
  shows "run (decrypt_payload D e) w = (Inr m, w\<lparr>cw_client := (cw_client w)\<lparr>rc_last_peer_seq := e_seq e\<rparr>\<rparr>)"
  using assms by (rule run_decrypt_fresh)

text \<open>A paired agent, and a message sealed for it.\<close>

definition demo_keys :: session_keys where
  "demo_keys = \<lparr>k_agent_to_client = replicate 32 7, k_client_to_agent = replicate 32 8, k_proof = replicate 32 9\<rparr>"

definition paired_world :: cworld where
  "paired_world = fresh_world\<lparr>cw_open := True, cw_client := fresh_client\<lparr>rc_ws := True, rc_state := PAIRED,
     rc_session_id := Some ''sess-1'', rc_session_keys := Some demo_keys\<rparr>\<rparr>"

definition demo_ad :: bytes where
  "demo_ad = map ord (aad_text ''pty_input'' ''sess-1'' 5 ''client_to_agent'')"

definition demo_input :: envelope where
  "demo_input = (case encrypt toy_prims (k_client_to_agent demo_keys) [104, 105] demo_ad (replicate 24 3) of
     (n64, c64) \<Rightarrow> agent_envelope ''pty_input'' (Some ''sess-1'') 5 0
       [(''nonce'', JStr n64), (''ciphertext'', JStr c64)])"

lemma demo_aad: "message_aad ''pty_input'' ''sess-1'' 5 ''client_to_agent'' = Inr demo_ad"
  by (simp add: message_aad_def encode_ascii_def demo_ad_def aad_text_def newline_def ord_def)

lemma demo_input_sel [simp]:
  "e_type demo_input = ''pty_input''" "e_session_id demo_input = Some ''sess-1''" "e_seq demo_input = 5"
  "dict_get (e_payload demo_input) ''nonce'' JNull =
     JStr (fst (encrypt toy_prims (k_client_to_agent demo_keys) [104, 105] demo_ad (replicate 24 3)))"
  "dict_get (e_payload demo_input) ''ciphertext'' JNull =
     JStr (snd (encrypt toy_prims (k_client_to_agent demo_keys) [104, 105] demo_ad (replicate 24 3)))"
  by (simp_all add: demo_input_def agent_envelope_def dict_get_def encrypt_def)

lemma paired_world_sel [simp]:
  "rc_session_keys (cw_client paired_world) = Some demo_keys" "rc_session_id (cw_client paired_world) = Some ''sess-1''"
  "rc_last_peer_seq (cw_client paired_world) = 0" "length (k_client_to_agent demo_keys) = 32"
  "length (k_agent_to_client demo_keys) = 32"
  by (simp_all add: paired_world_def fresh_client_def demo_keys_def)

theorem fresh_payload_accepted_witness:
  "fst (run (decrypt_payload (demo_agent ack_envelope) demo_input) paired_world) = Inr [104, 105]"
proof -
  have "run (decrypt_payload (demo_agent ack_envelope) demo_input) paired_world =
      (Inr [104, 105], paired_world\<lparr>cw_client := (cw_client paired_world)\<lparr>rc_last_peer_seq := e_seq demo_input\<rparr>\<rparr>)"
    by (rule fresh_payload_accepted [where ad = demo_ad and ks = demo_keys and nonce = "replicate 24 3"])
      (simp_all add: toy.prims_contract_axioms demo_aad SESSION_KEY_LEN_def NONCE_LEN_def is_byte_def list_all_iff)
  then show ?thesis by simp
qed

lemma demo_decrypt:
  "run (decrypt_payload (demo_agent ack_envelope) demo_input) paired_world =
      (Inr [104, 105], paired_world\<lparr>cw_client := (cw_client paired_world)\<lparr>rc_last_peer_seq := e_seq demo_input\<rparr>\<rparr>)"
  by (rule run_decrypt_fresh [where ad = demo_ad and ks = demo_keys and nonce = "replicate 24 3"])
    (simp_all add: toy.prims_contract_axioms demo_aad SESSION_KEY_LEN_def NONCE_LEN_def is_byte_def list_all_iff)

theorem accepted_payloads_authentic_witness:
  "fst (decrypt_all (demo_agent ack_envelope) [demo_input, demo_input] paired_world) = [(demo_input, [104, 105])] \<and>
   sealed_for toy_prims demo_keys ''sess-1'' demo_input [104, 105]"
proof -
  let ?w = "paired_world\<lparr>cw_client := (cw_client paired_world)\<lparr>rc_last_peer_seq := 5\<rparr>\<rparr>"
  have "run (decrypt_payload (demo_agent ack_envelope) demo_input) ?w =
      (Inl (HandshakeError ''replayed or out-of-order encrypted envelope''), ?w)"
    by (simp add: decrypt_payload_def)
  then have acc: "decrypt_all (demo_agent ack_envelope) [demo_input, demo_input] paired_world =
      ([(demo_input, [104, 105])], ?w)"
    by (simp add: demo_decrypt)
  from accepted_payloads_authentic [OF _ paired_world_sel(1,4,2) acc] toy.prims_contract_axioms
  show ?thesis unfolding acc by simp
qed

theorem sent_payload_decrypts_witness:
  "\<exists>w' e ad. run (send_encrypted (demo_agent ack_envelope) ''pty_data'' [104, 105]) paired_world = (Inr (), w') \<and>
     cw_out w' = [e] \<and> decrypt toy_prims (k_agent_to_client demo_keys) (dict_get (e_payload e) ''nonce'' JNull)
       (dict_get (e_payload e) ''ciphertext'' JNull) ad = Inr [104, 105]"
proof -
  have aad: "message_aad ''pty_data'' ''sess-1'' 1 ''agent_to_client'' =
      Inr (map ord (aad_text ''pty_data'' ''sess-1'' 1 ''agent_to_client''))"
    by (simp add: message_aad_def encode_ascii_def aad_text_def newline_def ord_def)
  have "envelope_ok (agent_envelope ''pty_data'' (Some ''sess-1'') 1 0 pl)" for pl
    by (rule agent_envelope_ok) (simp_all add: agent_types_def)
  then have "\<exists>w'. run (send_encrypted (demo_agent ack_envelope) ''pty_data'' [104, 105]) paired_world = (Inr (), w')"
    using aad by (simp add: send_encrypted_def encrypt_def) (simp add: paired_world_def fresh_world_def fresh_client_def aad)
  then obtain w' where run: "run (send_encrypted (demo_agent ack_envelope) ''pty_data'' [104, 105]) paired_world = (Inr (), w')" ..
  from sent_payload_decrypts [OF _ _ _ paired_world_sel(1) _ run] toy.prims_contract_axioms run show ?thesis
    by (auto simp: SESSION_KEY_LEN_def is_byte_def paired_world_def fresh_world_def)
qed

end
