(* ===== verification/AgentRelay.thy ===== *)
theory AgentRelay
  imports ClientTheorems Scenario
begin

text \<open>
  The agent meets the relay: what \<open>RelayClient\<close> generates and sends passes the relay's
  validators and role table.
\<close>

section \<open>Generated values pass the relay's validators\<close>

lemma generated_token_valid:
  assumes "is_random 16 bs" "token_min_len cfg \<le> 22" "22 \<le> token_max_len cfg"
  shows "validate_token_format (JStr (generate_pairing_token bs)) cfg = Inr ()"
proof -
  have len: "length (token_urlsafe bs) = 22" using token_urlsafe_shape(1) [OF assms(1)] by (simp add: pad_count_def)
  then have "token_urlsafe bs \<noteq> []" by auto
  with token_urlsafe_shape(2) [OF assms(1)] have "token_re_match (token_urlsafe bs)" by (auto simp: token_re_match_iff)
  with assms(2,3) len show ?thesis by (simp add: validate_token_format_def generate_pairing_token_def)
qed

lemma generated_session_id_valid:
  assumes "is_random 8 bs"
  shows "valid_session_id (JStr (generate_session_id bs))" "generate_session_id bs \<noteq> []"
  using token_hex_shape [OF assms] hex_url_safe_all [OF token_hex_shape(2) [OF assms]]
  by (simp_all add: valid_session_id_def session_id_re_def generate_session_id_def)

lemma generated_device_id_valid:
  assumes "is_random 16 bs"
  shows "device_id_re (generate_device_id bs)"
  using token_hex_shape [OF assms] by (simp add: device_id_re_def generate_device_id_def)

lemma generated_pubkey_valid:
  assumes "prims_contract P" "is_random 32 a"
  shows "valid_base64_size (JStr (encode_pubkey (p_base P a))) 32"
  using prims_contract.base_bytes [OF assms(1)] assms(2)
  by (simp add: is_random_def valid_base64_size_def encode_pubkey_def b64decode_b64encode)

text \<open>The registration steps of \<open>handle_pair_init\<close>, for a well-formed token.\<close>

definition store_error :: "relay_exn \<Rightarrow> bool" where
  "store_error x \<longleftrightarrow> x = RedisError \<or> (\<exists>s. x = RateLimited s) \<or> x = TokenInvalid ''token already in use''"

lemma run_register:
  assumes "validate_token_format token cfg = Inr ()" "run (pair_init_register R cfg uid c token pk sid host) w = (r, w')"
  shows "w_out w' = w_out w" "w_reg w' = w_reg w" "w_ctx w' = w_ctx w" "w_sendable w' = w_sendable w"
    "r = Inl x \<Longrightarrow> store_error x"
proof -
  have "w_out w' = w_out w \<and> w_reg w' = w_reg w \<and> w_ctx w' = w_ctx w \<and> w_sendable w' = w_sendable w \<and>
      (\<forall>x. r = Inl x \<longrightarrow> store_error x)"
    using assms(2)
    by (auto simp: assms(1) pair_init_register_def my_ctx_def check_ip_rate_limit_def issue_token_def
        create_session_record_def delete_token_def store_error_def split: prod.splits if_splits)
  then show "w_out w' = w_out w" "w_reg w' = w_reg w" "w_ctx w' = w_ctx w" "w_sendable w' = w_sendable w"
    "r = Inl x \<Longrightarrow> store_error x" by auto
qed

text \<open>The agent's first message, and the relay that receives it on connection \<open>c\<close>.\<close>

lemma offer_fields:
  assumes P: "prims_contract (ad_prims D)" and rnd: "good_random D" and "token_min_len cfg \<le> 22" "22 \<le> token_max_len cfg"
    and e: "last (cw_out (offering D v)) = e"
  shows "e_type e = ''pair_init''"
    "\<exists>token. payload_get e ''token'' = token \<and> validate_token_format token cfg = Inr ()"
    "\<exists>sid. payload_get e ''session_id'' = JStr sid \<and> rc_session_id (cw_client (offering D v)) = Some sid \<and>
       sid \<noteq> [] \<and> valid_session_id (JStr sid)"
    "valid_base64_size (payload_get e ''agent_pubkey'') 32"
    "payload_get e ''agent_hostname'' = JStr (rc_agent_hostname (cw_client v))"
proof -
  obtain token secret sid a where vals: "pairing_values D (cw_draws v) = (token, secret, sid, a)"
    by (cases "pairing_values D (cw_draws v)") auto
  have r: "is_random k (ad_random D i k)" for i k using rnd by (simp add: good_random_def)
  have tok: "validate_token_format (JStr token) cfg = Inr ()"
    using vals generated_token_valid [OF r assms(3,4)] by (auto simp: pairing_values_def TOKEN_BYTES_def)
  have sid: "sid \<noteq> []" "valid_session_id (JStr sid)"
    using vals generated_session_id_valid [OF r] by (auto simp: pairing_values_def)
  have a: "valid_base64_size (JStr (encode_pubkey (p_base (ad_prims D) a))) 32"
    using vals generated_pubkey_valid [OF P r] by (auto simp: pairing_values_def)
  have pl: "e_type e = ''pair_init'' \<and> payload_get e ''token'' = JStr token \<and> payload_get e ''session_id'' = JStr sid \<and>
     payload_get e ''agent_pubkey'' = JStr (encode_pubkey (p_base (ad_prims D) a)) \<and>
     payload_get e ''agent_hostname'' = JStr (rc_agent_hostname (cw_client v)) \<and>
     rc_session_id (cw_client (offering D v)) = Some sid"
    using e [symmetric]
    by (simp add: offering_def vals Let_def agent_envelope_def pair_init_payload_def opt_str_def payload_get_def
        dict_get_def)
  with tok sid a show "e_type e = ''pair_init''"
    "\<exists>token. payload_get e ''token'' = token \<and> validate_token_format token cfg = Inr ()"
    "\<exists>sid. payload_get e ''session_id'' = JStr sid \<and> rc_session_id (cw_client (offering D v)) = Some sid \<and>
       sid \<noteq> [] \<and> valid_session_id (JStr sid)"
    "valid_base64_size (payload_get e ''agent_pubkey'') 32"
    "payload_get e ''agent_hostname'' = JStr (rc_agent_hostname (cw_client v))" by simp_all
qed

text \<open>
  C0. The \<open>pair_init\<close> that a \<open>RelayClient\<close> sends after connecting is acceptable to the
  relay: on an unbound agent connection and a session id not in use, \<open>handle_pair_init\<close>
  either acknowledges it, with the connection now the session's agent and the slot
  Pairing, or fails for the store's reasons only (Redis down, rate limit, token taken)
  having sent nothing; it never refuses it as malformed.
\<close>

theorem relay_accepts_agent_offer:
  assumes P: "prims_contract (ad_prims D)" and rnd: "good_random D"
    and cfg: "token_min_len cfg \<le> 22" "22 \<le> token_max_len cfg"
    and v: "cw_reachable v" "clock_ok v" "0 \<le> rc_seq (cw_client v)" "rc_seq (cw_client v) < 2 ^ 53 - 1"
      "valid_hostname (JStr (rc_agent_hostname (cw_client v)))"
    and sent: "run (bnd connect (\<lambda>_. send_pair_init D None None)) v = (Inr (Some token, Some sid), v')"
    and w: "c_role (w_ctx w c) = Agent" "c_session_id (w_ctx w c) = None" "w_sendable w c" "get_slot sid (w_reg w) = None"
      "wf_registry (w_reg w)"
  shows "case run (handle_pair_init R cfg uid c (last (cw_out v'))) w of
      (Inr _, w') \<Rightarrow> (\<exists>e. w_out w' = w_out w @ [(c, e)] \<and> e_type e = ''pair_init_ack'') \<and>
         c_session_id (w_ctx w' c) = Some sid \<and>
         (\<exists>sl. get_slot sid (w_reg w') = Some sl \<and> s_agent sl = Some c \<and> s_phase sl = Pairing)
    | (Inl x, w') \<Rightarrow> store_error x \<and> w_out w' = w_out w"
proof -
  let ?e = "last (cw_out v')"
  from run_offer [OF v(1-4), of D] sent have v': "v' = offering D v" "rc_session_id (cw_client v') = Some sid"
    by (auto simp: offering_def Let_def split: prod.splits)
  note f = offer_fields [OF P rnd cfg refl, of v, folded v'(1)]
  from f(2) have tok: "validate_token_format (payload_get ?e ''token'') cfg = Inr ()" by simp
  from f(3) v'(2) have sid: "payload_get ?e ''session_id'' = JStr sid" "sid \<noteq> []" "valid_session_id (JStr sid)" by auto
  obtain ref rg where att: "attach sid Agent c (w_reg w) = (Inr ref, rg)"
    using attach_Inl(2) w(4) by (cases sid Agent c "w_reg w" rule: attach_cases) fastforce+
  note slot = attach_Inr [OF w(5) att]
  have pairing: "get_slot sid (set_phase ref Pairing rg) = Some ((slot_set new_slot Agent (Some c))\<lparr>s_phase := Pairing\<rparr>)"
    using get_slot_set_phase [OF wf_attach [OF w(5) att] slot(2)] slot(1) w(4) by simp
  let ?w1 = "w\<lparr>w_reg := set_phase ref Pairing rg, w_ctx := (w_ctx w)(c := (w_ctx w c)\<lparr>c_session_id := Some sid\<rparr>)\<rparr>"
  obtain r2 w2 where reg: "run (pair_init_register R cfg uid c (payload_get ?e ''token'')
       (as_str (payload_get ?e ''agent_pubkey'')) sid (as_str (payload_get ?e ''agent_hostname''))) ?w1 = (r2, w2)"
    by fastforce
  note reg_facts = run_register [OF tok reg]
  have "run (handle_pair_init R cfg uid c ?e) w = run (case r2 of
      Inl err \<Rightarrow> block [reg_upd (detach sid Agent), bind_session c None, raise err]
    | Inr _ \<Rightarrow> block [set_deadline c (pairing_token_ttl_s cfg),
        log_msg ''pair_init'' sid ''pair_init'' None (c_peer_ip (w_ctx w c)),
        send_envelope c (make_envelope ''pair_init_ack'' (Some sid) 0 (e_ts ?e) [])]) w2"
    using w(1,2) f(4) v(5) reg
    by (cases r2) (simp_all add: handle_pair_init_def my_ctx_def sid f(5) att bind_session_def)
  with reg_facts pairing w(3) show ?thesis
    by (cases r2) (auto simp: set_deadline_def log_msg_def bind_session_def make_envelope_def slot_set_def split: role.splits)
qed

theorem relay_accepts_agent_offer_witness:
  "\<exists>v' sid. run (bnd connect (\<lambda>_. send_pair_init (demo_agent ack_envelope) None None)) fresh_world =
       (Inr (Some (generate_pairing_token (replicate 16 0)), Some sid), v') \<and>
     (case run (handle_pair_init demo_deps demo_cfg ''00'' 3 (last (cw_out v'))) ((init_world Map.empty)\<lparr>w_ctx := (\<lambda>_. new_ctx Agent [])\<rparr>) of
        (Inr _, w' :: rstore world) \<Rightarrow> c_session_id (w_ctx w' 3) = Some sid
      | (Inl x, w') \<Rightarrow> w_out w' = [])"
proof -
  let ?D = "demo_agent ack_envelope"
  let ?w = "(init_world Map.empty :: rstore world)\<lparr>w_ctx := (\<lambda>_. new_ctx Agent [])\<rparr>"
  obtain token secret sid a where vals: "pairing_values ?D 0 = (token, secret, sid, a)"
    by (cases "pairing_values ?D 0") auto
  have run: "run (bnd connect (\<lambda>_. send_pair_init ?D None None)) fresh_world = (Inr (Some token, Some sid), offering ?D fresh_world)"
    using run_offer [of fresh_world ?D] vals by (simp add: fresh_world_def fresh_client_def clock_ok_def del: run_bnd)
  have "case run (handle_pair_init demo_deps demo_cfg ''00'' 3 (last (cw_out (offering ?D fresh_world)))) ?w of
      (Inr _, w') \<Rightarrow> (\<exists>e. w_out w' = w_out ?w @ [(3, e)] \<and> e_type e = ''pair_init_ack'') \<and>
         c_session_id (w_ctx w' 3) = Some sid \<and>
         (\<exists>sl. get_slot sid (w_reg w') = Some sl \<and> s_agent sl = Some 3 \<and> s_phase sl = Pairing)
    | (Inl x, w') \<Rightarrow> store_error x \<and> w_out w' = w_out ?w"
    by (rule relay_accepts_agent_offer [OF _ _ _ _ _ _ _ _ _ run])
      (simp_all add: toy.prims_contract_axioms demo_cfg_def fresh_world_def fresh_client_def clock_ok_def
        demo_sid_ok init_world_def new_ctx_def empty_registry_def get_slot_def wf_registry_def)
  moreover have "token = generate_pairing_token (replicate 16 0)"
    using vals by (auto simp: pairing_values_def demo_random_def TOKEN_BYTES_def)
  ultimately show ?thesis using run by (auto simp: init_world_def split: prod.splits sum.splits simp del: run_bnd)
qed

end
