(* ===== verification/SessionManager.thy ===== *)
theory SessionManager
  imports RelayClient
begin

text \<open>
  \<open>agent/common/session_manager.py\<close>: metadata of the terminal sessions, with the
  leases that let one browser at a time control a session. A record read from the
  manifest may hold any JSON in the fields the loader does not check, so only the
  session id is a string. The manifest file is its decoded content (\<open>None\<close> when it is
  missing or unreadable); \<open>sm_disk_ok\<close> says whether writing it succeeds. Wall-clock
  time is in seconds, monotonic time in milliseconds.
\<close>

section \<open>State\<close>

record session_record =
  sr_session_id :: string
  sr_label :: json
  sr_cwd :: json
  sr_state :: json
  sr_created_at :: json
  sr_updated_at :: json
  sr_exit_code :: json

record lease =
  ls_token :: string
  ls_expires_at :: int

record manager =
  sm_has_path :: bool
  sm_lease_seconds :: int
  sm_sessions :: "(string \<times> session_record) list"
  sm_leases :: "string \<Rightarrow> lease option"
  sm_manifest :: "json option"
  sm_disk_ok :: bool
  sm_wall :: int
  sm_mono :: int
  sm_draws :: nat

type_synonym 'a sm_co = "(agent_exn, manager, 'a) co"

definition MAX_LABEL :: nat where
  "MAX_LABEL = 96"

definition MAX_CWD :: nat where
  "MAX_CWD = 4096"

definition ts_session_id :: "string \<Rightarrow> bool" where
  "ts_session_id s \<longleftrightarrow> take 3 s = ''ts-'' \<and> length (drop 3 s) = 32 \<and> list_all hex_char (drop 3 s)"

definition validate_text :: "json \<Rightarrow> string \<Rightarrow> nat \<Rightarrow> agent_exn + string" where
  "validate_text v label maximum =
     (if \<not> is_str v \<or> strip (as_str v) = [] \<or> maximum < length (as_str v)
      then Inl (SessionError (label @ '' is required and must be at most '' @ str_nat maximum @ '' characters''))
      else if list_ex control_char (as_str v) then Inl (SessionError (label @ '' contains a control character''))
      else Inr (strip (as_str v)))"

section \<open>The manifest\<close>

definition record_fields :: "string list" where
  "record_fields = [''session_id'', ''label'', ''cwd'', ''state'', ''created_at'', ''updated_at'', ''exit_code'']"

text \<open>\<open>SessionRecord(**item)\<close> and the check of its id; \<open>None\<close> where the item is skipped.\<close>

fun record_of_json :: "json \<Rightarrow> session_record option" where
  "record_of_json (JObj d) =
     (if list_all (\<lambda>(k, v). k \<in> set record_fields) d \<and>
         list_all (\<lambda>k. map_of d k \<noteq> None) [''session_id'', ''label'', ''cwd'', ''state'', ''created_at'', ''updated_at''] \<and>
         is_str (dict_get d ''session_id'' JNull) \<and> ts_session_id (as_str (dict_get d ''session_id'' JNull))
      then Some \<lparr>sr_session_id = as_str (dict_get d ''session_id'' JNull), sr_label = dict_get d ''label'' JNull,
        sr_cwd = dict_get d ''cwd'' JNull, sr_state = dict_get d ''state'' JNull,
        sr_created_at = dict_get d ''created_at'' JNull, sr_updated_at = dict_get d ''updated_at'' JNull,
        sr_exit_code = dict_get d ''exit_code'' JNull\<rparr>
      else None)"
| "record_of_json _ = None"

definition load_item :: "(string \<times> session_record) list \<Rightarrow> json \<Rightarrow> (string \<times> session_record) list" where
  "load_item sessions item =
     (case record_of_json item of None \<Rightarrow> sessions | Some r \<Rightarrow> AList.update (sr_session_id r) r sessions)"

fun load_sessions :: "json option \<Rightarrow> (string \<times> session_record) list" where
  "load_sessions (Some (JList items)) = foldl load_item [] items"
| "load_sessions _ = []"

text \<open>\<open>asdict\<close>.\<close>

definition record_json :: "session_record \<Rightarrow> json" where
  "record_json r = JObj [(''session_id'', JStr (sr_session_id r)), (''label'', sr_label r), (''cwd'', sr_cwd r),
     (''state'', sr_state r), (''created_at'', sr_created_at r), (''updated_at'', sr_updated_at r),
     (''exit_code'', sr_exit_code r)]"

definition save :: "unit sm_co" where
  "save = sync (\<lambda>s.
     if \<not> sm_has_path s then (Inr (), s)
     else if \<not> sm_disk_ok s then (Inl OsError, s)
     else (Inr (), s\<lparr>sm_manifest := Some (JList (map (record_json \<circ> snd) (sm_sessions s)))\<rparr>))"

text \<open>A new manager on the machine that \<open>s\<close> describes: its disk, clocks and random source.\<close>

definition new_manager :: "bool \<Rightarrow> int \<Rightarrow> manager \<Rightarrow> agent_exn + manager" where
  "new_manager has_path lease_seconds s =
     (if \<not> (30 \<le> lease_seconds \<and> lease_seconds \<le> 3600)
      then Inl (SessionError ''lease_seconds must be between 30 and 3600'')
      else Inr (s\<lparr>sm_has_path := has_path, sm_lease_seconds := lease_seconds,
        sm_sessions := (if has_path then load_sessions (sm_manifest s) else []), sm_leases := Map.empty\<rparr>))"

section \<open>Helpers\<close>

text \<open>\<open>secrets.token_hex\<close> and \<open>secrets.token_urlsafe\<close> read the random source.\<close>

type_synonym random_source = "nat \<Rightarrow> nat \<Rightarrow> bytes"

definition sm_draw :: "random_source \<Rightarrow> nat \<Rightarrow> bytes sm_co" where
  "sm_draw rnd n = sync (\<lambda>s. (Inr (rnd (sm_draws s) n), s\<lparr>sm_draws := Suc (sm_draws s)\<rparr>))"

definition lift_sm :: "agent_exn + 'a \<Rightarrow> 'a sm_co" where
  "lift_sm r = sync (\<lambda>s. (r, s))"

text \<open>\<open>state in {...}\<close>: a list or a dict is not hashable.\<close>

definition state_in :: "json \<Rightarrow> string list \<Rightarrow> agent_exn + bool" where
  "state_in v names =
     (case v of JList _ \<Rightarrow> Inl PyTypeError | JObj _ \<Rightarrow> Inl PyTypeError | JStr s \<Rightarrow> Inr (s \<in> set names) | _ \<Rightarrow> Inr False)"

definition sm_get :: "string \<Rightarrow> session_record sm_co" where
  "sm_get sid = sync (\<lambda>s. (case map_of (sm_sessions s) sid of
       Some r \<Rightarrow> if ts_session_id sid then Inr r else Inl (SessionError ''session not found'')
     | None \<Rightarrow> Inl (SessionError ''session not found''), s))"

text \<open>Assignments to the attributes of a record held by the dictionary.\<close>

definition put_record :: "string \<Rightarrow> (session_record \<Rightarrow> session_record) \<Rightarrow> unit sm_co" where
  "put_record sid f = modify (\<lambda>s. s\<lparr>sm_sessions :=
     (case map_of (sm_sessions s) sid of None \<Rightarrow> sm_sessions s | Some r \<Rightarrow> AList.update sid (f r) (sm_sessions s))\<rparr>)"

definition set_state :: "string \<Rightarrow> string \<Rightarrow> unit sm_co" where
  "set_state sid st = put_record sid (\<lambda>r. r\<lparr>sr_state := JStr st\<rparr>)"

definition touch :: "string \<Rightarrow> unit sm_co" where
  "touch sid = bnd (gets sm_wall) (\<lambda>now. put_record sid (\<lambda>r. r\<lparr>sr_updated_at := JInt now\<rparr>))"

definition drop_lease :: "string \<Rightarrow> unit sm_co" where
  "drop_lease sid = modify (\<lambda>s. s\<lparr>sm_leases := (sm_leases s)(sid := None)\<rparr>)"

definition expire_lease :: "string \<Rightarrow> unit sm_co" where
  "expire_lease sid = modify (\<lambda>s. case sm_leases s sid of
       None \<Rightarrow> s
     | Some l \<Rightarrow> if ls_expires_at l \<le> sm_mono s then s\<lparr>sm_leases := (sm_leases s)(sid := None)\<rparr> else s)"

definition require_lease :: "string \<Rightarrow> string \<Rightarrow> unit sm_co" where
  "require_lease sid token =
     bnd (expire_lease sid) (\<lambda>_.
     bnd (gets (\<lambda>s. sm_leases s sid)) (\<lambda>l.
     (case l of
        None \<Rightarrow> raise (SessionError ''session control lease is invalid or expired'')
      | Some l \<Rightarrow>
          bnd (lift_sm (compare_digest (ls_token l) (JStr token))) (\<lambda>same.
          if same then skip else raise (SessionError ''session control lease is invalid or expired'')))))"

definition fail_state :: "string \<Rightarrow> json \<Rightarrow> 'a sm_co" where
  "fail_state verb st = raise (SessionError (''cannot '' @ verb @ '' a '' @ py_str st @ '' session''))"

section \<open>Operations\<close>

definition create_session :: "random_source \<Rightarrow> json \<Rightarrow> json \<Rightarrow> session_record sm_co" where
  "create_session rnd label0 cwd0 =
     bnd (lift_sm (validate_text label0 ''label'' MAX_LABEL)) (\<lambda>label.
     bnd (lift_sm (validate_text cwd0 ''cwd'' MAX_CWD)) (\<lambda>cwd.
     bnd (gets sm_wall) (\<lambda>now.
     bnd (sm_draw rnd 16) (\<lambda>r_id.
     (let record = \<lparr>sr_session_id = ''ts-'' @ token_hex r_id, sr_label = JStr label, sr_cwd = JStr cwd,
            sr_state = JStr ''created'', sr_created_at = JInt now, sr_updated_at = JInt now, sr_exit_code = JNull\<rparr>
      in bnd (modify (\<lambda>s. s\<lparr>sm_sessions := AList.update (sr_session_id record) record (sm_sessions s)\<rparr>)) (\<lambda>_.
         bnd save (\<lambda>_. ret record)))))))"

definition list_sessions :: "session_record list sm_co" where
  "list_sessions = gets (\<lambda>s. map snd (sm_sessions s))"

definition rename :: "string \<Rightarrow> json \<Rightarrow> session_record sm_co" where
  "rename sid label0 =
     bnd (sm_get sid) (\<lambda>_.
     bnd (lift_sm (validate_text label0 ''label'' MAX_LABEL)) (\<lambda>label.
     bnd (put_record sid (\<lambda>r. r\<lparr>sr_label := JStr label\<rparr>)) (\<lambda>_.
     bnd (touch sid) (\<lambda>_.
     bnd save (\<lambda>_. sm_get sid)))))"

definition start :: "string \<Rightarrow> session_record sm_co" where
  "start sid =
     bnd (sm_get sid) (\<lambda>record.
     bnd (lift_sm (state_in (sr_state record) [''created'', ''detached''])) (\<lambda>ok.
     if \<not> ok then fail_state ''start'' (sr_state record)
     else
       bnd (set_state sid ''running'') (\<lambda>_.
       bnd (touch sid) (\<lambda>_.
       bnd save (\<lambda>_. sm_get sid)))))"

definition attach_session :: "random_source \<Rightarrow> string \<Rightarrow> string sm_co" where
  "attach_session rnd sid =
     bnd (sm_get sid) (\<lambda>record.
     bnd (expire_lease sid) (\<lambda>_.
     bnd (lift_sm (state_in (sr_state record) [''exited'', ''terminated''])) (\<lambda>ended.
     if ended then fail_state ''attach to'' (sr_state record)
     else
       bnd (gets (\<lambda>s. sm_leases s sid)) (\<lambda>held.
       if held \<noteq> None then raise (SessionError ''session is locked by another browser'')
       else
         bnd (sm_draw rnd 24) (\<lambda>r_token.
         (let token = token_urlsafe r_token
          in bnd (modify (\<lambda>s. s\<lparr>sm_leases := (sm_leases s)(sid \<mapsto>
                 \<lparr>ls_token = token, ls_expires_at = sm_mono s + sm_lease_seconds s * 1000\<rparr>)\<rparr>)) (\<lambda>_.
             bnd (if sr_state record = JStr ''created''
                  then bnd (set_state sid ''running'') (\<lambda>_. bnd (touch sid) (\<lambda>_. save)) else skip) (\<lambda>_.
             ret token))))))))"

definition detach_session :: "string \<Rightarrow> string \<Rightarrow> session_record sm_co" where
  "detach_session sid lease_token =
     bnd (sm_get sid) (\<lambda>record.
     bnd (require_lease sid lease_token) (\<lambda>_.
     bnd (drop_lease sid) (\<lambda>_.
     bnd (if sr_state record = JStr ''running''
          then bnd (set_state sid ''detached'') (\<lambda>_. bnd (touch sid) (\<lambda>_. save)) else skip) (\<lambda>_.
     sm_get sid))))"

definition pause_session :: "string \<Rightarrow> string \<Rightarrow> session_record sm_co" where
  "pause_session sid lease_token =
     bnd (sm_get sid) (\<lambda>record.
     bnd (require_lease sid lease_token) (\<lambda>_.
     if sr_state record \<noteq> JStr ''running'' then fail_state ''pause'' (sr_state record)
     else
       bnd (set_state sid ''paused'') (\<lambda>_.
       bnd (touch sid) (\<lambda>_.
       bnd save (\<lambda>_. sm_get sid)))))"

definition resume_session :: "string \<Rightarrow> string \<Rightarrow> session_record sm_co" where
  "resume_session sid lease_token =
     bnd (sm_get sid) (\<lambda>record.
     bnd (require_lease sid lease_token) (\<lambda>_.
     if sr_state record \<noteq> JStr ''paused'' then fail_state ''resume'' (sr_state record)
     else
       bnd (set_state sid ''running'') (\<lambda>_.
       bnd (touch sid) (\<lambda>_.
       bnd save (\<lambda>_. sm_get sid)))))"

definition terminate :: "string \<Rightarrow> string \<Rightarrow> session_record sm_co" where
  "terminate sid lease_token =
     bnd (sm_get sid) (\<lambda>_.
     bnd (require_lease sid lease_token) (\<lambda>_.
     bnd (set_state sid ''terminated'') (\<lambda>_.
     bnd (touch sid) (\<lambda>_.
     bnd (drop_lease sid) (\<lambda>_.
     bnd save (\<lambda>_. sm_get sid))))))"

definition complete :: "string \<Rightarrow> int option \<Rightarrow> session_record sm_co" where
  "complete sid exit_code =
     bnd (sm_get sid) (\<lambda>_.
     bnd (set_state sid ''exited'') (\<lambda>_.
     bnd (put_record sid (\<lambda>r. r\<lparr>sr_exit_code := (case exit_code of None \<Rightarrow> JNull | Some n \<Rightarrow> JInt n)\<rparr>)) (\<lambda>_.
     bnd (touch sid) (\<lambda>_.
     bnd (drop_lease sid) (\<lambda>_.
     bnd save (\<lambda>_. sm_get sid))))))"

end
