(* ===== verification/SessionTheorems.thy ===== *)
theory SessionTheorems
  imports SessionManager
begin

text \<open>
  The session manager against its specification: per session a lifecycle state and at
  most one live lease.
\<close>

section \<open>Commands\<close>

datatype sm_cmd =
    Create json json
  | Rename string json
  | Start string
  | Attach string
  | Detach string string
  | Pause string string
  | Resume string string
  | Terminate string string
  | Complete string "int option"

fun exec_sm :: "random_source \<Rightarrow> sm_cmd \<Rightarrow> manager \<Rightarrow> (agent_exn + string) \<times> manager" where
  "exec_sm rnd (Create label cwd) s = run (bnd (create_session rnd label cwd) (\<lambda>r. ret (sr_session_id r))) s"
| "exec_sm rnd (Rename sid label) s = run (bnd (rename sid label) (\<lambda>r. ret sid)) s"
| "exec_sm rnd (Start sid) s = run (bnd (start sid) (\<lambda>r. ret sid)) s"
| "exec_sm rnd (Attach sid) s = run (attach_session rnd sid) s"
| "exec_sm rnd (Detach sid t) s = run (bnd (detach_session sid t) (\<lambda>r. ret sid)) s"
| "exec_sm rnd (Pause sid t) s = run (bnd (pause_session sid t) (\<lambda>r. ret sid)) s"
| "exec_sm rnd (Resume sid t) s = run (bnd (resume_session sid t) (\<lambda>r. ret sid)) s"
| "exec_sm rnd (Terminate sid t) s = run (bnd (terminate sid t) (\<lambda>r. ret sid)) s"
| "exec_sm rnd (Complete sid code) s = run (bnd (complete sid code) (\<lambda>r. ret sid)) s"

section \<open>Specification\<close>

record sm_spec =
  sp_state :: "string \<Rightarrow> json option"
  sp_lease :: "string \<Rightarrow> lease option"

definition spec_of :: "manager \<Rightarrow> sm_spec" where
  "spec_of s = \<lparr>sp_state = (\<lambda>sid. map_option sr_state (map_of (sm_sessions s) sid)),
     sp_lease = (\<lambda>sid. case sm_leases s sid of None \<Rightarrow> None
       | Some l \<Rightarrow> if ls_expires_at l \<le> sm_mono s then None else Some l)\<rparr>"

definition refuse :: "sm_spec \<Rightarrow> bool \<times> sm_spec" where
  "refuse a = (False, a)"

definition accept :: "string \<Rightarrow> json \<Rightarrow> sm_spec \<Rightarrow> bool \<times> sm_spec" where
  "accept sid v a = (True, a\<lparr>sp_state := (sp_state a)(sid \<mapsto> v)\<rparr>)"

definition unlock :: "string \<Rightarrow> bool \<times> sm_spec \<Rightarrow> bool \<times> sm_spec" where
  "unlock sid r = (fst r, (snd r)\<lparr>sp_lease := (sp_lease (snd r))(sid := None)\<rparr>)"

text \<open>With the session's state, if it exists; and if the caller holds its live lease.\<close>

definition known :: "string \<Rightarrow> (json \<Rightarrow> bool \<times> sm_spec) \<Rightarrow> sm_spec \<Rightarrow> bool \<times> sm_spec" where
  "known sid f a = (case sp_state a sid of None \<Rightarrow> refuse a | Some v \<Rightarrow> f v)"

definition holding :: "string \<Rightarrow> string \<Rightarrow> (json \<Rightarrow> bool \<times> sm_spec) \<Rightarrow> sm_spec \<Rightarrow> bool \<times> sm_spec" where
  "holding sid t f a = known sid (\<lambda>v. if map_option ls_token (sp_lease a sid) = Some t then f v else refuse a) a"

definition hashable :: "json \<Rightarrow> bool" where
  "hashable v = (case v of JList _ \<Rightarrow> False | JObj _ \<Rightarrow> False | _ \<Rightarrow> True)"

fun spec_exec :: "string \<Rightarrow> lease \<Rightarrow> sm_cmd \<Rightarrow> sm_spec \<Rightarrow> bool \<times> sm_spec" where
  "spec_exec new_id new_lease (Create label cwd) a =
     (case (validate_text label ''label'' MAX_LABEL, validate_text cwd ''cwd'' MAX_CWD) of
        (Inr _, Inr _) \<Rightarrow> accept new_id (JStr ''created'') a
      | _ \<Rightarrow> refuse a)"
| "spec_exec new_id new_lease (Rename sid label) a =
     known sid (\<lambda>v. case validate_text label ''label'' MAX_LABEL of Inl _ \<Rightarrow> refuse a | Inr _ \<Rightarrow> accept sid v a) a"
| "spec_exec new_id new_lease (Start sid) a =
     known sid (\<lambda>v. if v = JStr ''created'' \<or> v = JStr ''detached'' then accept sid (JStr ''running'') a else refuse a) a"
| "spec_exec new_id new_lease (Attach sid) a =
     known sid (\<lambda>v. if \<not> hashable v \<or> v = JStr ''exited'' \<or> v = JStr ''terminated'' \<or> sp_lease a sid \<noteq> None then refuse a
       else (case accept sid (if v = JStr ''created'' then JStr ''running'' else v) a of
          (ok, b) \<Rightarrow> (ok, b\<lparr>sp_lease := (sp_lease b)(sid \<mapsto> new_lease)\<rparr>))) a"
| "spec_exec new_id new_lease (Detach sid t) a =
     holding sid t (\<lambda>v. unlock sid (accept sid (if v = JStr ''running'' then JStr ''detached'' else v) a)) a"
| "spec_exec new_id new_lease (Pause sid t) a =
     holding sid t (\<lambda>v. if v = JStr ''running'' then accept sid (JStr ''paused'') a else refuse a) a"
| "spec_exec new_id new_lease (Resume sid t) a =
     holding sid t (\<lambda>v. if v = JStr ''paused'' then accept sid (JStr ''running'') a else refuse a) a"
| "spec_exec new_id new_lease (Terminate sid t) a =
     holding sid t (\<lambda>v. unlock sid (accept sid (JStr ''terminated'') a)) a"
| "spec_exec new_id new_lease (Complete sid code) a =
     known sid (\<lambda>v. unlock sid (accept sid (JStr ''exited'') a)) a"

section \<open>Well-formed managers\<close>

definition sm_wf :: "manager \<Rightarrow> bool" where
  "sm_wf s \<longleftrightarrow> distinct (map fst (sm_sessions s)) \<and>
     (\<forall>(k, r) \<in> set (sm_sessions s). k = sr_session_id r \<and> ts_session_id k) \<and>
     (\<forall>sid l. sm_leases s sid = Some l \<longrightarrow> ascii_string (ls_token l)) \<and>
     30 \<le> sm_lease_seconds s"

definition disk_ok :: "manager \<Rightarrow> bool" where
  "disk_ok s \<longleftrightarrow> sm_has_path s \<longrightarrow> sm_disk_ok s"

definition good_source :: "random_source \<Rightarrow> bool" where
  "good_source rnd \<longleftrightarrow> (\<forall>i n. is_random n (rnd i n))"

section \<open>Running the helpers\<close>

lemma run_sm_draw [simp]: "run (sm_draw rnd n) s = (Inr (rnd (sm_draws s) n), s\<lparr>sm_draws := Suc (sm_draws s)\<rparr>)"
  by (simp add: sm_draw_def)

lemma run_lift_sm [simp]: "run (lift_sm r) s = (r, s)"
  by (simp add: lift_sm_def)

definition upd_record :: "string \<Rightarrow> (session_record \<Rightarrow> session_record) \<Rightarrow> manager \<Rightarrow> manager" where
  "upd_record sid f s = s\<lparr>sm_sessions :=
     (case map_of (sm_sessions s) sid of None \<Rightarrow> sm_sessions s | Some r \<Rightarrow> AList.update sid (f r) (sm_sessions s))\<rparr>"

lemma run_put_record [simp]: "run (put_record sid f) s = (Inr (), upd_record sid f s)"
  by (simp add: put_record_def upd_record_def)

lemma upd_record_sel [simp]:
  "map_of (sm_sessions (upd_record sid f s)) = (\<lambda>x. if x = sid then map_option f (map_of (sm_sessions s) sid) else map_of (sm_sessions s) x)"
  "sm_leases (upd_record sid f s) = sm_leases s" "sm_has_path (upd_record sid f s) = sm_has_path s"
  "sm_disk_ok (upd_record sid f s) = sm_disk_ok s" "sm_mono (upd_record sid f s) = sm_mono s"
  "sm_wall (upd_record sid f s) = sm_wall s" "sm_draws (upd_record sid f s) = sm_draws s"
  "sm_lease_seconds (upd_record sid f s) = sm_lease_seconds s" "sm_manifest (upd_record sid f s) = sm_manifest s"
  by (auto simp: upd_record_def fun_eq_iff split: option.splits)

definition saved :: "manager \<Rightarrow> manager" where
  "saved s = (if sm_has_path s then s\<lparr>sm_manifest := Some (JList (map (record_json \<circ> snd) (sm_sessions s)))\<rparr> else s)"

lemma run_save [simp]: "run save s = (if disk_ok s then (Inr (), saved s) else (Inl OsError, s))"
  by (simp add: save_def disk_ok_def saved_def)

lemma saved_sel [simp]:
  "sm_sessions (saved s) = sm_sessions s" "sm_leases (saved s) = sm_leases s" "sm_mono (saved s) = sm_mono s"
  "sm_has_path (saved s) = sm_has_path s" "sm_disk_ok (saved s) = sm_disk_ok s" "sm_draws (saved s) = sm_draws s"
  "sm_wall (saved s) = sm_wall s" "sm_lease_seconds (saved s) = sm_lease_seconds s"
  by (simp_all add: saved_def)

lemma disk_ok_upd [simp]:
  "disk_ok (upd_record sid f s) = disk_ok s" "disk_ok (s\<lparr>sm_leases := l\<rparr>) = disk_ok s"
  "disk_ok (s\<lparr>sm_draws := n\<rparr>) = disk_ok s" "disk_ok (s\<lparr>sm_sessions := xs\<rparr>) = disk_ok s"
  "disk_ok (saved s) = disk_ok s"
  by (simp_all add: disk_ok_def)

lemma run_sm_get [simp]:
  "run (sm_get sid) s = (case map_of (sm_sessions s) sid of
     Some r \<Rightarrow> if ts_session_id sid then Inr r else Inl (SessionError ''session not found'')
   | None \<Rightarrow> Inl (SessionError ''session not found''), s)"
  by (simp add: sm_get_def)

definition expired :: "string \<Rightarrow> manager \<Rightarrow> manager" where
  "expired sid s = (case sm_leases s sid of
       None \<Rightarrow> s
     | Some l \<Rightarrow> if ls_expires_at l \<le> sm_mono s then s\<lparr>sm_leases := (sm_leases s)(sid := None)\<rparr> else s)"

lemma run_expire [simp]: "run (expire_lease sid) s = (Inr (), expired sid s)"
  by (simp add: expire_lease_def expired_def)

lemma expired_sel [simp]:
  "sm_sessions (expired sid s) = sm_sessions s" "sm_mono (expired sid s) = sm_mono s" "sm_wall (expired sid s) = sm_wall s"
  "sm_lease_seconds (expired sid s) = sm_lease_seconds s" "sm_draws (expired sid s) = sm_draws s"
  "disk_ok (expired sid s) = disk_ok s" "spec_of (expired sid s) = spec_of s"
  by (auto simp: expired_def disk_ok_def spec_of_def fun_eq_iff split: option.splits)

lemma expired_lease: "sm_leases (expired sid s) sid = sp_lease (spec_of s) sid"
  by (auto simp: expired_def spec_of_def split: option.splits)

lemma sm_wf_expired [simp]: "sm_wf s \<Longrightarrow> sm_wf (expired sid s)"
  by (auto simp: expired_def sm_wf_def split: option.splits)

lemma run_require:
  assumes "sm_wf s"
  shows "run (require_lease sid t) s =
    (if map_option ls_token (sp_lease (spec_of s) sid) = Some t then Inr ()
     else case sp_lease (spec_of s) sid of
       None \<Rightarrow> Inl (SessionError ''session control lease is invalid or expired'')
     | Some l \<Rightarrow> if ascii_string t then Inl (SessionError ''session control lease is invalid or expired'') else Inl PyTypeError,
     expired sid s)"
proof -
  have "ascii_string (ls_token l)" if "sp_lease (spec_of s) sid = Some l" for l
    using sm_wf_expired [OF assms, of sid] that unfolding sm_wf_def expired_lease [symmetric] by blast
  then show ?thesis by (auto simp: require_lease_def expired_lease compare_digest_def split: option.splits)
qed

lemma run_fail_state [simp]:
  "run (fail_state verb st) s = (Inl (SessionError (''cannot '' @ verb @ '' a '' @ py_str st @ '' session'')), s)"
  by (simp add: fail_state_def)

lemma run_touch [simp]: "run (touch sid) s = (Inr (), upd_record sid (\<lambda>r. r\<lparr>sr_updated_at := JInt (sm_wall s)\<rparr>) s)"
  by (simp add: touch_def)

lemma run_set_state [simp]: "run (set_state sid st) s = (Inr (), upd_record sid (\<lambda>r. r\<lparr>sr_state := JStr st\<rparr>) s)"
  by (simp add: set_state_def)

definition unleased :: "string \<Rightarrow> manager \<Rightarrow> manager" where
  "unleased sid s = s\<lparr>sm_leases := (sm_leases s)(sid := None)\<rparr>"

lemma run_drop_lease [simp]: "run (drop_lease sid) s = (Inr (), unleased sid s)"
  by (simp add: drop_lease_def unleased_def)

lemma unleased_sel [simp]:
  "sm_sessions (unleased sid s) = sm_sessions s" "sm_wall (unleased sid s) = sm_wall s" "disk_ok (unleased sid s) = disk_ok s"
  by (simp_all add: unleased_def disk_ok_def)

section \<open>Well-formedness is kept\<close>

lemma set_update: "distinct (map fst al) \<Longrightarrow> set (AList.update k v al) = {(x, y) \<in> set al. x \<noteq> k} \<union> {(k, v)}"
  by (induction al) (auto simp: image_iff)

lemma sm_wf_upd [simp]:
  assumes "sm_wf s" "\<And>r. sr_session_id (f r) = sr_session_id r"
  shows "sm_wf (upd_record sid f s)"
  using assms
  by (auto simp: sm_wf_def upd_record_def distinct_update set_update dest!: map_of_SomeD split: option.splits)

lemma sm_wf_unleased [simp]: "sm_wf s \<Longrightarrow> sm_wf (unleased sid s)"
  by (auto simp: sm_wf_def unleased_def)

lemma wf_known_id: "sm_wf s \<Longrightarrow> map_of (sm_sessions s) sid = Some r \<Longrightarrow> ts_session_id sid"
  by (auto simp: sm_wf_def dest!: map_of_SomeD)

lemma sm_wf_saved [simp]: "sm_wf (saved s) = sm_wf s"
  by (simp add: sm_wf_def)

lemma sm_wf_draws [simp]: "sm_wf (s\<lparr>sm_draws := n\<rparr>) = sm_wf s"
  by (simp add: sm_wf_def)

section \<open>Each operation implements its specification\<close>

lemma sp_state_upd: "sp_state (spec_of (upd_record sid f s)) =
    (\<lambda>x. if x = sid then map_option (\<lambda>r. sr_state (f r)) (map_of (sm_sessions s) sid) else sp_state (spec_of s) x)"
  by (auto simp: spec_of_def fun_eq_iff option.map_comp comp_def)

lemma spec_of_simps [simp]:
  "sp_lease (spec_of (upd_record sid f s)) = sp_lease (spec_of s)"
  "spec_of (saved s) = spec_of s" "spec_of (s\<lparr>sm_draws := n\<rparr>) = spec_of s"
  "sp_state (spec_of (unleased sid s)) = sp_state (spec_of s)"
  "sp_lease (spec_of (unleased sid s)) = (sp_lease (spec_of s))(sid := None)"
  by (auto simp: spec_of_def unleased_def fun_eq_iff split: option.splits)

lemma spec_eqI: "sp_state a = sp_state b \<Longrightarrow> sp_lease a = sp_lease b \<Longrightarrow> a = (b :: sm_spec)"
  by simp

definition ident :: "random_source \<Rightarrow> manager \<Rightarrow> string" where
  "ident rnd s = ''ts-'' @ token_hex (rnd (sm_draws s) 16)"

definition new_lease :: "random_source \<Rightarrow> manager \<Rightarrow> lease" where
  "new_lease rnd s = \<lparr>ls_token = token_urlsafe (rnd (sm_draws s) 24), ls_expires_at = sm_mono s + sm_lease_seconds s * 1000\<rparr>"

text \<open>The result of a command against the specification's.\<close>

definition implements :: "random_source \<Rightarrow> sm_cmd \<Rightarrow> manager \<Rightarrow> bool" where
  "implements rnd cmd s = (case exec_sm rnd cmd s of (r, s') \<Rightarrow>
     sm_wf s' \<and> disk_ok s' \<and> spec_exec (ident rnd s) (new_lease rnd s) cmd (spec_of s) = (\<not> isl r, spec_of s'))"

lemma state_lookup: "sp_state (spec_of s) sid = map_option sr_state (map_of (sm_sessions s) sid)"
  by (simp add: spec_of_def)

lemmas spec_simps = implements_def refuse_def accept_def known_def holding_def unlock_def state_lookup sp_state_upd
  run_require fun_eq_iff

lemma implements_rename: "sm_wf s \<Longrightarrow> disk_ok s \<Longrightarrow> implements rnd (Rename sid label) s"
  by (cases "map_of (sm_sessions s) sid"; cases "validate_text label ''label'' MAX_LABEL")
    (auto simp: spec_simps wf_known_id rename_def intro!: spec_eqI)

lemma implements_start: "sm_wf s \<Longrightarrow> disk_ok s \<Longrightarrow> implements rnd (Start sid) s"
  by (cases "map_of (sm_sessions s) sid")
    (auto simp: spec_simps wf_known_id start_def state_in_def split: json.splits intro!: spec_eqI)

lemma implements_complete: "sm_wf s \<Longrightarrow> disk_ok s \<Longrightarrow> implements rnd (Complete sid code) s"
  by (cases "map_of (sm_sessions s) sid")
    (auto simp: spec_simps wf_known_id complete_def intro!: spec_eqI)

lemma implements_pause: "sm_wf s \<Longrightarrow> disk_ok s \<Longrightarrow> implements rnd (Pause sid t) s"
  by (cases "map_of (sm_sessions s) sid")
    (auto simp: spec_simps wf_known_id pause_session_def split: option.splits intro!: spec_eqI)

lemma implements_resume: "sm_wf s \<Longrightarrow> disk_ok s \<Longrightarrow> implements rnd (Resume sid t) s"
  by (cases "map_of (sm_sessions s) sid")
    (auto simp: spec_simps wf_known_id resume_session_def split: option.splits intro!: spec_eqI)

lemma implements_terminate: "sm_wf s \<Longrightarrow> disk_ok s \<Longrightarrow> implements rnd (Terminate sid t) s"
  by (cases "map_of (sm_sessions s) sid")
    (auto simp: spec_simps wf_known_id terminate_def split: option.splits intro!: spec_eqI)

lemma implements_detach: "sm_wf s \<Longrightarrow> disk_ok s \<Longrightarrow> implements rnd (Detach sid t) s"
  by (cases "map_of (sm_sessions s) sid")
    (auto simp: spec_simps wf_known_id detach_session_def split: option.splits intro!: spec_eqI)

lemma ident_ok: "good_source rnd \<Longrightarrow> ts_session_id (ident rnd s)"
  using token_hex_shape [of 16 "rnd (sm_draws s) 16"] by (simp add: good_source_def ts_session_id_def ident_def)

lemma sm_wf_add:
  "sm_wf s \<Longrightarrow> ts_session_id (sr_session_id r) \<Longrightarrow> sm_wf (s\<lparr>sm_sessions := AList.update (sr_session_id r) r (sm_sessions s)\<rparr>)"
  by (auto simp: sm_wf_def distinct_update set_update)

lemma spec_of_add [simp]:
  "sp_state (spec_of (s\<lparr>sm_sessions := AList.update k r (sm_sessions s)\<rparr>)) = (sp_state (spec_of s))(k \<mapsto> sr_state r)"
  "sp_lease (spec_of (s\<lparr>sm_sessions := xs\<rparr>)) = sp_lease (spec_of s)"
  by (auto simp: spec_of_def fun_eq_iff split: option.splits)

lemma implements_create:
  assumes "sm_wf s" "disk_ok s" "good_source rnd"
  shows "implements rnd (Create label cwd) s"
proof -
  let ?r = "\<lambda>l c. \<lparr>sr_session_id = ident rnd s, sr_label = JStr l, sr_cwd = JStr c, sr_state = JStr ''created'',
    sr_created_at = JInt (sm_wall s), sr_updated_at = JInt (sm_wall s), sr_exit_code = JNull\<rparr>"
  have wf: "sm_wf ((s\<lparr>sm_draws := n\<rparr>)\<lparr>sm_sessions := AList.update (ident rnd s) (?r l c) (sm_sessions s)\<rparr>)" for n l c
    using sm_wf_add [of "s\<lparr>sm_draws := n\<rparr>" "?r l c"] assms ident_ok [OF assms(3)] by simp
  have lease: "sp_lease (spec_of (s\<lparr>sm_draws := n, sm_sessions := xs\<rparr>)) = sp_lease (spec_of s)"
    "sp_state (spec_of (s\<lparr>sm_draws := n, sm_sessions := AList.update k r (sm_sessions s)\<rparr>)) =
      (sp_state (spec_of s))(k \<mapsto> sr_state r)" for n xs k r
    using spec_of_add [where s = "s\<lparr>sm_draws := n\<rparr>"] by simp_all
  show ?thesis
    using assms(1,2) wf
    by (cases "validate_text label ''label'' MAX_LABEL"; cases "validate_text cwd ''cwd'' MAX_CWD")
      (auto simp: spec_simps create_session_def ident_def Let_def lease intro!: spec_eqI)
qed

definition leased :: "string \<Rightarrow> lease \<Rightarrow> manager \<Rightarrow> manager" where
  "leased sid l s = s\<lparr>sm_leases := (sm_leases s)(sid \<mapsto> l)\<rparr>"

lemma leased_sel [simp]:
  "sm_sessions (leased sid l s) = sm_sessions s" "sm_wall (leased sid l s) = sm_wall s" "disk_ok (leased sid l s) = disk_ok s"
  "sp_state (spec_of (leased sid l s)) = sp_state (spec_of s)"
  "sm_mono s < ls_expires_at l \<Longrightarrow> sp_lease (spec_of (leased sid l s)) = (sp_lease (spec_of s))(sid \<mapsto> l)"
  "sm_wf s \<Longrightarrow> ascii_string (ls_token l) \<Longrightarrow> sm_wf (leased sid l s)"
  by (auto simp: leased_def disk_ok_def spec_of_def sm_wf_def fun_eq_iff split: option.splits)

lemma new_lease_ok:
  assumes "sm_wf s" "good_source rnd"
  shows "sm_mono s < ls_expires_at (new_lease rnd s)" "ascii_string (ls_token (new_lease rnd s))"
proof -
  show "sm_mono s < ls_expires_at (new_lease rnd s)" using assms(1) by (simp add: new_lease_def sm_wf_def)
  have "list_all url_safe_char (token_urlsafe (rnd (sm_draws s) 24))"
    using token_urlsafe_shape(2) [of 24] assms(2) by (simp add: good_source_def)
  then show "ascii_string (ls_token (new_lease rnd s))"
    by (auto simp: new_lease_def ascii_string_def list_all_iff url_safe_char_def is_upper_def is_lower_def
        is_digit_def ord_def dest!: bspec)
qed

lemma implements_attach:
  assumes "sm_wf s" "disk_ok s" "good_source rnd"
  shows "implements rnd (Attach sid) s"
proof -
  note l = new_lease_ok [OF assms(1,3)]
  have fold: "(expired sid s)\<lparr>sm_draws := Suc (sm_draws s), sm_leases := (sm_leases (expired sid s))(sid \<mapsto>
      \<lparr>ls_token = token_urlsafe (rnd (sm_draws s) 24), ls_expires_at = sm_mono s + sm_lease_seconds s * 1000\<rparr>)\<rparr>
    = leased sid (new_lease rnd s) ((expired sid s)\<lparr>sm_draws := Suc (sm_draws s)\<rparr>)"
    by (simp add: leased_def new_lease_def)
  show ?thesis
    using assms(1,2) l
    by (cases "map_of (sm_sessions s) sid")
      (auto simp: spec_simps wf_known_id attach_session_def Let_def expired_lease fold state_in_def hashable_def
        split: json.splits intro!: spec_eqI)
qed

lemma implements_all:
  assumes "sm_wf s" "disk_ok s" "good_source rnd"
  shows "implements rnd cmd s"
  using assms
  by (cases cmd)
    (simp_all add: implements_create implements_rename implements_start implements_attach implements_detach
      implements_pause implements_resume implements_terminate implements_complete)


section \<open>One controller at a time\<close>

datatype sm_event = Do sm_cmd | Elapse nat

fun sm_run :: "random_source \<Rightarrow> sm_event list \<Rightarrow> manager \<Rightarrow> (sm_cmd \<times> (agent_exn + string)) list \<times> manager" where
  "sm_run rnd [] s = ([], s)"
| "sm_run rnd (Do cmd # evs) s =
     (case exec_sm rnd cmd s of (r, s1) \<Rightarrow> (case sm_run rnd evs s1 of (rs, s2) \<Rightarrow> ((cmd, r) # rs, s2)))"
| "sm_run rnd (Elapse ms # evs) s = sm_run rnd evs (s\<lparr>sm_mono := sm_mono s + int ms\<rparr>)"

fun elapsed :: "sm_event list \<Rightarrow> nat" where
  "elapsed [] = 0"
| "elapsed (Do cmd # evs) = elapsed evs"
| "elapsed (Elapse ms # evs) = ms + elapsed evs"

text \<open>The commands that end the lease of \<open>sid\<close> held with \<open>tok\<close>.\<close>

fun releases :: "string \<Rightarrow> string \<Rightarrow> sm_event \<Rightarrow> bool" where
  "releases sid tok (Do (Detach i t)) = (i = sid \<and> t = tok)"
| "releases sid tok (Do (Terminate i t)) = (i = sid \<and> t = tok)"
| "releases sid tok (Do (Complete i code)) = (i = sid)"
| "releases sid tok _ = False"

lemma spec_keeps_lease:
  assumes "sp_lease a sid = Some l" "\<not> releases sid (ls_token l) (Do cmd)" "spec_exec i nl cmd a = (ok, b)"
  shows "sp_lease b sid = Some l" "cmd = Attach sid \<Longrightarrow> \<not> ok"
  using assms
  by (cases cmd; auto simp: refuse_def accept_def known_def holding_def unlock_def
      split: option.splits sum.splits if_splits)+

lemma clock_keeps_lease:
  assumes "sp_lease (spec_of s) sid = Some l" "sm_mono s + int ms < ls_expires_at l"
  shows "sp_lease (spec_of (s\<lparr>sm_mono := sm_mono s + int ms\<rparr>)) sid = Some l"
  using assms by (auto simp: spec_of_def split: option.splits if_splits)

lemma sm_wf_mono [simp]: "sm_wf (s\<lparr>sm_mono := t\<rparr>) = sm_wf s" "disk_ok (s\<lparr>sm_mono := t\<rparr>) = disk_ok s"
  by (simp_all add: sm_wf_def disk_ok_def)

lemma unleased_mono [simp]: "sm_mono (unleased sid s) = sm_mono s"
  by (simp add: unleased_def)

lemma exec_clock: "exec_sm rnd cmd s = (r, s') \<Longrightarrow> sm_mono s' = sm_mono s"
  by (cases cmd)
    (auto simp: create_session_def rename_def start_def attach_session_def detach_session_def pause_session_def
      resume_session_def terminate_def complete_def require_lease_def Let_def split: option.splits sum.splits if_splits)

lemma run_keeps_lease:
  assumes "sm_wf s" "disk_ok s" "good_source rnd" "sp_lease (spec_of s) sid = Some l"
    "\<forall>ev \<in> set evs. \<not> releases sid (ls_token l) ev" "sm_mono s + int (elapsed evs) < ls_expires_at l"
    "sm_run rnd evs s = (rs, s')"
  shows "sp_lease (spec_of s') sid = Some l \<and> sm_wf s' \<and> disk_ok s' \<and> (\<forall>(c, r) \<in> set rs. c = Attach sid \<longrightarrow> isl r)"
  using assms
proof (induction evs arbitrary: s rs rule: elapsed.induct)
  case (2 cmd evs)
  obtain r s1 where r: "exec_sm rnd cmd s = (r, s1)" by fastforce
  then obtain rs1 where rs: "sm_run rnd evs s1 = (rs1, s')" "rs = (cmd, r) # rs1"
    using "2.prems"(7) by (auto split: prod.splits)
  have imp: "implements rnd cmd s" using "2.prems" by (intro implements_all)
  then have wf: "sm_wf s1" "disk_ok s1"
    and sp: "spec_exec (ident rnd s) (new_lease rnd s) cmd (spec_of s) = (\<not> isl r, spec_of s1)"
    using r by (simp_all add: implements_def)
  have nr: "\<not> releases sid (ls_token l) (Do cmd)" using "2.prems"(5) by simp
  note keep = spec_keeps_lease [OF "2.prems"(4) nr sp]
  from "2.IH" [OF wf "2.prems"(3) keep(1) _ _ rs(1)] "2.prems"(5,6) exec_clock [OF r] keep(2) rs(2)
  show ?case by auto
next
  case (3 ms evs)
  let ?s = "s\<lparr>sm_mono := sm_mono s + int ms\<rparr>"
  have "sp_lease (spec_of ?s) sid = Some l" using "3.prems"(4,6) by (intro clock_keeps_lease) simp_all
  with "3.IH" [of ?s rs] "3.prems" show ?case by (simp add: add.assoc)
qed auto

text \<open>
  C0. One browser controls a session at a time: once \<open>attach\<close> has returned a token, then
  until that token is used to detach or terminate, the session completes, or the lease
  time has passed, every other attach to the session fails and only that token is the
  session's live lease, whatever else is done in whatever order.
\<close>

theorem lease_is_exclusive:
  assumes "sm_wf s" "disk_ok s" "good_source rnd"
    and "exec_sm rnd (Attach sid) s = (Inr tok, s1)"
    and "\<forall>ev \<in> set evs. \<not> releases sid tok ev" "int (elapsed evs) < sm_lease_seconds s * 1000"
    and "sm_run rnd evs s1 = (rs, s2)"
  shows "(\<forall>(c, r) \<in> set rs. c = Attach sid \<longrightarrow> isl r) \<and>
     map_option ls_token (sp_lease (spec_of s2) sid) = Some tok"
proof -
  have imp: "implements rnd (Attach sid) s" using assms(1-3) by (intro implements_all)
  then have wf: "sm_wf s1" "disk_ok s1" using assms(4) by (simp_all add: implements_def)
  have lease: "sp_lease (spec_of s1) sid = Some (new_lease rnd s)"
    using imp assms(4)
    by (auto simp: implements_def known_def refuse_def accept_def split: option.splits if_splits
        dest!: arg_cong [where f = "\<lambda>x. sp_lease x sid"] sym [of _ "spec_of s1"])
  have tok: "ls_token (new_lease rnd s) = tok"
    using assms(4)
    by (auto simp: attach_session_def new_lease_def Let_def split: option.splits sum.splits if_splits)
  have "sm_mono s1 + int (elapsed evs) < ls_expires_at (new_lease rnd s)"
    using exec_clock [OF assms(4)] assms(6) by (simp add: new_lease_def)
  from run_keeps_lease [OF wf assms(3) lease _ this assms(7)] assms(5) tok show ?thesis by auto
qed

text \<open>
  C0. Without the live lease of the session nobody controls it: \<open>detach\<close>, \<open>pause\<close>,
  \<open>resume\<close> and \<open>terminate\<close> with any other token raise, and leave every record, every
  live lease and the manifest as they were.
\<close>

theorem control_requires_lease:
  assumes "sm_wf s" "map_option ls_token (sp_lease (spec_of s) sid) \<noteq> Some t"
    and "cmd \<in> {Detach sid t, Pause sid t, Resume sid t, Terminate sid t}" "exec_sm rnd cmd s = (r, s')"
  shows "isl r \<and> sm_sessions s' = sm_sessions s \<and> spec_of s' = spec_of s \<and> sm_manifest s' = sm_manifest s"
proof -
  have m: "sm_manifest (expired sid s) = sm_manifest s" by (simp add: expired_def split: option.splits)
  show ?thesis
    using assms m
    by (auto simp: detach_session_def pause_session_def resume_session_def terminate_def run_require
        split: option.splits if_splits)
qed

section \<open>Restart\<close>

lemma record_of_record_json: "ts_session_id (sr_session_id r) \<Longrightarrow> record_of_json (record_json r) = Some r"
  by (simp add: record_json_def record_fields_def dict_get_def)

lemma load_saved:
  "distinct (map fst (acc @ al)) \<Longrightarrow> \<forall>(k, r) \<in> set al. k = sr_session_id r \<and> ts_session_id k \<Longrightarrow>
     foldl load_item acc (map (record_json \<circ> snd) al) = acc @ al"
proof (induction al arbitrary: acc)
  case (Cons kr al)
  obtain k r where kr: "kr = (k, r)" by fastforce
  have "AList.update k r acc = acc @ [(k, r)]" if "k \<notin> fst ` set acc" for acc
    using that by (induction acc) auto
  with Cons kr have "load_item acc (record_json r) = acc @ [(k, r)]"
    by (auto simp: load_item_def record_of_record_json)
  with Cons kr show ?case by simp
qed simp

definition in_sync :: "manager \<Rightarrow> bool" where
  "in_sync s \<longleftrightarrow> sm_manifest s = Some (JList (map (record_json \<circ> snd) (sm_sessions s)))"

lemma in_sync_saved [simp]: "sm_has_path s \<Longrightarrow> in_sync (saved s)"
  by (simp add: in_sync_def saved_def)

lemma sm_frames [simp]:
  "sm_has_path (unleased sid s) = sm_has_path s" "sm_has_path (expired sid s) = sm_has_path s"
  "sm_manifest (unleased sid s) = sm_manifest s" "sm_manifest (expired sid s) = sm_manifest s"
  by (simp_all add: unleased_def expired_def split: option.splits)

lemma exec_sync:
  assumes "exec_sm rnd cmd s = (Inr x, s')" "sm_has_path s"
  shows "in_sync s' \<or> sm_sessions s' = sm_sessions s \<and> sm_manifest s' = sm_manifest s"
  using assms
  by (cases cmd)
    (auto simp: create_session_def rename_def start_def attach_session_def detach_session_def pause_session_def
      resume_session_def terminate_def complete_def require_lease_def Let_def split: option.splits sum.splits if_splits)

lemma exec_path: "exec_sm rnd cmd s = (r, s') \<Longrightarrow> sm_has_path s' = sm_has_path s"
  by (cases cmd)
    (auto simp: create_session_def rename_def start_def attach_session_def detach_session_def pause_session_def
      resume_session_def terminate_def complete_def require_lease_def Let_def split: option.splits sum.splits if_splits)

text \<open>
  C19. Sessions survive a restart: after an operation that succeeds, a new manager that
  loads the manifest has exactly the same sessions in the same order, and no leases,
  provided the operation changed a session or the manifest was up to date before.
\<close>

theorem restart_recovers_sessions:
  assumes "sm_wf s" "disk_ok s" "good_source rnd" "sm_has_path s" and "exec_sm rnd cmd s = (Inr x, s')"
    and "in_sync s \<or> sm_sessions s' \<noteq> sm_sessions s" and "30 \<le> n" "n \<le> 3600"
  shows "\<exists>m. new_manager True n s' = Inr m \<and> sm_sessions m = sm_sessions s' \<and> sm_leases m = Map.empty"
proof -
  have "in_sync s'" using exec_sync [OF assms(5,4)] assms(6) by (auto simp: in_sync_def)
  moreover have "sm_wf s'" using implements_all [OF assms(1-3), of cmd] assms(5) by (simp add: implements_def)
  ultimately have "load_sessions (sm_manifest s') = sm_sessions s'"
    using load_saved [of "[]" "sm_sessions s'"] by (auto simp: in_sync_def sm_wf_def)
  with assms(7,8) show ?thesis by (simp add: new_manager_def)
qed

section \<open>A concrete manager\<close>

definition demo_source :: random_source where
  "demo_source i n = replicate n (i mod 256)"

definition demo_sid :: string where
  "demo_sid = ''ts-'' @ replicate 32 (CHR ''0'')"

definition demo_record :: session_record where
  "demo_record = \<lparr>sr_session_id = demo_sid, sr_label = JStr ''shell'', sr_cwd = JStr ''/'', sr_state = JStr ''created'',
     sr_created_at = JInt 0, sr_updated_at = JInt 0, sr_exit_code = JNull\<rparr>"

definition demo_manager :: manager where
  "demo_manager = \<lparr>sm_has_path = True, sm_lease_seconds = 300, sm_sessions = [(demo_sid, demo_record)],
     sm_leases = Map.empty, sm_manifest = Some (JList [record_json demo_record]), sm_disk_ok = True,
     sm_wall = 7, sm_mono = 0, sm_draws = 0\<rparr>"

lemma demo_manager_ok:
  "sm_wf demo_manager" "disk_ok demo_manager" "good_source demo_source" "sm_has_path demo_manager" "in_sync demo_manager"
proof -
  have "ts_session_id demo_sid" by code_simp
  then show "sm_wf demo_manager" "disk_ok demo_manager" "good_source demo_source" "sm_has_path demo_manager"
    "in_sync demo_manager"
    by (simp_all add: sm_wf_def demo_manager_def demo_record_def disk_ok_def good_source_def demo_source_def
        is_random_def is_byte_def list_all_iff in_sync_def)
qed

lemma demo_lookup [simp]:
  "map_of (sm_sessions demo_manager) demo_sid = Some demo_record" "ts_session_id demo_sid"
  "sm_leases demo_manager = Map.empty" "sr_state demo_record = JStr ''created''" "sm_lease_seconds demo_manager = 300"
  "sp_lease (spec_of demo_manager) sid = None"
  by (simp_all add: demo_manager_def demo_record_def spec_of_def) code_simp

lemma demo_attach: "\<exists>tok s1. exec_sm demo_source (Attach demo_sid) demo_manager = (Inr tok, s1) \<and>
    sp_state (spec_of s1) demo_sid = Some (JStr ''running'')"
proof -
  obtain r s1 where r: "exec_sm demo_source (Attach demo_sid) demo_manager = (r, s1)" by fastforce
  have "implements demo_source (Attach demo_sid) demo_manager" by (intro implements_all demo_manager_ok)
  with r have "\<not> isl r" "sp_state (spec_of s1) demo_sid = Some (JStr ''running'')"
    by (auto simp: implements_def known_def accept_def state_lookup hashable_def
        dest!: arg_cong [where f = "\<lambda>a. sp_state a demo_sid"] sym [of _ "spec_of s1"])
  with r show ?thesis by (cases r) auto
qed


theorem lease_is_exclusive_witness:
  "\<exists>tok s1. exec_sm demo_source (Attach demo_sid) demo_manager = (Inr tok, s1) \<and>
     (\<forall>x \<in> set (fst (sm_run demo_source [Do (Attach demo_sid), Elapse 299999, Do (Attach demo_sid)] s1)). isl (snd x))"
proof -
  obtain tok s1 where a: "exec_sm demo_source (Attach demo_sid) demo_manager = (Inr tok, s1)"
    using demo_attach by auto
  let ?evs = "[Do (Attach demo_sid), Elapse 299999, Do (Attach demo_sid)]"
  obtain rs s2 where r: "sm_run demo_source ?evs s1 = (rs, s2)" by fastforce
  have "\<forall>(c, r) \<in> set rs. c = Attach demo_sid \<longrightarrow> isl r"
    using lease_is_exclusive [OF demo_manager_ok(1-3) a _ _ r] by simp
  moreover have "fst x = Attach demo_sid" if "x \<in> set rs" for x
    using r that by (auto simp del: exec_sm.simps split: prod.splits)
  ultimately show ?thesis using a r by fastforce
qed

theorem control_requires_lease_witness:
  "\<exists>r s'. exec_sm demo_source (Terminate demo_sid ''guess'') demo_manager = (r, s') \<and> isl r \<and>
     sm_sessions s' = sm_sessions demo_manager"
proof -
  obtain r s' where r: "exec_sm demo_source (Terminate demo_sid ''guess'') demo_manager = (r, s')" by fastforce
  from control_requires_lease [OF demo_manager_ok(1) _ _ r] r show ?thesis by simp
qed

theorem restart_recovers_sessions_witness:
  "\<exists>s' m. new_manager True 300 s' = Inr m \<and> sp_state (spec_of m) demo_sid = Some (JStr ''running'')"
proof -
  obtain tok s1 where a: "exec_sm demo_source (Attach demo_sid) demo_manager = (Inr tok, s1)"
    "sp_state (spec_of s1) demo_sid = Some (JStr ''running'')"
    using demo_attach by auto
  from restart_recovers_sessions [OF demo_manager_ok(1-4) a(1), of 300] demo_manager_ok(5)
  obtain m where m: "new_manager True 300 s1 = Inr m" "sm_sessions m = sm_sessions s1" by auto
  with a(2) have "sp_state (spec_of m) demo_sid = Some (JStr ''running'')" by (simp add: state_lookup)
  with m(1) show ?thesis by blast
qed

end
