(* ===== verification/PtyBackend.thy ===== *)
theory PtyBackend
  imports AgentErrors Url
begin

text \<open>
  \<open>agent/common/ptybackend.py\<close> and its implementations for Linux, macOS and Windows.
  The abstract class is a record of methods over the backend's state. The process
  classes (\<open>ptyprocess\<close>, \<open>pywinpty\<close>) are libraries: records of functions on the state
  of a process, with what the backends rely on as the laws of a locale. The attribute
  \<open>_proc\<close> is the state of the spawned process, if any.
\<close>

section \<open>The interface\<close>

record 'b backend =
  bk_spawn :: "string list \<Rightarrow> string option \<Rightarrow> (string \<times> string) list option \<Rightarrow> (agent_exn, 'b, unit) co"
  bk_read :: "nat \<Rightarrow> (agent_exn, 'b, bytes) co"
  bk_write :: "bytes \<Rightarrow> (agent_exn, 'b, unit) co"
  bk_resize :: "int \<Rightarrow> int \<Rightarrow> (agent_exn, 'b, unit) co"
  bk_is_alive :: "(agent_exn, 'b, bool) co"
  bk_wait :: "(agent_exn, 'b, int) co"
  bk_close :: "(agent_exn, 'b, unit) co"

definition READ_SIZE :: nat where
  "READ_SIZE = 65536"

section \<open>The process libraries\<close>

record 'p pty_lib =
  pl_spawn :: "string list \<Rightarrow> string option \<Rightarrow> (string \<times> string) list option \<Rightarrow> agent_exn + 'p"
  pl_setwinsize :: "int \<Rightarrow> int \<Rightarrow> 'p \<Rightarrow> (agent_exn + unit) \<times> 'p"
  pl_isalive :: "'p \<Rightarrow> bool \<times> 'p"
  pl_wait :: "'p \<Rightarrow> (agent_exn + int) \<times> 'p"
  pl_terminate :: "'p \<Rightarrow> (agent_exn + unit) \<times> 'p"

text \<open>\<open>ptyprocess\<close>: a read gives data or raises \<open>EOFError\<close>.\<close>

record 'p posix_lib = "'p pty_lib" +
  xl_read :: "nat \<Rightarrow> 'p \<Rightarrow> bytes option \<times> 'p"
  xl_write :: "bytes \<Rightarrow> 'p \<Rightarrow> (agent_exn + unit) \<times> 'p"

text \<open>
  \<open>pywinpty\<close>: reads give bytes or text, writes take bytes or text; the text written is
  the UTF-8 decoding of the given bytes.
\<close>

datatype win_data = RawBytes bytes | Text string
datatype win_arg = GivenBytes bytes | DecodedFrom bytes

record 'p win_lib = "'p pty_lib" +
  wl_read :: "nat \<Rightarrow> 'p \<Rightarrow> (agent_exn + win_data) \<times> 'p"
  wl_write :: "win_arg \<Rightarrow> 'p \<Rightarrow> (agent_exn + unit) \<times> 'p"

section \<open>Methods that only delegate\<close>

text \<open>\<open>assert self._proc is not None\<close>, then a call on the process.\<close>

definition on_proc :: "('p \<Rightarrow> (agent_exn + 'a) \<times> 'p) \<Rightarrow> (agent_exn, 'p option, 'a) co" where
  "on_proc f = sync (\<lambda>b. case b of None \<Rightarrow> (Inl AssertionError, None)
     | Some q \<Rightarrow> (case f q of (r, q') \<Rightarrow> (r, Some q')))"

definition proc_spawn :: "('p, 'z) pty_lib_scheme \<Rightarrow> string list \<Rightarrow> string option \<Rightarrow> (string \<times> string) list option
    \<Rightarrow> (agent_exn, 'p option, unit) co" where
  "proc_spawn L command cwd env = sync (\<lambda>b. case pl_spawn L command cwd env of Inl e \<Rightarrow> (Inl e, b) | Inr q \<Rightarrow> (Inr (), Some q))"

definition proc_resize :: "('p, 'z) pty_lib_scheme \<Rightarrow> int \<Rightarrow> int \<Rightarrow> (agent_exn, 'p option, unit) co" where
  "proc_resize L rows cols = on_proc (pl_setwinsize L rows cols)"

definition proc_is_alive :: "('p, 'z) pty_lib_scheme \<Rightarrow> (agent_exn, 'p option, bool) co" where
  "proc_is_alive L = on_proc (\<lambda>q. case pl_isalive L q of (r, q') \<Rightarrow> (Inr r, q'))"

definition proc_wait :: "('p, 'z) pty_lib_scheme \<Rightarrow> (agent_exn, 'p option, int) co" where
  "proc_wait L = on_proc (pl_wait L)"

definition proc_close :: "('p, 'z) pty_lib_scheme \<Rightarrow> (agent_exn, 'p option, unit) co" where
  "proc_close L = sync (\<lambda>b. case b of None \<Rightarrow> (Inr (), None)
     | Some q \<Rightarrow> (case pl_isalive L q of (True, q1) \<Rightarrow> (case pl_terminate L q1 of (r, q2) \<Rightarrow> (r, Some q2))
         | (False, q1) \<Rightarrow> (Inr (), Some q1)))"

section \<open>Linux and macOS\<close>

text \<open>The reader callback runs when the file descriptor is readable; the future's outcome is awaited.\<close>

definition posix_read :: "'p posix_lib \<Rightarrow> nat \<Rightarrow> (agent_exn, 'p option, bytes) co" where
  "posix_read L max_bytes =
     bnd (on_proc (\<lambda>q. (Inr (), q))) (\<lambda>_.
     bnd pause (\<lambda>_.
     on_proc (\<lambda>q. case xl_read L max_bytes q of (Some data, q') \<Rightarrow> (Inr data, q') | (None, q') \<Rightarrow> (Inl EOFError, q'))))"

definition linux_backend :: "'p posix_lib \<Rightarrow> ('p option) backend" where
  "linux_backend L = \<lparr>bk_spawn = proc_spawn L, bk_read = posix_read L, bk_write = (\<lambda>data. on_proc (xl_write L data)),
     bk_resize = proc_resize L, bk_is_alive = proc_is_alive L, bk_wait = proc_wait L, bk_close = proc_close L\<rparr>"

definition macos_backend :: "'p posix_lib \<Rightarrow> ('p option) backend" where
  "macos_backend L = \<lparr>bk_spawn = proc_spawn L, bk_read = posix_read L, bk_write = (\<lambda>data. on_proc (xl_write L data)),
     bk_resize = proc_resize L, bk_is_alive = proc_is_alive L, bk_wait = proc_wait L, bk_close = proc_close L\<rparr>"

section \<open>Windows\<close>

definition encode_utf8 :: "string \<Rightarrow> bytes" where
  "encode_utf8 s = concat (map utf8_char s)"

text \<open>The bridge thread reads and posts the outcome to the event loop, an exception as an exception.\<close>

definition windows_read :: "'p win_lib \<Rightarrow> nat \<Rightarrow> (agent_exn, 'p option, bytes) co" where
  "windows_read L max_bytes =
     bnd (on_proc (\<lambda>q. (Inr (), q))) (\<lambda>_.
     bnd pause (\<lambda>_.
     bnd (on_proc (wl_read L max_bytes)) (\<lambda>data.
     (case data of
        RawBytes b \<Rightarrow> if b = [] then raise EOFError else ret b
      | Text s \<Rightarrow> if s = [] then raise EOFError else ret (encode_utf8 s)))))"

definition windows_write :: "'p win_lib \<Rightarrow> bytes \<Rightarrow> (agent_exn, 'p option, unit) co" where
  "windows_write L data =
     bnd (attempt (on_proc (wl_write L (GivenBytes data)))) (\<lambda>r.
     (case r of
        Inl PyTypeError \<Rightarrow> on_proc (wl_write L (DecodedFrom data))
      | Inl x \<Rightarrow> raise x
      | Inr _ \<Rightarrow> skip))"

definition windows_backend :: "'p win_lib \<Rightarrow> ('p option) backend" where
  "windows_backend L = \<lparr>bk_spawn = proc_spawn L, bk_read = windows_read L, bk_write = windows_write L,
     bk_resize = proc_resize L, bk_is_alive = proc_is_alive L, bk_wait = proc_wait L, bk_close = proc_close L\<rparr>"

section \<open>The contract\<close>

text \<open>
  What the session code relies on: \<open>is_alive\<close> tells whether the child runs, \<open>close\<close>
  ends it, and a read returns bytes that are data, never the empty end of file.
\<close>

locale pty_contract =
  fixes B :: "'b backend" and running :: "'b \<Rightarrow> bool"
  assumes alive_law: "run (bk_is_alive B) b = (Inr v, b') \<Longrightarrow> v = running b \<and> running b' = running b"
    and close_law: "run (bk_close B) b = (Inr (), b') \<Longrightarrow> \<not> running b'"
    and close_again: "\<not> running b \<Longrightarrow> \<exists>b'. run (bk_close B) b = (Inr (), b') \<and> \<not> running b'"
begin

lemma closed_not_alive:
  assumes "run (bk_close B) b = (Inr (), b1)" "run (bk_is_alive B) b1 = (Inr v, b2)"
  shows "\<not> v"
  using close_law [OF assms(1)] alive_law [OF assms(2)] by simp

lemma close_idempotent:
  assumes "run (bk_close B) b = (Inr (), b1)"
  shows "\<exists>b2. run (bk_close B) b1 = (Inr (), b2) \<and> \<not> running b2"
  using close_again [OF close_law [OF assms]] .

end

text \<open>The laws of a process library: liveness is stable under polling, a forced termination kills.\<close>

definition pty_lib_ok :: "('p, 'z) pty_lib_scheme \<Rightarrow> ('p \<Rightarrow> bool) \<Rightarrow> bool" where
  "pty_lib_ok L runs \<longleftrightarrow> (\<forall>q v q'. pl_isalive L q = (v, q') \<longrightarrow> v = runs q \<and> runs q' = runs q) \<and>
     (\<forall>q q'. pl_terminate L q = (Inr (), q') \<longrightarrow> \<not> runs q')"

definition runs_in :: "('p \<Rightarrow> bool) \<Rightarrow> 'p option \<Rightarrow> bool" where
  "runs_in runs b = (case b of None \<Rightarrow> False | Some q \<Rightarrow> runs q)"

lemma on_proc_None [simp]: "run (on_proc f) None = (Inl AssertionError, None)"
  by (simp add: on_proc_def)

lemma on_proc_Some [simp]: "run (on_proc f) (Some q) = (case f q of (r, q') \<Rightarrow> (r, Some q'))"
  by (simp add: on_proc_def)

lemma proc_alive:
  "pty_lib_ok L runs \<Longrightarrow> run (proc_is_alive L) b = (Inr v, b') \<Longrightarrow> v = runs_in runs b \<and> runs_in runs b' = runs_in runs b"
  by (cases b) (auto simp: proc_is_alive_def runs_in_def pty_lib_ok_def split: prod.splits)

lemma proc_closed:
  "pty_lib_ok L runs \<Longrightarrow> run (proc_close L) b = (Inr (), b') \<Longrightarrow> \<not> runs_in runs b'"
  by (cases b) (auto simp: proc_close_def runs_in_def pty_lib_ok_def split: prod.splits bool.splits)

lemma proc_close_dead:
  assumes "pty_lib_ok L runs" "\<not> runs_in runs b"
  shows "\<exists>b'. run (proc_close L) b = (Inr (), b') \<and> \<not> runs_in runs b'"
proof (cases b)
  case (Some q)
  obtain v q' where q: "pl_isalive L q = (v, q')" by fastforce
  with assms Some show ?thesis by (auto simp: proc_close_def runs_in_def pty_lib_ok_def)
qed (simp add: proc_close_def runs_in_def)

locale posix_library =
  fixes L :: "'p posix_lib" and runs :: "'p \<Rightarrow> bool"
  assumes lib_ok: "pty_lib_ok L runs"

sublocale posix_library \<subseteq> linux: pty_contract "linux_backend L" "runs_in runs"
  using proc_alive [OF lib_ok] proc_closed [OF lib_ok] proc_close_dead [OF lib_ok]
  by unfold_locales (auto simp: linux_backend_def)

sublocale posix_library \<subseteq> macos: pty_contract "macos_backend L" "runs_in runs"
  using proc_alive [OF lib_ok] proc_closed [OF lib_ok] proc_close_dead [OF lib_ok]
  by unfold_locales (auto simp: macos_backend_def)

locale windows_library =
  fixes L :: "'p win_lib" and runs :: "'p \<Rightarrow> bool"
  assumes lib_ok: "pty_lib_ok L runs"

sublocale windows_library \<subseteq> windows: pty_contract "windows_backend L" "runs_in runs"
  using proc_alive [OF lib_ok] proc_closed [OF lib_ok] proc_close_dead [OF lib_ok]
  by unfold_locales (auto simp: windows_backend_def)

text \<open>Reads of every backend give data, or raise.\<close>

lemma windows_read_nonempty: "run (windows_read L n) b = (Inr data, b') \<Longrightarrow> data \<noteq> []"
proof -
  have "encode_utf8 s \<noteq> []" if "s \<noteq> []" for s
    using that by (cases s) (auto simp: encode_utf8_def utf8_char_def)
  then show "run (windows_read L n) b = (Inr data, b') \<Longrightarrow> data \<noteq> []"
    by (cases b) (auto simp: windows_read_def split: prod.splits sum.splits win_data.splits if_splits)
qed

section \<open>A scripted process\<close>

text \<open>A child that prints the given chunks and then exits with code 0, for the witnesses.\<close>

record script =
  sc_output :: "bytes list"
  sc_input :: "bytes list"
  sc_size :: "int \<times> int"
  sc_runs :: bool

definition script_lib :: "script posix_lib" where
  "script_lib = \<lparr>pl_spawn = (\<lambda>command cwd env. Inr \<lparr>sc_output = map (map ord) command, sc_input = [], sc_size = (24, 80), sc_runs = True\<rparr>),
     pl_setwinsize = (\<lambda>rows cols q. (Inr (), q\<lparr>sc_size := (rows, cols)\<rparr>)),
     pl_isalive = (\<lambda>q. (sc_runs q, q)), pl_wait = (\<lambda>q. (Inr 0, q\<lparr>sc_runs := False\<rparr>)),
     pl_terminate = (\<lambda>q. (Inr (), q\<lparr>sc_runs := False\<rparr>)),
     xl_read = (\<lambda>n q. case sc_output q of [] \<Rightarrow> (None, q\<lparr>sc_runs := False\<rparr>) | d # ds \<Rightarrow> (Some d, q\<lparr>sc_output := ds\<rparr>)),
     xl_write = (\<lambda>d q. (Inr (), q\<lparr>sc_input := sc_input q @ [d]\<rparr>))\<rparr>"

definition script_win :: "script win_lib" where
  "script_win = \<lparr>pl_spawn = pl_spawn script_lib, pl_setwinsize = pl_setwinsize script_lib, pl_isalive = pl_isalive script_lib,
     pl_wait = pl_wait script_lib, pl_terminate = pl_terminate script_lib,
     wl_read = (\<lambda>n q. case sc_output q of [] \<Rightarrow> (Inr (RawBytes []), q\<lparr>sc_runs := False\<rparr>)
       | d # ds \<Rightarrow> (Inr (RawBytes d), q\<lparr>sc_output := ds\<rparr>)),
     wl_write = (\<lambda>a q. case a of GivenBytes d \<Rightarrow> (Inl PyTypeError, q)
       | DecodedFrom d \<Rightarrow> (Inr (), q\<lparr>sc_input := sc_input q @ [d]\<rparr>))\<rparr>"

interpretation script: posix_library script_lib sc_runs
  by unfold_locales (auto simp: pty_lib_ok_def script_lib_def)

interpretation script_win: windows_library script_win sc_runs
  by unfold_locales (auto simp: pty_lib_ok_def script_win_def script_lib_def)

end
