(* ===== verification/Zoom.thy ===== *)
theory Zoom
  imports Prelude
begin

text \<open>
  Running a coroutine on a part of a larger world. \<open>zoom g p m\<close> runs \<open>m\<close> on the part
  that \<open>g\<close> reads and \<open>p\<close> writes back; suspended, it gives the whole world away.
\<close>

primrec zoom_out :: "('w \<Rightarrow> 'v) \<Rightarrow> ('v \<Rightarrow> 'w \<Rightarrow> 'w) \<Rightarrow> ('e, 'v, 'a) outcome \<Rightarrow> 'w \<Rightarrow> ('e, 'w, 'a) outcome" where
  "zoom_out g p (Done r v) = (\<lambda>w. Done r (p v w))"
| "zoom_out g p (Susp v k) = (\<lambda>w. Susp (p v w) (\<lambda>w'. zoom_out g p (k (g w')) w'))"

definition zoom :: "('w \<Rightarrow> 'v) \<Rightarrow> ('v \<Rightarrow> 'w \<Rightarrow> 'w) \<Rightarrow> ('e, 'v, 'a) co \<Rightarrow> ('e, 'w, 'a) co" where
  "zoom g p m = (\<lambda>w. zoom_out g p (m (g w)) w)"

text \<open>
  The laws of reading and writing a part. Under them, running to the end commutes with
  zooming, and safety of the part gives safety of the whole: a segment touches nothing
  but the part.
\<close>

locale part_of =
  fixes g :: "'w \<Rightarrow> 'v" and p :: "'v \<Rightarrow> 'w \<Rightarrow> 'w"
  assumes get_put: "g (p v w) = v"
    and put_put: "p v (p v' w) = p v w"
    and put_get: "p (g w) w = w"
begin

lemma finish_zoom: "finish (zoom_out g p m w) = (case finish m of (r, v) \<Rightarrow> (r, p v w))"
  by (induction m arbitrary: w) (auto simp: get_put put_put split: prod.splits)

lemma run_zoom: "run (zoom g p m) w = (case run m (g w) of (r, v) \<Rightarrow> (r, p v w))"
  by (simp add: run_def zoom_def finish_zoom)

lemma safe_zoom_out:
  assumes part: "safe I R G Q m (g w0)" and J: "J w0" and out: "\<And>w. J w \<Longrightarrow> I (g w)"
    and rely: "\<And>w w'. R' w w' \<Longrightarrow> R (g w) (g w')"
    and guar: "\<And>v w. J w \<Longrightarrow> G (g w) v \<Longrightarrow> G' w (p v w)"
    and keep: "\<And>v w. J w \<Longrightarrow> I v \<Longrightarrow> G (g w) v \<Longrightarrow> J (p v w)"
    and post: "\<And>r v w. Q r v \<Longrightarrow> I v \<Longrightarrow> J (p v w) \<Longrightarrow> Q' r (p v w)"
  shows "safe J R' G' Q' (zoom_out g p m w0) w0"
  using part J
proof (induction m arbitrary: w0)
  case (Done r v)
  then show ?case using guar keep post by auto
next
  case (Susp v k)
  then have v: "I v" "G (g w0) v" by simp_all
  have "safe J R' G' Q' (zoom_out g p (k (g w1)) w1) w1" if "J w1" "R' (p v w0) w1" for w1
  proof -
    have "R v (g w1)" using rely [OF that(2)] by (simp add: get_put)
    then have "safe I R G Q (k (g w1)) (g w1)" using Susp.prems(1) out [OF that(1)] by simp
    then show ?thesis using Susp.IH that(1) by blast
  qed
  then show ?case using v guar keep Susp.prems(2) by simp
qed

lemma safe_zoom:
  assumes "safe I R G Q (m (g w0)) (g w0)" "J w0" "\<And>w. J w \<Longrightarrow> I (g w)"
    and "\<And>w w'. R' w w' \<Longrightarrow> R (g w) (g w')"
    and "\<And>v w. J w \<Longrightarrow> G (g w) v \<Longrightarrow> G' w (p v w)"
    and "\<And>v w. J w \<Longrightarrow> I v \<Longrightarrow> G (g w) v \<Longrightarrow> J (p v w)"
    and "\<And>r v w. Q r v \<Longrightarrow> I v \<Longrightarrow> J (p v w) \<Longrightarrow> Q' r (p v w)"
  shows "safe J R' G' Q' (zoom g p m w0) w0"
  unfolding zoom_def using assms by (rule safe_zoom_out)

end

end
