(* ===== verification/SessionPump.thy ===== *)
theory SessionPump
  imports RelayClient PtyBackend Scheduler Zoom
begin

text \<open>
  \<open>agent/common/session_pump.py\<close>: the two directions between a paired client and a
  PTY backend, and the session that runs them. A direction is a loop around one
  blocking call, cut there: its coroutine is one turn, \<open>Some ()\<close> for the next turn,
  \<open>None\<close> when the function returns. \<open>pu_calls\<close> is the sequence of calls that act on the
  backend, \<open>pu_result\<close> the outcome of each finished task.
\<close>

datatype backend_call = CallWrite bytes | CallResize int int | CallWait | CallClose

datatype side = ToRelay | ToPty

record 'b pump_world =
  pu_client :: cworld
  pu_backend :: 'b
  pu_calls :: "backend_call list"
  pu_result :: "side \<Rightarrow> (agent_exn + unit) option"

type_synonym ('b, 'a) pump_co = "(agent_exn, 'b pump_world, 'a) co"

definition on_client :: "'a client_co \<Rightarrow> ('b, 'a) pump_co" where
  "on_client m = zoom pu_client (\<lambda>v w. w\<lparr>pu_client := v\<rparr>) m"

definition on_backend :: "(agent_exn, 'b, 'a) co \<Rightarrow> ('b, 'a) pump_co" where
  "on_backend m = zoom pu_backend (\<lambda>v w. w\<lparr>pu_backend := v\<rparr>) m"

interpretation client_part: part_of pu_client "\<lambda>v w. w\<lparr>pu_client := v\<rparr>"
  by unfold_locales simp_all

interpretation backend_part: part_of pu_backend "\<lambda>v w. w\<lparr>pu_backend := v\<rparr>"
  by unfold_locales simp_all

definition call :: "backend_call \<Rightarrow> (agent_exn, 'b, 'a) co \<Rightarrow> ('b, 'a) pump_co" where
  "call c m = bnd (modify (\<lambda>w. w\<lparr>pu_calls := pu_calls w @ [c]\<rparr>)) (\<lambda>_. on_backend m)"

section \<open>The two directions\<close>

definition pump_pty_to_relay :: "adeps \<Rightarrow> 'b backend \<Rightarrow> ('b, unit option) pump_co" where
  "pump_pty_to_relay D B =
     bnd (attempt (bnd (on_backend (bk_read B READ_SIZE)) (\<lambda>data.
       if data \<noteq> [] then on_client (send_pty_data D data) else skip))) (\<lambda>r.
     (case r of
        Inr _ \<Rightarrow> ret (Some ())
      | Inl EOFError \<Rightarrow>
          bnd (call CallWait (bk_wait B)) (\<lambda>_.
          bnd (on_client (send_session_close ''process_exited'')) (\<lambda>_. ret None))
      | Inl x \<Rightarrow> raise x))"

definition resize_request :: "envelope \<Rightarrow> (int \<times> int) option" where
  "resize_request e =
     (case (dict_get (e_payload e) ''rows'' JNull, dict_get (e_payload e) ''cols'' JNull) of
        (JInt rows, JInt cols) \<Rightarrow>
          (if 1 \<le> rows \<and> rows \<le> 9999 \<and> 1 \<le> cols \<and> cols \<le> 9999 then Some (rows, cols) else None)
      | _ \<Rightarrow> None)"

definition pump_relay_to_pty :: "adeps \<Rightarrow> 'b backend \<Rightarrow> ('b, unit option) pump_co" where
  "pump_relay_to_pty D B =
     bnd (on_client (recv_decrypted D)) (\<lambda>e.
     if e_type e = ''pty_input'' then
       bnd (on_client (decrypt_payload D e)) (\<lambda>plaintext.
       bnd (call (CallWrite plaintext) (bk_write B plaintext)) (\<lambda>_. ret (Some ())))
     else if e_type e = ''session_resize'' then
       (case resize_request e of
          None \<Rightarrow> ret (Some ())
        | Some (rows, cols) \<Rightarrow> bnd (call (CallResize rows cols) (bk_resize B rows cols)) (\<lambda>_. ret (Some ())))
     else if e_type e = ''session_close'' then ret None
     else ret (Some ()))"

section \<open>The session\<close>

text \<open>A task keeps its outcome when it ends.\<close>

definition task_body :: "adeps \<Rightarrow> 'b backend \<Rightarrow> side \<Rightarrow> ('b, unit option) pump_co" where
  "task_body D B i =
     bnd (attempt (case i of ToRelay \<Rightarrow> pump_pty_to_relay D B | ToPty \<Rightarrow> pump_relay_to_pty D B)) (\<lambda>r.
     (case r of
        Inr (Some _) \<Rightarrow> ret (Some ())
      | Inr None \<Rightarrow> bnd (modify (\<lambda>w. w\<lparr>pu_result := (pu_result w)(i \<mapsto> Inr ())\<rparr>)) (\<lambda>_. ret None)
      | Inl x \<Rightarrow> bnd (modify (\<lambda>w. w\<lparr>pu_result := (pu_result w)(i \<mapsto> Inl x)\<rparr>)) (\<lambda>_. ret None)))"

fun tolerated :: "agent_exn \<Rightarrow> bool" where
  "tolerated ConnectionClosed = True"
| "tolerated (HandshakeError m) = True"
| "tolerated (EnvelopeError m) = True"
| "tolerated _ = False"

record 'b pump =
  pm_world :: "'b pump_world"
  pm_task :: "side \<Rightarrow> (agent_exn, 'b pump_world, unit) task"
  pm_return :: "(agent_exn + unit) option"

text \<open>\<open>Finish i\<close> is the return of \<open>asyncio.wait\<close>, the outcome of \<open>i\<close> looked at first.\<close>

datatype 'b pump_event =
    Step side
  | Arrive wire
  | Lost
  | Child "'b \<Rightarrow> 'b"
  | Clock int
  | Finish side

fun other_side :: "side \<Rightarrow> side" where
  "other_side ToRelay = ToPty"
| "other_side ToPty = ToRelay"

definition raised :: "(agent_exn + unit) option \<Rightarrow> agent_exn option" where
  "raised r = (case r of Some (Inl x) \<Rightarrow> if tolerated x then None else Some x | _ \<Rightarrow> None)"

definition first_raised :: "side \<Rightarrow> 'b pump_world \<Rightarrow> agent_exn + unit" where
  "first_raised i w =
     (case raised (pu_result w i) of
        Some x \<Rightarrow> Inl x
      | None \<Rightarrow> (case raised (pu_result w (other_side i)) of Some x \<Rightarrow> Inl x | None \<Rightarrow> Inr ()))"

definition pump_segment :: "side \<Rightarrow> (agent_exn, 'b pump_world, unit option) outcome \<Rightarrow> 'b pump \<Rightarrow> 'b pump" where
  "pump_segment i out s = (case settle out of (w, t) \<Rightarrow> s\<lparr>pm_world := w, pm_task := (pm_task s)(i := t)\<rparr>)"

text \<open>The \<open>finally\<close> block: no task is left, the backend is closed unless it is preserved.\<close>

definition end_session :: "'b backend \<Rightarrow> bool \<Rightarrow> agent_exn + unit \<Rightarrow> 'b pump \<Rightarrow> 'b pump" where
  "end_session B preserve outcome s =
     (let (r, w) = (if preserve then (Inr (), pm_world s) else run (call CallClose (bk_close B)) (pm_world s))
      in s\<lparr>pm_world := w, pm_task := (\<lambda>_. Gone),
           pm_return := Some (case r of Inl x \<Rightarrow> Inl x | Inr _ \<Rightarrow> outcome)\<rparr>)"

definition on_cworld :: "(cworld \<Rightarrow> cworld) \<Rightarrow> 'b pump \<Rightarrow> 'b pump" where
  "on_cworld f s = s\<lparr>pm_world := (pm_world s)\<lparr>pu_client := f (pu_client (pm_world s))\<rparr>\<rparr>"

fun exec_pump :: "adeps \<Rightarrow> 'b backend \<Rightarrow> bool \<Rightarrow> 'b pump_event \<Rightarrow> 'b pump \<Rightarrow> 'b pump option" where
  "exec_pump D B preserve (Step i) s =
     (case pm_task s i of
        Ready _ \<Rightarrow> Some (pump_segment i (task_body D B i (pm_world s)) s)
      | Busy k \<Rightarrow> Some (pump_segment i (k (pm_world s)) s)
      | _ \<Rightarrow> None)"
| "exec_pump D B preserve (Arrive raw) s = Some (on_cworld (\<lambda>v. v\<lparr>cw_inbox := cw_inbox v @ [raw]\<rparr>) s)"
| "exec_pump D B preserve Lost s = Some (on_cworld (\<lambda>v. v\<lparr>cw_open := False\<rparr>) s)"
| "exec_pump D B preserve (Clock t) s = Some (on_cworld (\<lambda>v. v\<lparr>cw_now_ms := t\<rparr>) s)"
| "exec_pump D B preserve (Child f) s =
     Some (s\<lparr>pm_world := (pm_world s)\<lparr>pu_backend := f (pu_backend (pm_world s))\<rparr>\<rparr>)"
| "exec_pump D B preserve (Finish i) s =
     (if pm_return s = None \<and> (\<exists>j \<in> {ToRelay, ToPty}. pu_result (pm_world s) j \<noteq> None)
      then Some (end_session B preserve (first_raised i (pm_world s)) s) else None)"

definition start_pump :: "cworld \<Rightarrow> 'b \<Rightarrow> 'b pump" where
  "start_pump v b = \<lparr>pm_world = \<lparr>pu_client = v, pu_backend = b, pu_calls = [], pu_result = (\<lambda>_. None)\<rparr>,
     pm_task = (\<lambda>_. Ready ()), pm_return = None\<rparr>"

inductive pump_reachable :: "adeps \<Rightarrow> 'b backend \<Rightarrow> bool \<Rightarrow> 'b pump \<Rightarrow> 'b pump \<Rightarrow> bool" for D B preserve s0 where
  start: "pump_reachable D B preserve s0 s0"
| step: "pump_reachable D B preserve s0 s \<Longrightarrow> exec_pump D B preserve ev s = Some s' \<Longrightarrow> pump_reachable D B preserve s0 s'"

fun exec_pumps :: "adeps \<Rightarrow> 'b backend \<Rightarrow> bool \<Rightarrow> 'b pump_event list \<Rightarrow> 'b pump \<Rightarrow> 'b pump option" where
  "exec_pumps D B preserve [] s = Some s"
| "exec_pumps D B preserve (ev # evs) s =
     (case exec_pump D B preserve ev s of None \<Rightarrow> None | Some s' \<Rightarrow> exec_pumps D B preserve evs s')"

lemma exec_pumps_reachable:
  "exec_pumps D B preserve evs s = Some s' \<Longrightarrow> pump_reachable D B preserve s0 s \<Longrightarrow> pump_reachable D B preserve s0 s'"
  by (induction evs arbitrary: s) (auto intro: step split: option.splits)

end
