(* ===== verification/ClientSafety.thy ===== *)
theory ClientSafety
  imports ClientTheorems Router
begin

text \<open>
  What every method of the client keeps true at each of its awaits, whatever other
  coroutines of the agent do meanwhile: the envelopes sent are well-formed, of types
  the relay's role table admits from an agent, with strictly increasing numbers.
\<close>

definition sent_ok :: "int \<Rightarrow> envelope \<Rightarrow> bool" where
  "sent_ok hi e \<longleftrightarrow> envelope_ok e \<and> e_v e = 2 \<and> e_type e \<in> set (role_types Agent) \<and> e_seq e \<le> hi"

definition client_inv :: "cworld \<Rightarrow> bool" where
  "client_inv w \<longleftrightarrow> sorted_wrt (<) (map e_seq (cw_out w)) \<and> list_all (sent_ok (rc_seq (cw_client w))) (cw_out w)"

text \<open>\<open>keeps I m\<close>: started where \<open>I\<close> holds, every segment of \<open>m\<close> ends where \<open>I\<close> holds.\<close>

definition keeps :: "('w \<Rightarrow> bool) \<Rightarrow> ('e, 'w, 'a) co \<Rightarrow> bool" where
  "keeps I m \<longleftrightarrow> (\<forall>w w0. I w \<longrightarrow> safe I (\<lambda>_ _. True) (\<lambda>_ _. True) (\<lambda>_ _. True) (m w) w0)"

lemma transp_True [simp]: "transp (\<lambda>_ _. True)"
  by (simp add: transp_def)

lemma keepsD: "keeps I m \<Longrightarrow> I w \<Longrightarrow> safe I (\<lambda>_ _. True) (\<lambda>_ _. True) (\<lambda>_ _. True) (m w) w0"
  by (simp add: keeps_def)

lemma keeps_bnd [intro]: "keeps I m \<Longrightarrow> (\<And>a. keeps I (f a)) \<Longrightarrow> keeps I (bnd m f)"
  unfolding keeps_def bnd_def
  by (auto intro!: safe_cont [where Q = "\<lambda>_ _. True"])

lemma keeps_prims [simp]:
  "keeps I (ret a)" "keeps I (raise x)" "keeps I (gets g)" "keeps I skip" "keeps I pause"
  by (auto simp: keeps_def co_simps)

lemma keeps_modify [intro]: "(\<And>w. I w \<Longrightarrow> I (h w)) \<Longrightarrow> keeps I (modify h)"
  by (simp add: keeps_def co_simps)

lemma keeps_sync [intro]: "(\<And>w. I w \<Longrightarrow> I (snd (s w))) \<Longrightarrow> keeps I (sync s)"
  by (simp add: keeps_def co_simps split: prod.splits) (metis snd_conv)

lemma keeps_attempt [intro]: "keeps I m \<Longrightarrow> keeps I (attempt m)"
  by (auto simp: keeps_def attempt_def intro!: safe_attempt)

lemma keeps_if [intro]: "(b \<Longrightarrow> keeps I m) \<Longrightarrow> (\<not> b \<Longrightarrow> keeps I n) \<Longrightarrow> keeps I (if b then m else n)"
  by simp

section \<open>The client's primitives\<close>

lemma client_inv_frame:
  assumes "client_inv w" "cw_out w' = cw_out w" "rc_seq (cw_client w) \<le> rc_seq (cw_client w')"
  shows "client_inv w'"
  using assms by (auto simp: client_inv_def sent_ok_def list_all_iff)

lemma keeps_upd_client: "(\<And>c. rc_seq c \<le> rc_seq (f c)) \<Longrightarrow> keeps client_inv (upd_client f)"
  unfolding upd_client_def by (intro keeps_modify) (auto intro: client_inv_frame)

lemma keeps_client_prims [simp]:
  "keeps client_inv (self f)" "keeps client_inv (assert_that b)" "keeps client_inv (draw D n)"
  "keeps client_inv (lift_result r)" "keeps client_inv next_seq" "keeps client_inv ws_recv"
  "keeps client_inv the_session" "keeps client_inv (client_recv D)" "keeps client_inv connect"
  "keeps client_inv client_close"
proof -
  show prims: "keeps client_inv (self f)" "keeps client_inv (assert_that b)" "keeps client_inv (lift_result r)"
    "keeps client_inv the_session" for f :: "rclient \<Rightarrow> 'c" and b and r :: "agent_exn + 'd"
    by (auto simp: self_def assert_that_def lift_result_def the_session_def split: sum.splits option.splits)
  show "keeps client_inv (draw D n)"
    unfolding draw_def by (intro keeps_sync) (auto intro: client_inv_frame)
  show "keeps client_inv next_seq"
    unfolding next_seq_def by (intro keeps_bnd keeps_upd_client prims) simp
  show recv: "keeps client_inv ws_recv"
    unfolding ws_recv_def by (intro keeps_bnd keeps_sync keeps_prims) (auto intro: client_inv_frame split: list.splits)
  show "keeps client_inv (client_recv D)"
    unfolding client_recv_def by (intro keeps_bnd recv prims)
  show "keeps client_inv connect"
    unfolding connect_def
    by (intro keeps_bnd keeps_prims keeps_if keeps_upd_client keeps_modify) (auto intro: client_inv_frame)
  show "keeps client_inv client_close"
    unfolding client_close_def
    by (intro keeps_bnd keeps_prims keeps_if keeps_upd_client keeps_modify prims) (auto intro: client_inv_frame)
qed

lemma agent_types_allowed: "ty \<in> set agent_types \<Longrightarrow> ty \<in> set (role_types Agent)"
proof -
  have "list_all (\<lambda>ty. ty \<in> set (role_types Agent)) agent_types" by code_simp
  then show "ty \<in> set agent_types \<Longrightarrow> ty \<in> set (role_types Agent)" by (simp only: list_all_iff)
qed

text \<open>Appending an envelope with a number above all sent so far.\<close>

lemma client_inv_send:
  assumes "client_inv w" "envelope_ok (agent_envelope ty sid sq ts pl)" "ty \<in> set agent_types"
    "rc_seq (cw_client w) < sq" "cw_out w' = cw_out w @ [agent_envelope ty sid sq ts pl]" "sq \<le> rc_seq (cw_client w')"
  shows "client_inv w'"
  using assms agent_types_allowed [OF assms(3)]
  by (auto simp: client_inv_def sorted_wrt_append list_all_iff sent_ok_def agent_envelope_def AGENT_PROTOCOL_VERSION_def
      simp del: role_types.simps)

lemma client_send_apply:
  "client_send ty sid pl None w =
     (if \<not> rc_ws (cw_client w) then Done (Inl AssertionError) w
      else if \<not> envelope_ok (next_envelope ty sid pl w) then Done (Inl ValidationError) (bump_seq w)
      else if \<not> cw_open w then Done (Inl ConnectionClosed) (bump_seq w)
      else Susp ((bump_seq w)\<lparr>cw_out := cw_out w @ [next_envelope ty sid pl w]\<rparr>) (\<lambda>w'. Done (Inr ()) w'))"
  by (simp add: client_send_def self_def assert_that_def next_seq_def upd_client_def ws_send_def co_simps
      next_envelope_def bump_seq_def)

lemma keeps_client_send: "ty \<in> set agent_types \<Longrightarrow> keeps client_inv (client_send ty sid pl None)"
  by (auto simp: keeps_def client_send_apply next_envelope_def intro: client_inv_frame
      elim: client_inv_send)

text \<open>An encrypted message takes its number, then sends in the same segment.\<close>

lemma send_encrypted_apply:
  "send_encrypted D ty m w =
     (case (rc_session_keys (cw_client w), rc_session_id (cw_client w)) of
        (Some ks, Some sid) \<Rightarrow>
          (case message_aad ty sid (rc_seq (cw_client w) + 1) ''agent_to_client'' of
             Inl x \<Rightarrow> Done (Inl x) (bump_seq w)
           | Inr ad \<Rightarrow>
               (case encrypt (ad_prims D) (k_agent_to_client ks) m ad (ad_random D (cw_draws w) NONCE_LEN) of (n64, c64) \<Rightarrow>
                 client_send ty (Some sid) [(''nonce'', JStr n64), (''ciphertext'', JStr c64)]
                   (Some (rc_seq (cw_client w) + 1)) ((bump_seq w)\<lparr>cw_draws := Suc (cw_draws w)\<rparr>)))
      | _ \<Rightarrow> Done (Inl AssertionError) w)"
  by (simp add: send_encrypted_def the_session_def self_def next_seq_def upd_client_def lift_result_def draw_def
      co_simps bump_seq_def split: option.splits sum.splits prod.splits)

lemma client_send_at_apply:
  "client_send ty sid pl (Some sq) w =
     (if \<not> rc_ws (cw_client w) then Done (Inl AssertionError) w
      else if \<not> envelope_ok (agent_envelope ty sid sq (cw_now_ms w) pl) then Done (Inl ValidationError) w
      else if \<not> cw_open w then Done (Inl ConnectionClosed) w
      else Susp (w\<lparr>cw_out := cw_out w @ [agent_envelope ty sid sq (cw_now_ms w) pl]\<rparr>) (\<lambda>w'. Done (Inr ()) w'))"
  by (simp add: client_send_def self_def assert_that_def ws_send_def co_simps)

lemma keeps_send_encrypted:
  assumes "ty \<in> set agent_types"
  shows "keeps client_inv (send_encrypted D ty m)"
  unfolding keeps_def send_encrypted_apply client_send_at_apply
  using assms
  by (auto split: option.splits sum.splits prod.splits intro: client_inv_frame elim: client_inv_send)

lemma keeps_fresh_identity [simp]: "keeps client_inv (fresh_identity D)"
  unfolding fresh_identity_def generate_ephemeral_keypair_def
  by (auto intro!: keeps_bnd keeps_upd_client)

lemmas keeps_rules = keeps_bnd keeps_if keeps_upd_client keeps_client_send keeps_send_encrypted

lemma in_agent_types [simp]:
  "''pair_init'' \<in> set agent_types" "''pair_complete'' \<in> set agent_types" "''resume_init'' \<in> set agent_types"
  "''resume_challenge'' \<in> set agent_types" "''resume_complete'' \<in> set agent_types" "''pty_data'' \<in> set agent_types"
  "''device_credential'' \<in> set agent_types" "''session_close'' \<in> set agent_types" "''session_list'' \<in> set agent_types"
  by (simp_all add: agent_types_def)

lemma keeps_set_keys [simp]:
  "keeps client_inv (set_transcript a b c d)" "keeps client_inv (set_session_keys D e f g h)"
  unfolding set_transcript_def set_session_keys_def by (auto intro!: keeps_rules)

lemma keeps_prove: "answer \<in> set agent_types \<Longrightarrow> keeps client_inv (prove D ks t v refusal answer sid)"
  unfolding prove_def by (auto intro!: keeps_rules)

lemma keeps_methods:
  "keeps client_inv (send_pair_init D secret dev)" "keeps client_inv (send_resume_init D device_id device_secret)"
  "keeps client_inv (await_pair_init_ack D)" "keeps client_inv (await_pair_challenge_and_complete D)"
  "keeps client_inv (await_resume_and_complete D)" "keeps client_inv (send_session_close reason)"
  "keeps client_inv (send_session_list sessions)" "keeps client_inv (send_device_credential D device_id device_secret)"
  "keeps client_inv (send_pty_data D data)" "keeps client_inv (decrypt_payload D e)" "keeps client_inv (pair D)"
proof -
  have 1: "keeps client_inv (send_pair_init D s d)" for s d
    unfolding send_pair_init_def by (auto intro!: keeps_rules)
  show "keeps client_inv (send_pair_init D secret dev)" by (rule 1)
  show "keeps client_inv (send_resume_init D device_id device_secret)"
    unfolding send_resume_init_def by (auto intro!: keeps_rules)
  show 2: "keeps client_inv (await_pair_init_ack D)"
    unfolding await_pair_init_ack_def by (auto intro!: keeps_rules)
  show 3: "keeps client_inv (await_pair_challenge_and_complete D)"
    unfolding await_pair_challenge_and_complete_def Let_def
    by (auto intro!: keeps_rules keeps_prove split: option.splits)
  have "keeps client_inv (check_resume_proof D c e)" for c e
    unfolding check_resume_proof_def Let_def by (auto intro!: keeps_rules keeps_prove split: option.splits)
  then show "keeps client_inv (await_resume_and_complete D)"
    unfolding await_resume_and_complete_def by (auto intro!: keeps_rules)
  show "keeps client_inv (send_session_close reason)" "keeps client_inv (send_session_list sessions)"
    unfolding send_session_close_def send_session_list_def by (auto intro!: keeps_rules)
  show "keeps client_inv (send_device_credential D device_id device_secret)" "keeps client_inv (send_pty_data D data)"
    unfolding send_device_credential_def send_pty_data_def by (auto intro!: keeps_rules)
  show "keeps client_inv (decrypt_payload D e)"
    unfolding decrypt_payload_def Let_def
    by (auto intro!: keeps_rules split: sum.splits agent_exn.splits)
  show "keeps client_inv (pair D)"
    unfolding pair_def by (auto intro!: keeps_rules 1 2 3)
qed

end
