(* ===== verification/PumpSafety.thy ===== *)
theory PumpSafety
  imports SessionPump ClientSafety
begin

text \<open>
  The running session, over all interleavings of its two directions with the network,
  the child process and the clock: what reaches the child is exactly what the paired
  peer sealed, in order, and what leaves is well-formed and numbered upwards.
\<close>

section \<open>The calls on the backend\<close>

fun writes :: "backend_call list \<Rightarrow> bytes list" where
  "writes [] = []"
| "writes (CallWrite m # cs) = m # writes cs"
| "writes (_ # cs) = writes cs"

lemma writes_append [simp]: "writes (cs @ ds) = writes cs @ writes ds"
  by (induction cs rule: writes.induct) simp_all

fun resize_ok :: "backend_call \<Rightarrow> bool" where
  "resize_ok (CallResize rows cols) = (1 \<le> rows \<and> rows \<le> 9999 \<and> 1 \<le> cols \<and> cols \<le> 9999)"
| "resize_ok _ = True"

text \<open>The writes are the plaintexts of accepted envelopes, in the order of their numbers, up to \<open>hi\<close>.\<close>

definition authentic_calls :: "prims \<Rightarrow> session_keys \<Rightarrow> string \<Rightarrow> int \<Rightarrow> backend_call list \<Rightarrow> bool" where
  "authentic_calls P ks sid hi cs \<longleftrightarrow> list_all resize_ok cs \<and>
     (\<exists>acc. writes cs = map snd acc \<and> sorted_wrt (<) (map (e_seq \<circ> fst) acc) \<and>
        (\<forall>(e, m) \<in> set acc. sealed_for P ks sid e m \<and> e_seq e \<le> hi))"

lemma authentic_mono: "authentic_calls P ks sid hi cs \<Longrightarrow> hi \<le> hi' \<Longrightarrow> authentic_calls P ks sid hi' cs"
  by (auto simp: authentic_calls_def) (smt (verit) case_prodD case_prodI2)

lemma authentic_write:
  assumes "authentic_calls P ks sid hi cs" "sealed_for P ks sid e m" "hi < n" "e_seq e = n"
  shows "authentic_calls P ks sid n (cs @ [CallWrite m])"
proof -
  from assms(1) obtain acc where acc: "writes cs = map snd acc" "sorted_wrt (<) (map (e_seq \<circ> fst) acc)"
    "\<forall>(e, m) \<in> set acc. sealed_for P ks sid e m \<and> e_seq e \<le> hi" and r: "list_all resize_ok cs"
    by (auto simp: authentic_calls_def)
  have "writes (cs @ [CallWrite m]) = map snd (acc @ [(e, m)])" using acc(1) by simp
  moreover have "sorted_wrt (<) (map (e_seq \<circ> fst) (acc @ [(e, m)]))"
    using acc(2,3) assms(3,4) by (auto simp: sorted_wrt_append)
  moreover have "\<forall>(e', m') \<in> set (acc @ [(e, m)]). sealed_for P ks sid e' m' \<and> e_seq e' \<le> n"
    using acc(3) assms(2-4) by auto
  ultimately show ?thesis using r unfolding authentic_calls_def by (intro conjI exI [of _ "acc @ [(e, m)]"]) simp_all
qed

lemma authentic_other:
  "authentic_calls P ks sid hi cs \<Longrightarrow> writes [c] = [] \<Longrightarrow> resize_ok c \<Longrightarrow> authentic_calls P ks sid hi (cs @ [c])"
  by (auto simp: authentic_calls_def)

section \<open>The client's part\<close>

definition paired_client :: "session_keys \<Rightarrow> string \<Rightarrow> cworld \<Rightarrow> bool" where
  "paired_client ks sid v \<longleftrightarrow> client_inv v \<and> rc_session_keys (cw_client v) = Some ks \<and> rc_session_id (cw_client v) = Some sid"

definition peer_seq_grows :: "cworld \<Rightarrow> cworld \<Rightarrow> bool" where
  "peer_seq_grows v v' \<longleftrightarrow> rc_last_peer_seq (cw_client v) \<le> rc_last_peer_seq (cw_client v')"

abbreviation safe_client where
  "safe_client ks sid Q m v \<equiv> safe (paired_client ks sid) (\<lambda>_ _. True) peer_seq_grows Q (m v) v"

lemma paired_frame:
  assumes "paired_client ks sid v" "cw_out v' = cw_out v" "rc_seq (cw_client v) \<le> rc_seq (cw_client v')"
    "rc_session_keys (cw_client v') = rc_session_keys (cw_client v)" "rc_session_id (cw_client v') = rc_session_id (cw_client v)"
  shows "paired_client ks sid v'"
  using assms client_inv_frame [of v v'] by (simp add: paired_client_def)

lemma paired_send:
  assumes "paired_client ks sid v" "envelope_ok (agent_envelope ty s sq ts pl)" "ty \<in> set agent_types"
    "rc_seq (cw_client v) < sq" "cw_out v' = cw_out v @ [agent_envelope ty s sq ts pl]" "sq \<le> rc_seq (cw_client v')"
    "rc_session_keys (cw_client v') = rc_session_keys (cw_client v)" "rc_session_id (cw_client v') = rc_session_id (cw_client v)"
  shows "paired_client ks sid v'"
  using assms client_inv_send [of v ty s sq ts pl v'] by (simp add: paired_client_def)

lemma safe_send_pty_data:
  "paired_client ks sid v \<Longrightarrow> safe_client ks sid (\<lambda>_ _. True) (send_pty_data D data) v"
  unfolding send_pty_data_def send_encrypted_apply client_send_at_apply
  by (auto simp: peer_seq_grows_def split: option.splits sum.splits prod.splits intro: paired_frame elim: paired_send)

lemma safe_send_session_close:
  "paired_client ks sid v \<Longrightarrow> safe_client ks sid (\<lambda>_ _. True) (send_session_close reason) v"
  unfolding send_session_close_def
  by (auto simp: peer_seq_grows_def self_def co_simps client_send_apply next_envelope_def intro: paired_frame elim: paired_send)

lemma client_recv_apply:
  "client_recv D v = (if \<not> rc_ws (cw_client v) then Done (Inl AssertionError) v
     else Susp v (\<lambda>v'. case cw_inbox v' of [] \<Rightarrow> Done (Inl ConnectionClosed) (v'\<lparr>cw_open := False\<rparr>)
       | raw # rest \<Rightarrow> Done (check_incoming D raw) (v'\<lparr>cw_inbox := rest\<rparr>)))"
  by (auto simp: client_recv_def self_def assert_that_def ws_recv_def lift_result_def co_simps fun_eq_iff
      split: list.splits sum.splits)

lemma safe_recv: "paired_client ks sid v \<Longrightarrow> safe_client ks sid (\<lambda>_ _. True) (recv_decrypted D) v"
  unfolding recv_decrypted_def client_recv_apply
  by (auto simp: peer_seq_grows_def split: list.splits intro: paired_frame)

text \<open>Decryption does not suspend, so its outcome is that of running it.\<close>

lemma decrypt_done: "\<exists>r v'. decrypt_payload D e v = Done r v' \<and> run (decrypt_payload D e) v = (r, v')"
  by (auto simp: decrypt_payload_def the_session_def self_def lift_result_def upd_client_def co_simps Let_def
      run_def split: option.splits sum.splits agent_exn.splits if_splits)

lemma safe_decrypt:
  assumes "prims_contract (ad_prims D)" "length (k_client_to_agent ks) = 32" "paired_client ks sid v"
  shows "safe_client ks sid (\<lambda>r v'. \<forall>m. r = Inr m \<longrightarrow> sealed_for (ad_prims D) ks sid e m \<and>
      e_seq e = rc_last_peer_seq (cw_client v') \<and> rc_last_peer_seq (cw_client v) < e_seq e) (decrypt_payload D e) v"
proof -
  have v: "rc_session_keys (cw_client v) = Some ks" "rc_session_id (cw_client v) = Some sid"
    using assms(3) by (simp_all add: paired_client_def)
  obtain r v' where d: "decrypt_payload D e v = Done r v'" "run (decrypt_payload D e) v = (r, v')"
    using decrypt_done by blast
  show ?thesis
  proof (cases r)
    case (Inl x)
    with run_decrypt_InlD d(2) have "v' = v" by blast
    with d(1) Inl assms(3) show ?thesis by (simp add: peer_seq_grows_def)
  next
    case (Inr m)
    with d(2) have run: "run (decrypt_payload D e) v = (Inr m, v')" by simp
    note f = run_decrypt_InrD [OF assms(1) v(1) assms(2) v(2) run]
    have "paired_client ks sid v'" using assms(3) f(3) by (auto intro: paired_frame)
    with d(1) Inr f show ?thesis by (simp add: peer_seq_grows_def)
  qed
qed

section \<open>The running session\<close>

definition pump_inv :: "prims \<Rightarrow> session_keys \<Rightarrow> string \<Rightarrow> 'b pump_world \<Rightarrow> bool" where
  "pump_inv P ks sid w \<longleftrightarrow> paired_client ks sid (pu_client w) \<and>
     authentic_calls P ks sid (rc_last_peer_seq (cw_client (pu_client w))) (pu_calls w) \<and> CallClose \<notin> set (pu_calls w)"

abbreviation safe_pump where
  "safe_pump P ks sid Q m w \<equiv> safe (pump_inv P ks sid) (\<lambda>_ _. True) (\<lambda>_ _. True) Q (m w) w"

lemma pump_bnd:
  assumes "safe_pump P ks sid Q m w" "\<And>a w'. pump_inv P ks sid w' \<Longrightarrow> Q (Inr a) w' \<Longrightarrow> safe_pump P ks sid Q' (f a) w'"
    "\<And>x w'. pump_inv P ks sid w' \<Longrightarrow> Q (Inl x) w' \<Longrightarrow> Q' (Inl x) w'"
  shows "safe_pump P ks sid Q' (bnd m f) w"
  using assms by (intro safe_bnd [where Q = Q]) auto

lemma pump_attempt:
  "safe_pump P ks sid (\<lambda>_ _. True) m w \<Longrightarrow> safe_pump P ks sid (\<lambda>_ _. True) (attempt m) w"
  unfolding attempt_def by (rule safe_attempt)

lemma safe_anything: "safe (\<lambda>_. True) (\<lambda>_ _. True) (\<lambda>_ _. True) (\<lambda>_ _. True) out w"
  by (induction out arbitrary: w) auto

lemma pump_on_backend:
  assumes "pump_inv P ks sid w"
  shows "safe_pump P ks sid (\<lambda>_ _. True) (on_backend m) w"
  unfolding on_backend_def
  using safe_anything assms by (rule backend_part.safe_zoom) (auto simp: pump_inv_def)

lemma pump_on_client:
  assumes "safe_client ks sid Q m (pu_client w)" "pump_inv P ks sid w"
  shows "safe_pump P ks sid (\<lambda>r w'. Q r (pu_client w')) (on_client m) w"
  unfolding on_client_def
  using assms by (rule client_part.safe_zoom) (auto simp: pump_inv_def peer_seq_grows_def intro: authentic_mono)

lemma pump_client_keeps:
  assumes "\<And>v. paired_client ks sid v \<Longrightarrow> safe_client ks sid (\<lambda>_ _. True) m v" "pump_inv P ks sid w"
  shows "safe_pump P ks sid (\<lambda>_ _. True) (on_client m) w"
  using assms by (intro pump_on_client [where Q = "\<lambda>_ _. True"]) (auto simp: pump_inv_def)

lemma pump_other_call:
  assumes "pump_inv P ks sid w" "writes [c] = []" "resize_ok c" "c \<noteq> CallClose"
  shows "safe_pump P ks sid (\<lambda>_ _. True) (call c m) w"
  unfolding call_def
proof (rule pump_bnd [where Q = "\<lambda>_ _. True"])
  show "safe_pump P ks sid (\<lambda>_ _. True) (modify (\<lambda>w. w\<lparr>pu_calls := pu_calls w @ [c]\<rparr>)) w"
    using assms by (auto simp: co_simps pump_inv_def intro: authentic_other)
qed (auto intro: pump_on_backend)

lemma pump_pty_to_relay_ok:
  assumes "pump_inv P ks sid w"
  shows "safe_pump P ks sid (\<lambda>_ _. True) (pump_pty_to_relay D B) w"
  unfolding pump_pty_to_relay_def
proof (rule pump_bnd [where Q = "\<lambda>_ _. True"])
  show "safe_pump P ks sid (\<lambda>_ _. True) (attempt (bnd (on_backend (bk_read B READ_SIZE))
      (\<lambda>data. if data \<noteq> [] then on_client (send_pty_data D data) else skip))) w"
  proof (intro pump_attempt pump_bnd [where Q = "\<lambda>_ _. True"] pump_on_backend assms)
    fix data and w' :: "'a pump_world"
    assume "pump_inv P ks sid w'"
    then show "safe_pump P ks sid (\<lambda>_ _. True) (if data \<noteq> [] then on_client (send_pty_data D data) else skip) w'"
      using pump_client_keeps [OF safe_send_pty_data] by (auto simp: co_simps)
  qed simp
next
  fix r :: "agent_exn + unit" and w' :: "'a pump_world"
  assume w': "pump_inv P ks sid w'"
  have ended: "safe_pump P ks sid (\<lambda>_ _. True) (bnd (call CallWait (bk_wait B)) (\<lambda>_.
      bnd (on_client (send_session_close ''process_exited'')) (\<lambda>_. ret None))) w'"
  proof (intro pump_bnd [where Q = "\<lambda>_ _. True"] pump_other_call w')
    fix w2 :: "'a pump_world"
    assume "pump_inv P ks sid w2"
    then show "safe_pump P ks sid (\<lambda>_ _. True) (on_client (send_session_close ''process_exited'')) w2"
      by (intro pump_client_keeps safe_send_session_close)
  qed (simp_all add: co_simps)
  show "safe_pump P ks sid (\<lambda>_ _. True) (case r of
        Inr _ \<Rightarrow> ret (Some ())
      | Inl EOFError \<Rightarrow> bnd (call CallWait (bk_wait B)) (\<lambda>_.
          bnd (on_client (send_session_close ''process_exited'')) (\<lambda>_. ret None))
      | Inl x \<Rightarrow> raise x) w'"
    using ended w' by (auto simp: co_simps split: sum.splits agent_exn.splits)
qed simp

lemma pump_relay_to_pty_ok:
  assumes P: "prims_contract P" "ad_prims D = P" "length (k_client_to_agent ks) = 32" and w: "pump_inv P ks sid w"
  shows "safe_pump P ks sid (\<lambda>_ _. True) (pump_relay_to_pty D B) w"
  unfolding pump_relay_to_pty_def
proof (rule pump_bnd [where Q = "\<lambda>_ _. True"])
  show "safe_pump P ks sid (\<lambda>_ _. True) (on_client (recv_decrypted D)) w"
    by (intro pump_client_keeps safe_recv w)
next
  fix e and w1 :: "'a pump_world"
  assume w1: "pump_inv P ks sid w1"
  have resize: "safe_pump P ks sid (\<lambda>_ _. True) (case resize_request e of None \<Rightarrow> ret (Some ())
      | Some (rows, cols) \<Rightarrow> bnd (call (CallResize rows cols) (bk_resize B rows cols)) (\<lambda>_. ret (Some ()))) w1"
  proof (cases "resize_request e")
    case None
    with w1 show ?thesis by (simp add: co_simps)
  next
    case (Some rc)
    obtain rows cols where rc: "rc = (rows, cols)" by fastforce
    with Some have ok: "resize_ok (CallResize rows cols)"
      by (auto simp: resize_request_def split: json.splits if_splits)
    have "safe_pump P ks sid (\<lambda>_ _. True) (bnd (call (CallResize rows cols) (bk_resize B rows cols)) (\<lambda>_. ret (Some ()))) w1"
      using w1 ok by (intro pump_bnd [where Q = "\<lambda>_ _. True"] pump_other_call) (simp_all add: co_simps)
    with Some rc show ?thesis by simp
  qed
  have input: "safe_pump P ks sid (\<lambda>_ _. True) (bnd (on_client (decrypt_payload D e)) (\<lambda>plaintext.
       bnd (call (CallWrite plaintext) (bk_write B plaintext)) (\<lambda>_. ret (Some ())))) w1"
  proof (rule safe_bnd [where Q = "\<lambda>r w2. \<forall>m. r = Inr m \<longrightarrow> authentic_calls P ks sid (e_seq e) (pu_calls w2 @ [CallWrite m]) \<and>
       e_seq e = rc_last_peer_seq (cw_client (pu_client w2))"])
    let ?Q = "\<lambda>r v'. \<forall>m. r = Inr m \<longrightarrow> sealed_for (ad_prims D) ks sid e m \<and>
      e_seq e = rc_last_peer_seq (cw_client v') \<and> rc_last_peer_seq (cw_client (pu_client w1)) < e_seq e"
    have part: "safe (paired_client ks sid) (\<lambda>_ _. True) peer_seq_grows ?Q (decrypt_payload D e (pu_client w1)) (pu_client w1)"
      using safe_decrypt [of D ks sid "pu_client w1" e] P w1 by (simp add: pump_inv_def)
    obtain r v' where d: "decrypt_payload D e (pu_client w1) = Done r v'" using decrypt_done by blast
    with part w1 P(2)
    show "safe_pump P ks sid (\<lambda>r w2. \<forall>m. r = Inr m \<longrightarrow> authentic_calls P ks sid (e_seq e) (pu_calls w2 @ [CallWrite m]) \<and>
       e_seq e = rc_last_peer_seq (cw_client (pu_client w2))) (on_client (decrypt_payload D e)) w1"
      by (auto simp: on_client_def zoom_def pump_inv_def peer_seq_grows_def intro: authentic_mono authentic_write)
  next
    fix m and w2 :: "'a pump_world"
    assume w2: "pump_inv P ks sid w2"
      "\<forall>m'. (Inr m :: agent_exn + bytes) = Inr m' \<longrightarrow> authentic_calls P ks sid (e_seq e) (pu_calls w2 @ [CallWrite m']) \<and>
         e_seq e = rc_last_peer_seq (cw_client (pu_client w2))"
    have "pump_inv P ks sid (w2\<lparr>pu_calls := pu_calls w2 @ [CallWrite m]\<rparr>)"
      using w2 by (auto simp: pump_inv_def)
    then have "safe_pump P ks sid (\<lambda>_ _. True) (call (CallWrite m) (bk_write B m)) w2"
      unfolding call_def
      by (intro pump_bnd [where Q = "\<lambda>_ _. True"] pump_on_backend) (simp_all add: co_simps)
    then show "safe_pump P ks sid (\<lambda>_ _. True) (bnd (call (CallWrite m) (bk_write B m)) (\<lambda>_. ret (Some ()))) w2"
      by (rule pump_bnd) (simp_all add: co_simps)
  qed simp_all
  show "safe_pump P ks sid (\<lambda>_ _. True) (if e_type e = ''pty_input'' then
       bnd (on_client (decrypt_payload D e)) (\<lambda>plaintext.
       bnd (call (CallWrite plaintext) (bk_write B plaintext)) (\<lambda>_. ret (Some ())))
     else if e_type e = ''session_resize'' then
       (case resize_request e of
          None \<Rightarrow> ret (Some ())
        | Some (rows, cols) \<Rightarrow> bnd (call (CallResize rows cols) (bk_resize B rows cols)) (\<lambda>_. ret (Some ())))
     else if e_type e = ''session_close'' then ret None
     else ret (Some ())) w1"
    using input resize w1 by (simp add: co_simps)
qed simp

lemma task_body_ok:
  assumes "prims_contract P" "ad_prims D = P" "length (k_client_to_agent ks) = 32" "pump_inv P ks sid w"
  shows "safe_pump P ks sid (\<lambda>_ _. True) (task_body D B i) w"
  unfolding task_body_def
proof (rule pump_bnd [where Q = "\<lambda>_ _. True"])
  show "safe_pump P ks sid (\<lambda>_ _. True)
      (attempt (case i of ToRelay \<Rightarrow> pump_pty_to_relay D B | ToPty \<Rightarrow> pump_relay_to_pty D B)) w"
    using pump_pty_to_relay_ok [OF assms(4)] pump_relay_to_pty_ok [OF assms]
    by (cases i) (auto intro: pump_attempt)
qed (auto simp: co_simps pump_inv_def split: sum.splits option.splits)

text \<open>The two directions and the environment, together.\<close>

interpretation pump_rg: rely_guarantee "pump_inv P ks sid" "\<lambda>_ _ _. True" "\<lambda>_ _ _. True"
  "\<lambda>w w'. pump_inv P ks sid w \<longrightarrow> pump_inv P ks sid w'" "\<lambda>_ _. True" "\<lambda>_ _ _. True" for P ks sid
  by unfold_locales auto

text \<open>While the session runs; and after its end, when only the final close is added.\<close>

definition pump_ok :: "prims \<Rightarrow> session_keys \<Rightarrow> string \<Rightarrow> bool \<Rightarrow> 'b pump \<Rightarrow> bool" where
  "pump_ok P ks sid preserve s \<longleftrightarrow>
     (case pm_return s of
        None \<Rightarrow> pump_rg.all_ok P ks sid (pm_world s) (pm_task s)
      | Some _ \<Rightarrow> (\<forall>i. pm_task s i = Gone) \<and>
          (\<exists>cs. pu_calls (pm_world s) = cs @ (if preserve then [] else [CallClose]) \<and>
             pump_inv P ks sid ((pm_world s)\<lparr>pu_calls := cs\<rparr>)))"

lemma pump_inv_client:
  assumes "pump_inv P ks sid w" "\<And>v. cw_client (f v) = cw_client v" "\<And>v. cw_out (f v) = cw_out v"
  shows "pump_inv P ks sid (w\<lparr>pu_client := f (pu_client w)\<rparr>)"
  using assms by (auto simp: pump_inv_def intro: paired_frame)

lemma pump_ok_client:
  assumes "pump_ok P ks sid preserve s" "\<And>v. cw_client (f v) = cw_client v" "\<And>v. cw_out (f v) = cw_out v"
  shows "pump_ok P ks sid preserve (on_cworld f s)"
proof (cases "pm_return s")
  case None
  have "pump_inv P ks sid w \<longrightarrow> pump_inv P ks sid (w\<lparr>pu_client := f (pu_client w)\<rparr>)" for w :: "'a pump_world"
    using pump_inv_client [OF _ assms(2,3)] by blast
  with None assms(1) show ?thesis
    by (auto simp: pump_ok_def on_cworld_def intro: pump_rg.environment_ok)
next
  case (Some r)
  with assms(1) obtain cs where "pu_calls (pm_world s) = cs @ (if preserve then [] else [CallClose])"
    "pump_inv P ks sid ((pm_world s)\<lparr>pu_calls := cs\<rparr>)" by (auto simp: pump_ok_def)
  with pump_inv_client [OF this(2) assms(2,3)] assms(1) Some show ?thesis
    by (auto simp: pump_ok_def on_cworld_def pump_inv_def)
qed

lemma run_close:
  "run (call CallClose (bk_close B)) w = (r, w') \<Longrightarrow> pu_calls w' = pu_calls w @ [CallClose] \<and> pu_client w' = pu_client w"
  by (auto simp: call_def on_backend_def backend_part.run_zoom split: prod.splits)

lemma pump_ok_end:
  assumes "pump_inv P ks sid (pm_world s)"
  shows "pump_ok P ks sid preserve (end_session B preserve outcome s)"
proof (cases preserve)
  case True
  have "(pm_world s)\<lparr>pu_calls := pu_calls (pm_world s)\<rparr> = pm_world s" by simp
  with True assms show ?thesis by (auto simp: pump_ok_def end_session_def)
next
  case False
  obtain r w where run: "run (call CallClose (bk_close B)) (pm_world s) = (r, w)" by fastforce
  have "pump_inv P ks sid (w\<lparr>pu_calls := pu_calls (pm_world s)\<rparr>)"
    using assms run_close [OF run] by (simp add: pump_inv_def)
  with False run run_close [OF run] show ?thesis
    by (auto simp: pump_ok_def end_session_def split: sum.splits)
qed

lemma pump_ok_step:
  assumes P: "prims_contract P" "ad_prims D = P" "length (k_client_to_agent ks) = 32"
    and ok: "pump_ok P ks sid preserve s" and ex: "exec_pump D B preserve ev s = Some s'"
  shows "pump_ok P ks sid preserve s'"
proof (cases ev)
  case (Step i)
  with ex ok have running: "pm_return s = None" by (auto simp: pump_ok_def split: task.splits option.splits)
  with ok have all: "pump_rg.all_ok P ks sid (pm_world s) (pm_task s)" by (simp add: pump_ok_def)
  show ?thesis
  proof (cases "pm_task s i")
    case (Ready a)
    have "safe_pump P ks sid (\<lambda>_ _. True) (task_body D B i) (pm_world s)"
      using all by (intro task_body_ok [OF P]) (simp add: pump_rg.all_ok_def)
    from pump_rg.segment_ok(1) [OF all this] Ready Step ex running show ?thesis
      by (auto simp: pump_ok_def pump_segment_def split: prod.splits)
  next
    case (Busy k)
    from pump_rg.resume_ok(1) [OF all Busy] Busy Step ex running show ?thesis
      by (auto simp: pump_ok_def pump_segment_def split: prod.splits)
  qed (use Step ex in auto)
next
  case (Child f)
  have E: "pump_inv P ks sid w \<longrightarrow> pump_inv P ks sid (w\<lparr>pu_backend := f (pu_backend w)\<rparr>)" for w
    by (simp add: pump_inv_def)
  have "pm_return s = None \<Longrightarrow> ?thesis"
    using Child ex ok pump_rg.environment_ok [OF _ E] by (auto simp: pump_ok_def)
  moreover have "pm_return s \<noteq> None \<Longrightarrow> ?thesis"
    using Child ex ok by (auto simp: pump_ok_def pump_inv_def)
  ultimately show ?thesis by blast
next
  case (Finish i)
  then have "pump_inv P ks sid (pm_world s)" "s' = end_session B preserve (first_raised i (pm_world s)) s"
    using ex ok by (auto simp: pump_ok_def pump_rg.all_ok_def split: if_splits)
  then show ?thesis using pump_ok_end by blast
qed (use ex ok in \<open>auto intro!: pump_ok_client\<close>)

end
