(* ===== verification/PumpTheorems.thy ===== *)
theory PumpTheorems
  imports PumpSafety Scenario
begin

text \<open>
  Properties of the running session of the agent.
\<close>

lemma start_ok: "paired_client ks sid v \<Longrightarrow> pump_ok P ks sid preserve (start_pump v b)"
  by (auto simp: pump_ok_def start_pump_def pump_rg.all_ok_def pump_inv_def authentic_calls_def split: side.splits)

lemma pump_reachable_ok:
  assumes "prims_contract (ad_prims D)" "length (k_client_to_agent ks) = 32" "paired_client ks sid v"
    and "pump_reachable D B preserve (start_pump v b) s"
  shows "pump_ok (ad_prims D) ks sid preserve s"
  using assms(4)
proof (induction rule: pump_reachable.induct)
  case start
  show ?case by (rule start_ok [OF assms(3)])
next
  case (step s ev s')
  then show ?case using pump_ok_step [OF assms(1) refl assms(2)] by blast
qed

lemma pump_ok_calls:
  assumes "pump_ok P ks sid preserve s"
  shows "\<exists>hi. authentic_calls P ks sid hi (pu_calls (pm_world s))" "client_inv (pu_client (pm_world s))"
    "pm_return s = None \<Longrightarrow> CallClose \<notin> set (pu_calls (pm_world s))"
proof -
  have "authentic_calls P ks sid hi (cs @ [CallClose])" if "authentic_calls P ks sid hi cs" for hi cs
    using authentic_other [OF that, of CallClose] by simp
  then have "\<exists>hi'. authentic_calls P ks sid hi' (cs @ [CallClose])" if "authentic_calls P ks sid hi cs" for hi cs
    using that by blast
  with assms show "\<exists>hi. authentic_calls P ks sid hi (pu_calls (pm_world s))"
    by (auto simp: pump_ok_def pump_rg.all_ok_def pump_inv_def split: option.splits if_splits)
  show "client_inv (pu_client (pm_world s))" "pm_return s = None \<Longrightarrow> CallClose \<notin> set (pu_calls (pm_world s))"
    using assms by (auto simp: pump_ok_def pump_rg.all_ok_def pump_inv_def paired_client_def split: option.splits)
qed




text \<open>A peer whose one message is \<open>demo_input\<close>, and a scripted shell that says hello.\<close>

definition demo_shell :: "script option" where
  "demo_shell = Some \<lparr>sc_output = [[104, 105]], sc_input = [], sc_size = (24, 80), sc_runs = True\<rparr>"





section \<open>What the agent sends\<close>

lemma safe_finish:
  assumes "safe I R G Q m w0" "\<And>w. R w w"
  shows "I (snd (finish m)) \<and> Q (fst (finish m)) (snd (finish m))"
  using assms by (induction m arbitrary: w0) auto

lemma keeps_run: "keeps I m \<Longrightarrow> I w \<Longrightarrow> run m w = (r, w') \<Longrightarrow> I w'"
  using safe_finish [of I "\<lambda>_ _. True" _ _ "m w" w] by (auto simp: run_def dest: keepsD)

lemma derived_keys_length:
  "prims_contract P \<Longrightarrow> derive_session_keys P own peer s t = Inr ks \<Longrightarrow> length (k_client_to_agent ks) = 32"
  by (rule prims_contract.keys_length(2))

lemma run_pair_facts:
  assumes "prims_contract (ad_prims D)" "run (pair D) w = (Inr ids, v)"
  shows "\<exists>ks sid. rc_session_keys (cw_client v) = Some ks \<and> rc_session_id (cw_client v) = Some sid \<and>
     length (k_client_to_agent ks) = 32"
proof -
  from assms(2) obtain w1 w2 where c: "run (await_pair_challenge_and_complete D) w1 = (Inr (), w2)"
    "v = w2\<lparr>cw_client := (cw_client w2)\<lparr>rc_state := STREAMING\<rparr>\<rparr>"
    by (auto simp: pair_def split: prod.splits sum.splits if_splits)
  from run_challenge_InrD [OF c(1)] obtain ks t pk pf where a: "authenticates D (cw_client w1) pk pf ks t"
    "cw_client w2 = (cw_client w1)\<lparr>rc_transcript := Some t, rc_session_keys := Some ks,
        rc_seq := rc_seq (cw_client w1) + 1, rc_state := PAIRED\<rparr>" by blast
  from a(1) obtain sid own peer s where "rc_session_id (cw_client w1) = Some sid"
    "derive_session_keys (ad_prims D) own peer s t = Inr ks" by (auto simp: authenticates_def)
  with a(2) c(2) derived_keys_length [OF assms(1)] show ?thesis by auto
qed

text \<open>
  C11. From its first message to the last of the session, under every interleaving, the
  agent sends only well-formed protocol version 2 envelopes of types that the relay's
  role table admits from an agent, with strictly increasing sequence numbers: the
  relay never has a reason of form or order to close its connection.
\<close>

theorem agent_output_well_formed:
  assumes "prims_contract (ad_prims D)" "run (pair D) w = (Inr ids, v)" "cw_out w = []"
    and "pump_reachable D B preserve (start_pump v b) s"
  shows "sorted_wrt (<) (map e_seq (cw_out (pu_client (pm_world s)))) \<and>
     list_all (\<lambda>e. envelope_ok e \<and> e_v e = 2 \<and> e_type e \<in> set (role_types Agent)) (cw_out (pu_client (pm_world s)))"
proof -
  have "client_inv w" using assms(3) by (simp add: client_inv_def)
  then have "client_inv v" using keeps_run [OF keeps_methods(11) _ assms(2)] by blast
  moreover obtain ks sid where ks: "rc_session_keys (cw_client v) = Some ks" "rc_session_id (cw_client v) = Some sid"
    "length (k_client_to_agent ks) = 32"
    using run_pair_facts [OF assms(1,2)] by blast
  ultimately have "paired_client ks sid v" by (simp add: paired_client_def)
  from pump_ok_calls(2) [OF pump_reachable_ok [OF assms(1) ks(3) this assms(4)]] show ?thesis
    unfolding client_inv_def sent_ok_def list_all_iff by blast
qed

theorem agent_output_well_formed_witness:
  "\<exists>D ids v. run (pair D) fresh_world = (Inr ids, v) \<and> length (cw_out v) = 2 \<and>
     sorted_wrt (<) (map e_seq (cw_out v)) \<and> list_all (\<lambda>e. e_type e \<in> set (role_types Agent)) (cw_out v)"
proof -
  obtain D v ids where d: "ad_prims D = toy_prims" "run (pair D) fresh_world = (Inr ids, v)" "length (cw_out v) = 2"
    by (rule demo_pairing)
  have P: "prims_contract (ad_prims D)" using toy.prims_contract_axioms d(1) by simp
  have "pump_reachable D (linux_backend script_lib) False (start_pump v demo_shell) (start_pump v demo_shell)"
    by (rule pump_reachable.start)
  from agent_output_well_formed [OF P d(2) fresh_world_sel(5) this]
  have "sorted_wrt (<) (map e_seq (cw_out v)) \<and> list_all (\<lambda>e. e_type e \<in> set (role_types Agent)) (cw_out v)"
    by (simp add: start_pump_def list_all_iff)
  with d(2,3) show ?thesis by blast
qed

section \<open>The end of a session\<close>



end
