(* ===== verification/AgentConfig.thy ===== *)
theory AgentConfig
  imports RelayClient
begin

text \<open>
  \<open>agent/common/config.py\<close>: the configuration file of the agent. A value read from the
  file may be of any type, so the fields are JSON values, \<open>JNull\<close> for \<open>None\<close>. A path
  is the list of its parts. The TOML reader \<open>tomllib\<close> is a parameter; \<open>toml_subset\<close>
  reads the documents that consist of table headers and basic strings, and
  \<open>toml_contract\<close> says that the reader agrees with it on them.
\<close>

section \<open>Where the file is\<close>

definition env_path :: "(string \<Rightarrow> string option) \<Rightarrow> string \<Rightarrow> string list option" where
  "env_path env k = (case env k of None \<Rightarrow> None | Some v \<Rightarrow> if v = [] then None else Some [v])"

definition config_dir :: "string \<Rightarrow> (string \<Rightarrow> string option) \<Rightarrow> string list \<Rightarrow> string list" where
  "config_dir platform env home =
     (if platform = ''darwin'' then home @ [''Library'', ''Application Support'', ''termhop'']
      else if platform = ''win32'' then
        (case env_path env ''APPDATA'' of Some base \<Rightarrow> base | None \<Rightarrow> home @ [''AppData'', ''Roaming'']) @ [''termhop'']
      else (case env_path env ''XDG_CONFIG_HOME'' of Some base \<Rightarrow> base | None \<Rightarrow> home @ [''.config'']) @ [''termhop''])"

definition config_path :: "string \<Rightarrow> (string \<Rightarrow> string option) \<Rightarrow> string list \<Rightarrow> string list" where
  "config_path platform env home = config_dir platform env home @ [''config.toml'']"

section \<open>Reading and writing\<close>

record agent_config =
  ac_relay_url :: json
  ac_device_id :: json
  ac_device_secret :: json

definition no_config :: agent_config where
  "no_config = \<lparr>ac_relay_url = JNull, ac_device_id = JNull, ac_device_secret = JNull\<rparr>"

text \<open>\<open>data.get(table, {}).get(key)\<close>: a value that is not a table has no \<open>get\<close>.\<close>

definition get_in :: "(string \<times> json) list \<Rightarrow> string \<Rightarrow> string \<Rightarrow> agent_exn + json" where
  "get_in data table key =
     (case dict_get data table (JObj []) of
        JObj kvs \<Rightarrow> Inr (dict_get kvs key JNull)
      | _ \<Rightarrow> Inl PyAttributeError)"

definition load_config :: "(string \<Rightarrow> (string \<times> json) list option) \<Rightarrow> string option \<Rightarrow> agent_exn + agent_config" where
  "load_config toml content =
     (case content of
        None \<Rightarrow> Inr no_config
      | Some text \<Rightarrow>
          (case toml text of
             None \<Rightarrow> Inl PyValueError
           | Some data \<Rightarrow>
               try_then (get_in data ''relay'' ''url'') (\<lambda>url.
               try_then (get_in data ''device'' ''id'') (\<lambda>device_id.
               try_then (get_in data ''device'' ''secret'') (\<lambda>secret.
               Inr \<lparr>ac_relay_url = url, ac_device_id = device_id, ac_device_secret = secret\<rparr>)))))"

definition escape_char :: "char \<Rightarrow> string" where
  "escape_char c = (if c = CHR 0x5C then [CHR 0x5C, CHR 0x5C] else if c = CHR 0x22 then [CHR 0x5C, CHR 0x22] else [c])"

definition escaped :: "string \<Rightarrow> string" where
  "escaped s = concat (map escape_char s)"

definition toml_pair :: "string \<Rightarrow> string \<Rightarrow> string" where
  "toml_pair key body = key @ '' = '' @ CHR 0x22 # body @ [CHR 0x22]"

definition config_lines :: "agent_config \<Rightarrow> agent_exn + string list" where
  "config_lines cfg =
     try_then (if truthy (ac_relay_url cfg)
               then (if is_str (ac_relay_url cfg) then Inr [toml_pair ''url'' (escaped (as_str (ac_relay_url cfg)))] else Inl PyAttributeError)
               else Inr []) (\<lambda>url_lines.
     Inr ([''[relay]''] @ url_lines @
       (if truthy (ac_device_id cfg) \<and> truthy (ac_device_secret cfg)
        then [[], ''[device]'', toml_pair ''id'' (py_str (ac_device_id cfg)), toml_pair ''secret'' (py_str (ac_device_secret cfg))]
        else [])))"

text \<open>The lines joined and ended by newlines.\<close>

definition unlines :: "string list \<Rightarrow> string" where
  "unlines ls = concat (map (\<lambda>l. l @ [newline]) ls)"

text \<open>The temporary file replaces the old one in one step, or nothing changes.\<close>

definition save_config :: "agent_config \<Rightarrow> bool \<Rightarrow> string option \<Rightarrow> (agent_exn + unit) \<times> string option" where
  "save_config cfg disk_ok content =
     (case config_lines cfg of
        Inl e \<Rightarrow> (Inl e, content)
      | Inr ls \<Rightarrow> if disk_ok then (Inr (), Some (unlines ls)) else (Inl OsError, content))"

section \<open>TOML documents of tables and strings\<close>

text \<open>The body of a basic string up to its closing quote; only the escapes of quote and backslash.\<close>

fun basic_string :: "string \<Rightarrow> (string \<times> string) option" where
  "basic_string [] = None"
| "basic_string (c # cs) =
     (if c = CHR 0x22 then Some ([], cs)
      else if c = CHR 0x5C then
        (case cs of
           d # ds \<Rightarrow> if d = CHR 0x5C \<or> d = CHR 0x22 then map_option (\<lambda>(s, r). (d # s, r)) (basic_string ds) else None
         | [] \<Rightarrow> None)
      else if control_char c then None
      else map_option (\<lambda>(s, r). (c # s, r)) (basic_string cs))"

datatype toml_line = BlankLine | HeaderLine string | PairLine string string

definition bare_key :: "string \<Rightarrow> bool" where
  "bare_key s \<longleftrightarrow> s \<noteq> [] \<and> list_all url_safe_char s"

definition read_line :: "string \<Rightarrow> toml_line option" where
  "read_line l =
     (if l = [] then Some BlankLine
      else if hd l = CHR ''['' then
        (if last l = CHR '']'' \<and> bare_key (butlast (tl l)) then Some (HeaderLine (butlast (tl l))) else None)
      else
        (let key = takeWhile url_safe_char l; rest = dropWhile url_safe_char l
         in if key \<noteq> [] \<and> take 4 rest = [CHR '' '', CHR ''='', CHR '' '', CHR 0x22] then
              (case basic_string (drop 4 rest) of Some (v, []) \<Rightarrow> Some (PairLine key v) | _ \<Rightarrow> None)
            else None))"

text \<open>Tables in order; a table or key given twice is refused.\<close>

fun read_lines :: "string list \<Rightarrow> (string \<times> json) list \<Rightarrow> (string \<times> (string \<times> json) list) option \<Rightarrow> (string \<times> json) list option" where
  "read_lines [] done None = Some done"
| "read_lines [] done (Some (t, kvs)) = Some (done @ [(t, JObj kvs)])"
| "read_lines (l # ls) done cur =
     (case read_line l of
        None \<Rightarrow> None
      | Some BlankLine \<Rightarrow> read_lines ls done cur
      | Some (HeaderLine t) \<Rightarrow>
          (let done' = (case cur of None \<Rightarrow> done | Some (t0, kvs) \<Rightarrow> done @ [(t0, JObj kvs)])
           in if map_of done' t \<noteq> None then None else read_lines ls done' (Some (t, [])))
      | Some (PairLine k v) \<Rightarrow>
          (case cur of
             None \<Rightarrow> if map_of done k \<noteq> None then None else read_lines ls (done @ [(k, JStr v)]) None
           | Some (t, kvs) \<Rightarrow> if map_of kvs k \<noteq> None then None else read_lines ls done (Some (t, kvs @ [(k, JStr v)]))))"

definition toml_subset :: "string \<Rightarrow> (string \<times> json) list option" where
  "toml_subset text = read_lines (split_on newline text) [] None"

definition toml_contract :: "(string \<Rightarrow> (string \<times> json) list option) \<Rightarrow> bool" where
  "toml_contract toml \<longleftrightarrow> (\<forall>text data. toml_subset text = Some data \<longrightarrow> toml text = Some data)"

section \<open>Reading back what was written\<close>

lemma basic_string_escaped:
  "list_all (\<lambda>c. \<not> control_char c) s \<Longrightarrow> basic_string (escaped s @ CHR 0x22 # r) = Some (s, r)"
  by (induction s) (auto simp: escaped_def escape_char_def)

lemma split_on_line: "newline \<notin> set l \<Longrightarrow> split_on newline (l @ newline # t) = l # split_on newline t"
  by (induction l) (auto split: list.splits)

lemma split_unlines: "\<forall>l \<in> set ls. newline \<notin> set l \<Longrightarrow> split_on newline (unlines ls) = ls @ [[]]"
  by (induction ls) (auto simp: unlines_def split_on_line)

lemma read_pair:
  assumes "list_all url_safe_char key" "key \<noteq> []" "list_all (\<lambda>c. \<not> control_char c) v"
  shows "read_line (toml_pair key (escaped v)) = Some (PairLine key v)"
proof -
  let ?t = "'' = '' @ CHR 0x22 # escaped v @ [CHR 0x22]"
  have key: "hd key \<noteq> CHR ''[''" using assms(1,2) by (cases key) (auto simp: url_safe_char_def is_upper_def is_lower_def is_digit_def ord_def)
  have "\<not> url_safe_char (CHR '' '')" by (simp add: url_safe_char_def is_upper_def is_lower_def is_digit_def ord_def)
  then have "takeWhile url_safe_char (key @ ?t) = key" "dropWhile url_safe_char (key @ ?t) = ?t"
    using assms(1) by (auto simp: list_all_iff takeWhile_append2 dropWhile_append2)
  with assms key basic_string_escaped [of v "[]"] show ?thesis
    by (simp add: read_line_def toml_pair_def)
qed

lemma escaped_bare: "list_all url_safe_char s \<Longrightarrow> escaped s = s"
  by (induction s) (auto simp: escaped_def escape_char_def url_safe_char_def is_upper_def is_lower_def is_digit_def ord_def)

lemma url_safe_not_control: "list_all url_safe_char s \<Longrightarrow> list_all (\<lambda>c. \<not> control_char c) s"
  by (auto simp: list_all_iff url_safe_char_def control_char_def is_upper_def is_lower_def is_digit_def ord_def)

lemma read_fixed_lines:
  "read_line [] = Some BlankLine" "read_line ''[relay]'' = Some (HeaderLine ''relay'')"
  "read_line ''[device]'' = Some (HeaderLine ''device'')" "list_all url_safe_char ''url''"
  "list_all url_safe_char ''id''" "list_all url_safe_char ''secret''"
  by (simp_all add: read_line_def bare_key_def url_safe_char_def is_upper_def is_lower_def is_digit_def ord_def)

definition plain_text :: "json \<Rightarrow> bool" where
  "plain_text v \<longleftrightarrow> v = JNull \<or> is_str v \<and> list_all (\<lambda>c. \<not> control_char c) (as_str v)"

definition bare_text :: "json \<Rightarrow> bool" where
  "bare_text v \<longleftrightarrow> v = JNull \<or> is_str v \<and> list_all url_safe_char (as_str v)"

text \<open>What of a configuration is kept: a URL, and a device id with its secret.\<close>

definition persisted :: "agent_config \<Rightarrow> agent_config" where
  "persisted cfg = \<lparr>ac_relay_url = (if truthy (ac_relay_url cfg) then ac_relay_url cfg else JNull),
     ac_device_id = (if truthy (ac_device_id cfg) \<and> truthy (ac_device_secret cfg) then ac_device_id cfg else JNull),
     ac_device_secret = (if truthy (ac_device_id cfg) \<and> truthy (ac_device_secret cfg) then ac_device_secret cfg else JNull)\<rparr>"

lemma newline_not_in:
  "list_all (\<lambda>c. \<not> control_char c) v \<Longrightarrow> newline \<in> set (toml_pair k (escaped v)) \<longleftrightarrow> newline \<in> set k"
proof -
  assume v: "list_all (\<lambda>c. \<not> control_char c) v"
  have "newline \<notin> set (escaped v)"
    using v by (auto simp: escaped_def escape_char_def list_all_iff newline_def control_char_def ord_def split: if_splits)
  then show ?thesis by (auto simp: toml_pair_def newline_def)
qed

lemma newline_fixed: "newline = c \<longleftrightarrow> c = CHR 0x0A"
  by (auto simp: newline_def)

lemma config_reads_back:
  assumes "plain_text (ac_relay_url cfg)" "bare_text (ac_device_id cfg)" "bare_text (ac_device_secret cfg)"
  shows "\<exists>ls data. config_lines cfg = Inr ls \<and> toml_subset (unlines ls) = Some data \<and>
     get_in data ''relay'' ''url'' = Inr (ac_relay_url (persisted cfg)) \<and>
     get_in data ''device'' ''id'' = Inr (ac_device_id (persisted cfg)) \<and>
     get_in data ''device'' ''secret'' = Inr (ac_device_secret (persisted cfg))"
proof -
  let ?u = "ac_relay_url cfg" and ?d = "ac_device_id cfg" and ?s = "ac_device_secret cfg"
  let ?urls = "if truthy ?u then [toml_pair ''url'' (escaped (as_str ?u))] else []"
  let ?devs = "if truthy ?d \<and> truthy ?s then [[], ''[device]'', toml_pair ''id'' (escaped (as_str ?d)),
      toml_pair ''secret'' (escaped (as_str ?s))] else []"
  have str: "truthy v \<Longrightarrow> plain_text v \<or> bare_text v \<Longrightarrow> is_str v" for v
    by (auto simp: plain_text_def bare_text_def)
  have u: "truthy ?u \<Longrightarrow> list_all (\<lambda>c. \<not> control_char c) (as_str ?u)" using assms(1) by (auto simp: plain_text_def)
  have d: "truthy ?d \<Longrightarrow> list_all url_safe_char (as_str ?d)" "truthy ?s \<Longrightarrow> list_all url_safe_char (as_str ?s)"
    using assms(2,3) by (auto simp: bare_text_def)
  have lines: "config_lines cfg = Inr ([''[relay]''] @ ?urls @ ?devs)"
    using assms str d by (auto simp: config_lines_def escaped_bare py_str_def)
  have nl: "\<forall>l \<in> set ([''[relay]''] @ ?urls @ ?devs). newline \<notin> set l"
    using u d by (auto simp: newline_not_in url_safe_not_control newline_fixed)
  have is_text: "JStr (as_str v) = v" if "truthy v" "plain_text v \<or> bare_text v" for v
    using str [OF that] by (cases v) simp_all
  note ok = url_safe_not_control [OF d(1)] url_safe_not_control [OF d(2)]
  have pairs: "truthy ?u \<Longrightarrow> read_line (toml_pair ''url'' (escaped (as_str ?u))) = Some (PairLine ''url'' (as_str ?u)) \<and> JStr (as_str ?u) = ?u"
    "truthy ?d \<Longrightarrow> read_line (toml_pair ''id'' (escaped (as_str ?d))) = Some (PairLine ''id'' (as_str ?d)) \<and> JStr (as_str ?d) = ?d"
    "truthy ?s \<Longrightarrow> read_line (toml_pair ''secret'' (escaped (as_str ?s))) = Some (PairLine ''secret'' (as_str ?s)) \<and> JStr (as_str ?s) = ?s"
    using read_pair [OF read_fixed_lines(4)] read_pair [OF read_fixed_lines(5)] read_pair [OF read_fixed_lines(6)]
      u ok is_text assms by blast+
  have "toml_subset (unlines ([''[relay]''] @ ?urls @ ?devs)) = read_lines (([''[relay]''] @ ?urls @ ?devs) @ [[]]) [] None"
    unfolding toml_subset_def split_unlines [OF nl] ..
  also have "\<dots> = Some ((''relay'', JObj (if truthy ?u then [(''url'', ?u)] else [])) #
      (if truthy ?d \<and> truthy ?s then [(''device'', JObj [(''id'', ?d), (''secret'', ?s)])] else []))"
    using pairs by (cases "truthy ?u"; cases "truthy ?d \<and> truthy ?s") (simp_all add: read_fixed_lines)
  finally show ?thesis using lines by (auto simp: get_in_def dict_get_def persisted_def)
qed

text \<open>
  C0. What the agent saves it reads back: a configuration whose URL has no control
  characters and whose device id and secret are URL-safe (as generated) is written to a
  file from which \<open>load_config\<close> returns it, with a device id or secret that stands
  alone dropped; when the disk fails the old file is untouched.
\<close>

theorem saved_config_loads:
  assumes "toml_contract toml" "plain_text (ac_relay_url cfg)" "bare_text (ac_device_id cfg)" "bare_text (ac_device_secret cfg)"
  shows "load_config toml (snd (save_config cfg True old)) = Inr (persisted cfg) \<and>
     fst (save_config cfg True old) = Inr () \<and> save_config cfg False old = (Inl OsError, old)"
proof -
  obtain ls data where r: "config_lines cfg = Inr ls" "toml_subset (unlines ls) = Some data"
    "get_in data ''relay'' ''url'' = Inr (ac_relay_url (persisted cfg))"
    "get_in data ''device'' ''id'' = Inr (ac_device_id (persisted cfg))"
    "get_in data ''device'' ''secret'' = Inr (ac_device_secret (persisted cfg))"
    using config_reads_back [OF assms(2-4)] by blast
  moreover have "toml (unlines ls) = Some data" using assms(1) r(2) by (simp add: toml_contract_def)
  ultimately show ?thesis by (simp add: save_config_def load_config_def)
qed

theorem saved_config_loads_witness:
  "load_config toml_subset (snd (save_config \<lparr>ac_relay_url = JStr ''wss://a'', ac_device_id = JStr ''dev-1'', ac_device_secret = JNull\<rparr> True None))
     = Inr \<lparr>ac_relay_url = JStr ''wss://a'', ac_device_id = JNull, ac_device_secret = JNull\<rparr>"
proof -
  let ?cfg = "\<lparr>ac_relay_url = JStr ''wss://a'', ac_device_id = JStr ''dev-1'', ac_device_secret = JNull\<rparr>"
  have "load_config toml_subset (snd (save_config ?cfg True None)) = Inr (persisted ?cfg)"
    using saved_config_loads [of toml_subset ?cfg None]
    by (simp add: toml_contract_def plain_text_def bare_text_def control_char_def url_safe_char_def is_upper_def
        is_lower_def is_digit_def ord_def)
  then show ?thesis by (simp add: persisted_def)
qed

end
