(* ===== verification/Cli.thy ===== *)
theory Cli
  imports AgentConfig SessionManager SessionPump
begin

text \<open>
  \<open>agent/common/cli.py\<close> and the entry points of the three platforms: the first pairing,
  the resumption of a saved device, and the loop that keeps one shell alive while
  browser connections come and go. The world \<open>cli\<close> holds the client in use, the
  backend, the configuration in memory and on disk, and the session manager.

  Everything the agent waits for is in a list of \<open>moment\<close>s, used up one by one: the
  events of one \<open>run_pty_session\<close> (which may depend on the state it starts in) or the
  answers to one attempt to reconnect, and what becomes of the child meanwhile. The
  result \<open>Inr None\<close> says that the agent waits still when the list is used up. Printing,
  argument parsing and signals are not modelled; a saved value that is not a string (an
  edited file) is read as empty.
\<close>

section \<open>The environment of the shell\<close>

record platform =
  pf_platform :: string
  pf_environ :: "(string \<times> string) list"
  pf_home :: "string list"
  pf_home_text :: string
  pf_hostname :: string
  pf_shell_env_var :: string
  pf_default_shell :: string

definition environ_get :: "platform \<Rightarrow> string \<Rightarrow> string \<Rightarrow> string" where
  "environ_get P key fallback = (case map_of (pf_environ P) key of None \<Rightarrow> fallback | Some v \<Rightarrow> v)"

definition setdefault :: "string \<Rightarrow> string \<Rightarrow> (string \<times> string) list \<Rightarrow> (string \<times> string) list" where
  "setdefault key v env = (if map_of env key = None then env @ [(key, v)] else env)"

definition shell_environment :: "platform \<Rightarrow> (string \<times> string) list" where
  "shell_environment P =
     (let env = setdefault ''COLORTERM'' ''truecolor'' (setdefault ''TERM'' ''xterm-256color'' (pf_environ P))
      in if pf_platform P = ''darwin'' then setdefault ''LC_ALL'' ''en_US.UTF-8'' (setdefault ''LANG'' ''en_US.UTF-8'' env)
         else if pf_platform P \<noteq> ''win32'' then setdefault ''LC_ALL'' ''C.UTF-8'' (setdefault ''LANG'' ''C.UTF-8'' env)
         else env)"

text \<open>A variable that is set but empty names the current directory.\<close>

definition environ_path :: "platform \<Rightarrow> string \<Rightarrow> string list \<Rightarrow> string list" where
  "environ_path P key fallback =
     (case map_of (pf_environ P) key of None \<Rightarrow> fallback | Some v \<Rightarrow> if v = [] then [] else [v])"

definition session_manifest_path :: "platform \<Rightarrow> string list" where
  "session_manifest_path P =
     (if pf_platform P = ''win32''
      then environ_path P ''APPDATA'' (pf_home P @ [''AppData'', ''Roaming'']) @ [''termhop'', ''sessions.json'']
      else if pf_platform P = ''darwin''
      then pf_home P @ [''Library'', ''Application Support'', ''termhop'', ''sessions.json'']
      else environ_path P ''XDG_STATE_HOME'' (pf_home P @ [''.local'', ''state'']) @ [''termhop'', ''sessions.json''])"

section \<open>The world of the command\<close>

record 'b cli =
  cl_conn :: cworld
  cl_first :: "cworld option"
  cl_backend :: 'b
  cl_config :: agent_config
  cl_file :: "string option"
  cl_disk_ok :: bool
  cl_manager :: manager

type_synonym ('b, 'a) cli_co = "(agent_exn, 'b cli, 'a) co"

record 'b moment =
  mo_session :: "cworld \<Rightarrow> 'b \<Rightarrow> 'b pump_event list"
  mo_child :: "'b \<Rightarrow> 'b"
  mo_reachable :: bool
  mo_inbox :: "wire list"
  mo_now_ms :: int

text \<open>What a run of the command is given: the libraries, the backend class and its fresh instance.\<close>

record 'b cli_env =
  ce_deps :: adeps
  ce_random :: random_source
  ce_toml :: "string \<Rightarrow> (string \<times> json) list option"
  ce_backend :: "'b backend"
  ce_new :: 'b
  ce_platform :: platform

definition on_conn :: "'a client_co \<Rightarrow> ('b, 'a) cli_co" where
  "on_conn m = zoom cl_conn (\<lambda>v s. s\<lparr>cl_conn := v\<rparr>) m"

definition on_pty :: "(agent_exn, 'b, 'a) co \<Rightarrow> ('b, 'a) cli_co" where
  "on_pty m = zoom cl_backend (\<lambda>v s. s\<lparr>cl_backend := v\<rparr>) m"

definition on_manager :: "'a sm_co \<Rightarrow> ('b, 'a) cli_co" where
  "on_manager m = zoom cl_manager (\<lambda>v s. s\<lparr>cl_manager := v\<rparr>) m"

interpretation conn_part: part_of cl_conn "\<lambda>v s. s\<lparr>cl_conn := v\<rparr>"
  by unfold_locales simp_all

interpretation pty_part: part_of cl_backend "\<lambda>v s. s\<lparr>cl_backend := v\<rparr>"
  by unfold_locales simp_all

interpretation manager_part: part_of cl_manager "\<lambda>v s. s\<lparr>cl_manager := v\<rparr>"
  by unfold_locales simp_all

definition lift_cli :: "agent_exn + 'a \<Rightarrow> ('b, 'a) cli_co" where
  "lift_cli r = sync (\<lambda>s. (r, s))"

text \<open>\<open>try: m finally: f\<close>, where \<open>m\<close> may not have come to its end.\<close>

definition ending_with :: "('b, unit) cli_co \<Rightarrow> ('b, 'a option) cli_co \<Rightarrow> ('b, 'a option) cli_co" where
  "ending_with f m =
     bnd (attempt m) (\<lambda>r. case r of
       Inr None \<Rightarrow> ret None
     | Inr (Some a) \<Rightarrow> bnd f (\<lambda>_. ret (Some a))
     | Inl x \<Rightarrow> bnd f (\<lambda>_. raise x))"

section \<open>Keeping one shell alive\<close>

text \<open>\<open>run_pty_session(client, backend, preserve_backend=True)\<close>.\<close>

definition pty_session :: "'b cli_env \<Rightarrow> 'b moment \<Rightarrow> ('b, unit option) cli_co" where
  "pty_session E m = sync (\<lambda>s.
     (case exec_pumps (ce_deps E) (ce_backend E) True (mo_session m (cl_conn s) (cl_backend s))
         (start_pump (cl_conn s) (cl_backend s)) of
        None \<Rightarrow> (Inr None, s)
      | Some p \<Rightarrow>
          (case pm_return p of
             None \<Rightarrow> (Inr None, s)
           | Some r \<Rightarrow> (map_sum id Some r, s\<lparr>cl_conn := pu_client (pm_world p),
               cl_backend := mo_child m (pu_backend (pm_world p))\<rparr>))))"

definition text_or_empty :: "json \<Rightarrow> string" where
  "text_or_empty v = (if is_str v then as_str v else [])"

text \<open>A new client, on the connection that this moment offers.\<close>

definition dialled :: "'b moment \<Rightarrow> rclient \<Rightarrow> cworld \<Rightarrow> cworld" where
  "dialled m c v = v\<lparr>cw_client := c, cw_inbox := mo_inbox m, cw_out := [], cw_open := False,
     cw_reachable := mo_reachable m, cw_now_ms := mo_now_ms m\<rparr>"

definition resume_saved :: "adeps \<Rightarrow> agent_config \<Rightarrow> unit client_co" where
  "resume_saved D cfg =
     bnd connect (\<lambda>_.
     bnd (send_resume_init D (text_or_empty (ac_device_id cfg)) (text_or_empty (ac_device_secret cfg))) (\<lambda>_.
     await_resume_and_complete D))"

text \<open>One second later, one attempt; \<open>client\<close> is the replacement only if it succeeds.\<close>

definition reconnect :: "'b cli_env \<Rightarrow> string \<Rightarrow> 'b moment \<Rightarrow> ('b, bool) cli_co" where
  "reconnect E relay_url m =
     bnd pause (\<lambda>_.
     bnd (modify (\<lambda>s. s\<lparr>cl_backend := mo_child m (cl_backend s)\<rparr>)) (\<lambda>_.
     bnd (lift_cli (new_client (ad_ip_ok (ce_deps E)) relay_url (pf_hostname (ce_platform E)))) (\<lambda>c.
     bnd (gets id) (\<lambda>before.
     bnd (modify (\<lambda>s. s\<lparr>cl_conn := dialled m c (cl_conn s)\<rparr>)) (\<lambda>_.
     bnd (attempt (on_conn (resume_saved (ce_deps E) (cl_config before)))) (\<lambda>r.
     (case r of
        Inr _ \<Rightarrow>
          bnd (modify (\<lambda>s. s\<lparr>cl_first := (if cl_first s = None then Some (cl_conn before) else cl_first s)\<rparr>)) (\<lambda>_. ret True)
      | Inl _ \<Rightarrow>
          bnd (on_conn client_close) (\<lambda>_.
          bnd (modify (\<lambda>s. s\<lparr>cl_conn := (cl_conn before)\<lparr>cw_draws := cw_draws (cl_conn s)\<rparr>\<rparr>)) (\<lambda>_. ret False)))))))))"

datatype loop = Serving | Reconnecting

definition end_shell :: "'b cli_env \<Rightarrow> ('b, unit option) cli_co" where
  "end_shell E = bnd (on_pty (bk_close (ce_backend E))) (\<lambda>_. bnd (on_conn client_close) (\<lambda>_. ret (Some ())))"

function keep_session :: "'b cli_env \<Rightarrow> string \<Rightarrow> loop \<Rightarrow> 'b moment list \<Rightarrow> ('b, unit option) cli_co" where
  "keep_session E relay_url Serving ms =
     bnd (on_pty (bk_is_alive (ce_backend E))) (\<lambda>alive.
     if \<not> alive then end_shell E
     else (case ms of
         [] \<Rightarrow> ret None
       | m # rest \<Rightarrow>
           bnd (pty_session E m) (\<lambda>r.
           if r = None then ret None
           else
             bnd (on_pty (bk_is_alive (ce_backend E))) (\<lambda>alive.
             if \<not> alive then end_shell E
             else bnd (on_conn client_close) (\<lambda>_. keep_session E relay_url Reconnecting rest)))))"
| "keep_session E relay_url Reconnecting ms =
     bnd (on_pty (bk_is_alive (ce_backend E))) (\<lambda>alive.
     if \<not> alive then keep_session E relay_url Serving ms
     else (case ms of
         [] \<Rightarrow> ret None
       | m # rest \<Rightarrow>
           bnd (reconnect E relay_url m) (\<lambda>ok.
           keep_session E relay_url (if ok then Serving else Reconnecting) rest)))"
  by pat_completeness auto
termination
  by (relation "measure (\<lambda>(E, url, l, ms). 2 * length ms + (if l = Reconnecting then 1 else 0))") auto

section \<open>Pairing and streaming\<close>

definition spawn_shell :: "'b cli_env \<Rightarrow> ('b, unit) cli_co" where
  "spawn_shell E =
     bnd (modify (\<lambda>s. s\<lparr>cl_backend := ce_new E\<rparr>)) (\<lambda>_.
     on_pty (bk_spawn (ce_backend E)
       [environ_get (ce_platform E) (pf_shell_env_var (ce_platform E)) (pf_default_shell (ce_platform E))]
       (Some (pf_home_text (ce_platform E))) (Some (shell_environment (ce_platform E)))))"

definition session_item :: "session_record \<Rightarrow> json" where
  "session_item r = JObj [(''session_id'', JStr (sr_session_id r)), (''label'', sr_label r), (''cwd'', sr_cwd r),
     (''state'', sr_state r)]"

definition LEASE_SECONDS :: int where
  "LEASE_SECONDS = 300"

text \<open>The session's record, started and announced to the client.\<close>

definition open_session :: "'b cli_env \<Rightarrow> string \<Rightarrow> ('b, string) cli_co" where
  "open_session E session_label =
     bnd (gets cl_manager) (\<lambda>disk.
     bnd (lift_cli (new_manager True LEASE_SECONDS disk)) (\<lambda>manager.
     bnd (modify (\<lambda>s. s\<lparr>cl_manager := manager\<rparr>)) (\<lambda>_.
     bnd (on_manager (create_session (ce_random E) (JStr session_label) (JStr (pf_home_text (ce_platform E))))) (\<lambda>record.
     bnd (on_manager (start (sr_session_id record))) (\<lambda>_.
     bnd (on_manager list_sessions) (\<lambda>items.
     bnd (on_conn (send_session_list (map session_item items))) (\<lambda>_.
     ret (sr_session_id record))))))))"

definition stream_shell :: "'b cli_env \<Rightarrow> string \<Rightarrow> string \<Rightarrow> 'b moment list \<Rightarrow> ('b, int option) cli_co" where
  "stream_shell E relay_url session_label ms =
     bnd (spawn_shell E) (\<lambda>_.
     bnd (open_session E session_label) (\<lambda>sid.
     bnd (ending_with (bnd (on_manager (complete sid None)) (\<lambda>_. skip)) (keep_session E relay_url Serving ms)) (\<lambda>r.
     ret (map_option (\<lambda>_. 0) r))))"

definition save_cli_config :: "('b, unit) cli_co" where
  "save_cli_config = sync (\<lambda>s. case save_config (cl_config s) (cl_disk_ok s) (cl_file s) of
     (r, file) \<Rightarrow> (r, s\<lparr>cl_file := file\<rparr>))"

text \<open>A fresh device id and secret, in memory only.\<close>

definition new_credential :: "'b cli_env \<Rightarrow> ('b, string \<times> string) cli_co" where
  "new_credential E =
     bnd (on_conn (draw (ce_deps E) 16)) (\<lambda>r_id.
     bnd (on_conn (draw (ce_deps E) PAIRING_SECRET_BYTES)) (\<lambda>r_secret.
     (let device_id = generate_device_id r_id; device_secret = generate_pairing_secret r_secret
      in bnd (modify (\<lambda>s. s\<lparr>cl_config := (cl_config s)\<lparr>ac_device_id := JStr device_id, ac_device_secret := JStr device_secret\<rparr>\<rparr>)) (\<lambda>_.
         ret (device_id, device_secret)))))"

text \<open>The offer of a pairing, and the link that is shown for it.\<close>

definition offer_pairing :: "'b cli_env \<Rightarrow> string \<Rightarrow> string \<Rightarrow> ('b, string) cli_co" where
  "offer_pairing E relay_url device_id =
     bnd (on_conn (send_pair_init (ce_deps E) None (Some device_id))) (\<lambda>(token, session_id).
     bnd (on_conn (await_pair_init_ack (ce_deps E))) (\<lambda>_.
     bnd (gets (\<lambda>s. cw_client (cl_conn s))) (\<lambda>c.
     (case (token, session_id, rc_pairing_secret c, rc_agent_pubkey c) of
        (Some token, Some session_id, Some secret, Some agent_pubkey) \<Rightarrow>
          ret (build_pairing_uri relay_url token (pf_hostname (ce_platform E)) secret agent_pubkey session_id)
      | _ \<Rightarrow> raise AssertionError))))"

definition pair_new :: "'b cli_env \<Rightarrow> string \<Rightarrow> string \<Rightarrow> 'b moment list \<Rightarrow> ('b, int option) cli_co" where
  "pair_new E relay_url session_label ms =
     bnd (new_credential E) (\<lambda>(device_id, device_secret).
     bnd (offer_pairing E relay_url device_id) (\<lambda>_.
     bnd (attempt (on_conn (await_pair_challenge_and_complete (ce_deps E)))) (\<lambda>r.
     (case r of
        Inl (HandshakeError _) \<Rightarrow> ret (Some 1)
      | Inl x \<Rightarrow> raise x
      | Inr _ \<Rightarrow>
          bnd (on_conn (send_device_credential (ce_deps E) device_id device_secret)) (\<lambda>_.
          bnd save_cli_config (\<lambda>_.
          stream_shell E relay_url session_label ms))))))"

definition resume_and_stream :: "'b cli_env \<Rightarrow> agent_config \<Rightarrow> string \<Rightarrow> string \<Rightarrow> 'b moment list \<Rightarrow> ('b, int option) cli_co" where
  "resume_and_stream E cfg relay_url session_label ms =
     bnd (on_conn (send_resume_init (ce_deps E) (text_or_empty (ac_device_id cfg)) (text_or_empty (ac_device_secret cfg)))) (\<lambda>_.
     bnd (on_conn (await_resume_and_complete (ce_deps E))) (\<lambda>_.
     stream_shell E relay_url session_label ms))"

text \<open>The \<open>finally\<close> block closes the client made here, not a replacement.\<close>

definition close_first :: "('b, unit) cli_co" where
  "close_first =
     bnd (gets cl_first) (\<lambda>first.
     (case first of
        None \<Rightarrow> on_conn client_close
      | Some v \<Rightarrow> modify (\<lambda>s. s\<lparr>cl_first := Some (snd (run client_close v))\<rparr>)))"

definition pair_and_stream :: "'b cli_env \<Rightarrow> string \<Rightarrow> string \<Rightarrow> 'b moment list \<Rightarrow> ('b, int option) cli_co" where
  "pair_and_stream E relay_url session_label ms =
     bnd (lift_cli (new_client (ad_ip_ok (ce_deps E)) relay_url (pf_hostname (ce_platform E)))) (\<lambda>c.
     bnd (modify (\<lambda>s. s\<lparr>cl_conn := (cl_conn s)\<lparr>cw_client := c\<rparr>, cl_first := None\<rparr>)) (\<lambda>_.
     ending_with close_first
       (bnd (on_conn connect) (\<lambda>_.
        bnd (gets cl_config) (\<lambda>cfg.
        if truthy (ac_device_id cfg) \<and> truthy (ac_device_secret cfg)
        then resume_and_stream E cfg relay_url session_label ms
        else pair_new E relay_url session_label ms)))))"

section \<open>The command\<close>

record cli_args =
  ca_relay :: "string option"
  ca_new_pairing :: bool
  ca_label :: string

text \<open>\<open>args.relay or config.relay_url\<close>.\<close>

definition chosen_relay :: "cli_args \<Rightarrow> agent_config \<Rightarrow> json" where
  "chosen_relay args cfg = (case ca_relay args of
     Some r \<Rightarrow> if r = [] then ac_relay_url cfg else JStr r
   | None \<Rightarrow> ac_relay_url cfg)"

definition run_cli :: "'b cli_env \<Rightarrow> cli_args \<Rightarrow> 'b moment list \<Rightarrow> ('b, int option) cli_co" where
  "run_cli E args ms =
     bnd (gets cl_file) (\<lambda>file.
     bnd (lift_cli (load_config (ce_toml E) file)) (\<lambda>cfg.
     bnd (modify (\<lambda>s. s\<lparr>cl_config := cfg\<rparr>)) (\<lambda>_.
     if \<not> truthy (chosen_relay args cfg) then ret (Some 1)
     else
       bnd (if present (ca_relay args)
            then bnd (modify (\<lambda>s. s\<lparr>cl_config := (cl_config s)\<lparr>ac_relay_url := chosen_relay args cfg\<rparr>\<rparr>)) (\<lambda>_. save_cli_config)
            else skip) (\<lambda>_.
       bnd (if ca_new_pairing args
            then bnd (modify (\<lambda>s. s\<lparr>cl_config := (cl_config s)\<lparr>ac_device_id := JNull, ac_device_secret := JNull\<rparr>\<rparr>)) (\<lambda>_. save_cli_config)
            else skip) (\<lambda>_.
       bnd (attempt (pair_and_stream E (text_or_empty (chosen_relay args cfg)) (ca_label args) ms)) (\<lambda>r.
       (case r of
          Inl (HandshakeError _) \<Rightarrow> ret (Some 1)
        | Inl x \<Rightarrow> raise x
        | Inr v \<Rightarrow> ret v)))))))"

definition linux_main :: "'p posix_lib \<Rightarrow> 'p option cli_env \<Rightarrow> cli_args \<Rightarrow> 'p option moment list \<Rightarrow> ('p option, int option) cli_co" where
  "linux_main L E = run_cli (E\<lparr>ce_backend := linux_backend L, ce_new := None,
     ce_platform := (ce_platform E)\<lparr>pf_shell_env_var := ''SHELL'', pf_default_shell := ''/bin/bash''\<rparr>\<rparr>)"

definition macos_main :: "'p posix_lib \<Rightarrow> 'p option cli_env \<Rightarrow> cli_args \<Rightarrow> 'p option moment list \<Rightarrow> ('p option, int option) cli_co" where
  "macos_main L E = run_cli (E\<lparr>ce_backend := macos_backend L, ce_new := None,
     ce_platform := (ce_platform E)\<lparr>pf_shell_env_var := ''SHELL'', pf_default_shell := ''/bin/zsh''\<rparr>\<rparr>)"

definition windows_main :: "'p win_lib \<Rightarrow> 'p option cli_env \<Rightarrow> cli_args \<Rightarrow> 'p option moment list \<Rightarrow> ('p option, int option) cli_co" where
  "windows_main L E = run_cli (E\<lparr>ce_backend := windows_backend L, ce_new := None,
     ce_platform := (ce_platform E)\<lparr>pf_shell_env_var := ''COMSPEC'', pf_default_shell := ''cmd.exe''\<rparr>\<rparr>)"

end
