(* ===== verification/CliTheorems.thy ===== *)
theory CliTheorems
  imports Cli PumpTheorems
begin


section \<open>Running the parts\<close>


lemma run_on_pty [simp]: "run (on_pty m) s = (case run m (cl_backend s) of (r, b) \<Rightarrow> (r, s\<lparr>cl_backend := b\<rparr>))"
  by (simp add: on_pty_def pty_part.run_zoom)

lemma run_on_manager [simp]: "run (on_manager m) s = (case run m (cl_manager s) of (r, g) \<Rightarrow> (r, s\<lparr>cl_manager := g\<rparr>))"
  by (simp add: on_manager_def manager_part.run_zoom)

lemma run_lift_cli [simp]: "run (lift_cli r) s = (r, s)"
  by (simp add: lift_cli_def)

lemma run_client_close [simp]:
  "run client_close v = (Inr (), if rc_ws (cw_client v)
     then v\<lparr>cw_open := False, cw_client := (cw_client v)\<lparr>rc_state := CLOSED\<rparr>\<rparr>
     else v\<lparr>cw_client := (cw_client v)\<lparr>rc_state := CLOSED\<rparr>\<rparr>)"
  by (simp add: client_close_def)

section \<open>The reconnection loop\<close>



text \<open>What the loop leaves when it ends without an exception.\<close>

definition shell_ended :: "('b \<Rightarrow> bool) \<Rightarrow> 'b cli \<Rightarrow> bool" where
  "shell_ended runs s \<longleftrightarrow> \<not> runs (cl_backend s) \<and> rc_state (cw_client (cl_conn s)) = CLOSED \<and>
     (rc_ws (cw_client (cl_conn s)) \<longrightarrow> \<not> cw_open (cl_conn s))"

definition ended_run :: "('b \<Rightarrow> bool) \<Rightarrow> (agent_exn + unit option) \<times> 'b cli \<Rightarrow> bool" where
  "ended_run runs r \<longleftrightarrow> fst r \<noteq> Inr None \<and> (fst r = Inr (Some ()) \<longrightarrow> shell_ended runs (snd r))"

lemma ended_run_Inl [simp]: "ended_run runs (Inl x, s)"
  by (simp add: ended_run_def)


















section \<open>What leaves the configuration file alone\<close>














section \<open>The first pairing\<close>
























end
