(* ===== verification/TerminalQr.thy ===== *)
theory TerminalQr
  imports Prelude
begin

text \<open>
  \<open>agent/common/terminal_qr.py\<close>: two rows of QR modules are printed as one line of
  block characters. The matrix is computed by the \<open>qrcode\<close> library, a parameter; a
  character is named by what it shows. The lemmas say that the picture determines the
  matrix: no module is lost or moved.
\<close>

datatype cell = FullBlock | UpperHalf | LowerHalf | Blank

definition pack_cell :: "bool \<times> bool \<Rightarrow> cell" where
  "pack_cell p = (case p of (top_dark, bottom_dark) \<Rightarrow>
     if top_dark \<and> bottom_dark then FullBlock
     else if top_dark then UpperHalf
     else if bottom_dark then LowerHalf
     else Blank)"

text \<open>The loop over every second row; the last row of an odd matrix is paired with a light one.\<close>

fun pack_rows :: "bool list list \<Rightarrow> cell list list" where
  "pack_rows [] = []"
| "pack_rows [upper] = [map pack_cell (zip upper (replicate (length upper) False))]"
| "pack_rows (upper # lower # rows) = map pack_cell (zip upper lower) # pack_rows rows"

definition render_pairing_qr :: "('v \<Rightarrow> bool list list) \<Rightarrow> 'v \<Rightarrow> cell list list" where
  "render_pairing_qr qr_matrix value = pack_rows (qr_matrix value)"

section \<open>The picture determines the matrix\<close>

fun cell_top :: "cell \<Rightarrow> bool" where
  "cell_top FullBlock = True"
| "cell_top UpperHalf = True"
| "cell_top _ = False"

fun cell_bottom :: "cell \<Rightarrow> bool" where
  "cell_bottom FullBlock = True"
| "cell_bottom LowerHalf = True"
| "cell_bottom _ = False"

definition unpack_rows :: "cell list list \<Rightarrow> bool list list" where
  "unpack_rows lines = concat (map (\<lambda>l. [map cell_top l, map cell_bottom l]) lines)"

lemma cell_of_pack [simp]: "cell_top (pack_cell (a, b)) = a" "cell_bottom (pack_cell (a, b)) = b"
  by (auto simp: pack_cell_def)

lemma unpack_line [simp]:
  assumes "length upper = length lower"
  shows "map (cell_top \<circ> pack_cell) (zip upper lower) = upper" "map (cell_bottom \<circ> pack_cell) (zip upper lower) = lower"
  using assms by (induction upper lower rule: list_induct2) simp_all

lemma unpack_pack:
  assumes "\<forall>row \<in> set m. length row = n"
  shows "unpack_rows (pack_rows m) = m @ (if even (length m) then [] else [replicate n False])"
  using assms by (induction m rule: pack_rows.induct) (simp_all add: unpack_rows_def)

end
