(* ===== verification/RelayApp.thy ===== *)
theory RelayApp
  imports WsHandlers
begin

text \<open>
  \<open>relay/main.py\<close>: what the application starts with, and its health check. The routes
  and the Redis client itself are the framework's; a relay that has started is in the
  initial state of the system of connections.
\<close>

text \<open>The \<open>lifespan\<close>: an invalid environment keeps the application from starting.\<close>

definition lifespan :: "(string \<Rightarrow> bool) \<Rightarrow> environ \<Rightarrow> 'db \<Rightarrow> relay_exn + (config \<times> 'db sys)" where
  "lifespan ip_ok env db = and_then (from_env ip_ok env) (\<lambda>cfg. Inr (cfg, init_sys db))"

definition healthz :: "config \<Rightarrow> (string \<times> json) list" where
  "healthz cfg = [(''status'', JStr ''ok''), (''protocol_version'', JInt (protocol_version cfg)), (''release'', JStr (release cfg))]"

lemma started_relay_reachable: "lifespan ip_ok env db = Inr (cfg, s) \<Longrightarrow> reachable D cfg s"
  by (auto simp: lifespan_def and_then_def intro: reachable.start split: sum.splits)

end
